(* ===== verification/Prelude.thy ===== *)
theory Prelude
  imports Main
begin

text \<open>
  The generic layer of the development: Go error values (\<^verbatim>\<open>internal/apperrors\<close>), Go instants and
  durations, the pieces of \<^verbatim>\<open>strings\<close> and \<^verbatim>\<open>path/filepath\<close> that the program uses, and the
  row operations behind its SQL statements, with the lemmas on them that every component
  shares. The collection \<open>row_simps\<close> holds the facts about table updates.
\<close>

named_theorems row_simps "how selects, updates and deletes on a table interact"

section \<open>Error values\<close>

text \<open>
  The stable identifiers of \<^verbatim>\<open>internal/apperrors/codes.go\<close>, each an abbreviation of its text.
  A Go error value is modelled by the two things the program ever asks of it: the first coded
  error of its chain (\<open>apperrors.Code\<close>) and the sentinels it wraps (\<open>errors.Is\<close>).
\<close>

type_synonym code = string

abbreviation CLIUsage :: code where "CLIUsage \<equiv> ''CF_CLI_USAGE''"
abbreviation CLIInternal :: code where "CLIInternal \<equiv> ''CF_CLI_INTERNAL''"
abbreviation CLIShellIntegrationInvalid :: code where "CLIShellIntegrationInvalid \<equiv> ''CF_CLI_SHELL_INTEGRATION_INVALID''"
abbreviation CLIShellIntegrationFailed :: code where "CLIShellIntegrationFailed \<equiv> ''CF_CLI_SHELL_INTEGRATION_FAILED''"
abbreviation LaunchCodexNotFound :: code where "LaunchCodexNotFound \<equiv> ''CF_LAUNCH_CODEX_NOT_FOUND''"
abbreviation LaunchCodexAmbiguous :: code where "LaunchCodexAmbiguous \<equiv> ''CF_LAUNCH_CODEX_AMBIGUOUS''"
abbreviation LaunchCodexPathInvalid :: code where "LaunchCodexPathInvalid \<equiv> ''CF_LAUNCH_CODEX_PATH_INVALID''"
abbreviation LaunchCodexVersionInvalid :: code where "LaunchCodexVersionInvalid \<equiv> ''CF_LAUNCH_CODEX_VERSION_INVALID''"
abbreviation LaunchPlanInvalid :: code where "LaunchPlanInvalid \<equiv> ''CF_LAUNCH_PLAN_INVALID''"
abbreviation LaunchLeaseInvalid :: code where "LaunchLeaseInvalid \<equiv> ''CF_LAUNCH_LEASE_INVALID''"
abbreviation LaunchProfileNotFound :: code where "LaunchProfileNotFound \<equiv> ''CF_LAUNCH_PROFILE_NOT_FOUND''"
abbreviation LaunchProfileUnavailable :: code where "LaunchProfileUnavailable \<equiv> ''CF_LAUNCH_PROFILE_UNAVAILABLE''"
abbreviation LaunchProcessStartFailed :: code where "LaunchProcessStartFailed \<equiv> ''CF_LAUNCH_PROCESS_START_FAILED''"
abbreviation LaunchProcessStatusInvalid :: code where "LaunchProcessStatusInvalid \<equiv> ''CF_LAUNCH_PROCESS_STATUS_INVALID''"
abbreviation ProfileSetupInvalid :: code where "ProfileSetupInvalid \<equiv> ''CF_PROFILE_SETUP_INVALID''"
abbreviation ProfileAliasInvalid :: code where "ProfileAliasInvalid \<equiv> ''CF_PROFILE_ALIAS_INVALID''"
abbreviation ProfileAliasTaken :: code where "ProfileAliasTaken \<equiv> ''CF_PROFILE_ALIAS_TAKEN''"
abbreviation ProfileNotSelectable :: code where "ProfileNotSelectable \<equiv> ''CF_PROFILE_NOT_SELECTABLE''"
abbreviation ProfileSetupChoiceRequired :: code where "ProfileSetupChoiceRequired \<equiv> ''CF_PROFILE_SETUP_CHOICE_REQUIRED''"
abbreviation ProfileAuthenticationFailed :: code where "ProfileAuthenticationFailed \<equiv> ''CF_PROFILE_AUTHENTICATION_FAILED''"
abbreviation ProfileAuthenticationCancelled :: code where "ProfileAuthenticationCancelled \<equiv> ''CF_PROFILE_AUTHENTICATION_CANCELLED''"
abbreviation ProfileReauthenticationRequired :: code where "ProfileReauthenticationRequired \<equiv> ''CF_PROFILE_REAUTHENTICATION_REQUIRED''"
abbreviation ProfileAuthenticationUnavailable :: code where "ProfileAuthenticationUnavailable \<equiv> ''CF_PROFILE_AUTHENTICATION_UNAVAILABLE''"
abbreviation ProfileHomeInvalid :: code where "ProfileHomeInvalid \<equiv> ''CF_PROFILE_HOME_INVALID''"
abbreviation ProfileValidationFailed :: code where "ProfileValidationFailed \<equiv> ''CF_PROFILE_VALIDATION_FAILED''"
abbreviation ProfileRemovalBlocked :: code where "ProfileRemovalBlocked \<equiv> ''CF_PROFILE_REMOVAL_BLOCKED''"
abbreviation ProfileReplacementRequired :: code where "ProfileReplacementRequired \<equiv> ''CF_PROFILE_REPLACEMENT_REQUIRED''"
abbreviation ProfileConfirmationInvalid :: code where "ProfileConfirmationInvalid \<equiv> ''CF_PROFILE_CONFIRMATION_INVALID''"
abbreviation ProfileQuarantineInvalid :: code where "ProfileQuarantineInvalid \<equiv> ''CF_PROFILE_QUARANTINE_INVALID''"
abbreviation ProfileQuarantineExpired :: code where "ProfileQuarantineExpired \<equiv> ''CF_PROFILE_QUARANTINE_EXPIRED''"
abbreviation ConfigurationPackInvalid :: code where "ConfigurationPackInvalid \<equiv> ''CF_CONFIGPACK_INVALID''"
abbreviation ConfigurationPackNotFound :: code where "ConfigurationPackNotFound \<equiv> ''CF_CONFIGPACK_NOT_FOUND''"
abbreviation ConfigurationPackNotApproved :: code where "ConfigurationPackNotApproved \<equiv> ''CF_CONFIGPACK_NOT_APPROVED''"
abbreviation ConfigurationPackAssignmentInvalid :: code where "ConfigurationPackAssignmentInvalid \<equiv> ''CF_CONFIGPACK_ASSIGNMENT_INVALID''"
abbreviation ConfigurationPackProjectionFailed :: code where "ConfigurationPackProjectionFailed \<equiv> ''CF_CONFIGPACK_PROJECTION_FAILED''"
abbreviation ConfigurationPackPromotionReviewRequired :: code where "ConfigurationPackPromotionReviewRequired \<equiv> ''CF_CONFIGPACK_PROMOTION_REVIEW_REQUIRED''"
abbreviation AlertNotificationFailed :: code where "AlertNotificationFailed \<equiv> ''CF_ALERT_NOTIFICATION_FAILED''"
abbreviation AnalyticsRequestInvalid :: code where "AnalyticsRequestInvalid \<equiv> ''CF_USAGE_ANALYTICS_REQUEST_INVALID''"
abbreviation AnalyticsConfirmationInvalid :: code where "AnalyticsConfirmationInvalid \<equiv> ''CF_USAGE_ANALYTICS_CONFIRMATION_INVALID''"
abbreviation AnalyticsScopeTooLarge :: code where "AnalyticsScopeTooLarge \<equiv> ''CF_USAGE_ANALYTICS_SCOPE_TOO_LARGE''"
abbreviation AnalyticsExportFailed :: code where "AnalyticsExportFailed \<equiv> ''CF_USAGE_ANALYTICS_EXPORT_FAILED''"
abbreviation UsageRequestInvalid :: code where "UsageRequestInvalid \<equiv> ''CF_USAGE_REQUEST_INVALID''"
abbreviation UsageProfileNotFound :: code where "UsageProfileNotFound \<equiv> ''CF_USAGE_PROFILE_NOT_FOUND''"
abbreviation UsageProfileUnavailable :: code where "UsageProfileUnavailable \<equiv> ''CF_USAGE_PROFILE_UNAVAILABLE''"
abbreviation UsageCollectionFailed :: code where "UsageCollectionFailed \<equiv> ''CF_USAGE_COLLECTION_FAILED''"
abbreviation UsageSourceInvalid :: code where "UsageSourceInvalid \<equiv> ''CF_USAGE_SOURCE_INVALID''"
abbreviation ActivityRequestInvalid :: code where "ActivityRequestInvalid \<equiv> ''CF_ACTIVITY_REQUEST_INVALID''"
abbreviation ActivitySourceUnavailable :: code where "ActivitySourceUnavailable \<equiv> ''CF_ACTIVITY_SOURCE_UNAVAILABLE''"
abbreviation ProjectIdentityInvalid :: code where "ProjectIdentityInvalid \<equiv> ''CF_ACTIVITY_PROJECT_IDENTITY_INVALID''"
abbreviation ProjectIdentityNotFound :: code where "ProjectIdentityNotFound \<equiv> ''CF_ACTIVITY_PROJECT_IDENTITY_NOT_FOUND''"
abbreviation ProjectPathInvalid :: code where "ProjectPathInvalid \<equiv> ''CF_ACTIVITY_PROJECT_PATH_INVALID''"
abbreviation ProjectPathCollision :: code where "ProjectPathCollision \<equiv> ''CF_ACTIVITY_PROJECT_PATH_COLLISION''"
abbreviation ContinuationCheckpointInvalid :: code where "ContinuationCheckpointInvalid \<equiv> ''CF_CONTINUATION_CHECKPOINT_INVALID''"
abbreviation ContinuationCheckpointNotFound :: code where "ContinuationCheckpointNotFound \<equiv> ''CF_CONTINUATION_CHECKPOINT_NOT_FOUND''"
abbreviation ContinuationCheckpointOversize :: code where "ContinuationCheckpointOversize \<equiv> ''CF_CONTINUATION_CHECKPOINT_OVERSIZE''"
abbreviation ContinuationRepositoryInspectionFailed :: code where "ContinuationRepositoryInspectionFailed \<equiv> ''CF_CONTINUATION_REPOSITORY_INSPECTION_FAILED''"
abbreviation DiagnosticsConfigurationInvalid :: code where "DiagnosticsConfigurationInvalid \<equiv> ''CF_DIAGNOSTICS_CONFIGURATION_INVALID''"
abbreviation DiagnosticsEventInvalid :: code where "DiagnosticsEventInvalid \<equiv> ''CF_DIAGNOSTICS_EVENT_INVALID''"
abbreviation DiagnosticsRequestInvalid :: code where "DiagnosticsRequestInvalid \<equiv> ''CF_DIAGNOSTICS_REQUEST_INVALID''"
abbreviation DiagnosticsConfirmationInvalid :: code where "DiagnosticsConfirmationInvalid \<equiv> ''CF_DIAGNOSTICS_CONFIRMATION_INVALID''"
abbreviation DiagnosticsExportFailed :: code where "DiagnosticsExportFailed \<equiv> ''CF_DIAGNOSTICS_EXPORT_FAILED''"
abbreviation UpdateRequestInvalid :: code where "UpdateRequestInvalid \<equiv> ''CF_UPDATES_REQUEST_INVALID''"
abbreviation TelemetryRequestInvalid :: code where "TelemetryRequestInvalid \<equiv> ''CF_TELEMETRY_REQUEST_INVALID''"
abbreviation TelemetryUnavailable :: code where "TelemetryUnavailable \<equiv> ''CF_TELEMETRY_UNAVAILABLE''"
abbreviation ConfigurationBundleInvalid :: code where "ConfigurationBundleInvalid \<equiv> ''CF_CONFIGBUNDLE_INVALID''"
abbreviation ConfigurationBundleConflict :: code where "ConfigurationBundleConflict \<equiv> ''CF_CONFIGBUNDLE_CONFLICT''"
abbreviation ConfigurationBundleStale :: code where "ConfigurationBundleStale \<equiv> ''CF_CONFIGBUNDLE_STALE''"
abbreviation PlatformStatePathInvalid :: code where "PlatformStatePathInvalid \<equiv> ''CF_PLATFORM_STATE_PATH_INVALID''"
abbreviation PlatformStatePathUnsafe :: code where "PlatformStatePathUnsafe \<equiv> ''CF_PLATFORM_STATE_PATH_UNSAFE''"
abbreviation PlatformPermissionDenied :: code where "PlatformPermissionDenied \<equiv> ''CF_PLATFORM_PERMISSION_DENIED''"
abbreviation PlatformServiceAlreadyRunning :: code where "PlatformServiceAlreadyRunning \<equiv> ''CF_PLATFORM_SERVICE_ALREADY_RUNNING''"
abbreviation PlatformServiceMetadataInvalid :: code where "PlatformServiceMetadataInvalid \<equiv> ''CF_PLATFORM_SERVICE_METADATA_INVALID''"
abbreviation PlatformServiceUnavailable :: code where "PlatformServiceUnavailable \<equiv> ''CF_PLATFORM_SERVICE_UNAVAILABLE''"
abbreviation HTTPAPIHostInvalid :: code where "HTTPAPIHostInvalid \<equiv> ''CF_HTTPAPI_HOST_INVALID''"
abbreviation HTTPAPIOriginInvalid :: code where "HTTPAPIOriginInvalid \<equiv> ''CF_HTTPAPI_ORIGIN_INVALID''"
abbreviation HTTPAPIBootstrapInvalid :: code where "HTTPAPIBootstrapInvalid \<equiv> ''CF_HTTPAPI_BOOTSTRAP_INVALID''"
abbreviation HTTPAPISessionInvalid :: code where "HTTPAPISessionInvalid \<equiv> ''CF_HTTPAPI_SESSION_INVALID''"
abbreviation HTTPAPISessionExpired :: code where "HTTPAPISessionExpired \<equiv> ''CF_HTTPAPI_SESSION_EXPIRED''"
abbreviation HTTPAPICSRFInvalid :: code where "HTTPAPICSRFInvalid \<equiv> ''CF_HTTPAPI_CSRF_INVALID''"
abbreviation HTTPAPIMethodNotAllowed :: code where "HTTPAPIMethodNotAllowed \<equiv> ''CF_HTTPAPI_METHOD_NOT_ALLOWED''"
abbreviation HTTPAPIRouteNotFound :: code where "HTTPAPIRouteNotFound \<equiv> ''CF_HTTPAPI_ROUTE_NOT_FOUND''"
abbreviation HTTPAPIServiceUnavailable :: code where "HTTPAPIServiceUnavailable \<equiv> ''CF_HTTPAPI_SERVICE_UNAVAILABLE''"
abbreviation StoreOpenFailed :: code where "StoreOpenFailed \<equiv> ''CF_STORE_OPEN_FAILED''"
abbreviation StoreIntegrityFailed :: code where "StoreIntegrityFailed \<equiv> ''CF_STORE_INTEGRITY_FAILED''"
abbreviation StoreSchemaIncompatible :: code where "StoreSchemaIncompatible \<equiv> ''CF_STORE_SCHEMA_INCOMPATIBLE''"
abbreviation StoreMigrationFailed :: code where "StoreMigrationFailed \<equiv> ''CF_STORE_MIGRATION_FAILED''"
abbreviation StoreMigrationPartial :: code where "StoreMigrationPartial \<equiv> ''CF_STORE_MIGRATION_PARTIAL''"
abbreviation StoreReadFailed :: code where "StoreReadFailed \<equiv> ''CF_STORE_READ_FAILED''"
abbreviation StoreWriteFailed :: code where "StoreWriteFailed \<equiv> ''CF_STORE_WRITE_FAILED''"
abbreviation StoreDiagnosticWriteFailed :: code where "StoreDiagnosticWriteFailed \<equiv> ''CF_STORE_DIAGNOSTIC_WRITE_FAILED''"
abbreviation StoreBackupFailed :: code where "StoreBackupFailed \<equiv> ''CF_STORE_BACKUP_FAILED''"
abbreviation StoreRecoveryCandidateInvalid :: code where "StoreRecoveryCandidateInvalid \<equiv> ''CF_STORE_RECOVERY_CANDIDATE_INVALID''"
abbreviation StoreRecoveryCandidateNotFound :: code where "StoreRecoveryCandidateNotFound \<equiv> ''CF_STORE_RECOVERY_CANDIDATE_NOT_FOUND''"
abbreviation StoreRecoveryRestoreFailed :: code where "StoreRecoveryRestoreFailed \<equiv> ''CF_STORE_RECOVERY_RESTORE_FAILED''"
abbreviation VaultUnavailable :: code where "VaultUnavailable \<equiv> ''CF_VAULT_UNAVAILABLE''"
abbreviation VaultLocked :: code where "VaultLocked \<equiv> ''CF_VAULT_LOCKED''"
abbreviation VaultKeyInvalid :: code where "VaultKeyInvalid \<equiv> ''CF_VAULT_KEY_INVALID''"
abbreviation VaultEnvelopeInvalid :: code where "VaultEnvelopeInvalid \<equiv> ''CF_VAULT_ENVELOPE_INVALID''"
abbreviation VaultEnvelopeUnsupported :: code where "VaultEnvelopeUnsupported \<equiv> ''CF_VAULT_ENVELOPE_UNSUPPORTED''"
abbreviation VaultKeyGenerationMismatch :: code where "VaultKeyGenerationMismatch \<equiv> ''CF_VAULT_KEY_GENERATION_MISMATCH''"
abbreviation VaultEncryptionFailed :: code where "VaultEncryptionFailed \<equiv> ''CF_VAULT_ENCRYPTION_FAILED''"

text \<open>\<open>registered_codes\<close> is the constant block, \<open>IsRegistered\<close> the membership switch.\<close>

definition registered_codes :: "code list" where
  "registered_codes =
    [CLIUsage, CLIInternal, CLIShellIntegrationInvalid, CLIShellIntegrationFailed,
     LaunchCodexNotFound, LaunchCodexAmbiguous, LaunchCodexPathInvalid,
     LaunchCodexVersionInvalid, LaunchPlanInvalid, LaunchLeaseInvalid, LaunchProfileNotFound,
     LaunchProfileUnavailable, LaunchProcessStartFailed, LaunchProcessStatusInvalid,
     ProfileSetupInvalid, ProfileAliasInvalid, ProfileAliasTaken, ProfileNotSelectable,
     ProfileSetupChoiceRequired, ProfileAuthenticationFailed, ProfileAuthenticationCancelled,
     ProfileReauthenticationRequired, ProfileAuthenticationUnavailable, ProfileHomeInvalid,
     ProfileValidationFailed, ProfileRemovalBlocked, ProfileReplacementRequired,
     ProfileConfirmationInvalid, ProfileQuarantineInvalid, ProfileQuarantineExpired,
     ConfigurationPackInvalid, ConfigurationPackNotFound, ConfigurationPackNotApproved,
     ConfigurationPackAssignmentInvalid, ConfigurationPackProjectionFailed,
     ConfigurationPackPromotionReviewRequired, AlertNotificationFailed,
     AnalyticsRequestInvalid, AnalyticsConfirmationInvalid, AnalyticsScopeTooLarge,
     AnalyticsExportFailed, UsageRequestInvalid, UsageProfileNotFound,
     UsageProfileUnavailable, UsageCollectionFailed, UsageSourceInvalid,
     ActivityRequestInvalid, ActivitySourceUnavailable, ProjectIdentityInvalid,
     ProjectIdentityNotFound, ProjectPathInvalid, ProjectPathCollision,
     ContinuationCheckpointInvalid, ContinuationCheckpointNotFound,
     ContinuationCheckpointOversize, ContinuationRepositoryInspectionFailed,
     DiagnosticsConfigurationInvalid, DiagnosticsEventInvalid, DiagnosticsRequestInvalid,
     DiagnosticsConfirmationInvalid, DiagnosticsExportFailed, UpdateRequestInvalid,
     TelemetryRequestInvalid, TelemetryUnavailable, ConfigurationBundleInvalid,
     ConfigurationBundleConflict, ConfigurationBundleStale, PlatformStatePathInvalid,
     PlatformStatePathUnsafe, PlatformPermissionDenied, PlatformServiceAlreadyRunning,
     PlatformServiceMetadataInvalid, PlatformServiceUnavailable, HTTPAPIHostInvalid,
     HTTPAPIOriginInvalid, HTTPAPIBootstrapInvalid, HTTPAPISessionInvalid,
     HTTPAPISessionExpired, HTTPAPICSRFInvalid, HTTPAPIMethodNotAllowed,
     HTTPAPIRouteNotFound, HTTPAPIServiceUnavailable, StoreOpenFailed, StoreIntegrityFailed,
     StoreSchemaIncompatible, StoreMigrationFailed, StoreMigrationPartial, StoreReadFailed,
     StoreWriteFailed, StoreDiagnosticWriteFailed, StoreBackupFailed,
     StoreRecoveryCandidateInvalid, StoreRecoveryCandidateNotFound,
     StoreRecoveryRestoreFailed, VaultUnavailable, VaultLocked, VaultKeyInvalid,
     VaultEnvelopeInvalid, VaultEnvelopeUnsupported, VaultKeyGenerationMismatch,
     VaultEncryptionFailed]"

definition IsRegistered :: "code \<Rightarrow> bool" where
  "IsRegistered c \<longleftrightarrow> List.member registered_codes c"

text \<open>The sentinel errors (\<open>errors.New\<close> values compared with \<open>errors.Is\<close>) of the modelled packages;
  \<open>Opaque\<close> stands for an error of the database driver or another collaborator.\<close>

datatype (plugins only: code size) sentinel =
    ErrNotFound | ErrAliasInvalid | ErrAliasTaken | ErrSetupChoiceRequired | ErrAuthCancelled
  | ErrAuthenticationFailed | ErrBrowserUnavailable | ErrNotAuthenticated
  | ErrReauthenticationRequired | ErrAuthenticationUnavailable | ErrHomeInvalid
  | ErrValidationFailed | ErrNotSelectable | ErrProfileStateInvalid | ErrRunningLaunch
  | ErrReplacementRequired | ErrQuarantineInvalid | ErrQuarantineExpired | ErrProfileState
  | ErrPlanInvalid | ErrProfileNotFound | ErrProfileUnavailable | ErrLeaseInvalid
  | ErrProcessStatusInvalid | ErrLaunchState | ErrHandoffNotReady | ErrCheckpointNotFound
  | ErrCheckpointRevisionChanged | ErrCheckpointInvalid | ErrCheckpointOversize
  | ErrRepositoryInspection | ErrHistoryUnavailable | ErrVaultUnavailable | ErrDatabaseOpen
  | ErrAlertInvalid | ErrUsageInvalid | ErrScheduleInvalid | ErrUsageProfileNotFound
  | ErrUsageProfileUnavailable | ErrCollectionFailed | ErrSourceInvalid | ErrPersistenceFailed
  | ErrSensitiveRead | ErrSensitiveWrite
  | ErrPackNotFound | ErrPackNotApproved | ErrAssignmentInvalid
  | ErrLocked | ErrInvalidKey | ErrInvalidEnvelope | ErrUnsupportedEnvelope | ErrGenerationMismatch
  | ErrEncryption | ErrAuthentication
  | ErrProjectInvalid | ErrProjectNotFound | ErrPathInvalid | ErrPathCollision
  | ErrCheckpointExportInvalid | ErrCheckpointExportUnsupported | ErrCheckpointExportAuthentication
  | ContextCanceled | Opaque

datatype err = Err (err_code: "code option") (err_causes: "sentinel list")

definition New :: "code \<Rightarrow> err \<Rightarrow> err" where
  "New c cause = Err (Some c) (err_causes cause)"

definition errors_Is :: "err \<Rightarrow> sentinel \<Rightarrow> bool" where
  "errors_Is e s \<longleftrightarrow> s \<in> set (err_causes e)"

definition Code :: "err \<Rightarrow> code option" where
  "Code e = err_code e"

text \<open>\<open>errors.New\<close> as a package-level sentinel, \<open>errors.Join\<close> (with nil operands skipped) and the
  store's \<open>coded\<close>.\<close>

definition plain :: "sentinel \<Rightarrow> err" where
  "plain s = Err None [s]"

definition errors_Join :: "err option list \<Rightarrow> err" where
  "errors_Join es =
     (let present = List.map_filter id es
      in Err (case List.map_filter err_code present of [] \<Rightarrow> None | c # _ \<Rightarrow> Some c)
             (concat (map err_causes present)))"

definition coded :: "code \<Rightarrow> err option \<Rightarrow> err" where
  "coded c cause = (case cause of None \<Rightarrow> New c (plain Opaque) | Some e \<Rightarrow> New c e)"

lemma Code_simps [simp]:
  "Code (New c e) = Some c" "Code (plain s) = None" "Code (coded c m) = Some c"
  by (auto simp: Code_def New_def plain_def coded_def split: option.splits)

lemma errors_Is_simps [simp]:
  "errors_Is (New c e) s \<longleftrightarrow> errors_Is e s"
  "errors_Is (plain t) s \<longleftrightarrow> t = s"
  by (auto simp: errors_Is_def New_def plain_def)

lemma New_not_plain [simp]: "New c e \<noteq> plain s" "plain s \<noteq> New c e"
  by (auto simp: New_def plain_def)

lemma New_inj_code [simp]: "New c e = New d f \<longleftrightarrow> c = d \<and> err_causes e = err_causes f"
  by (simp add: New_def)

lemma err_causes_plain [simp]: "err_causes (plain s) = [s]"
  by (simp add: plain_def)

section \<open>Instants and durations\<close>

text \<open>
  A \<open>time.Time\<close> in UTC is its distance in nanoseconds from the zero instant (0001-01-01 00:00
  UTC), so \<open>IsZero\<close> is equality with 0; \<open>UTC\<close> changes the presentation only. A
  \<open>time.Duration\<close> is an int64: \<open>Sub\<close> saturates, \<open>Duration\<close> products and negation wrap.
\<close>

type_synonym time = int
type_synonym duration = int

definition IsZero :: "time \<Rightarrow> bool" where "IsZero t \<longleftrightarrow> t = 0"

definition max_duration :: duration where "max_duration = 9223372036854775807"
definition min_duration :: duration where "min_duration = -9223372036854775808"

definition time_Sub :: "time \<Rightarrow> time \<Rightarrow> duration" where
  "time_Sub a b = max min_duration (min max_duration (a - b))"

definition wrap64 :: "int \<Rightarrow> int" where
  "wrap64 i = (i + 9223372036854775808) mod 18446744073709551616 - 9223372036854775808"

definition Second :: duration where "Second = 1000000000"
definition Minute :: duration where "Minute = 60000000000"
definition Hour :: duration where "Hour = 3600000000000"

text \<open>Go's integer division truncates towards zero.\<close>

definition quot :: "int \<Rightarrow> int \<Rightarrow> int" where
  "quot a b = sgn a * sgn b * (\<bar>a\<bar> div \<bar>b\<bar>)"

lemma IsZero_simps [simp]: "IsZero t \<longleftrightarrow> t = 0"
  by (simp add: IsZero_def)

lemma wrap64_id: "min_duration \<le> i \<Longrightarrow> i \<le> max_duration \<Longrightarrow> wrap64 i = i"
  by (simp add: wrap64_def min_duration_def max_duration_def)

lemma wrap64_range: "min_duration \<le> wrap64 i" "wrap64 i \<le> max_duration"
  by (simp_all add: wrap64_def min_duration_def max_duration_def)

lemma time_Sub_range: "min_duration \<le> time_Sub a b" "time_Sub a b \<le> max_duration"
  by (auto simp: time_Sub_def min_duration_def max_duration_def)

lemma time_Sub_less: "0 < d \<Longrightarrow> d < max_duration \<Longrightarrow> d < time_Sub a b \<longleftrightarrow> d < a - b"
  by (auto simp: time_Sub_def min_duration_def max_duration_def)

lemma time_Sub_neg: "time_Sub a b < 0 \<longleftrightarrow> a < b"
  by (auto simp: time_Sub_def min_duration_def max_duration_def)

lemma quot_nonneg: "0 \<le> a \<Longrightarrow> 0 < b \<Longrightarrow> quot a b = a div b"
  by (cases "a = 0") (auto simp: quot_def)

text \<open>
  A stored timestamp is the RFC 3339 text of an instant. Formatting an instant outside the
  years 0..9999 gives a text that \<open>time.Parse\<close> rejects (\<open>parseStoredTime\<close> in
  \<^verbatim>\<open>internal/store/secure.go\<close>); inside the range the text determines the instant.
\<close>

definition parseStoredTime :: "time \<Rightarrow> time option" where
  "parseStoredTime t =
     (if -31622400000000000 \<le> t \<and> t < 315537897600000000000 then Some t else None)"

lemma parseStoredTime_Some: "parseStoredTime t = Some u \<longleftrightarrow>
    u = t \<and> -31622400000000000 \<le> t \<and> t < 315537897600000000000"
  by (auto simp: parseStoredTime_def)

section \<open>Sequencing\<close>

text \<open>\<open>Inl\<close> returns from the function, \<open>Inr\<close> goes on.\<close>

definition flow :: "('x + 'a) \<times> 'st \<Rightarrow> ('x \<Rightarrow> 'b) \<Rightarrow> ('a \<Rightarrow> 'st \<Rightarrow> 'b \<times> 'st) \<Rightarrow> 'b \<times> 'st" where
  "flow r return go = (case r of (Inl x, st) \<Rightarrow> (return x, st) | (Inr a, st) \<Rightarrow> go a st)"

lemma flow_simps [simp]:
  "flow (Inl x, st) return go = (return x, st)" "flow (Inr a, st) return go = go a st"
  by (simp_all add: flow_def)

end
