(* ===== verification/Go_Lib.thy ===== *)
theory Go_Lib
  imports Prelude
begin

text \<open>
  The parts of \<^verbatim>\<open>strings\<close> and \<^verbatim>\<open>path/filepath\<close> (Unix) that the modelled code calls. A Go string is its
  UTF-8 byte sequence.
\<close>

section \<open>strings\<close>

text \<open>The byte sequences of the runes with the White\_Space property (\<open>unicode.IsSpace\<close>).\<close>

definition space_seqs :: "nat list list" where
  "space_seqs =
     [[9], [10], [11], [12], [13], [32], [194, 133], [194, 160], [225, 154, 128],
      [226, 128, 128], [226, 128, 129], [226, 128, 130], [226, 128, 131], [226, 128, 132],
      [226, 128, 133], [226, 128, 134], [226, 128, 135], [226, 128, 136], [226, 128, 137],
      [226, 128, 138], [226, 128, 168], [226, 128, 169], [226, 128, 175], [226, 129, 159],
      [227, 128, 128]]"

definition bytes :: "string \<Rightarrow> nat list" where
  "bytes s = map of_char s"

fun strip_prefix :: "nat list \<Rightarrow> nat list \<Rightarrow> nat list option" where
  "strip_prefix [] ys = Some ys"
| "strip_prefix (x # xs) [] = None"
| "strip_prefix (x # xs) (y # ys) = (if x = y then strip_prefix xs ys else None)"

text \<open>Each pass drops one leading space rune; the length of the input bounds the passes.\<close>

fun trim_steps :: "nat list list \<Rightarrow> nat \<Rightarrow> nat list \<Rightarrow> nat list" where
  "trim_steps seqs 0 bs = bs"
| "trim_steps seqs (Suc n) bs =
     (case List.map_filter (\<lambda>q. strip_prefix q bs) seqs of
        [] \<Rightarrow> bs
      | rest # _ \<Rightarrow> trim_steps seqs n rest)"

definition trim_left :: "nat list \<Rightarrow> nat list" where
  "trim_left bs = trim_steps space_seqs (length bs) bs"

definition trim_right :: "nat list \<Rightarrow> nat list" where
  "trim_right bs = rev (trim_steps (map rev space_seqs) (length bs) (rev bs))"

definition TrimSpace :: "string \<Rightarrow> string" where
  "TrimSpace s = map char_of (trim_right (trim_left (bytes s)))"

text \<open>\<open>strings.TrimSpace(s) == ""\<close>, the test the code writes most often.\<close>

definition blank :: "string \<Rightarrow> bool" where
  "blank s \<longleftrightarrow> TrimSpace s = []"

lemma blank_Nil [simp]: "blank []"
  by (simp add: blank_def TrimSpace_def bytes_def trim_left_def trim_right_def)

text \<open>
  ASCII case folding: SQLite's \<open>COLLATE NOCASE\<close>, and \<open>strings.ToLower\<close> and
  \<open>strings.EqualFold\<close> on the ASCII names that \<open>ValidateAlias\<close> admits.
\<close>

definition lower_char :: "char \<Rightarrow> char" where
  "lower_char c =
     (let n = (of_char c :: nat) in if 65 \<le> n \<and> n \<le> 90 then char_of (n + 32) else c)"

definition ToLower :: "string \<Rightarrow> string" where
  "ToLower s = map lower_char s"

definition EqualFold :: "string \<Rightarrow> string \<Rightarrow> bool" where
  "EqualFold s t \<longleftrightarrow> ToLower s = ToLower t"

lemma EqualFold_refl [simp]: "EqualFold s s"
  by (simp add: EqualFold_def)

lemma EqualFold_sym: "EqualFold s t \<Longrightarrow> EqualFold t s"
  by (simp add: EqualFold_def)

lemma EqualFold_trans: "EqualFold s t \<Longrightarrow> EqualFold t u \<Longrightarrow> EqualFold s u"
  by (simp add: EqualFold_def)

text \<open>Go compares strings bytewise.\<close>

fun byte_less :: "nat list \<Rightarrow> nat list \<Rightarrow> bool" where
  "byte_less xs [] = False"
| "byte_less [] (y # ys) = True"
| "byte_less (x # xs) (y # ys) = (x < y \<or> (x = y \<and> byte_less xs ys))"

definition string_less :: "string \<Rightarrow> string \<Rightarrow> bool" where
  "string_less s t = byte_less (bytes s) (bytes t)"

lemma byte_less_irrefl [simp]: "\<not> byte_less xs xs"
  by (induction xs) auto

lemma byte_less_trans: "byte_less xs ys \<Longrightarrow> byte_less ys zs \<Longrightarrow> byte_less xs zs"
proof (induction xs ys arbitrary: zs rule: byte_less.induct)
  case (2 y ys) then show ?case by (cases zs) auto
next
  case (3 x xs y ys) then show ?case by (cases zs) auto
qed simp

lemma byte_less_total: "xs = ys \<or> byte_less xs ys \<or> byte_less ys xs"
proof (induction xs ys rule: byte_less.induct)
  case (1 xs) then show ?case by (cases xs) auto
next
  case (3 x xs y ys) then show ?case by (cases x y rule: linorder_cases) auto
qed simp

lemma bytes_inj: "bytes s = bytes t \<longleftrightarrow> s = t"
  by (auto simp: bytes_def inj_map_eq_map [OF inj_of_char])

lemma string_less_irrefl [simp]: "\<not> string_less s s"
  by (simp add: string_less_def)

lemma string_less_trans: "string_less s t \<Longrightarrow> string_less t u \<Longrightarrow> string_less s u"
  unfolding string_less_def by (rule byte_less_trans)

lemma string_less_total: "s = t \<or> string_less s t \<or> string_less t s"
  unfolding string_less_def using byte_less_total [of "bytes s" "bytes t"] by (simp add: bytes_inj)

lemma string_less_asym: "string_less s t \<Longrightarrow> \<not> string_less t s"
  using string_less_trans [of s t s] by auto

text \<open>\<open>strings.Join\<close>.\<close>

fun strings_Join :: "string list \<Rightarrow> string \<Rightarrow> string" where
  "strings_Join [] sep = []"
| "strings_Join [s] sep = s"
| "strings_Join (s # t # ss) sep = s @ sep @ strings_Join (t # ss) sep"

text \<open>\<open>len([]rune(s))\<close>: each well-formed UTF-8 sequence and each stray byte counts one.\<close>

definition cont_byte :: "nat \<Rightarrow> bool" where
  "cont_byte b \<longleftrightarrow> 128 \<le> b \<and> b \<le> 191"

definition rune_length :: "nat list \<Rightarrow> nat" where
  "rune_length bs =
     (case bs of
        b # c # d # e # _ \<Rightarrow>
          if 194 \<le> b \<and> b \<le> 223 \<and> cont_byte c then 2
          else if 224 \<le> b \<and> b \<le> 239 \<and> cont_byte c \<and> cont_byte d
            \<and> (b = 224 \<longrightarrow> 160 \<le> c) \<and> (b = 237 \<longrightarrow> c \<le> 159) then 3
          else if 240 \<le> b \<and> b \<le> 244 \<and> cont_byte c \<and> cont_byte d \<and> cont_byte e
            \<and> (b = 240 \<longrightarrow> 144 \<le> c) \<and> (b = 244 \<longrightarrow> c \<le> 143) then 4
          else 1
      | b # c # d # _ \<Rightarrow>
          if 194 \<le> b \<and> b \<le> 223 \<and> cont_byte c then 2
          else if 224 \<le> b \<and> b \<le> 239 \<and> cont_byte c \<and> cont_byte d
            \<and> (b = 224 \<longrightarrow> 160 \<le> c) \<and> (b = 237 \<longrightarrow> c \<le> 159) then 3
          else 1
      | b # c # _ \<Rightarrow> if 194 \<le> b \<and> b \<le> 223 \<and> cont_byte c then 2 else 1
      | _ \<Rightarrow> 1)"

fun count_runes :: "nat \<Rightarrow> nat list \<Rightarrow> nat" where
  "count_runes 0 bs = 0"
| "count_runes (Suc k) bs =
     (if bs = [] then 0 else Suc (count_runes k (drop (rune_length bs) bs)))"

definition rune_count :: "string \<Rightarrow> nat" where
  "rune_count s = count_runes (length s) (bytes s)"

text \<open>\<open>string([]rune(s)[:n])\<close>: a stray byte becomes U+FFFD.\<close>

fun take_runes :: "nat \<Rightarrow> nat list \<Rightarrow> nat list" where
  "take_runes 0 bs = []"
| "take_runes (Suc k) bs =
     (case bs of [] \<Rightarrow> []
      | b # _ \<Rightarrow>
          (if rune_length bs = 1 \<and> 128 \<le> b then [239, 191, 189] else take (rune_length bs) bs)
          @ take_runes k (drop (rune_length bs) bs))"

definition rune_prefix :: "nat \<Rightarrow> string \<Rightarrow> string" where
  "rune_prefix n s = map char_of (take_runes n (bytes s))"

section \<open>path/filepath on Unix\<close>

definition IsAbs :: "string \<Rightarrow> bool" where
  "IsAbs p \<longleftrightarrow> (case p of [] \<Rightarrow> False | c # _ \<Rightarrow> c = CHR ''/'')"

fun split_slash :: "string \<Rightarrow> string \<Rightarrow> string list" where
  "split_slash acc [] = [rev acc]"
| "split_slash acc (c # cs) =
     (if c = CHR ''/'' then rev acc # split_slash [] cs else split_slash (c # acc) cs)"

text \<open>\<open>clean_elems rooted out elems\<close> processes the elements left to right, \<open>out\<close> reversed.\<close>

fun clean_elems :: "bool \<Rightarrow> string list \<Rightarrow> string list \<Rightarrow> string list" where
  "clean_elems rooted out [] = rev out"
| "clean_elems rooted out (e # es) =
     (if e = [] \<or> e = ''.'' then clean_elems rooted out es
      else if e = ''..'' then
        (case out of
           [] \<Rightarrow> if rooted then clean_elems rooted [] es else clean_elems rooted [''..''] es
         | o1 # os \<Rightarrow> if o1 = ''..'' then clean_elems rooted (''..'' # out) es
                     else clean_elems rooted os es)
      else clean_elems rooted (e # out) es)"

definition Clean :: "string \<Rightarrow> string" where
  "Clean p =
     (let rooted = IsAbs p; es = strings_Join (clean_elems rooted [] (split_slash [] p)) ''/''
      in if rooted then CHR ''/'' # es else if es = [] then ''.'' else es)"

lemma IsAbs_Clean: "IsAbs (Clean p) \<longleftrightarrow> IsAbs p" if "IsAbs p"
  using that by (simp add: Clean_def Let_def IsAbs_def)

lemma Clean_example: "Clean ''/a/./b//../c/'' = ''/a/c''"
  by (simp add: Clean_def IsAbs_def)

end
