(* ===== verification/Rows.thy ===== *)
theory Rows
  imports Prelude "HOL-Library.Multiset"
begin

text \<open>
  A table is the list of its rows in \<open>rowid\<close> order; a new row is appended. The SQL statements of
  the store are these operations: a single-row select takes the first match, an update rewrites
  the matching rows in place and reports their number, a delete drops them. \<open>keyed_table\<close>
  is the interface a table with a primary key gives to the operations on it.
\<close>

definition upd_where :: "('r \<Rightarrow> bool) \<Rightarrow> ('r \<Rightarrow> 'r) \<Rightarrow> 'r list \<Rightarrow> 'r list" where
  "upd_where p f rows = map (\<lambda>r. if p r then f r else r) rows"

definition del_where :: "('r \<Rightarrow> bool) \<Rightarrow> 'r list \<Rightarrow> 'r list" where
  "del_where p rows = filter (\<lambda>r. \<not> p r) rows"

definition count_where :: "('r \<Rightarrow> bool) \<Rightarrow> 'r list \<Rightarrow> nat" where
  "count_where p rows = length (filter p rows)"

definition exists_where :: "('r \<Rightarrow> bool) \<Rightarrow> 'r list \<Rightarrow> bool" where
  "exists_where p rows = list_ex p rows"

text \<open>\<open>ORDER BY key DESC, rowid DESC LIMIT 1\<close> for a strict order \<open>lt\<close> on the rows: the last of the
  maximal rows.\<close>

fun last_max :: "('r \<Rightarrow> 'r \<Rightarrow> bool) \<Rightarrow> 'r list \<Rightarrow> 'r option" where
  "last_max lt [] = None"
| "last_max lt (r # rs) =
     (case last_max lt rs of None \<Rightarrow> Some r | Some m \<Rightarrow> if lt m r then Some r else Some m)"

lemma exists_where_iff [simp]: "exists_where p rows \<longleftrightarrow> (\<exists>r\<in>set rows. p r)"
  by (auto simp: exists_where_def list_ex_iff)

lemma length_upd_where [simp]: "length (upd_where p f rows) = length rows"
  by (simp add: upd_where_def)

lemma upd_where_Nil [simp]: "upd_where p f [] = []"
  by (simp add: upd_where_def)

lemma upd_where_Cons [simp]:
  "upd_where p f (r # rs) = (if p r then f r else r) # upd_where p f rs"
  by (simp add: upd_where_def)

lemma upd_where_append [simp]: "upd_where p f (xs @ ys) = upd_where p f xs @ upd_where p f ys"
  by (simp add: upd_where_def)

lemma set_upd_where: "set (upd_where p f rows) = (\<lambda>r. if p r then f r else r) ` set rows"
  by (simp add: upd_where_def)

lemma set_upd_one:
  assumes "r \<in> set rows" "p r" and eq: "\<And>s. s \<in> set rows \<Longrightarrow> p s \<Longrightarrow> s = r"
  shows "set (upd_where p f rows) = insert (f r) (set rows - {r})"
proof -
  let ?g = "\<lambda>s. if p s then f s else s"
  have same: "?g ` (set rows - {r}) = set rows - {r}"
    using eq by (auto simp: image_iff)
  have "set (upd_where p f rows) = ?g ` insert r (set rows - {r})"
    unfolding set_upd_where using assms(1) by (simp only: insert_Diff)
  also have "\<dots> = insert (f r) (set rows - {r})"
    unfolding image_insert same using assms(2) by simp
  finally show ?thesis .
qed

lemma in_upd_where:
  "r \<in> set (upd_where p f rows) \<longleftrightarrow> (\<exists>s\<in>set rows. r = (if p s then f s else s))"
  by (auto simp: set_upd_where)

lemma set_del_where [simp]: "set (del_where p rows) = {r \<in> set rows. \<not> p r}"
  by (auto simp: del_where_def)

lemma count_where_0: "count_where p rows = 0 \<longleftrightarrow> (\<forall>r\<in>set rows. \<not> p r)"
  by (auto simp: count_where_def filter_empty_conv)

lemma map_upd_where [row_simps]:
  "(\<And>r. p r \<Longrightarrow> k (f r) = k r) \<Longrightarrow> map k (upd_where p f rows) = map k rows"
  by (auto simp: upd_where_def)

lemma upd_where_none: "(\<And>r. r \<in> set rows \<Longrightarrow> \<not> p r) \<Longrightarrow> upd_where p f rows = rows"
  by (induction rows) auto

lemma upd_where_id: "(\<And>r. r \<in> set rows \<Longrightarrow> p r \<Longrightarrow> f r = r) \<Longrightarrow> upd_where p f rows = rows"
  by (induction rows) auto

lemma del_where_none: "(\<And>r. r \<in> set rows \<Longrightarrow> \<not> p r) \<Longrightarrow> del_where p rows = rows"
  by (simp add: del_where_def)

lemma find_SomeD: "find p rows = Some r \<Longrightarrow> r \<in> set rows \<and> p r"
  by (induction rows) (auto split: if_splits)

lemma find_upd_where [row_simps]:
  "(\<And>r. p r \<Longrightarrow> q (f r) = q r) \<Longrightarrow>
    find q (upd_where p f rows) = map_option (\<lambda>r. if p r then f r else r) (find q rows)"
  by (induction rows) auto

lemma find_append: "find p (xs @ ys) = (case find p xs of None \<Rightarrow> find p ys | Some r \<Rightarrow> Some r)"
  by (induction xs) auto

lemma find_None: "find p rows = None \<longleftrightarrow> (\<forall>r\<in>set rows. \<not> p r)"
  by (induction rows) auto

lemma count_where_find: "count_where p rows \<noteq> 0 \<longleftrightarrow> find p rows \<noteq> None"
  by (auto simp: count_where_0 find_None)

lemma last_max_in: "last_max lt rows = Some m \<Longrightarrow> m \<in> set rows"
  by (induction rows arbitrary: m) (auto split: option.splits if_splits)

lemma last_max_None: "last_max lt rows = None \<longleftrightarrow> rows = []"
  by (cases rows) (auto split: option.splits)

text \<open>For a strict weak order no row lies above the one chosen.\<close>

lemma last_max_maximal:
  assumes "\<And>x y z. lt x y \<Longrightarrow> lt y z \<Longrightarrow> lt x z" and "\<And>x. \<not> lt x x"
    and "\<And>x y z. \<not> lt x y \<Longrightarrow> \<not> lt y z \<Longrightarrow> \<not> lt x z"
    and "last_max lt rows = Some m" and "r \<in> set rows"
  shows "\<not> lt m r"
  using assms(4,5)
proof (induction rows arbitrary: m r)
  case (Cons x xs)
  then show ?case
    by (auto split: option.splits if_splits simp: last_max_None assms(2) dest: assms(1) assms(3))
qed simp

text \<open>\<open>ORDER BY\<close> for a strict order on the rows: a stable insertion sort.\<close>

fun insert_by :: "('r \<Rightarrow> 'r \<Rightarrow> bool) \<Rightarrow> 'r \<Rightarrow> 'r list \<Rightarrow> 'r list" where
  "insert_by lt x [] = [x]"
| "insert_by lt x (y # ys) = (if lt y x then y # insert_by lt x ys else x # y # ys)"

definition sort_by :: "('r \<Rightarrow> 'r \<Rightarrow> bool) \<Rightarrow> 'r list \<Rightarrow> 'r list" where
  "sort_by lt rows = foldr (insert_by lt) rows []"

lemma set_insert_by [simp]: "set (insert_by lt x ys) = insert x (set ys)"
  by (induction ys) auto

lemma set_sort_by [simp]: "set (sort_by lt rows) = set rows"
  unfolding sort_by_def by (induction rows) auto

lemma mset_insert_by [simp]: "mset (insert_by lt x ys) = add_mset x (mset ys)"
  by (induction ys) auto

lemma mset_sort_by [simp]: "mset (sort_by lt rows) = mset rows"
  unfolding sort_by_def by (induction rows) auto

lemma length_sort_by [simp]: "length (sort_by lt rows) = length rows"
  by (metis mset_sort_by size_mset)

lemma sorted_insert_by:
  assumes "\<And>x y z. \<not> lt x y \<Longrightarrow> \<not> lt y z \<Longrightarrow> \<not> lt x z" "\<And>x y. lt x y \<Longrightarrow> \<not> lt y x"
    and "sorted_wrt (\<lambda>a b. \<not> lt b a) ys"
  shows "sorted_wrt (\<lambda>a b. \<not> lt b a) (insert_by lt x ys)"
  using assms(3)
proof (induction ys)
  case (Cons y ys)
  have "\<not> lt z x" if "\<not> lt y x" "z \<in> set ys" for z
    using assms(1) [of z y x] that Cons.prems by auto
  moreover have "\<not> lt x y" if "lt y x" using assms(2) that .
  ultimately show ?case using Cons by auto
qed simp

lemma sorted_sort_by:
  assumes "\<And>x y z. \<not> lt x y \<Longrightarrow> \<not> lt y z \<Longrightarrow> \<not> lt x z" "\<And>x y. lt x y \<Longrightarrow> \<not> lt y x"
  shows "sorted_wrt (\<lambda>a b. \<not> lt b a) (sort_by lt rows)"
  unfolding sort_by_def
proof (induction rows)
  case (Cons r rows)
  with sorted_insert_by [where lt = lt, OF assms] show ?case by simp
qed simp

locale keyed_table =
  fixes key :: "'r \<Rightarrow> 'k"
begin

definition lookup :: "'k \<Rightarrow> 'r list \<Rightarrow> 'r option" where
  "lookup k rows = find (\<lambda>r. key r = k) rows"

definition wf :: "'r list \<Rightarrow> bool" where
  "wf rows \<longleftrightarrow> distinct (map key rows)"

lemma wf_unique: "wf rows \<Longrightarrow> r \<in> set rows \<Longrightarrow> s \<in> set rows \<Longrightarrow> key r = key s \<Longrightarrow> r = s"
  by (auto simp: wf_def distinct_map inj_on_def)

lemma wf_upd: "(\<And>r. p r \<Longrightarrow> key (f r) = key r) \<Longrightarrow> wf (upd_where p f rows) = wf rows"
  by (simp add: wf_def map_upd_where)

lemma wf_del: "wf rows \<Longrightarrow> wf (del_where p rows)"
  by (simp add: wf_def del_where_def distinct_map_filter)

lemma wf_insert: "wf rows \<Longrightarrow> key r \<notin> key ` set rows \<Longrightarrow> wf (rows @ [r])"
  by (simp add: wf_def)

lemma lookup_SomeI: "wf rows \<Longrightarrow> r \<in> set rows \<Longrightarrow> lookup (key r) rows = Some r"
  unfolding lookup_def
  by (induction rows) (auto simp: wf_def find_None image_iff)

lemma lookup_SomeD: "lookup k rows = Some r \<Longrightarrow> r \<in> set rows \<and> key r = k"
  unfolding lookup_def by (auto dest: find_SomeD)

lemma lookup_None: "lookup k rows = None \<longleftrightarrow> k \<notin> key ` set rows"
  by (auto simp: lookup_def find_None)

lemma lookup_insert:
  "lookup k (rows @ [r]) = (case lookup k rows of None \<Rightarrow> if key r = k then Some r else None | Some s \<Rightarrow> Some s)"
  by (auto simp: lookup_def find_append split: option.splits)

lemma count_key: "wf rows \<Longrightarrow> count_where (\<lambda>r. key r = k \<and> p r) rows \<le> 1"
  by (induction rows) (auto simp: wf_def count_where_def filter_empty_conv image_iff intro: le_SucI)

end

declare keyed_table.lookup_def [code] keyed_table.wf_def [code]

end
