(* ===== verification/Store_State.thy ===== *)
theory Store_State
  imports Go_Lib Rows
begin

text \<open>
  The state the store (\<^verbatim>\<open>internal/store\<close>) keeps: one record per table of the schema that profiles,
  launches, checkpoints and quarantine use, the collaborators of one store call, and the
  field encryption of \<^verbatim>\<open>internal/store/secure.go\<close>.
\<close>

section \<open>Column types\<close>

datatype status =
    StatusPending | StatusReady | StatusNeedsReauthentication | StatusUnavailable
  | StatusOther string

datatype ownership =
    HomeOwnershipManaged | HomeOwnershipReferenced | HomeOwnershipUnset | HomeOwnershipOther string

datatype auth_method =
    AuthMethodUnset | AuthMethodAutomatic | AuthMethodBrowser | AuthMethodDeviceCode
  | AuthMethodReused | AuthMethodOther string

datatype quarantine_state = QuarantineNone | QuarantinePrepared | QuarantineReady

datatype launch_state = StatePending | StateRunning | StateExited | StateAbandoned

datatype checkpoint_status =
    StatusDraft | StatusApproved | StatusLaunching | StatusCompleted | StatusExpired

datatype pending_state = PendingSetup | NeedsAttention

datatype pack_state = PackDraft | PackApproved | PackSuperseded

section \<open>Rows\<close>

record profile_row =
  pr_id :: string
  pr_display_name :: string
  pr_email :: string
  pr_workspace :: string
  pr_status :: status
  pr_home :: "string option"
  pr_method :: auth_method
  pr_created :: time
  pr_updated :: time

record alias_row =
  al_profile :: string
  al_alias :: string

record home_row =
  ho_id :: string
  ho_profile :: string
  ho_ownership :: ownership
  ho_location :: string
  ho_login :: string
  ho_workspace :: string

record pending_row =
  pe_id :: string
  pe_display_name :: string
  pe_alias :: string
  pe_state :: pending_state
  pe_home :: "string option"

record stage_row =
  st_id :: string
  st_discovery :: bool
  st_home :: bool
  st_authentication :: bool
  st_validation :: bool
  st_selection :: bool

record quarantine_row =
  qu_id :: string
  qu_state :: quarantine_state
  qu_was_selected :: bool
  qu_at :: time
  qu_purge_after :: time

record launch_row =
  ml_id :: string
  ml_profile :: string
  ml_lease :: string
  ml_project :: "string option"
  ml_state :: launch_state
  ml_started :: time
  ml_ended :: "time option"
  ml_pid :: "int option"
  ml_exit :: "int option"
  ml_session :: "string option"
  ml_checkpoint :: "string option"
  ml_revision :: "string option"
  ml_boot :: "string option"

record checkpoint_row =
  cp_id :: string
  cp_project :: "string option"
  cp_status :: checkpoint_status
  cp_fields :: "string option list"
  cp_metadata :: "string option"
  cp_created :: time
  cp_expires :: "time option"

record pack_row =
  pv_pack :: string
  pv_version :: string
  pv_state :: pack_state

record assignment_row =
  as_profile :: string
  as_pack :: string
  as_version :: string

record override_row =
  ov_profile :: string
  ov_path :: string

record evidence_row =
  ce_launch :: string

text \<open>\<open>selected\<close> is the single row (\<open>selection_id = 1\<close>) of \<open>selected_profile\<close>, whose column is nullable.\<close>

record db =
  profiles :: "profile_row list"
  aliases :: "alias_row list"
  homes :: "home_row list"
  pendings :: "pending_row list"
  stages :: "stage_row list"
  selected :: "string option option"
  quarantine :: "quarantine_row list"
  launches :: "launch_row list"
  checkpoints :: "checkpoint_row list"
  packs :: "pack_row list"
  assignments :: "assignment_row list"
  overrides :: "override_row list"
  evidence :: "evidence_row list"

interpretation profile_table: keyed_table pr_id .
interpretation quarantine_table: keyed_table qu_id .
interpretation launch_table: keyed_table ml_lease .
interpretation checkpoint_table: keyed_table cp_id .
interpretation stage_table: keyed_table st_id .

section \<open>The collaborators of one call\<close>

text \<open>
  \<open>db_fails\<close> says which calls on the database handle fail (driver error, cancelled context,
  constraint of a table outside the model); it is arbitrary in every theorem. \<open>vault\<close> is the
  injected \<open>Vault\<close> (absent, or its two operations), \<open>fresh\<close> the identifiers
  \<open>newStoreIdentifier\<close> draws (none when the random source fails), \<open>is_dir\<close> the answer
  of \<open>os.Stat\<close>, and \<open>metadata_fields\<close> what \<open>json.Unmarshal\<close> reads from the \<open>status\<close> and \<open>revision\<close>
  members of a checkpoint's metadata, \<open>metadata_revision\<close> what it reads of \<open>revision\<close> alone (none
  when the text or a member is malformed), \<open>before_selection\<close> the hook of the same name. The store holds
  \<open>operationMu\<close> while a call writes, so a call is one step; only \<open>BeginProfileRemoval\<close> reads before it takes the
  lock (see there).
\<close>

datatype db_call = BeginTx | Query nat | Exec nat | Commit

record vault_ops =
  v_encrypt :: "string \<Rightarrow> string \<Rightarrow> err + string"
  v_decrypt :: "string \<Rightarrow> string \<Rightarrow> err + string"

record env =
  clock_now :: time
  db_fails :: "db_call \<Rightarrow> bool"
  vault :: "vault_ops option"
  fresh :: "string \<Rightarrow> string option"
  is_dir :: "string \<Rightarrow> bool"
  metadata_fields :: "string \<Rightarrow> (string \<times> string) option"
  metadata_revision :: "string \<Rightarrow> string option"
  before_selection :: "string \<Rightarrow> err option"

definition write_failed :: "sentinel \<Rightarrow> err" where
  "write_failed s = coded StoreWriteFailed (Some (errors_Join [Some (plain s), Some (plain Opaque)]))"

definition read_failed :: "sentinel \<Rightarrow> err" where
  "read_failed s = coded StoreReadFailed (Some (errors_Join [Some (plain s), Some (plain Opaque)]))"

definition requireVault :: "env \<Rightarrow> err + vault_ops" where
  "requireVault e =
     (case vault e of None \<Rightarrow> Inl (New VaultUnavailable (plain ErrVaultUnavailable)) | Some v \<Rightarrow> Inr v)"

definition vault_error :: "err \<Rightarrow> err" where
  "vault_error x =
     (if Code x \<noteq> None then x
      else New VaultUnavailable (errors_Join [Some (plain ErrVaultUnavailable), Some x]))"

definition encryptField :: "vault_ops \<Rightarrow> string \<Rightarrow> string \<Rightarrow> err + string" where
  "encryptField v plaintext aad =
     (case v_encrypt v plaintext aad of Inl x \<Rightarrow> Inl (vault_error x) | Inr c \<Rightarrow> Inr c)"

definition decryptField :: "vault_ops \<Rightarrow> string \<Rightarrow> string \<Rightarrow> err + string" where
  "decryptField v ciphertext aad =
     (case v_decrypt v ciphertext aad of Inl x \<Rightarrow> Inl (vault_error x) | Inr p \<Rightarrow> Inr p)"

definition identityHomeAAD :: "string \<Rightarrow> string" where
  "identityHomeAAD homeID = ''codex-folio/identity-homes/'' @ homeID @ ''/location''"

definition documentedMetadataAAD :: "string \<Rightarrow> string \<Rightarrow> string" where
  "documentedMetadataAAD homeID fld = ''codex-folio/identity-homes/'' @ homeID @ ''/'' @ fld"

definition checkpointAAD :: "string \<Rightarrow> string \<Rightarrow> string" where
  "checkpointAAD checkpointID fld = ''codex-folio/checkpoints/'' @ checkpointID @ ''/'' @ fld"

definition nullableString :: "string \<Rightarrow> string option" where
  "nullableString s = (if s = [] then None else Some s)"

section \<open>Transactions\<close>

text \<open>A transaction body yields an error, on which every path of the code rolls back, or a result
  with the database to commit.\<close>

definition transact :: "db \<Rightarrow> err + ('a \<times> db) \<Rightarrow> (err + 'a) \<times> db" where
  "transact d r = (case r of Inl x \<Rightarrow> (Inl x, d) | Inr (a, d') \<Rightarrow> (Inr a, d'))"

lemma transact_Inl: "transact d r = (Inl x, d') \<longleftrightarrow> r = Inl x \<and> d' = d"
  by (auto simp: transact_def split: sum.splits)

lemma transact_Inr: "transact d r = (Inr a, d') \<longleftrightarrow> r = Inr (a, d')"
  by (auto simp: transact_def split: sum.splits)

text \<open>A read after the commit: its failure is reported although the change has been made.\<close>

definition then_read :: "(err + 'a) \<times> db \<Rightarrow> ('a \<Rightarrow> db \<Rightarrow> err + 'b) \<Rightarrow> (err + 'b) \<times> db" where
  "then_read r f = (case r of (Inl x, d) \<Rightarrow> (Inl x, d) | (Inr a, d) \<Rightarrow> (f a d, d))"

lemmas transact_iff = transact_Inl transact_Inr

section \<open>Order of stored timestamps\<close>

text \<open>
  The columns hold RFC 3339 texts with the fraction's trailing zeros dropped, and SQL orders
  them as texts. Up to the second the texts are of fixed width; what follows is
  \<open>"Z"\<close> or \<open>"."\<close>, digits, \<open>"Z"\<close>.
\<close>

definition frac_text :: "int \<Rightarrow> nat list" where
  "frac_text ns =
     (let ds = rev (dropWhile (\<lambda>d. d = 0) (map (\<lambda>k. nat (ns div 10 ^ k mod 10)) [0 ..< 9]))
      in if ds = [] then [90] else 46 # map (\<lambda>d. 48 + d) ds @ [90])"

definition stored_less :: "time \<Rightarrow> time \<Rightarrow> bool" where
  "stored_less t u \<longleftrightarrow>
     t div Second < u div Second
     \<or> (t div Second = u div Second \<and> byte_less (frac_text (t mod Second)) (frac_text (u mod Second)))"

fun null_stored_less :: "time option \<Rightarrow> time option \<Rightarrow> bool" where
  "null_stored_less None None = False"
| "null_stored_less None (Some u) = True"
| "null_stored_less (Some t) None = False"
| "null_stored_less (Some t) (Some u) = stored_less t u"

section \<open>Joins\<close>

definition quarantined :: "db \<Rightarrow> string \<Rightarrow> bool" where
  "quarantined d i \<longleftrightarrow> exists_where (\<lambda>q. qu_id q = i) (quarantine d)"

text \<open>\<open>identity_profiles JOIN cli_aliases\<close> for one alias (\<open>COLLATE NOCASE\<close>).\<close>

definition alias_join :: "db \<Rightarrow> string \<Rightarrow> profile_row list" where
  "alias_join d a =
     concat (map (\<lambda>al. filter (\<lambda>p. pr_id p = al_profile al) (profiles d))
                 (filter (\<lambda>al. EqualFold (al_alias al) a) (aliases d)))"

text \<open>The same with \<open>NOT EXISTS (SELECT 1 FROM profile_quarantine ...)\<close>, first row.\<close>

definition live_profile :: "db \<Rightarrow> string \<Rightarrow> profile_row option" where
  "live_profile d a = find (\<lambda>p. \<not> quarantined d (pr_id p)) (alias_join d a)"

definition home_of :: "db \<Rightarrow> profile_row \<Rightarrow> home_row option" where
  "home_of d p =
     (case pr_home p of None \<Rightarrow> None | Some h \<Rightarrow> find (\<lambda>r. ho_id r = h) (homes d))"

lemma quarantined_iff: "quarantined d i \<longleftrightarrow> (\<exists>q\<in>set (quarantine d). qu_id q = i)"
  by (simp add: quarantined_def)

lemma live_profileD:
  assumes "live_profile d a = Some p"
  shows "p \<in> set (profiles d)" "\<not> quarantined d (pr_id p)"
    "\<exists>al\<in>set (aliases d). al_profile al = pr_id p \<and> EqualFold (al_alias al) a"
  using find_SomeD [OF assms [unfolded live_profile_def]] by (auto simp: alias_join_def)

lemma write_failed_not_plain [simp]: "Code (write_failed s) = Some StoreWriteFailed"
  by (simp add: write_failed_def)

lemma read_failed_code [simp]: "Code (read_failed s) = Some StoreReadFailed"
  by (simp add: read_failed_def)

end
