(* ===== verification/Checkpoint_Store.thy ===== *)
theory Checkpoint_Store
  imports Store_State
begin

text \<open>
  The checkpoints of \<^verbatim>\<open>internal/store/secure.go\<close> and \<^verbatim>\<open>internal/store/continuation.go\<close>: the seven
  sensitive columns are encrypted one by one under associated data naming the checkpoint and
  the field; a save may carry the status and revision it expects to replace.
\<close>

definition checkpointRecoveryField :: string where
  "checkpointRecoveryField = ''recovery-metadata''"

definition checkpoint_fields :: "string list" where
  "checkpoint_fields = [''goal'', ''completed-work'', ''pending-work'', ''validation'', ''risks'',
     ''next-action'', checkpointRecoveryField]"

record checkpoint =
  ck_id :: string
  ck_project :: string
  ck_status :: checkpoint_status
  ck_goal :: "string option"
  ck_completed :: "string option"
  ck_pending :: "string option"
  ck_validation :: "string option"
  ck_risks :: "string option"
  ck_next :: "string option"
  ck_metadata :: "string option"
  ck_created :: time
  ck_expires :: "time option"

definition sensitive_values :: "checkpoint \<Rightarrow> string option list" where
  "sensitive_values c =
     [ck_goal c, ck_completed c, ck_pending c, ck_validation c, ck_risks c, ck_next c, ck_metadata c]"

text \<open>The loops over the fields stop at the first vault error.\<close>

fun encrypt_fields ::
  "vault_ops \<Rightarrow> string \<Rightarrow> (string option \<times> string) list \<Rightarrow> err + string option list" where
  "encrypt_fields v c [] = Inr []"
| "encrypt_fields v c ((value, name) # fs) =
     (case value of
        None \<Rightarrow> (case encrypt_fields v c fs of Inl x \<Rightarrow> Inl x | Inr cs \<Rightarrow> Inr (None # cs))
      | Some p \<Rightarrow>
          (case encryptField v p (checkpointAAD c name) of
             Inl x \<Rightarrow> Inl x
           | Inr b \<Rightarrow> (case encrypt_fields v c fs of Inl x \<Rightarrow> Inl x | Inr cs \<Rightarrow> Inr (Some b # cs))))"

fun decrypt_fields ::
  "vault_ops \<Rightarrow> string \<Rightarrow> (string option \<times> string) list \<Rightarrow> err + string option list" where
  "decrypt_fields v c [] = Inr []"
| "decrypt_fields v c ((value, name) # fs) =
     (case value of
        None \<Rightarrow> (case decrypt_fields v c fs of Inl x \<Rightarrow> Inl x | Inr cs \<Rightarrow> Inr (None # cs))
      | Some b \<Rightarrow>
          (case decryptField v b (checkpointAAD c name) of
             Inl x \<Rightarrow> Inl x
           | Inr p \<Rightarrow> (case decrypt_fields v c fs of Inl x \<Rightarrow> Inl x | Inr ps \<Rightarrow> Inr (Some p # ps))))"

section \<open>Saving\<close>

text \<open>A \<open>NULL\<close> column scans as no bytes.\<close>

definition metadata_bytes :: "checkpoint_row \<Rightarrow> string" where
  "metadata_bytes r = (case cp_metadata r of None \<Rightarrow> [] | Some m \<Rightarrow> m)"

text \<open>The optimistic check: lines 310--340. The empty expected status is \<open>None\<close>.\<close>

definition expectation ::
  "env \<Rightarrow> vault_ops \<Rightarrow> string \<Rightarrow> checkpoint_status option \<Rightarrow> string \<Rightarrow> db \<Rightarrow> err option" where
  "expectation e v c status revision d =
     (if status = None \<and> revision = [] then None
      else if status = None \<or> revision = [] then Some (plain ErrCheckpointInvalid)
      else if db_fails e (Query 1) then Some (read_failed ErrSensitiveRead)
      else case checkpoint_table.lookup c (checkpoints d) of
        None \<Rightarrow> Some (plain ErrCheckpointNotFound)
      | Some r \<Rightarrow>
          if Some (cp_status r) \<noteq> status then Some (plain ErrHandoffNotReady)
          else case decryptField v (metadata_bytes r)
                      (checkpointAAD c checkpointRecoveryField) of
            Inl x \<Rightarrow> Some x
          | Inr metadata \<Rightarrow>
              if metadata_revision e metadata \<noteq> Some revision
              then Some (plain ErrCheckpointRevisionChanged) else None)"

text \<open>\<open>INSERT ... ON CONFLICT(checkpoint_id) DO UPDATE\<close>: every column but the key is replaced.\<close>

definition upsert_checkpoint :: "checkpoint_row \<Rightarrow> checkpoint_row list \<Rightarrow> checkpoint_row list" where
  "upsert_checkpoint r rows =
     (if exists_where (\<lambda>s. cp_id s = cp_id r) rows
      then upd_where (\<lambda>s. cp_id s = cp_id r) (\<lambda>s. r) rows
      else rows @ [r])"

definition checkpoint_row_of :: "checkpoint \<Rightarrow> string option list \<Rightarrow> checkpoint_row" where
  "checkpoint_row_of c cs =
     \<lparr>cp_id = ck_id c, cp_project = nullableString (ck_project c), cp_status = ck_status c,
      cp_fields = take 6 cs, cp_metadata = cs ! 6, cp_created = ck_created c,
      cp_expires = ck_expires c\<rparr>"

definition put_body ::
  "env \<Rightarrow> vault_ops \<Rightarrow> checkpoint \<Rightarrow> string option list \<Rightarrow> checkpoint_status option \<Rightarrow> string \<Rightarrow> db \<Rightarrow>
    err + (unit \<times> db)" where
  "put_body e v c cs status revision d =
     (if db_fails e BeginTx then Inl (write_failed ErrSensitiveWrite)
      else case expectation e v (ck_id c) status revision d of
        Some x \<Rightarrow> Inl x
      | None \<Rightarrow>
          if db_fails e (Exec 1) \<or> db_fails e Commit then Inl (write_failed ErrSensitiveWrite)
          else Inr ((), d\<lparr>checkpoints := upsert_checkpoint (checkpoint_row_of c cs) (checkpoints d)\<rparr>))"

definition putCheckpoint ::
  "env \<Rightarrow> checkpoint \<Rightarrow> checkpoint_status option \<Rightarrow> string \<Rightarrow> db \<Rightarrow> (err + unit) \<times> db" where
  "putCheckpoint e c status revision d =
     (case requireVault e of
        Inl x \<Rightarrow> (Inl x, d)
      | Inr v \<Rightarrow>
          (case encrypt_fields v (ck_id c) (zip (sensitive_values c) checkpoint_fields) of
             Inl x \<Rightarrow> (Inl x, d)
           | Inr cs \<Rightarrow> transact d (put_body e v c cs status revision d)))"

section \<open>Loading\<close>

definition GetCheckpoint :: "env \<Rightarrow> string \<Rightarrow> db \<Rightarrow> (err + checkpoint) option" where
  "GetCheckpoint e c d =
     (case requireVault e of
        Inl x \<Rightarrow> Some (Inl x)
      | Inr v \<Rightarrow>
          if db_fails e (Query 1) then Some (Inl (read_failed ErrSensitiveRead))
          else case checkpoint_table.lookup c (checkpoints d) of
            None \<Rightarrow> None
          | Some r \<Rightarrow>
              (case decrypt_fields v (cp_id r) (zip (cp_fields r @ [cp_metadata r]) checkpoint_fields) of
                 Inl x \<Rightarrow> Some (Inl x)
               | Inr ps \<Rightarrow>
                   if parseStoredTime (cp_created r) = None
                      \<or> (case cp_expires r of None \<Rightarrow> False | Some t \<Rightarrow> parseStoredTime t = None)
                   then Some (Inl (read_failed ErrSensitiveRead))
                   else Some (Inr
                     \<lparr>ck_id = cp_id r,
                      ck_project = (case cp_project r of None \<Rightarrow> [] | Some p \<Rightarrow> p),
                      ck_status = cp_status r, ck_goal = ps ! 0, ck_completed = ps ! 1,
                      ck_pending = ps ! 2, ck_validation = ps ! 3, ck_risks = ps ! 4,
                      ck_next = ps ! 5, ck_metadata = ps ! 6, ck_created = cp_created r,
                      ck_expires = cp_expires r\<rparr>)))"

text \<open>\<open>GetCheckpoint\<close> gives \<open>None\<close> for \<open>sql.ErrNoRows\<close>, which \<open>LoadCheckpoint\<close> turns into its own
  error; an absent metadata becomes the empty string.\<close>

definition LoadCheckpoint :: "env \<Rightarrow> string \<Rightarrow> db \<Rightarrow> err + checkpoint" where
  "LoadCheckpoint e c d =
     (case GetCheckpoint e c d of
        None \<Rightarrow> Inl (plain ErrCheckpointNotFound)
      | Some (Inl x) \<Rightarrow> Inl x
      | Some (Inr r) \<Rightarrow>
          Inr (r\<lparr>ck_metadata := Some (case ck_metadata r of None \<Rightarrow> [] | Some m \<Rightarrow> m)\<rparr>))"

text \<open>\<open>SaveCheckpoint\<close>: the metadata of a continuation record is always present.\<close>

definition SaveCheckpoint ::
  "env \<Rightarrow> checkpoint \<Rightarrow> string \<Rightarrow> checkpoint_status option \<Rightarrow> string \<Rightarrow> db \<Rightarrow> (err + unit) \<times> db" where
  "SaveCheckpoint e c metadata status revision d =
     putCheckpoint e (c\<lparr>ck_metadata := Some metadata\<rparr>) status revision d"

definition SourceIdentityHome :: "env \<Rightarrow> string \<Rightarrow> db \<Rightarrow> err + string" where
  "SourceIdentityHome e pid d =
     (if blank pid then Inl (plain ErrHistoryUnavailable)
      else if db_fails e (Query 1) then Inl (coded StoreReadFailed (Some (plain Opaque)))
      else case find (\<lambda>p. pr_id p = pid \<and> \<not> quarantined d pid \<and> home_of d p \<noteq> None) (profiles d) of
        None \<Rightarrow> Inl (plain ErrHistoryUnavailable)
      | Some p \<Rightarrow>
          (case home_of d p of
             None \<Rightarrow> Inl (plain ErrHistoryUnavailable)
           | Some h \<Rightarrow>
               (case requireVault e of
                  Inl x \<Rightarrow> Inl x
                | Inr v \<Rightarrow>
                    (case decryptField v (ho_location h) (identityHomeAAD (ho_id h)) of
                       Inl x \<Rightarrow> Inl x
                     | Inr path \<Rightarrow>
                         if IsAbs (Clean path) then Inr (Clean path)
                         else Inl (plain ErrHistoryUnavailable)))))"

section \<open>Purging\<close>

definition purge_checkpoint_body :: "env \<Rightarrow> vault_ops \<Rightarrow> string \<Rightarrow> string \<Rightarrow> db \<Rightarrow> err + (unit \<times> db)" where
  "purge_checkpoint_body e v c revision d =
     (if db_fails e BeginTx then Inl (coded StoreWriteFailed (Some (plain Opaque)))
      else if db_fails e (Query 1) then Inl (coded StoreReadFailed (Some (plain Opaque)))
      else case checkpoint_table.lookup c (checkpoints d) of
        None \<Rightarrow> Inl (plain ErrCheckpointNotFound)
      | Some r \<Rightarrow>
          if cp_status r = StatusLaunching then Inl (plain ErrHandoffNotReady)
          else case decryptField v (metadata_bytes r)
                      (checkpointAAD c checkpointRecoveryField) of
            Inl x \<Rightarrow> Inl x
          | Inr metadata \<Rightarrow>
              if metadata_revision e metadata \<noteq> Some revision
              then Inl (plain ErrCheckpointRevisionChanged)
              else if db_fails e (Query 2) then Inl (coded StoreReadFailed (Some (plain Opaque)))
              else if count_where (\<lambda>l. ml_checkpoint l = Some c
                                     \<and> ml_state l \<in> {StatePending, StateRunning}) (launches d) \<noteq> 0
              then Inl (plain ErrHandoffNotReady)
              else if db_fails e (Exec 1) \<or> db_fails e (Exec 2) \<or> db_fails e Commit
              then Inl (coded StoreWriteFailed (Some (plain Opaque)))
              else Inr ((), d\<lparr>launches := upd_where (\<lambda>l. ml_checkpoint l = Some c)
                                            (\<lambda>l. l\<lparr>ml_checkpoint := None, ml_revision := None\<rparr>) (launches d),
                              checkpoints := del_where (\<lambda>r. cp_id r = c) (checkpoints d)\<rparr>))"

definition PurgeCheckpoint :: "env \<Rightarrow> string \<Rightarrow> string \<Rightarrow> db \<Rightarrow> (err + unit) \<times> db" where
  "PurgeCheckpoint e c revision d =
     (case requireVault e of
        Inl x \<Rightarrow> (Inl x, d)
      | Inr v \<Rightarrow> transact d (purge_checkpoint_body e v c revision d))"


section \<open>Lemmas\<close>

text \<open>What the program relies on the vault for: what was encrypted under some associated data
  decrypts under the same.\<close>

definition vault_inverse :: "vault_ops \<Rightarrow> bool" where
  "vault_inverse v \<longleftrightarrow> (\<forall>p a c. v_encrypt v p a = Inr c \<longrightarrow> v_decrypt v c a = Inr p)"

typedef sealing_vault = "{v. vault_inverse v}" morphisms vault_of sealed_by
  by (rule exI [of _ "\<lparr>v_encrypt = \<lambda>p a. Inr p, v_decrypt = \<lambda>c a. Inr c\<rparr>"]) (simp add: vault_inverse_def)

lemma vault_of_inverse [simp]: "vault_inverse (vault_of v)"
  using vault_of [of v] by simp

text \<open>The collaborators of a call on a store whose vault, while it is available, is \<open>v\<close>.\<close>

definition secured :: "sealing_vault \<Rightarrow> env \<Rightarrow> env" where
  "secured v e = e\<lparr>vault := map_option (\<lambda>u. vault_of v) (vault e)\<rparr>"

lemma secured_vault [simp]: "vault (secured v e) = Some u \<longleftrightarrow> u = vault_of v \<and> vault e \<noteq> None"
  by (cases "vault e") (auto simp: secured_def)

lemma decrypt_encrypt:
  "vault_inverse v \<Longrightarrow> encryptField v p a = Inr c \<Longrightarrow> decryptField v c a = Inr p"
  by (auto simp: vault_inverse_def encryptField_def decryptField_def split: sum.splits)

lemma encrypt_fields_length: "encrypt_fields v c fs = Inr cs \<Longrightarrow> length cs = length fs"
  by (induction v c fs arbitrary: cs rule: encrypt_fields.induct)
     (auto split: option.splits sum.splits)

lemma decrypt_encrypt_fields:
  assumes "vault_inverse v" and "encrypt_fields v c (zip vs names) = Inr cs"
    and "length vs = length names"
  shows "decrypt_fields v c (zip cs names) = Inr vs"
  using assms(2,3)
proof (induction vs names arbitrary: cs rule: list_induct2')
  case (4 p vs n names)
  then show ?case
    by (cases p) (auto split: sum.splits dest: decrypt_encrypt [OF assms(1)])
qed auto

lemma requireVault_Inr [simp]: "requireVault e = Inr v \<longleftrightarrow> vault e = Some v"
  by (auto simp: requireVault_def split: option.splits)

lemma putCheckpoint_ok:
  assumes "putCheckpoint e c status revision d = (Inr u, d')"
  obtains v cs where "vault e = Some v"
    and "encrypt_fields v (ck_id c) (zip (sensitive_values c) checkpoint_fields) = Inr cs"
    and "expectation e v (ck_id c) status revision d = None"
    and "d' = d\<lparr>checkpoints := upsert_checkpoint (checkpoint_row_of c cs) (checkpoints d)\<rparr>"
  using assms
  by (auto simp: putCheckpoint_def put_body_def transact_Inr split: sum.splits option.splits if_splits)

lemma putCheckpoint_error: "putCheckpoint e c status revision d = (Inl x, d') \<Longrightarrow> d' = d"
  by (auto simp: putCheckpoint_def transact_Inl split: sum.splits)

lemma upsert_lookup [simp]:
  "checkpoint_table.lookup (cp_id r) (upsert_checkpoint r rows) = Some r"
proof (cases "\<exists>s\<in>set rows. cp_id s = cp_id r")
  case True
  then have "find (\<lambda>s. cp_id s = cp_id r) rows \<noteq> None"
    by (auto simp: find_None)
  with True show ?thesis
    by (auto simp: upsert_checkpoint_def checkpoint_table.lookup_def find_upd_where dest: find_SomeD)
next
  case False
  then have "find (\<lambda>s. cp_id s = cp_id r) rows = None"
    by (auto simp: find_None)
  with False show ?thesis
    by (auto simp: upsert_checkpoint_def checkpoint_table.lookup_def find_append)
qed

lemma upsert_wf: "checkpoint_table.wf rows \<Longrightarrow> checkpoint_table.wf (upsert_checkpoint r rows)"
proof -
  have "map cp_id (upd_where (\<lambda>s. cp_id s = cp_id r) (\<lambda>s. r) rows) = map cp_id rows"
    by (rule map_upd_where) simp
  then show "checkpoint_table.wf rows \<Longrightarrow> ?thesis"
    by (auto simp: upsert_checkpoint_def checkpoint_table.wf_def)
qed

lemma in_upsert:
  "s \<in> set (upsert_checkpoint r rows) \<longleftrightarrow> s = r \<or> (s \<in> set rows \<and> cp_id s \<noteq> cp_id r)"
  by (auto simp: upsert_checkpoint_def in_upd_where split: if_splits)

lemma expectation_None:
  assumes "expectation e v c (Some st) revision d = None"
  obtains r m where "checkpoint_table.lookup c (checkpoints d) = Some r" "cp_status r = st"
    "decryptField v (metadata_bytes r)
       (checkpointAAD c checkpointRecoveryField) = Inr m"
    "metadata_revision e m = Some revision"
  using assms by (auto simp: expectation_def split: if_splits option.splits sum.splits)

lemma PurgeCheckpoint_ok:
  assumes "PurgeCheckpoint e c revision d = (Inr u, d')"
  shows "d' = d\<lparr>launches := upd_where (\<lambda>l. ml_checkpoint l = Some c)
                              (\<lambda>l. l\<lparr>ml_checkpoint := None, ml_revision := None\<rparr>) (launches d),
                checkpoints := del_where (\<lambda>r. cp_id r = c) (checkpoints d)\<rparr>"
    and "\<exists>r. checkpoint_table.lookup c (checkpoints d) = Some r \<and> cp_status r \<noteq> StatusLaunching"
    and "l \<in> set (launches d) \<Longrightarrow> ml_checkpoint l = Some c \<Longrightarrow>
         ml_state l \<notin> {StatePending, StateRunning}"
  using assms
  by (auto simp: PurgeCheckpoint_def purge_checkpoint_body_def transact_Inr count_where_0
      split: sum.splits option.splits if_splits)

lemma PurgeCheckpoint_error: "PurgeCheckpoint e c revision d = (Inl x, d') \<Longrightarrow> d' = d"
  by (auto simp: PurgeCheckpoint_def transact_Inl split: sum.splits)

end
