(* ===== verification/Alias.thy ===== *)
theory Alias
  imports Go_Lib
begin

text \<open>
  \<open>ValidateAlias\<close> of \<^verbatim>\<open>internal/profile/profile.go\<close>: the syntax of a CLI alias. The lemmas show
  that the checks amount to a byte-level grammar; the trimming test is implied by it.
\<close>

definition alias_error :: err where
  "alias_error = New ProfileAliasInvalid (plain ErrAliasInvalid)"

definition alnum :: "char \<Rightarrow> bool" where
  "alnum c \<longleftrightarrow>
     (let n = (of_char c :: nat)
      in (97 \<le> n \<and> n \<le> 122) \<or> (65 \<le> n \<and> n \<le> 90) \<or> (48 \<le> n \<and> n \<le> 57))"

text \<open>The loop over the bytes with their index; \<open>True\<close> when every byte passes.\<close>

fun alias_bytes :: "nat \<Rightarrow> string \<Rightarrow> bool" where
  "alias_bytes i [] = True"
| "alias_bytes i (c # cs) =
     (if alnum c then alias_bytes (Suc i) cs
      else if i = 0 \<or> (c \<noteq> CHR ''-'' \<and> c \<noteq> CHR ''_'' \<and> c \<noteq> CHR ''.'') then False
      else alias_bytes (Suc i) cs)"

definition ValidateAlias :: "string \<Rightarrow> err option" where
  "ValidateAlias a =
     (if a = [] \<or> a \<noteq> TrimSpace a \<or> 64 < length a then Some alias_error
      else if alias_bytes 0 a then None
      else Some alias_error)"

definition alias_char :: "char \<Rightarrow> bool" where
  "alias_char c \<longleftrightarrow> alnum c \<or> c = CHR ''-'' \<or> c = CHR ''_'' \<or> c = CHR ''.''"

definition alias_grammar :: "string \<Rightarrow> bool" where
  "alias_grammar a \<longleftrightarrow> a \<noteq> [] \<and> alnum (hd a) \<and> list_all alias_char a \<and> length a \<le> 64"

lemma alias_bytes_Suc: "alias_bytes (Suc i) a = list_all alias_char a"
  by (induction a arbitrary: i) (auto simp: alias_char_def)

lemma alias_bytes_0: "a \<noteq> [] \<Longrightarrow> alias_bytes 0 a \<longleftrightarrow> alnum (hd a) \<and> list_all alias_char a"
  by (cases a) (auto simp: alias_bytes_Suc alias_char_def)

lemma alias_char_bytes:
  assumes "alias_char c"
  shows "(of_char c :: nat) \<in> {45, 46, 95} \<union> {48..57} \<union> {65..90} \<union> {97..122}"
proof -
  have "(of_char (CHR ''-'') :: nat) = 45" "(of_char (CHR ''.'') :: nat) = 46"
    "(of_char (CHR ''_'') :: nat) = 95"
    by simp_all
  with assms show ?thesis
    by (auto simp: alias_char_def alnum_def Let_def)
qed

lemma trim_steps_stuck:
  assumes "\<And>q. q \<in> set seqs \<Longrightarrow> q \<noteq> [] \<and> hd q \<noteq> b"
  shows "trim_steps seqs n (b # bs) = b # bs"
proof -
  have "strip_prefix q (b # bs) = None" if "q \<in> set seqs" for q
    using assms [OF that] by (cases q) auto
  then have "List.map_filter (\<lambda>q. strip_prefix q (b # bs)) seqs = []"
    by (simp add: map_filter_def filter_empty_conv)
  then show ?thesis by (cases n) auto
qed

lemma space_seqs_ends:
  "q \<in> set space_seqs \<Longrightarrow> q \<noteq> [] \<and> hd q \<in> {9, 10, 11, 12, 13, 32, 194, 225, 226, 227}"
  "q \<in> set (map rev space_seqs) \<Longrightarrow> q \<noteq> [] \<and> (hd q \<in> {9, 10, 11, 12, 13, 32} \<or> 128 \<le> hd q)"
  by (auto simp: space_seqs_def)

text \<open>Printable ASCII is never trimmed; the code equation below only makes evaluation fast.\<close>

definition plain_char :: "char \<Rightarrow> bool" where
  "plain_char c \<longleftrightarrow> (let n = (of_char c :: nat) in 33 \<le> n \<and> n \<le> 126)"

lemma plain_TrimSpace:
  assumes "list_all plain_char a"
  shows "TrimSpace a = a"
proof (cases "a = []")
  case True
  then show ?thesis by (simp add: TrimSpace_def bytes_def trim_left_def trim_right_def)
next
  case False
  let ?ok = "{33..126} :: nat set"
  have ok: "set (bytes a) \<subseteq> ?ok"
    using assms by (auto simp: bytes_def list_all_iff plain_char_def Let_def)
  from False obtain b bs where b: "bytes a = b # bs"
    by (cases a) (auto simp: bytes_def)
  from False obtain c cs where c: "rev (bytes a) = c # cs"
    by (cases "rev (bytes a)") (auto simp: bytes_def)
  have bc: "b \<in> ?ok" "c \<in> ?ok"
    using ok b c by (metis insert_subset list.simps(15), metis insert_subset list.simps(15) set_rev)
  have "trim_left (bytes a) = bytes a"
    unfolding trim_left_def b using bc(1)
    by (intro trim_steps_stuck) (auto dest!: space_seqs_ends(1))
  moreover have "trim_right (bytes a) = bytes a"
  proof -
    have "q \<noteq> [] \<and> hd q \<noteq> c" if "q \<in> set (map rev space_seqs)" for q
      using space_seqs_ends(2) [OF that] bc(2) by auto
    then have "trim_steps (map rev space_seqs) (length (bytes a)) (c # cs) = c # cs"
      by (rule trim_steps_stuck)
    then show ?thesis unfolding trim_right_def c using c by (metis rev_rev_ident)
  qed
  ultimately show ?thesis by (simp add: TrimSpace_def bytes_def)
qed

lemma alias_TrimSpace: "list_all alias_char a \<Longrightarrow> TrimSpace a = a"
  by (rule plain_TrimSpace) (auto simp: list_all_iff plain_char_def Let_def dest!: alias_char_bytes)

lemma TrimSpace_code [code]:
  "TrimSpace a = (if list_all plain_char a then a
     else map char_of (trim_right (trim_left (bytes a))))"
  using plain_TrimSpace [of a] by (simp add: TrimSpace_def)

lemma ValidateAlias_iff: "ValidateAlias a = None \<longleftrightarrow> alias_grammar a"
  by (auto simp: ValidateAlias_def alias_grammar_def alias_bytes_0 dest: alias_TrimSpace)

lemma ValidateAlias_error: "ValidateAlias a = Some x \<Longrightarrow> x = alias_error"
  by (auto simp: ValidateAlias_def split: if_splits)

end
