(* ===== verification/Launch_Store.thy ===== *)
theory Launch_Store
  imports Checkpoint_Store Alias
begin

text \<open>
  Managed launches: \<^verbatim>\<open>internal/store/launches.go\<close> and the launch side of
  \<^verbatim>\<open>internal/store/continuation.go\<close>. Every operation takes the environment of the call and the
  database and returns its result with the database it leaves behind.
\<close>

section \<open>Requests and plans\<close>

record prepare_request =
  rq_alias :: string
  rq_executable :: string
  rq_directory :: string
  rq_arguments :: "string list"
  rq_project :: string
  rq_session :: string
  rq_checkpoint :: string
  rq_revision :: string
  rq_source :: string
  rq_boot :: string

record plan =
  pl_lease :: string
  pl_executable :: string
  pl_directory :: string
  pl_arguments :: "string list"
  pl_environment :: "(string \<times> string) list"

definition plan_invalid :: err where
  "plan_invalid = New LaunchPlanInvalid (plain ErrPlanInvalid)"

definition lease_invalid :: err where
  "lease_invalid = New LaunchLeaseInvalid (plain ErrLeaseInvalid)"

definition handoff_error :: err where
  "handoff_error = New ContinuationCheckpointInvalid (plain ErrHandoffNotReady)"

definition home_invalid :: err where
  "home_invalid = New ProfileHomeInvalid (plain ErrHomeInvalid)"

section \<open>The source-launch queries\<close>

text \<open>\<open>NOT (state = 'abandoned' AND process_id IS NULL)\<close>: launches that may have started a process.\<close>

definition started_or_live :: "launch_row \<Rightarrow> bool" where
  "started_or_live l \<longleftrightarrow> \<not> (ml_state l = StateAbandoned \<and> ml_pid l = None)"

definition of_project :: "string \<Rightarrow> launch_row \<Rightarrow> bool" where
  "of_project pid l \<longleftrightarrow> ml_project l = Some pid"

definition unresolvedSourceLaunch :: "db \<Rightarrow> string \<Rightarrow> launch_row option" where
  "unresolvedSourceLaunch d pid =
     find (\<lambda>l. of_project pid l \<and> ml_state l \<noteq> StateExited \<and> started_or_live l) (rev (launches d))"

definition ended_less :: "launch_row \<Rightarrow> launch_row \<Rightarrow> bool" where
  "ended_less l m \<longleftrightarrow> null_stored_less (ml_ended l) (ml_ended m)"

definition definitiveSourceLaunch :: "db \<Rightarrow> string \<Rightarrow> launch_row option" where
  "definitiveSourceLaunch d pid =
     (if exists_where (\<lambda>l. of_project pid l \<and> started_or_live l \<and> ml_state l \<noteq> StateExited) (launches d)
      then None
      else last_max ended_less (filter (\<lambda>l. of_project pid l \<and> started_or_live l) (launches d)))"

definition latestExitedSourceLaunch :: "db \<Rightarrow> string \<Rightarrow> launch_row option" where
  "latestExitedSourceLaunch d pid =
     last_max ended_less (filter (\<lambda>l. of_project pid l \<and> ml_state l = StateExited) (launches d))"

datatype source_state = SourceExited | SourceRunning | SourceUncertain

definition LatestSourceLaunch :: "env \<Rightarrow> string \<Rightarrow> db \<Rightarrow> err + (string \<times> source_state)" where
  "LatestSourceLaunch e pid d =
     (if db_fails e (Query 1) then Inl (coded StoreReadFailed (Some (plain Opaque)))
      else case unresolvedSourceLaunch d pid of
        Some l \<Rightarrow>
          Inr (ml_profile l, if ml_state l = StateRunning then SourceRunning else SourceUncertain)
      | None \<Rightarrow>
          if db_fails e (Query 2) then Inl (coded StoreReadFailed (Some (plain Opaque)))
          else case latestExitedSourceLaunch d pid of
            None \<Rightarrow> Inr ([], SourceUncertain)
          | Some l \<Rightarrow>
              Inr (ml_profile l,
                   if ml_state l = StateExited then SourceExited
                   else if ml_state l = StateRunning then SourceRunning
                   else SourceUncertain))"

section \<open>PrepareLaunch\<close>

text \<open>The profile's home: lines 62--87.\<close>

definition launch_home :: "env \<Rightarrow> db \<Rightarrow> prepare_request \<Rightarrow> profile_row \<Rightarrow> err + (vault_ops \<times> string)" where
  "launch_home e d rq p =
     (case (pr_home p, home_of d p) of
        (Some hid, Some h) \<Rightarrow>
          if blank hid
             \<or> (ho_ownership h \<noteq> HomeOwnershipManaged \<and> ho_ownership h \<noteq> HomeOwnershipReferenced)
             \<or> ho_location h = []
          then Inl home_invalid
          else (case requireVault e of
              Inl x \<Rightarrow> Inl x
            | Inr v \<Rightarrow>
                (case decryptField v (ho_location h) (identityHomeAAD hid) of
                   Inl x \<Rightarrow> Inl x
                 | Inr path \<Rightarrow>
                     let home = Clean path in
                     if \<not> IsAbs home then Inl home_invalid
                     else if rq_checkpoint rq \<noteq> [] \<and> \<not> is_dir e home then Inl home_invalid
                     else Inr (v, home)))
      | _ \<Rightarrow> Inl home_invalid)"

text \<open>The authorisation of a handoff inside the same transaction: lines 106--146.\<close>

definition handoff_guard ::
  "env \<Rightarrow> db \<Rightarrow> vault_ops \<Rightarrow> prepare_request \<Rightarrow> string \<Rightarrow> err option" where
  "handoff_guard e d v rq target =
     (if blank (rq_boot rq) then Some plan_invalid
      else if db_fails e (Query 2) then Some handoff_error
      else case checkpoint_table.lookup (rq_checkpoint rq) (checkpoints d) of
        None \<Rightarrow> Some handoff_error
      | Some c \<Rightarrow>
          if cp_status c \<noteq> StatusApproved \<or> cp_project c \<noteq> Some (rq_project rq) then Some handoff_error
          else if (case cp_expires c of None \<Rightarrow> False
                   | Some t \<Rightarrow> parseStoredTime t = None \<or> \<not> clock_now e < t)
          then Some handoff_error
          else case decryptField v (metadata_bytes c)
                      (checkpointAAD (rq_checkpoint rq) checkpointRecoveryField) of
            Inl x \<Rightarrow> Some x
          | Inr metadata \<Rightarrow>
              if metadata_fields e metadata \<noteq> Some (''approved'', rq_revision rq)
              then Some handoff_error
              else if db_fails e (Query 3) then Some handoff_error
              else case definitiveSourceLaunch d (rq_project rq) of
                None \<Rightarrow> Some handoff_error
              | Some l \<Rightarrow>
                  if ml_state l \<noteq> StateExited \<or> ml_profile l \<noteq> rq_source rq \<or> ml_profile l = target
                  then Some handoff_error
                  else None)"

definition set_checkpoint :: "string \<Rightarrow> checkpoint_status \<Rightarrow> checkpoint_status \<Rightarrow> db \<Rightarrow> db" where
  "set_checkpoint c from to d =
     d\<lparr>checkpoints := upd_where (\<lambda>r. cp_id r = c \<and> cp_status r = from)
                                (\<lambda>r. r\<lparr>cp_status := to\<rparr>) (checkpoints d)\<rparr>"

definition checkpoint_hits :: "string \<Rightarrow> checkpoint_status \<Rightarrow> db \<Rightarrow> nat" where
  "checkpoint_hits c from d = count_where (\<lambda>r. cp_id r = c \<and> cp_status r = from) (checkpoints d)"

definition pending_launch :: "prepare_request \<Rightarrow> string \<Rightarrow> string \<Rightarrow> string \<Rightarrow> time \<Rightarrow> launch_row" where
  "pending_launch rq lid profile lease t =
     \<lparr>ml_id = lid, ml_profile = profile, ml_lease = lease, ml_project = nullableString (rq_project rq),
      ml_state = StatePending, ml_started = t, ml_ended = None, ml_pid = None, ml_exit = None,
      ml_session = nullableString (rq_session rq), ml_checkpoint = nullableString (rq_checkpoint rq),
      ml_revision = nullableString (rq_revision rq), ml_boot = nullableString (rq_boot rq)\<rparr>"

text \<open>The INSERT with its PRIMARY KEY and UNIQUE constraints, and the commit: lines 157--175.\<close>

definition insert_launch ::
  "env \<Rightarrow> prepare_request \<Rightarrow> string \<Rightarrow> string \<Rightarrow> string \<Rightarrow> string \<Rightarrow> db \<Rightarrow> err + (plan \<times> db)" where
  "insert_launch e rq lid profile lease home d =
     (if db_fails e (Exec 2)
         \<or> exists_where (\<lambda>l. ml_id l = lid \<or> ml_lease l = lease) (launches d)
      then Inl (write_failed ErrLaunchState)
      else if db_fails e Commit then Inl (write_failed ErrLaunchState)
      else Inr (\<lparr>pl_lease = lease, pl_executable = Clean (rq_executable rq),
                 pl_directory = Clean (rq_directory rq), pl_arguments = rq_arguments rq,
                 pl_environment = [(''CODEX_HOME'', home)]\<rparr>,
                d\<lparr>launches := launches d @ [pending_launch rq lid profile lease (clock_now e)]\<rparr>))"

definition prepare_body :: "env \<Rightarrow> prepare_request \<Rightarrow> db \<Rightarrow> err + (plan \<times> db)" where
  "prepare_body e rq d =
     (if db_fails e BeginTx then Inl (write_failed ErrLaunchState)
      else if db_fails e (Query 1) then Inl (read_failed ErrLaunchState)
      else case live_profile d (rq_alias rq) of
        None \<Rightarrow> Inl (New LaunchProfileNotFound (plain ErrProfileNotFound))
      | Some p \<Rightarrow>
          if pr_status p \<noteq> StatusReady
          then Inl (New LaunchProfileUnavailable (plain ErrProfileUnavailable))
          else case launch_home e d rq p of
            Inl x \<Rightarrow> Inl x
          | Inr (v, home) \<Rightarrow>
              if IsZero (clock_now e) then Inl (write_failed ErrLaunchState)
              else case (fresh e ''launch'', fresh e ''lease'') of
                (Some lid, Some lease) \<Rightarrow>
                  if rq_checkpoint rq = [] then insert_launch e rq lid (pr_id p) lease home d
                  else (case handoff_guard e d v rq (pr_id p) of
                      Some x \<Rightarrow> Inl x
                    | None \<Rightarrow>
                        if db_fails e (Exec 1) then Inl (write_failed ErrLaunchState)
                        else if checkpoint_hits (rq_checkpoint rq) StatusApproved d \<noteq> 1
                        then Inl handoff_error
                        else insert_launch e rq lid (pr_id p) lease home
                               (set_checkpoint (rq_checkpoint rq) StatusApproved StatusLaunching d))
              | _ \<Rightarrow> Inl (write_failed ErrLaunchState))"

definition PrepareLaunch :: "env \<Rightarrow> prepare_request \<Rightarrow> db \<Rightarrow> (err + plan) \<times> db" where
  "PrepareLaunch e rq d =
     (case ValidateAlias (rq_alias rq) of
        Some x \<Rightarrow> (Inl x, d)
      | None \<Rightarrow>
          if blank (rq_executable rq) \<or> \<not> IsAbs (rq_executable rq)
             \<or> blank (rq_directory rq) \<or> \<not> IsAbs (rq_directory rq)
          then (Inl plan_invalid, d)
          else transact d (prepare_body e rq d))"

section \<open>Reporting the process\<close>

definition update_lease ::
  "string \<Rightarrow> launch_state list \<Rightarrow> (launch_row \<Rightarrow> launch_row) \<Rightarrow> db \<Rightarrow> db" where
  "update_lease lease from f d =
     d\<lparr>launches := upd_where (\<lambda>l. ml_lease l = lease \<and> ml_state l \<in> set from) f (launches d)\<rparr>"

definition lease_in :: "string \<Rightarrow> launch_state list \<Rightarrow> db \<Rightarrow> launch_row option" where
  "lease_in lease from d = find (\<lambda>l. ml_lease l = lease \<and> ml_state l \<in> set from) (launches d)"

definition started_body :: "env \<Rightarrow> string \<Rightarrow> int \<Rightarrow> db \<Rightarrow> err + (unit \<times> db)" where
  "started_body e lease pid d =
     (if db_fails e BeginTx then Inl (write_failed ErrLaunchState)
      else if db_fails e (Query 1) then Inl lease_invalid
      else case lease_in lease [StatePending] d of
        None \<Rightarrow> Inl lease_invalid
      | Some l \<Rightarrow>
          if db_fails e (Exec 1) then Inl (write_failed ErrLaunchState)
          else let d1 = update_lease lease [StatePending]
                          (\<lambda>r. r\<lparr>ml_state := StateRunning, ml_pid := Some pid\<rparr>) d in
          (case ml_checkpoint l of
             None \<Rightarrow> if db_fails e Commit then Inl (write_failed ErrLaunchState) else Inr ((), d1)
           | Some c \<Rightarrow>
               if db_fails e (Exec 2) then Inl (write_failed ErrLaunchState)
               else if checkpoint_hits c StatusLaunching d1 \<noteq> 1 then Inl handoff_error
               else if db_fails e Commit then Inl (write_failed ErrLaunchState)
               else Inr ((), set_checkpoint c StatusLaunching StatusCompleted d1)))"

definition MarkManagedLaunchStarted :: "env \<Rightarrow> string \<Rightarrow> int \<Rightarrow> db \<Rightarrow> (err + unit) \<times> db" where
  "MarkManagedLaunchStarted e lease pid d =
     (if blank lease \<or> pid \<le> 0 then (Inl lease_invalid, d)
      else transact d (started_body e lease pid d))"

text \<open>\<open>launch.ValidProcessStatus\<close>: an exit status is a uint32.\<close>

definition ValidProcessStatus :: "int \<Rightarrow> bool" where
  "ValidProcessStatus s \<longleftrightarrow> 0 \<le> s \<and> s \<le> 4294967295"

definition MarkManagedLaunchExited :: "env \<Rightarrow> string \<Rightarrow> int \<Rightarrow> db \<Rightarrow> (err + unit) \<times> db" where
  "MarkManagedLaunchExited e lease st d =
     (if blank lease then (Inl lease_invalid, d)
      else if \<not> ValidProcessStatus st
      then (Inl (New LaunchProcessStatusInvalid (plain ErrProcessStatusInvalid)), d)
      else if IsZero (clock_now e) then (Inl (write_failed ErrLaunchState), d)
      else if db_fails e (Exec 1) then (Inl (write_failed ErrLaunchState), d)
      else if lease_in lease [StateRunning] d = None then (Inl lease_invalid, d)
      else (Inr (), update_lease lease [StateRunning]
                      (\<lambda>r. r\<lparr>ml_state := StateExited, ml_exit := Some st,
                              ml_ended := Some (clock_now e)\<rparr>) d))"

definition abandon_lease :: "time \<Rightarrow> string \<Rightarrow> db \<Rightarrow> db" where
  "abandon_lease t lease d =
     update_lease lease [StatePending, StateRunning]
       (\<lambda>r. r\<lparr>ml_state := StateAbandoned, ml_ended := Some t\<rparr>) d"

definition abandoned_body :: "env \<Rightarrow> string \<Rightarrow> db \<Rightarrow> err + (unit \<times> db)" where
  "abandoned_body e lease d =
     (if db_fails e BeginTx then Inl (write_failed ErrLaunchState)
      else if db_fails e (Query 1) then Inl lease_invalid
      else case lease_in lease [StatePending, StateRunning] d of
        None \<Rightarrow> Inl lease_invalid
      | Some l \<Rightarrow>
          if db_fails e (Exec 1) then Inl (write_failed ErrLaunchState)
          else let d1 = abandon_lease (clock_now e) lease d in
          (case ml_checkpoint l of
             None \<Rightarrow> if db_fails e Commit then Inl (write_failed ErrLaunchState) else Inr ((), d1)
           | Some c \<Rightarrow>
               if db_fails e (Exec 2) then Inl (write_failed ErrLaunchState)
               else if db_fails e Commit then Inl (write_failed ErrLaunchState)
               else Inr ((), set_checkpoint c StatusLaunching StatusApproved d1)))"

definition MarkManagedLaunchAbandoned :: "env \<Rightarrow> string \<Rightarrow> db \<Rightarrow> (err + unit) \<times> db" where
  "MarkManagedLaunchAbandoned e lease d =
     (if blank lease then (Inl lease_invalid, d)
      else if IsZero (clock_now e) then (Inl (write_failed ErrLaunchState), d)
      else transact d (abandoned_body e lease d))"

section \<open>Reconciliation\<close>

text \<open>\<open>ProcessInspector\<close>: whether a process runs, and the identity of the current boot session.\<close>

record inspector =
  is_running :: "int \<Rightarrow> err + bool"
  boot_session :: "err + string"

text \<open>The scan of the live rows: a running launch whose process is gone is abandoned, a pending
  one only when it is a handoff of an earlier boot session.\<close>

fun reconcile_scan ::
  "inspector option \<Rightarrow> launch_row list \<Rightarrow> err + (string \<times> string option) list" where
  "reconcile_scan insp [] = Inr []"
| "reconcile_scan insp (l # ls) =
     (let skip = reconcile_scan insp ls;
          abandon = (case skip of Inl x \<Rightarrow> Inl x | Inr xs \<Rightarrow> Inr ((ml_lease l, ml_checkpoint l) # xs));
          scan_failed = Inl (read_failed ErrLaunchState)
      in if ml_state l = StatePending then
           (case (ml_checkpoint l, ml_boot l, insp) of
              (Some c, Some b, Some i) \<Rightarrow>
                (case boot_session i of
                   Inl x \<Rightarrow> scan_failed
                 | Inr current \<Rightarrow> if current \<noteq> [] \<and> current \<noteq> b then abandon else skip)
            | _ \<Rightarrow> skip)
         else
           (case (ml_pid l, insp) of
              (Some pid, Some i) \<Rightarrow>
                if pid \<le> 0 then skip
                else (case is_running i pid of
                        Inl x \<Rightarrow> scan_failed
                      | Inr running \<Rightarrow> if running then skip else abandon)
            | _ \<Rightarrow> skip))"

text \<open>One iteration of the write loop. An absent checkpoint is scanned as the empty string, on which
  the loop skips the second update.\<close>

definition reconcile_one :: "time \<Rightarrow> db \<Rightarrow> string \<times> string option \<Rightarrow> db" where
  "reconcile_one t d item =
     (case item of (lease, cp) \<Rightarrow>
        (case cp of
           None \<Rightarrow> abandon_lease t lease d
         | Some c \<Rightarrow>
             if c = [] then abandon_lease t lease d
             else set_checkpoint c StatusLaunching StatusApproved (abandon_lease t lease d)))"

fun reconcile_writes :: "env \<Rightarrow> nat \<Rightarrow> (string \<times> string option) list \<Rightarrow> db \<Rightarrow> db option" where
  "reconcile_writes e n [] d = Some d"
| "reconcile_writes e n (item # items) d =
     (if db_fails e (Exec n)
         \<or> (snd item \<noteq> None \<and> snd item \<noteq> Some [] \<and> db_fails e (Exec (Suc n)))
      then None
      else reconcile_writes e (n + 2) items (reconcile_one (clock_now e) d item))"

definition live_launches :: "db \<Rightarrow> launch_row list" where
  "live_launches d = filter (\<lambda>l. ml_state l \<in> {StatePending, StateRunning}) (launches d)"

definition ReconcileManagedLaunches :: "env \<Rightarrow> inspector option \<Rightarrow> db \<Rightarrow> (err + unit) \<times> db" where
  "ReconcileManagedLaunches e insp d =
     (if db_fails e (Query 1) then (Inl (read_failed ErrLaunchState), d)
      else case reconcile_scan insp (live_launches d) of
        Inl x \<Rightarrow> (Inl x, d)
      | Inr [] \<Rightarrow> (Inr (), d)
      | Inr items \<Rightarrow>
          if IsZero (clock_now e) then (Inl (write_failed ErrLaunchState), d)
          else if db_fails e BeginTx then (Inl (write_failed ErrLaunchState), d)
          else (case reconcile_writes e 1 items d of
                  None \<Rightarrow> (Inl (write_failed ErrLaunchState), d)
                | Some d' \<Rightarrow>
                    if db_fails e Commit then (Inl (write_failed ErrLaunchState), d)
                    else (Inr (), d')))"

section \<open>Reading\<close>

definition GetManagedLaunch :: "env \<Rightarrow> string \<Rightarrow> db \<Rightarrow> err + (launch_row \<times> string)" where
  "GetManagedLaunch e lease d =
     (if blank lease then Inl lease_invalid
      else if db_fails e (Query 1) then Inl (read_failed ErrLaunchState)
      else case [(l, al_alias a). l \<leftarrow> launches d, a \<leftarrow> aliases d,
                                  al_profile a = ml_profile l \<and> ml_lease l = lease] of
        [] \<Rightarrow> Inl lease_invalid
      | (l, a) # _ \<Rightarrow>
          if parseStoredTime (ml_started l) = None
             \<or> (case ml_ended l of None \<Rightarrow> False | Some t \<Rightarrow> parseStoredTime t = None)
          then Inl (read_failed ErrLaunchState)
          else Inr (l, a))"

end
