(* ===== verification/Launch_Effects.thy ===== *)
theory Launch_Effects
  imports Launch_Store
begin

text \<open>
  What each launch operation does when it succeeds and that it leaves the database alone when it
  fails: the facts through which every later proof uses \<open>Launch_Store\<close>.
\<close>

section \<open>Small facts\<close>

lemma nullableString_iff [simp]:
  "nullableString s = None \<longleftrightarrow> s = []" "nullableString s = Some t \<longleftrightarrow> s = t \<and> s \<noteq> []"
  by (auto simp: nullableString_def)

lemma set_checkpoint_fields [simp]:
  "launches (set_checkpoint c s t d) = launches d"
  "profiles (set_checkpoint c s t d) = profiles d"
  "aliases (set_checkpoint c s t d) = aliases d"
  "homes (set_checkpoint c s t d) = homes d"
  "pendings (set_checkpoint c s t d) = pendings d"
  "stages (set_checkpoint c s t d) = stages d"
  "selected (set_checkpoint c s t d) = selected d"
  "quarantine (set_checkpoint c s t d) = quarantine d"
  by (simp_all add: set_checkpoint_def)

lemma update_lease_fields [simp]:
  "checkpoints (update_lease le ss f d) = checkpoints d"
  "profiles (update_lease le ss f d) = profiles d"
  "aliases (update_lease le ss f d) = aliases d"
  "homes (update_lease le ss f d) = homes d"
  "pendings (update_lease le ss f d) = pendings d"
  "stages (update_lease le ss f d) = stages d"
  "selected (update_lease le ss f d) = selected d"
  "quarantine (update_lease le ss f d) = quarantine d"
  by (simp_all add: update_lease_def)

lemma launches_update_lease:
  "launches (update_lease le ss f d) =
     upd_where (\<lambda>l. ml_lease l = le \<and> ml_state l \<in> set ss) f (launches d)"
  by (simp add: update_lease_def)

lemma checkpoints_set_checkpoint:
  "checkpoints (set_checkpoint c s t d) =
     upd_where (\<lambda>r. cp_id r = c \<and> cp_status r = s) (\<lambda>r. r\<lparr>cp_status := t\<rparr>) (checkpoints d)"
  by (simp add: set_checkpoint_def)

lemma checkpoint_hits_update_lease [simp]:
  "checkpoint_hits c s (update_lease le ss f d) = checkpoint_hits c s d"
  by (simp add: checkpoint_hits_def)

lemma checkpoint_hits_pos: "checkpoint_hits c s d = 1 \<Longrightarrow> \<exists>r\<in>set (checkpoints d). cp_id r = c \<and> cp_status r = s"
  using count_where_0 [of "\<lambda>r. cp_id r = c \<and> cp_status r = s" "checkpoints d"]
  by (auto simp: checkpoint_hits_def)

lemma lease_in_Some:
  "lease_in le ss d = Some l \<Longrightarrow> l \<in> set (launches d) \<and> ml_lease l = le \<and> ml_state l \<in> set ss"
  unfolding lease_in_def by (auto dest: find_SomeD)

section \<open>Preparing\<close>

definition planned :: "prepare_request \<Rightarrow> string \<Rightarrow> string \<Rightarrow> plan" where
  "planned rq lease home =
     \<lparr>pl_lease = lease, pl_executable = Clean (rq_executable rq),
      pl_directory = Clean (rq_directory rq), pl_arguments = rq_arguments rq,
      pl_environment = [(''CODEX_HOME'', home)]\<rparr>"

definition claimed :: "prepare_request \<Rightarrow> db \<Rightarrow> db" where
  "claimed rq d =
     (if rq_checkpoint rq = [] then d
      else set_checkpoint (rq_checkpoint rq) StatusApproved StatusLaunching d)"

lemma claimed_fields [simp]: "launches (claimed rq d) = launches d"
  by (simp add: claimed_def)

lemma insert_launch_ok:
  "insert_launch e rq lid profile lease home d = Inr (pl, d') \<Longrightarrow>
     (\<forall>l\<in>set (launches d). ml_id l \<noteq> lid \<and> ml_lease l \<noteq> lease) \<and> pl = planned rq lease home
     \<and> d' = d\<lparr>launches := launches d @ [pending_launch rq lid profile lease (clock_now e)]\<rparr>"
  by (auto simp: insert_launch_def planned_def split: if_splits)

lemma PrepareLaunch_ok:
  assumes "PrepareLaunch e rq d = (Inr pl, d')"
  obtains p v home lid lease where
    "ValidateAlias (rq_alias rq) = None"
    "live_profile d (rq_alias rq) = Some p" "pr_status p = StatusReady"
    "launch_home e d rq p = Inr (v, home)" "clock_now e \<noteq> 0"
    "fresh e ''launch'' = Some lid" "fresh e ''lease'' = Some lease"
    "rq_checkpoint rq \<noteq> [] \<Longrightarrow> handoff_guard e d v rq (pr_id p) = None"
    "rq_checkpoint rq \<noteq> [] \<Longrightarrow> checkpoint_hits (rq_checkpoint rq) StatusApproved d = 1"
    "\<forall>l\<in>set (launches d). ml_id l \<noteq> lid \<and> ml_lease l \<noteq> lease"
    "pl = planned rq lease home"
    "d' = (claimed rq d)\<lparr>launches := launches d @ [pending_launch rq lid (pr_id p) lease (clock_now e)]\<rparr>"
  using assms
  by (auto simp: PrepareLaunch_def prepare_body_def transact_Inr claimed_def
      split: option.splits sum.splits if_splits dest!: insert_launch_ok)

lemma PrepareLaunch_error: "PrepareLaunch e rq d = (Inl x, d') \<Longrightarrow> d' = d"
  by (auto simp: PrepareLaunch_def transact_Inl split: option.splits if_splits)

lemma launch_home_ok:
  assumes "launch_home e d rq p = Inr (v, home)"
  shows "vault e = Some v" "IsAbs home" "rq_checkpoint rq \<noteq> [] \<Longrightarrow> is_dir e home"
    "\<exists>h path. home_of d p = Some h
       \<and> ho_ownership h \<in> {HomeOwnershipManaged, HomeOwnershipReferenced}
       \<and> decryptField v (ho_location h) (identityHomeAAD (ho_id h)) = Inr path \<and> home = Clean path"
proof -
  have id: "ho_id h = i" if "home_of d p = Some h" "pr_home p = Some i" for h i
    using that by (auto simp: home_of_def dest: find_SomeD)
  show "vault e = Some v" "IsAbs home" "rq_checkpoint rq \<noteq> [] \<Longrightarrow> is_dir e home"
    using assms by (auto simp: launch_home_def Let_def split: option.splits if_splits sum.splits)
  show "\<exists>h path. home_of d p = Some h
       \<and> ho_ownership h \<in> {HomeOwnershipManaged, HomeOwnershipReferenced}
       \<and> decryptField v (ho_location h) (identityHomeAAD (ho_id h)) = Inr path \<and> home = Clean path"
    using assms by (auto simp: launch_home_def Let_def id split: option.splits if_splits sum.splits)
qed

lemma definitive_Some:
  assumes "definitiveSourceLaunch d pid = Some l"
  shows "l \<in> set (launches d)" "ml_project l = Some pid"
    "m \<in> set (launches d) \<Longrightarrow> ml_project m = Some pid \<Longrightarrow> ml_state m = StateExited
       \<or> (ml_state m = StateAbandoned \<and> ml_pid m = None)"
  using assms
  by (auto simp: definitiveSourceLaunch_def of_project_def started_or_live_def
      split: if_splits dest!: last_max_in)

lemma handoff_guard_None:
  assumes "handoff_guard e d v rq target = None"
  obtains c m l where "checkpoint_table.lookup (rq_checkpoint rq) (checkpoints d) = Some c"
    "cp_status c = StatusApproved" "cp_project c = Some (rq_project rq)"
    "\<And>t. cp_expires c = Some t \<Longrightarrow> clock_now e < t"
    "decryptField v (metadata_bytes c)
       (checkpointAAD (rq_checkpoint rq) checkpointRecoveryField) = Inr m"
    "metadata_fields e m = Some (''approved'', rq_revision rq)"
    "definitiveSourceLaunch d (rq_project rq) = Some l" "ml_state l = StateExited"
    "ml_profile l = rq_source rq" "ml_profile l \<noteq> target" "\<not> blank (rq_boot rq)"
proof -
  from assms obtain c where c: "checkpoint_table.lookup (rq_checkpoint rq) (checkpoints d) = Some c"
    by (auto simp: handoff_guard_def split: if_splits option.splits)
  from assms c obtain m where m: "decryptField v (metadata_bytes c)
       (checkpointAAD (rq_checkpoint rq) checkpointRecoveryField) = Inr m"
    by (auto simp: handoff_guard_def split: if_splits sum.splits)
  from assms c m obtain l where l: "definitiveSourceLaunch d (rq_project rq) = Some l"
    by (auto simp: handoff_guard_def split: if_splits option.splits)
  show ?thesis
    using assms c m l
    by (intro that [of c m l]) (auto simp: handoff_guard_def split: if_splits)
qed

section \<open>Reporting\<close>

lemma MarkManagedLaunchStarted_ok:
  assumes "MarkManagedLaunchStarted e lease pid d = (Inr u, d')"
  obtains l where "lease_in lease [StatePending] d = Some l" "0 < pid"
    "\<And>c. ml_checkpoint l = Some c \<Longrightarrow> checkpoint_hits c StatusLaunching d = 1"
    "d' = (case ml_checkpoint l of None \<Rightarrow> id
           | Some c \<Rightarrow> set_checkpoint c StatusLaunching StatusCompleted)
          (update_lease lease [StatePending] (\<lambda>r. r\<lparr>ml_state := StateRunning, ml_pid := Some pid\<rparr>) d)"
  using assms
  by (auto simp: MarkManagedLaunchStarted_def started_body_def transact_Inr Let_def
      split: if_splits option.splits)

lemma MarkManagedLaunchStarted_error:
  "MarkManagedLaunchStarted e lease pid d = (Inl x, d') \<Longrightarrow> d' = d"
  by (auto simp: MarkManagedLaunchStarted_def transact_Inl split: if_splits)

lemma MarkManagedLaunchExited_ok:
  assumes "MarkManagedLaunchExited e lease st d = (Inr u, d')"
  obtains l where "lease_in lease [StateRunning] d = Some l" "ValidProcessStatus st" "clock_now e \<noteq> 0"
    "d' = update_lease lease [StateRunning]
            (\<lambda>r. r\<lparr>ml_state := StateExited, ml_exit := Some st, ml_ended := Some (clock_now e)\<rparr>) d"
  using assms
  by (auto simp: MarkManagedLaunchExited_def split: if_splits)

lemma MarkManagedLaunchExited_error:
  "MarkManagedLaunchExited e lease st d = (Inl x, d') \<Longrightarrow> d' = d"
  by (auto simp: MarkManagedLaunchExited_def split: if_splits)

lemma MarkManagedLaunchAbandoned_ok:
  assumes "MarkManagedLaunchAbandoned e lease d = (Inr u, d')"
  obtains l where "lease_in lease [StatePending, StateRunning] d = Some l" "clock_now e \<noteq> 0"
    "d' = (case ml_checkpoint l of None \<Rightarrow> id
           | Some c \<Rightarrow> set_checkpoint c StatusLaunching StatusApproved)
          (abandon_lease (clock_now e) lease d)"
  using assms
  by (auto simp: MarkManagedLaunchAbandoned_def abandoned_body_def transact_Inr Let_def
      split: if_splits option.splits)

lemma MarkManagedLaunchAbandoned_error:
  "MarkManagedLaunchAbandoned e lease d = (Inl x, d') \<Longrightarrow> d' = d"
  by (auto simp: MarkManagedLaunchAbandoned_def transact_Inl split: if_splits)

section \<open>Reconciling\<close>

text \<open>Why one live row is abandoned.\<close>

definition lost :: "inspector option \<Rightarrow> launch_row \<Rightarrow> bool" where
  "lost insp l \<longleftrightarrow>
     (case insp of None \<Rightarrow> False
      | Some i \<Rightarrow>
          if ml_state l = StatePending
          then ml_checkpoint l \<noteq> None \<and> (\<exists>b current. ml_boot l = Some b \<and> boot_session i = Inr current
                 \<and> current \<noteq> [] \<and> current \<noteq> b)
          else \<exists>pid>0. ml_pid l = Some pid \<and> is_running i pid = Inr False)"

lemma reconcile_scan_ok:
  "reconcile_scan insp ls = Inr items \<Longrightarrow>
     items = map (\<lambda>l. (ml_lease l, ml_checkpoint l)) (filter (lost insp) ls)"
  by (induction insp ls arbitrary: items rule: reconcile_scan.induct)
     (auto simp: Let_def lost_def split: if_splits option.splits sum.splits)

lemma reconcile_writes_ok:
  "reconcile_writes e n items d = Some d' \<Longrightarrow> d' = foldl (reconcile_one (clock_now e)) d items"
  by (induction e n items d rule: reconcile_writes.induct) (auto split: if_splits)

lemma ReconcileManagedLaunches_ok:
  assumes "ReconcileManagedLaunches e insp d = (Inr u, d')"
  shows "d' = foldl (reconcile_one (clock_now e)) d
                (map (\<lambda>l. (ml_lease l, ml_checkpoint l)) (filter (lost insp) (live_launches d)))"
  using assms
  by (auto simp: ReconcileManagedLaunches_def split: if_splits sum.splits list.splits option.splits
      dest!: reconcile_scan_ok reconcile_writes_ok)

lemma ReconcileManagedLaunches_error: "ReconcileManagedLaunches e insp d = (Inl x, d') \<Longrightarrow> d' = d"
  by (auto simp: ReconcileManagedLaunches_def split: if_splits sum.splits list.splits option.splits)

lemmas launch_errors =
  PrepareLaunch_error MarkManagedLaunchStarted_error MarkManagedLaunchExited_error
  MarkManagedLaunchAbandoned_error ReconcileManagedLaunches_error

end
