(* ===== verification/Launch_Invariants.thy ===== *)
theory Launch_Invariants
  imports Launch_Effects
begin

text \<open>
  The consistency of the launch and checkpoint tables, and that every launch and checkpoint
  operation keeps it.
\<close>

definition launch_row_ok :: "launch_row \<Rightarrow> bool" where
  "launch_row_ok l =
     ((case ml_state l of
         StatePending \<Rightarrow> ml_pid l = None \<and> ml_exit l = None \<and> ml_ended l = None
       | StateRunning \<Rightarrow> ml_pid l \<noteq> None \<and> ml_exit l = None \<and> ml_ended l = None
       | StateExited \<Rightarrow> ml_pid l \<noteq> None \<and> ml_ended l \<noteq> None \<and>
           (case ml_exit l of None \<Rightarrow> False | Some s \<Rightarrow> ValidProcessStatus s)
       | StateAbandoned \<Rightarrow> ml_exit l = None \<and> ml_ended l \<noteq> None)
      \<and> (case ml_pid l of None \<Rightarrow> True | Some p \<Rightarrow> 0 < p) \<and> ml_checkpoint l \<noteq> Some [])"

definition keys_ok :: "db \<Rightarrow> bool" where
  "keys_ok d \<longleftrightarrow> launch_table.wf (launches d) \<and> distinct (map ml_id (launches d))
     \<and> checkpoint_table.wf (checkpoints d)"

definition pending_on :: "db \<Rightarrow> string \<Rightarrow> launch_row list" where
  "pending_on d c = filter (\<lambda>l. ml_state l = StatePending \<and> ml_checkpoint l = Some c) (launches d)"

text \<open>A checkpoint is being launched exactly while one pending launch holds it, and a running
  launch has used its checkpoint up.\<close>

definition held :: "db \<Rightarrow> bool" where
  "held d \<longleftrightarrow> (\<forall>r\<in>set (checkpoints d). cp_status r = StatusLaunching \<longrightarrow>
     exists_where (\<lambda>l. ml_state l = StatePending \<and> ml_checkpoint l = Some (cp_id r)) (launches d))"

definition reserved :: "db \<Rightarrow> bool" where
  "reserved d \<longleftrightarrow> (\<forall>l\<in>set (launches d). ml_state l = StatePending \<longrightarrow> ml_checkpoint l \<noteq> None \<longrightarrow>
     exists_where (\<lambda>r. ml_checkpoint l = Some (cp_id r) \<and> cp_status r = StatusLaunching) (checkpoints d))"

definition exclusive :: "db \<Rightarrow> bool" where
  "exclusive d \<longleftrightarrow> (\<forall>l\<in>set (launches d). \<forall>m\<in>set (launches d). ml_state l = StatePending \<longrightarrow>
     ml_state m = StatePending \<longrightarrow> ml_checkpoint l \<noteq> None \<longrightarrow> ml_checkpoint l = ml_checkpoint m \<longrightarrow> l = m)"

definition used_up :: "db \<Rightarrow> bool" where
  "used_up d \<longleftrightarrow> (\<forall>l\<in>set (launches d). ml_state l = StateRunning \<longrightarrow> ml_checkpoint l \<noteq> None \<longrightarrow>
     exists_where (\<lambda>r. ml_checkpoint l = Some (cp_id r)
                    \<and> cp_status r \<in> {StatusCompleted, StatusExpired}) (checkpoints d))"

definition handoffs_ok :: "db \<Rightarrow> bool" where
  "handoffs_ok d \<longleftrightarrow> held d \<and> reserved d \<and> exclusive d \<and> used_up d"

definition launch_inv :: "db \<Rightarrow> bool" where
  "launch_inv d \<longleftrightarrow> keys_ok d \<and> (\<forall>l\<in>set (launches d). launch_row_ok l) \<and> handoffs_ok d"

lemma heldD: "held d \<Longrightarrow> r \<in> set (checkpoints d) \<Longrightarrow> cp_status r = StatusLaunching \<Longrightarrow>
    \<exists>l\<in>set (launches d). ml_state l = StatePending \<and> ml_checkpoint l = Some (cp_id r)"
  by (simp add: held_def)

lemma reservedD: "reserved d \<Longrightarrow> l \<in> set (launches d) \<Longrightarrow> ml_state l = StatePending \<Longrightarrow>
    ml_checkpoint l = Some c \<Longrightarrow> \<exists>r\<in>set (checkpoints d). cp_id r = c \<and> cp_status r = StatusLaunching"
  by (fastforce simp: reserved_def)

lemma exclusiveD: "exclusive d \<Longrightarrow> l \<in> set (launches d) \<Longrightarrow> m \<in> set (launches d) \<Longrightarrow>
    ml_state l = StatePending \<Longrightarrow> ml_state m = StatePending \<Longrightarrow> ml_checkpoint l = Some c \<Longrightarrow>
    ml_checkpoint m = Some c \<Longrightarrow> l = m"
  by (simp add: exclusive_def)

lemma used_upD: "used_up d \<Longrightarrow> l \<in> set (launches d) \<Longrightarrow> ml_state l = StateRunning \<Longrightarrow>
    ml_checkpoint l = Some c \<Longrightarrow>
    \<exists>r\<in>set (checkpoints d). cp_id r = c \<and> cp_status r \<in> {StatusCompleted, StatusExpired}"
  by (fastforce simp: used_up_def)

section \<open>One row of each table\<close>

lemma set_update_one:
  assumes "launch_table.wf (launches d)" "lease_in le ss d = Some l"
  shows "set (launches (update_lease le ss f d)) = insert (f l) (set (launches d) - {l})"
proof -
  have l: "l \<in> set (launches d)" "ml_lease l = le" "ml_state l \<in> set ss"
    using lease_in_Some [OF assms(2)] by auto
  then show ?thesis
    unfolding launches_update_lease
    using launch_table.wf_unique [OF assms(1)] by (intro set_upd_one) auto
qed

lemma keys_update:
  assumes "\<And>l. ml_lease (f l) = ml_lease l" "\<And>l. ml_id (f l) = ml_id l"
  shows "keys_ok (update_lease le ss f d) = keys_ok d"
  by (simp add: keys_ok_def launches_update_lease map_upd_where launch_table.wf_def assms)

lemma keys_checkpoint [simp]: "keys_ok (set_checkpoint c s t d) = keys_ok d"
  by (simp add: keys_ok_def checkpoints_set_checkpoint checkpoint_table.wf_def map_upd_where)

lemma in_set_checkpoint:
  "r \<in> set (checkpoints (set_checkpoint c s t d)) \<longleftrightarrow>
     (\<exists>q\<in>set (checkpoints d). r = (if cp_id q = c \<and> cp_status q = s then q\<lparr>cp_status := t\<rparr> else q))"
  by (simp add: checkpoints_set_checkpoint in_upd_where)

lemma cp_unique:
  "keys_ok d \<Longrightarrow> r \<in> set (checkpoints d) \<Longrightarrow> s \<in> set (checkpoints d) \<Longrightarrow> cp_id r = cp_id s \<Longrightarrow> r = s"
  unfolding keys_ok_def by (auto dest: checkpoint_table.wf_unique)

lemma not_running:
  assumes "keys_ok d" "handoffs_ok d" "r \<in> set (checkpoints d)"
    and "cp_status r \<notin> {StatusCompleted, StatusExpired}"
    and "m \<in> set (launches d)" "ml_checkpoint m = Some (cp_id r)"
  shows "ml_state m \<noteq> StateRunning"
proof
  assume "ml_state m = StateRunning"
  with assms(2,5,6) obtain q where q: "q \<in> set (checkpoints d)" "cp_id q = cp_id r"
    "cp_status q \<in> {StatusCompleted, StatusExpired}"
    by (auto simp: handoffs_ok_def dest: used_upD)
  with cp_unique [OF assms(1) q(1) assms(3) q(2)] assms(4) show False by simp
qed

lemma not_pending:
  assumes "keys_ok d" "handoffs_ok d" "r \<in> set (checkpoints d)" "cp_status r \<noteq> StatusLaunching"
    and "m \<in> set (launches d)" "ml_checkpoint m = Some (cp_id r)"
  shows "ml_state m \<noteq> StatePending"
proof
  assume "ml_state m = StatePending"
  with assms(2,5,6) obtain q where q: "q \<in> set (checkpoints d)" "cp_id q = cp_id r"
    "cp_status q = StatusLaunching"
    by (auto simp: handoffs_ok_def dest: reservedD)
  with cp_unique [OF assms(1) q(1) assms(3) q(2)] assms(4) show False by simp
qed

lemma set_checkpoint_one:
  assumes "keys_ok d" "r \<in> set (checkpoints d)" "cp_id r = c" "cp_status r = s"
  shows "set (checkpoints (set_checkpoint c s t d)) = insert (r\<lparr>cp_status := t\<rparr>) (set (checkpoints d) - {r})"
  unfolding checkpoints_set_checkpoint
proof (rule set_upd_one)
  show "q = r" if "q \<in> set (checkpoints d)" "cp_id q = c \<and> cp_status q = s" for q
    using cp_unique [OF assms(1) that(1) assms(2)] that(2) assms(3) by simp
qed (simp_all add: assms)

lemma set_checkpoint_none:
  assumes "\<And>r. r \<in> set (checkpoints d) \<Longrightarrow> cp_id r = c \<Longrightarrow> cp_status r \<noteq> s"
  shows "set_checkpoint c s t d = d"
  using assms by (simp add: set_checkpoint_def upd_where_none)

lemma live_lease_in:
  assumes "keys_ok d" "l \<in> set (launches d)" "ml_state l \<in> set ss"
  shows "lease_in (ml_lease l) ss d = Some l"
proof -
  have "lease_in (ml_lease l) ss d \<noteq> None"
    using assms(2,3) unfolding lease_in_def find_None by auto
  then obtain m where m: "lease_in (ml_lease l) ss d = Some m" by auto
  from lease_in_Some [OF m] assms(1,2) have "m = l"
    unfolding keys_ok_def by (auto dest: launch_table.wf_unique)
  with m show ?thesis by simp
qed

section \<open>Preservation\<close>

text \<open>One launch row appears or moves on, together with its checkpoint.\<close>

lemma handoffs_intro:
  assumes "handoffs_ok d"
    and C: "set (checkpoints d') = insert r' (set (checkpoints d) - {r})" "r \<in> set (checkpoints d)"
      "cp_id r' = cp_id r" "\<And>q. q \<in> set (checkpoints d) \<Longrightarrow> cp_id q = cp_id r \<Longrightarrow> q = r"
    and L: "set (launches d') = insert l' (set (launches d) - M)"
      "ml_checkpoint l' = Some (cp_id r)"
    and free: "\<And>l. l \<in> set (launches d) \<Longrightarrow> l \<notin> M \<Longrightarrow> ml_checkpoint l = Some (cp_id r) \<Longrightarrow>
        ml_state l \<notin> {StatePending, StateRunning}"
    and M: "\<And>l. l \<in> M \<Longrightarrow> ml_checkpoint l = Some (cp_id r)"
    and st: "ml_state l' = StatePending \<longleftrightarrow> cp_status r' = StatusLaunching"
      "ml_state l' = StateRunning \<Longrightarrow> cp_status r' \<in> {StatusCompleted, StatusExpired}"
  shows "handoffs_ok d'"
proof -
  have h: "held d" "reserved d" "exclusive d" "used_up d"
    using assms(1) by (auto simp: handoffs_ok_def)
  have "held d'"
    using heldD [OF h(1)] st C(3,4) L(2) M unfolding held_def exists_where_iff C(1) L(1) by fastforce
  moreover have "reserved d'"
    using h(2) st C L(2) free unfolding reserved_def exists_where_iff C(1) L(1) by fastforce
  moreover have "exclusive d'"
    using h(3) L(2) free unfolding exclusive_def L(1) by fastforce
  moreover have "used_up d'"
    using h(4) st(2) C L(2) free unfolding used_up_def exists_where_iff C(1) L(1) by fastforce
  ultimately show ?thesis by (simp add: handoffs_ok_def)
qed

lemma inv_prepare:
  assumes "launch_inv d" "PrepareLaunch e rq d = (Inr pl, d')"
  shows "launch_inv d'"
  using assms(2)
proof (cases rule: PrepareLaunch_ok)
  case (1 p v home lid lease)
  let ?c = "rq_checkpoint rq" and ?n = "pending_launch rq lid (pr_id p) lease (clock_now e)"
  from assms(1) have k: "keys_ok d" and h: "handoffs_ok d"
    and rows: "\<forall>l\<in>set (launches d). launch_row_ok l"
    by (auto simp: launch_inv_def)
  have n: "ml_state ?n = StatePending" "ml_checkpoint ?n = nullableString ?c" "launch_row_ok ?n"
    "ml_lease ?n = lease" "ml_id ?n = lid"
    by (simp_all add: pending_launch_def launch_row_ok_def)
  have "keys_ok d'"
    using k 1(10) by (auto simp: 1(12) keys_ok_def launch_table.wf_def n claimed_def
        checkpoints_set_checkpoint checkpoint_table.wf_def map_upd_where)
  moreover have "\<forall>l\<in>set (launches d'). launch_row_ok l"
    using rows n by (auto simp: 1(12))
  moreover have "handoffs_ok d'"
  proof (cases "?c = []")
    case True
    with h n show ?thesis
      by (auto simp: 1(12) claimed_def handoffs_ok_def held_def reserved_def exclusive_def used_up_def)
  next
    case False
    obtain r where r: "r \<in> set (checkpoints d)" "cp_id r = ?c" "cp_status r = StatusApproved"
      using checkpoint_hits_pos [OF 1(9) [OF False]] by auto
    have free: "ml_state l \<notin> {StatePending, StateRunning}"
      if "l \<in> set (launches d)" "ml_checkpoint l = Some ?c" for l
    proof -
      have "ml_state l \<noteq> StatePending"
        using not_pending [OF k h r(1) _ that(1)] that(2) r by simp
      moreover have "ml_state l \<noteq> StateRunning"
        using not_running [OF k h r(1) _ that(1)] that(2) r by simp
      ultimately show ?thesis by simp
    qed
    show ?thesis
    proof (rule handoffs_intro)
      show "set (checkpoints d') = insert (r\<lparr>cp_status := StatusLaunching\<rparr>) (set (checkpoints d) - {r})"
        using False by (simp add: 1(12) claimed_def set_checkpoint_one [OF k r])
      show "set (launches d') = insert ?n (set (launches d) - {})" by (auto simp: 1(12))
      show "r \<in> set (checkpoints d)" "handoffs_ok d" by (fact r(1), fact h)
      show "q = r" if "q \<in> set (checkpoints d)" "cp_id q = cp_id r" for q
        using cp_unique [OF k that(1) r(1) that(2)] .
      show "ml_state l \<notin> {StatePending, StateRunning}"
        if "l \<in> set (launches d)" "ml_checkpoint l = Some (cp_id r)" for l
        using free that r(2) by simp
    qed (simp_all add: n r False)
  qed
  ultimately show ?thesis by (simp add: launch_inv_def)
qed

text \<open>A launch row changes and no checkpoint depends on it.\<close>

lemma handoffs_row:
  assumes "handoffs_ok d" "set (checkpoints d') = set (checkpoints d)"
    and L: "set (launches d') = insert l' (set (launches d) - {l})" "ml_checkpoint l' = ml_checkpoint l"
    and free: "ml_checkpoint l = None
       \<or> (ml_state l \<noteq> StatePending \<and> ml_state l' \<notin> {StatePending, StateRunning})"
  shows "handoffs_ok d'"
proof -
  have h: "held d" "reserved d" "exclusive d" "used_up d"
    using assms(1) by (auto simp: handoffs_ok_def)
  have "held d'"
    using heldD [OF h(1)] L(2) free unfolding held_def exists_where_iff assms(2) L(1) by fastforce
  moreover have "reserved d'"
    using h(2) L(2) free unfolding reserved_def exists_where_iff assms(2) L(1) by fastforce
  moreover have "exclusive d'"
    using h(3) L(2) free unfolding exclusive_def L(1) by fastforce
  moreover have "used_up d'"
    using h(4) L(2) free unfolding used_up_def exists_where_iff assms(2) L(1) by fastforce
  ultimately show ?thesis by (simp add: handoffs_ok_def)
qed

lemma inv_started:
  assumes "launch_inv d" "MarkManagedLaunchStarted e lease pid d = (Inr u, d')"
  shows "launch_inv d'"
  using assms(2)
proof (cases rule: MarkManagedLaunchStarted_ok)
  case (1 l)
  let ?f = "\<lambda>r. r\<lparr>ml_state := StateRunning, ml_pid := Some pid\<rparr>"
  let ?d1 = "update_lease lease [StatePending] ?f d"
  from assms(1) have k: "keys_ok d" and h: "handoffs_ok d" and w: "launch_table.wf (launches d)"
    and rows: "\<forall>l\<in>set (launches d). launch_row_ok l"
    by (auto simp: launch_inv_def keys_ok_def)
  have l: "l \<in> set (launches d)" "ml_state l = StatePending"
    using lease_in_Some [OF 1(1)] by auto
  have L: "set (launches ?d1) = insert (?f l) (set (launches d) - {l})"
    by (rule set_update_one [OF w 1(1)])
  have k1: "keys_ok ?d1" using k by (simp add: keys_update)
  have "launches d' = launches ?d1" "keys_ok d'"
    using k1 by (auto simp: 1(4) split: option.splits)
  moreover have "\<forall>m\<in>set (launches ?d1). launch_row_ok m"
    using rows l 1(2) unfolding L by (auto simp: launch_row_ok_def)
  moreover have "handoffs_ok d'"
  proof (cases "ml_checkpoint l")
    case None
    show ?thesis
      by (rule handoffs_row [OF h _ _ _ disjI1 [OF None], of _ "?f l"]) (simp_all add: 1(4) None L)
  next
    case (Some c)
    obtain r where r: "r \<in> set (checkpoints d)" "cp_id r = c" "cp_status r = StatusLaunching"
      using checkpoint_hits_pos [OF 1(3) [OF Some]] by auto
    show ?thesis
    proof (rule handoffs_intro [OF h _ r(1), of _ "r\<lparr>cp_status := StatusCompleted\<rparr>" "?f l" "{l}"])
      show "set (checkpoints d') = insert (r\<lparr>cp_status := StatusCompleted\<rparr>) (set (checkpoints d) - {r})"
        using set_checkpoint_one [of ?d1 r c StatusLaunching StatusCompleted] k1 r
        by (simp add: 1(4) Some)
      show "q = r" if "q \<in> set (checkpoints d)" "cp_id q = cp_id r" for q
        using cp_unique [OF k that(1) r(1) that(2)] .
      show "ml_state m \<notin> {StatePending, StateRunning}"
        if m: "m \<in> set (launches d)" "m \<notin> {l}" "ml_checkpoint m = Some (cp_id r)" for m
      proof -
        have "ml_state m \<noteq> StatePending"
          using exclusiveD [of d m l c] h m l Some r(2) by (auto simp: handoffs_ok_def)
        moreover have "ml_state m \<noteq> StateRunning"
          using not_running [OF k h r(1) _ m(1)] m(3) r by simp
        ultimately show ?thesis by simp
      qed
    qed (use Some r in \<open>simp_all add: 1(4) L\<close>)
  qed
  ultimately show ?thesis by (simp add: launch_inv_def)
qed

lemma inv_exited:
  assumes "launch_inv d" "MarkManagedLaunchExited e lease st d = (Inr u, d')"
  shows "launch_inv d'"
  using assms(2)
proof (cases rule: MarkManagedLaunchExited_ok)
  case (1 l)
  let ?f = "\<lambda>r. r\<lparr>ml_state := StateExited, ml_exit := Some st, ml_ended := Some (clock_now e)\<rparr>"
  from assms(1) have k: "keys_ok d" and h: "handoffs_ok d" and w: "launch_table.wf (launches d)"
    and rows: "\<forall>l\<in>set (launches d). launch_row_ok l"
    by (auto simp: launch_inv_def keys_ok_def)
  have l: "l \<in> set (launches d)" "ml_state l = StateRunning"
    using lease_in_Some [OF 1(1)] by auto
  have L: "set (launches d') = insert (?f l) (set (launches d) - {l})"
    unfolding 1(4) by (rule set_update_one [OF w 1(1)])
  have "keys_ok d'" using k by (simp add: 1(4) keys_update)
  moreover have "\<forall>m\<in>set (launches d'). launch_row_ok m"
    using rows l 1(2) unfolding L by (auto simp: launch_row_ok_def)
  moreover have "handoffs_ok d'"
    by (rule handoffs_row [OF h _ L]) (simp_all add: 1(4) l)
  ultimately show ?thesis by (simp add: launch_inv_def)
qed

subsection \<open>Abandoning\<close>

definition abandoned_row :: "time \<Rightarrow> launch_row \<Rightarrow> launch_row" where
  "abandoned_row t l = l\<lparr>ml_state := StateAbandoned, ml_ended := Some t\<rparr>"

definition live :: "launch_row \<Rightarrow> bool" where
  "live l \<longleftrightarrow> ml_state l = StatePending \<or> ml_state l = StateRunning"

lemma row_ok_abandoned: "launch_row_ok l \<Longrightarrow> live l \<Longrightarrow> launch_row_ok (abandoned_row t l)"
  by (auto simp: launch_row_ok_def abandoned_row_def live_def)

lemma set_reconcile_one:
  assumes "keys_ok d" "l \<in> set (launches d)" "live l"
  shows "set (launches (reconcile_one t d (ml_lease l, ml_checkpoint l))) =
           insert (abandoned_row t l) (set (launches d) - {l})"
proof -
  have "lease_in (ml_lease l) [StatePending, StateRunning] d = Some l"
    using assms by (intro live_lease_in) (auto simp: live_def)
  with assms(1) show ?thesis
    by (auto simp: reconcile_one_def abandon_lease_def abandoned_row_def keys_ok_def
        set_update_one split: option.splits)
qed

lemma inv_abandon:
  assumes "launch_inv d" "l \<in> set (launches d)" "live l"
  shows "launch_inv (reconcile_one t d (ml_lease l, ml_checkpoint l))" (is "launch_inv ?d")
proof -
  from assms(1) have k: "keys_ok d" and h: "handoffs_ok d"
    and rows: "\<forall>l\<in>set (launches d). launch_row_ok l"
    by (auto simp: launch_inv_def)
  let ?d1 = "abandon_lease t (ml_lease l) d"
  have k1: "keys_ok ?d1" using k by (simp add: abandon_lease_def keys_update)
  have L: "set (launches ?d) = insert (abandoned_row t l) (set (launches d) - {l})"
    by (rule set_reconcile_one [OF k assms(2,3)])
  have c1: "checkpoints ?d1 = checkpoints d" by (simp add: abandon_lease_def)
  have "keys_ok ?d"
    using k1 by (auto simp: reconcile_one_def split: option.splits)
  moreover have "\<forall>m\<in>set (launches ?d). launch_row_ok m"
    using rows row_ok_abandoned [OF bspec [OF rows assms(2)] assms(3)] unfolding L by auto
  moreover have "handoffs_ok ?d"
  proof (cases "ml_checkpoint l")
    case None
    show ?thesis
      by (rule handoffs_row [OF h _ L]) (simp_all add: None reconcile_one_def c1 abandoned_row_def)
  next
    case (Some c)
    have ne: "c \<noteq> []" using rows assms(2) Some by (auto simp: launch_row_ok_def)
    have d: "?d = set_checkpoint c StatusLaunching StatusApproved ?d1"
      using ne by (simp add: reconcile_one_def Some)
    show ?thesis
    proof (cases "ml_state l = StatePending")
      case False
      have "cp_status r \<noteq> StatusLaunching" if "r \<in> set (checkpoints d)" "cp_id r = c" for r
        using not_running [OF k h that(1) _ assms(2)] assms(3) False that(2) Some by (auto simp: live_def)
      then have "checkpoints ?d = checkpoints d"
        unfolding d by (subst set_checkpoint_none) (simp_all add: c1)
      then show ?thesis
        by (intro handoffs_row [OF h _ L]) (simp_all add: False abandoned_row_def)
    next
      case True
      then obtain r where r: "r \<in> set (checkpoints d)" "cp_id r = c" "cp_status r = StatusLaunching"
        using reservedD [of d l c] h assms(2) Some by (auto simp: handoffs_ok_def)
      show ?thesis
      proof (rule handoffs_intro [OF h _ r(1) _ _ L])
        show "set (checkpoints ?d) = insert (r\<lparr>cp_status := StatusApproved\<rparr>) (set (checkpoints d) - {r})"
          unfolding d using set_checkpoint_one [OF k1, of r c StatusLaunching StatusApproved] r
          by (simp add: c1)
        show "q = r" if "q \<in> set (checkpoints d)" "cp_id q = cp_id r" for q
          using cp_unique [OF k that(1) r(1) that(2)] .
        show "ml_state m \<notin> {StatePending, StateRunning}"
          if m: "m \<in> set (launches d)" "m \<notin> {l}" "ml_checkpoint m = Some (cp_id r)" for m
          using exclusiveD [of d m l c] not_running [OF k h r(1) _ m(1)] h m r assms(2) True Some
          by (auto simp: handoffs_ok_def)
      qed (use Some r in \<open>simp_all add: abandoned_row_def\<close>)
    qed
  qed
  ultimately show ?thesis by (simp add: launch_inv_def)
qed

lemma inv_abandoned:
  assumes "launch_inv d" "MarkManagedLaunchAbandoned e lease d = (Inr u, d')"
  shows "launch_inv d'"
  using assms(2)
proof (cases rule: MarkManagedLaunchAbandoned_ok)
  case (1 l)
  have l: "l \<in> set (launches d)" "ml_lease l = lease" "live l"
    using lease_in_Some [OF 1(1)] by (auto simp: live_def)
  have "ml_checkpoint l \<noteq> Some []"
    using assms(1) l(1) by (auto simp: launch_inv_def launch_row_ok_def)
  then have "d' = reconcile_one (clock_now e) d (ml_lease l, ml_checkpoint l)"
    by (auto simp: 1(3) l(2) reconcile_one_def split: option.splits)
  with inv_abandon [OF assms(1) l(1,3)] show ?thesis by simp
qed

lemma inv_reconcile_writes:
  assumes "launch_inv d" "set ls \<subseteq> set (launches d)" "\<forall>l\<in>set ls. live l" "distinct (map ml_lease ls)"
  shows "launch_inv (foldl (reconcile_one t) d (map (\<lambda>l. (ml_lease l, ml_checkpoint l)) ls))"
  using assms
proof (induction ls arbitrary: d)
  case (Cons l ls)
  let ?d = "reconcile_one t d (ml_lease l, ml_checkpoint l)"
  have "set (launches ?d) = insert (abandoned_row t l) (set (launches d) - {l})"
    using Cons.prems by (intro set_reconcile_one) (auto simp: launch_inv_def)
  then have "set ls \<subseteq> set (launches ?d)"
    using Cons.prems by (auto simp: image_iff)
  with Cons.IH [of ?d] inv_abandon [of d l t] Cons.prems show ?case
    by simp
qed simp

lemma inv_reconcile:
  assumes "launch_inv d" "ReconcileManagedLaunches e insp d = (Inr u, d')"
  shows "launch_inv d'"
proof -
  have "distinct (map ml_lease (launches d))"
    using assms(1) by (simp add: launch_inv_def keys_ok_def launch_table.wf_def)
  then have "distinct (map ml_lease (filter (lost insp) (live_launches d)))"
    by (simp add: live_launches_def distinct_map_filter)
  then show ?thesis
    unfolding ReconcileManagedLaunches_ok [OF assms(2)]
    by (intro inv_reconcile_writes [OF assms(1)]) (auto simp: live_launches_def live_def)
qed

subsection \<open>Saving and purging checkpoints\<close>

text \<open>The saves the continuation service makes (\<open>Capture\<close>, \<open>Edit\<close>, \<open>Approve\<close>, the expiry in \<open>show\<close>):
  a new checkpoint is a draft; a known one is replaced under the status it was read with, which
  is not being launched, by an expired record, or moves between draft and approved.\<close>

definition save_allowed :: "db \<Rightarrow> checkpoint \<Rightarrow> checkpoint_status option \<Rightarrow> bool" where
  "save_allowed d c expected =
     (case checkpoint_table.lookup (ck_id c) (checkpoints d) of
        None \<Rightarrow> ck_status c = StatusDraft
      | Some r \<Rightarrow>
          (case expected of None \<Rightarrow> False
           | Some st \<Rightarrow> (st \<noteq> StatusLaunching \<and> ck_status c = StatusExpired)
               \<or> (st \<in> {StatusDraft, StatusApproved} \<and> ck_status c \<in> {StatusDraft, StatusApproved})))"

lemma handoffs_save:
  assumes h: "handoffs_ok d" and "checkpoints d' = upsert_checkpoint r (checkpoints d)"
    and L: "launches d' = launches d" and "cp_status r \<noteq> StatusLaunching"
    and free: "\<And>l. l \<in> set (launches d) \<Longrightarrow> ml_checkpoint l = Some (cp_id r) \<Longrightarrow>
        ml_state l \<noteq> StatePending \<and> (ml_state l = StateRunning \<longrightarrow> cp_status r = StatusExpired)"
  shows "handoffs_ok d'"
proof -
  have C: "set (checkpoints d') = insert r {s \<in> set (checkpoints d). cp_id s \<noteq> cp_id r}"
    by (auto simp: assms(2) in_upsert)
  have "held d'"
    using h assms(4) unfolding handoffs_ok_def held_def exists_where_iff C L by blast
  moreover have "reserved d'"
    using h free unfolding handoffs_ok_def reserved_def exists_where_iff C L by fastforce
  moreover have "exclusive d'"
    using h unfolding handoffs_ok_def exclusive_def L by blast
  moreover have "used_up d'"
    using h free unfolding handoffs_ok_def used_up_def exists_where_iff C L by fastforce
  ultimately show ?thesis by (simp add: handoffs_ok_def)
qed

lemma inv_put:
  assumes "launch_inv d" "putCheckpoint e c expected revision d = (Inr u, d')"
    and "save_allowed d c expected"
  shows "launch_inv d'"
  using assms(2)
proof (cases rule: putCheckpoint_ok)
  case (1 v cs)
  let ?r = "checkpoint_row_of c cs"
  from assms(1) have k: "keys_ok d" and h: "handoffs_ok d"
    and rows: "\<forall>l\<in>set (launches d). launch_row_ok l"
    by (auto simp: launch_inv_def)
  have r: "cp_id ?r = ck_id c" "cp_status ?r = ck_status c"
    by (simp_all add: checkpoint_row_of_def)
  have "handoffs_ok d'"
  proof (cases "checkpoint_table.lookup (ck_id c) (checkpoints d)")
    case None
    then have no: "cp_id q \<noteq> ck_id c" if "q \<in> set (checkpoints d)" for q
      using that unfolding checkpoint_table.lookup_None by (metis image_eqI)
    show ?thesis
    proof (rule handoffs_save [OF h, of _ ?r])
      show "ml_state l \<noteq> StatePending \<and> (ml_state l = StateRunning \<longrightarrow> cp_status ?r = StatusExpired)"
        if "l \<in> set (launches d)" "ml_checkpoint l = Some (cp_id ?r)" for l
        using reservedD [of d l "ck_id c"] used_upD [of d l "ck_id c"] h that no
        by (auto simp: handoffs_ok_def r)
    qed (use assms(3) None in \<open>simp_all add: 1(4) r save_allowed_def\<close>)
  next
    case (Some q)
    then have q: "q \<in> set (checkpoints d)" "cp_id q = ck_id c"
      by (auto dest: checkpoint_table.lookup_SomeD)
    from assms(3) Some obtain st where st: "expected = Some st"
      by (auto simp: save_allowed_def split: option.splits)
    have qs: "cp_status q = st"
      using expectation_None [OF 1(3) [unfolded st]] Some by auto
    have sv: "(st \<noteq> StatusLaunching \<and> ck_status c = StatusExpired)
               \<or> (st \<in> {StatusDraft, StatusApproved} \<and> ck_status c \<in> {StatusDraft, StatusApproved})"
      using assms(3) Some st by (simp add: save_allowed_def)
    then have nl: "cp_status q \<noteq> StatusLaunching" using qs by auto
    show ?thesis
    proof (rule handoffs_save [OF h, of _ ?r])
      show "ml_state l \<noteq> StatePending \<and> (ml_state l = StateRunning \<longrightarrow> cp_status ?r = StatusExpired)"
        if l: "l \<in> set (launches d)" "ml_checkpoint l = Some (cp_id ?r)" for l
      proof
        show "ml_state l \<noteq> StatePending"
          using not_pending [OF k h q(1) nl l(1)] l(2) q(2) r by simp
        show "ml_state l = StateRunning \<longrightarrow> cp_status ?r = StatusExpired"
          using not_running [OF k h q(1) _ l(1)] l(2) q(2) r qs sv by auto
      qed
    qed (use sv in \<open>auto simp: 1(4) r\<close>)
  qed
  moreover have "keys_ok d'"
    using k by (simp add: 1(4) keys_ok_def upsert_wf)
  moreover have "launches d' = launches d" by (simp add: 1(4))
  ultimately show ?thesis using rows by (simp add: launch_inv_def)
qed

lemma inv_purge_checkpoint:
  assumes "launch_inv d" "PurgeCheckpoint e c revision d = (Inr u, d')"
  shows "launch_inv d'"
proof -
  let ?f = "\<lambda>l. l\<lparr>ml_checkpoint := None, ml_revision := None\<rparr>"
  note d' = PurgeCheckpoint_ok(1) [OF assms(2)]
  note dead = PurgeCheckpoint_ok(3) [OF assms(2)]
  from assms(1) have k: "keys_ok d" and h: "handoffs_ok d"
    and rows: "\<forall>l\<in>set (launches d). launch_row_ok l"
    by (auto simp: launch_inv_def)
  have L: "l \<in> set (launches d') \<longleftrightarrow> (\<exists>m\<in>set (launches d). l = (if ml_checkpoint m = Some c then ?f m else m))"
    for l by (simp add: d' in_upd_where)
  have C: "set (checkpoints d') = {r \<in> set (checkpoints d). cp_id r \<noteq> c}"
    by (simp add: d')
  have live_same: "l \<in> set (launches d) \<and> ml_checkpoint l \<noteq> Some c"
    if "l \<in> set (launches d')" "ml_state l \<in> {StatePending, StateRunning}" for l
    using that dead unfolding L by (auto split: if_splits)
  have same_live: "l \<in> set (launches d')"
    if "l \<in> set (launches d)" "ml_state l \<in> {StatePending, StateRunning}" for l
    using that dead unfolding L by auto
  have "keys_ok d'"
    using k by (simp add: d' keys_ok_def launch_table.wf_def map_upd_where checkpoint_table.wf_del)
  moreover have "\<forall>l\<in>set (launches d'). launch_row_ok l"
  proof
    fix l assume "l \<in> set (launches d')"
    then obtain m where m: "m \<in> set (launches d)" "l = (if ml_checkpoint m = Some c then ?f m else m)"
      unfolding L by auto
    from rows m(1) have "launch_row_ok m" by simp
    moreover have "launch_row_ok (?f m)"
      using \<open>launch_row_ok m\<close> by (cases "ml_state m") (simp_all add: launch_row_ok_def)
    ultimately show "launch_row_ok l" by (simp add: m(2))
  qed
  moreover have "held d'"
    using h same_live unfolding handoffs_ok_def held_def exists_where_iff C by blast
  moreover have "reserved d'"
    using h live_same unfolding handoffs_ok_def reserved_def exists_where_iff C by fastforce
  moreover have "exclusive d'"
    using h live_same unfolding handoffs_ok_def exclusive_def by blast
  moreover have "used_up d'"
    using h live_same unfolding handoffs_ok_def used_up_def exists_where_iff C by fastforce
  ultimately show ?thesis by (simp add: launch_inv_def handoffs_ok_def)
qed

lemmas launch_inv_ops =
  inv_prepare inv_started inv_exited inv_abandoned inv_reconcile inv_put inv_purge_checkpoint

end
