(* ===== verification/Launch_Workflow.thy ===== *)
theory Launch_Workflow
  imports Launch_Invariants
begin

text \<open>
  \<^verbatim>\<open>internal/launch/protocol.go\<close>: the workflow that validates a request and forwards it to a
  repository, and the life of a lease. \<open>lease_repository\<close> states the contract a repository offers
  the workflow; the store of \<open>Launch_Store\<close> is shown to provide it.
\<close>

section \<open>Requests\<close>

definition hex_digit :: "char \<Rightarrow> bool" where
  "hex_digit c \<longleftrightarrow>
     (let n = (of_char c :: nat)
      in (48 \<le> n \<and> n \<le> 57) \<or> (97 \<le> n \<and> n \<le> 102) \<or> (65 \<le> n \<and> n \<le> 70))"

fun session_bytes :: "nat \<Rightarrow> string \<Rightarrow> bool" where
  "session_bytes i [] = True"
| "session_bytes i (c # cs) =
     (if i = 8 \<or> i = 13 \<or> i = 18 \<or> i = 23 then session_bytes (Suc i) cs
      else if \<not> hex_digit c then False
      else session_bytes (Suc i) cs)"

definition validSessionID :: "string \<Rightarrow> bool" where
  "validSessionID value =
     (if length value \<noteq> 36 \<or> value ! 8 \<noteq> CHR ''-'' \<or> value ! 13 \<noteq> CHR ''-''
         \<or> value ! 18 \<noteq> CHR ''-'' \<or> value ! 23 \<noteq> CHR ''-''
      then False else session_bytes 0 value)"

definition ResumeSessionID :: "string list \<Rightarrow> string" where
  "ResumeSessionID arguments =
     (if length arguments < 2 \<or> arguments ! 0 \<noteq> ''resume'' \<or> \<not> validSessionID (arguments ! 1)
      then [] else ToLower (arguments ! 1))"

definition validatePrepareRequest :: "prepare_request \<Rightarrow> err option" where
  "validatePrepareRequest rq =
     (case ValidateAlias (rq_alias rq) of
        Some x \<Rightarrow> Some x
      | None \<Rightarrow>
          if blank (rq_executable rq) \<or> \<not> IsAbs (rq_executable rq) then Some plan_invalid
          else if blank (rq_directory rq) \<or> \<not> IsAbs (rq_directory rq) then Some plan_invalid
          else let checkpointCount = length (filter (\<lambda>v. \<not> blank v)
                     [rq_checkpoint rq, rq_revision rq, rq_source rq, rq_boot rq])
          in if checkpointCount \<noteq> 0 \<and> (checkpointCount \<noteq> 4 \<or> blank (rq_project rq))
             then Some plan_invalid else None)"

section \<open>The workflow\<close>

text \<open>The interface \<open>Repository\<close>; \<open>'e\<close> is what a call takes from its surroundings and \<open>'s\<close> the
  repository's state.\<close>

record ('e, 's) repository =
  prepare_launch :: "'e \<Rightarrow> prepare_request \<Rightarrow> 's \<Rightarrow> (err + plan) \<times> 's"
  mark_started :: "'e \<Rightarrow> string \<Rightarrow> int \<Rightarrow> 's \<Rightarrow> (err + unit) \<times> 's"
  mark_exited :: "'e \<Rightarrow> string \<Rightarrow> int \<Rightarrow> 's \<Rightarrow> (err + unit) \<times> 's"
  mark_abandoned :: "'e \<Rightarrow> string \<Rightarrow> 's \<Rightarrow> (err + unit) \<times> 's"
  reconcile :: "'e \<Rightarrow> inspector option \<Rightarrow> 's \<Rightarrow> (err + unit) \<times> 's"

definition Prepare ::
  "('e, 's) repository \<Rightarrow> 'e \<Rightarrow> prepare_request \<Rightarrow> 's \<Rightarrow> (err + plan) \<times> 's" where
  "Prepare repo e rq s =
     (case validatePrepareRequest rq of
        Some x \<Rightarrow> (Inl x, s)
      | None \<Rightarrow> prepare_launch repo e (rq\<lparr>rq_session := ResumeSessionID (rq_arguments rq)\<rparr>) s)"

definition Reconcile ::
  "('e, 's) repository \<Rightarrow> 'e \<Rightarrow> inspector option \<Rightarrow> 's \<Rightarrow> (err + unit) \<times> 's" where
  "Reconcile repo e insp s = reconcile repo e insp s"

definition MarkStarted ::
  "('e, 's) repository \<Rightarrow> 'e \<Rightarrow> string \<Rightarrow> int \<Rightarrow> 's \<Rightarrow> (err + unit) \<times> 's" where
  "MarkStarted repo e lease pid s =
     (if blank lease \<or> pid \<le> 0 then (Inl lease_invalid, s) else mark_started repo e lease pid s)"

definition MarkExited ::
  "('e, 's) repository \<Rightarrow> 'e \<Rightarrow> string \<Rightarrow> int \<Rightarrow> 's \<Rightarrow> (err + unit) \<times> 's" where
  "MarkExited repo e lease st s =
     (if blank lease then (Inl lease_invalid, s)
      else if \<not> ValidProcessStatus st
      then (Inl (New LaunchProcessStatusInvalid (plain ErrProcessStatusInvalid)), s)
      else mark_exited repo e lease st s)"

definition MarkAbandoned ::
  "('e, 's) repository \<Rightarrow> 'e \<Rightarrow> string \<Rightarrow> 's \<Rightarrow> (err + unit) \<times> 's" where
  "MarkAbandoned repo e lease s =
     (if blank lease then (Inl lease_invalid, s) else mark_abandoned repo e lease s)"

text \<open>The calls on one workflow, and a sequence of them, whatever each call answers.\<close>

datatype 'e request =
    CPrepare 'e prepare_request | CStarted 'e string int | CExited 'e string int
  | CAbandoned 'e string | CReconcile 'e "inspector option"

fun apply_call :: "('e, 's) repository \<Rightarrow> 'e request \<Rightarrow> 's \<Rightarrow> 's" where
  "apply_call repo (CPrepare e rq) s = snd (Prepare repo e rq s)"
| "apply_call repo (CStarted e lease pid) s = snd (MarkStarted repo e lease pid s)"
| "apply_call repo (CExited e lease st) s = snd (MarkExited repo e lease st s)"
| "apply_call repo (CAbandoned e lease) s = snd (MarkAbandoned repo e lease s)"
| "apply_call repo (CReconcile e insp) s = snd (Reconcile repo e insp s)"

definition calls :: "('e, 's) repository \<Rightarrow> 'e request list \<Rightarrow> 's \<Rightarrow> 's" where
  "calls repo cs s = foldl (\<lambda>s c. apply_call repo c s) s cs"

section \<open>The life of a lease\<close>

text \<open>The abstract machine of one lease; \<open>None\<close> is a lease not yet granted.\<close>

inductive lease_step :: "launch_state option \<Rightarrow> launch_state option \<Rightarrow> bool" where
  grant: "lease_step None (Some StatePending)"
| start: "lease_step (Some StatePending) (Some StateRunning)"
| exit: "lease_step (Some StateRunning) (Some StateExited)"
| drop_pending: "lease_step (Some StatePending) (Some StateAbandoned)"
| drop_running: "lease_step (Some StateRunning) (Some StateAbandoned)"

code_pred lease_step .

inductive_cases lease_step_terminal:
  "lease_step (Some StateExited) s" "lease_step (Some StateAbandoned) s"

lemma terminal_stuck:
  "lease_step\<^sup>*\<^sup>* (Some s) t \<Longrightarrow> s \<in> {StateExited, StateAbandoned} \<Longrightarrow> t = Some s"
  by (induction rule: rtranclp_induct) (auto elim: lease_step_terminal)

lemma granted_stays: "lease_step\<^sup>*\<^sup>* s t \<Longrightarrow> s \<noteq> None \<Longrightarrow> t \<noteq> None"
  by (induction rule: rtranclp_induct) (auto elim: lease_step.cases)

section \<open>The contract of a repository\<close>

locale lease_repository =
  fixes repo :: "('e, 's) repository"
    and state_of :: "'s \<Rightarrow> string \<Rightarrow> launch_state option"
    and inv :: "'s \<Rightarrow> bool"
  assumes errors:
      "prepare_launch repo e rq s = (Inl x, s') \<Longrightarrow> s' = s"
      "mark_started repo e lease pid s = (Inl x, s') \<Longrightarrow> s' = s"
      "mark_exited repo e lease st s = (Inl x, s') \<Longrightarrow> s' = s"
      "mark_abandoned repo e lease s = (Inl x, s') \<Longrightarrow> s' = s"
      "reconcile repo e insp s = (Inl x, s') \<Longrightarrow> s' = s"
    and prepared: "inv s \<Longrightarrow> prepare_launch repo e rq s = (Inr pl, s') \<Longrightarrow>
      inv s' \<and> state_of s (pl_lease pl) = None \<and> state_of s' = (state_of s)(pl_lease pl \<mapsto> StatePending)"
    and started: "inv s \<Longrightarrow> mark_started repo e lease pid s = (Inr u, s') \<Longrightarrow>
      inv s' \<and> state_of s lease = Some StatePending \<and> state_of s' = (state_of s)(lease \<mapsto> StateRunning)"
    and exited: "inv s \<Longrightarrow> mark_exited repo e lease st s = (Inr u, s') \<Longrightarrow>
      inv s' \<and> state_of s lease = Some StateRunning \<and> state_of s' = (state_of s)(lease \<mapsto> StateExited)"
    and abandoned: "inv s \<Longrightarrow> mark_abandoned repo e lease s = (Inr u, s') \<Longrightarrow>
      inv s' \<and> state_of s lease \<in> {Some StatePending, Some StateRunning}
      \<and> state_of s' = (state_of s)(lease \<mapsto> StateAbandoned)"
    and reconciled: "inv s \<Longrightarrow> reconcile repo e insp s = (Inr u, s') \<Longrightarrow>
      inv s' \<and> (\<forall>lease. state_of s' lease = state_of s lease
        \<or> (state_of s lease \<in> {Some StatePending, Some StateRunning}
           \<and> state_of s' lease = Some StateAbandoned))"
begin

definition advances :: "'s \<Rightarrow> 's \<Rightarrow> bool" where
  "advances s s' \<longleftrightarrow> inv s' \<and> (\<forall>lease. state_of s' lease = state_of s lease
     \<or> lease_step (state_of s lease) (state_of s' lease))"

lemma advances_refl: "inv s \<Longrightarrow> advances s s"
  by (simp add: advances_def)

lemma call_advances:
  assumes "inv s"
  shows "advances s (apply_call repo c s)"
proof (cases c)
  case (CPrepare e rq)
  let ?rq = "rq\<lparr>rq_session := ResumeSessionID (rq_arguments rq)\<rparr>"
  obtain r s' where r: "prepare_launch repo e ?rq s = (r, s')" by fastforce
  with CPrepare show ?thesis
    using errors(1) [of e ?rq s] prepared [OF assms, of e ?rq] advances_refl [OF assms]
    by (cases r) (auto simp: Prepare_def advances_def lease_step.simps split: option.splits)
next
  case (CStarted e lease pid)
  obtain r s' where r: "mark_started repo e lease pid s = (r, s')" by fastforce
  with CStarted show ?thesis
    using errors(2) [of e lease pid s] started [OF assms, of e lease pid] advances_refl [OF assms]
    by (cases r) (auto simp: MarkStarted_def advances_def lease_step.simps)
next
  case (CExited e lease st)
  obtain r s' where r: "mark_exited repo e lease st s = (r, s')" by fastforce
  with CExited show ?thesis
    using errors(3) [of e lease st s] exited [OF assms, of e lease st] advances_refl [OF assms]
    by (cases r) (auto simp: MarkExited_def advances_def lease_step.simps)
next
  case (CAbandoned e lease)
  obtain r s' where r: "mark_abandoned repo e lease s = (r, s')" by fastforce
  with CAbandoned show ?thesis
    using errors(4) [of e lease s] abandoned [OF assms, of e lease] advances_refl [OF assms]
    by (cases r) (auto simp: MarkAbandoned_def advances_def lease_step.simps)
next
  case (CReconcile e insp)
  obtain r s' where r: "reconcile repo e insp s = (r, s')" by fastforce
  show ?thesis
  proof (cases r)
    case (Inl x)
    with r CReconcile errors(5) [of e insp s] advances_refl [OF assms] show ?thesis
      by (simp add: Reconcile_def)
  next
    case (Inr u)
    with r CReconcile reconciled [OF assms, of e insp] show ?thesis
      by (simp add: Reconcile_def advances_def lease_step.simps) metis
  qed
qed

lemma calls_refine:
  assumes "inv s"
  shows "inv (calls repo cs s) \<and> lease_step\<^sup>*\<^sup>* (state_of s lease) (state_of (calls repo cs s) lease)"
  using assms
proof (induction cs arbitrary: s)
  case (Cons c cs)
  have a: "advances s (apply_call repo c s)" by (rule call_advances [OF Cons.prems])
  then have i: "inv (apply_call repo c s)" by (simp add: advances_def)
  from a have "lease_step\<^sup>*\<^sup>* (state_of s lease) (state_of (apply_call repo c s) lease)"
    unfolding advances_def by (metis r_into_rtranclp rtranclp.rtrancl_refl)
  with Cons.IH [OF i] show ?case
    by (auto simp: calls_def intro: rtranclp_trans)
qed (simp add: calls_def)

lemma terminal_final:
  assumes "inv s" "state_of s lease = Some st" "st \<in> {StateExited, StateAbandoned}"
  shows "state_of (calls repo cs s) lease = Some st"
  using calls_refine [OF assms(1), where lease = lease and cs = cs] terminal_stuck [of st] assms(2,3) by simp

end

section \<open>The store is such a repository\<close>

definition store_repository :: "(env, db) repository" where
  "store_repository =
     \<lparr>prepare_launch = PrepareLaunch, mark_started = MarkManagedLaunchStarted,
      mark_exited = MarkManagedLaunchExited, mark_abandoned = MarkManagedLaunchAbandoned,
      reconcile = ReconcileManagedLaunches\<rparr>"

definition lease_state :: "db \<Rightarrow> string \<Rightarrow> launch_state option" where
  "lease_state d lease = map_option ml_state (launch_table.lookup lease (launches d))"

lemma store_repository_sel [simp]:
  "prepare_launch store_repository = PrepareLaunch"
  "mark_started store_repository = MarkManagedLaunchStarted"
  "mark_exited store_repository = MarkManagedLaunchExited"
  "mark_abandoned store_repository = MarkManagedLaunchAbandoned"
  "reconcile store_repository = ReconcileManagedLaunches"
  by (simp_all add: store_repository_def)

lemma lease_state_append:
  "launches d' = launches d @ [l] \<Longrightarrow> ml_lease l \<notin> ml_lease ` set (launches d) \<Longrightarrow>
     lease_state d (ml_lease l) = None \<and> lease_state d' = (lease_state d)(ml_lease l \<mapsto> ml_state l)"
proof -
  assume L: "launches d' = launches d @ [l]" and "ml_lease l \<notin> ml_lease ` set (launches d)"
  then have "launch_table.lookup (ml_lease l) (launches d) = None"
    by (simp add: launch_table.lookup_None)
  with L show ?thesis
    by (auto simp: lease_state_def launch_table.lookup_insert fun_eq_iff split: option.splits)
qed

lemma lease_state_update:
  assumes "launch_inv d" "lease_in lease ss d = Some l" "\<And>m. ml_lease (f m) = ml_lease m"
    and "\<And>m. ml_state (f m) = st" and "launches d' = launches (update_lease lease ss f d)"
  shows "lease_state d lease = Some (ml_state l)" "lease_state d' = (lease_state d)(lease \<mapsto> st)"
proof -
  have w: "launch_table.wf (launches d)" using assms(1) by (simp add: launch_inv_def keys_ok_def)
  have l: "l \<in> set (launches d)" "ml_lease l = lease" "ml_state l \<in> set ss"
    using lease_in_Some [OF assms(2)] by auto
  have lk: "launch_table.lookup lease (launches d) = Some l"
    using launch_table.lookup_SomeI [OF w l(1)] l(2) by simp
  then show "lease_state d lease = Some (ml_state l)" by (simp add: lease_state_def)
  have upd: "launch_table.lookup k (launches d') =
      map_option (\<lambda>m. if ml_lease m = lease \<and> ml_state m \<in> set ss then f m else m)
        (launch_table.lookup k (launches d))" for k
    by (simp add: assms(3,5) launches_update_lease launch_table.lookup_def find_upd_where)
  show "lease_state d' = (lease_state d)(lease \<mapsto> st)"
  proof (rule ext)
    fix k
    show "lease_state d' k = ((lease_state d)(lease \<mapsto> st)) k"
      using lk l(2,3) assms(4) unfolding lease_state_def upd
      by (cases "launch_table.lookup k (launches d)") (auto dest: launch_table.lookup_SomeD)
  qed
qed

lemma store_prepared:
  assumes "launch_inv d" "PrepareLaunch e rq d = (Inr pl, d')"
  shows "lease_state d (pl_lease pl) = None \<and> lease_state d' = (lease_state d)(pl_lease pl \<mapsto> StatePending)"
  using assms(2)
proof (cases rule: PrepareLaunch_ok)
  case (1 p v home lid lease)
  then show ?thesis
    using lease_state_append [of d' d "pending_launch rq lid (pr_id p) lease (clock_now e)"]
    by (auto simp: pending_launch_def planned_def)
qed

lemma store_started:
  assumes "launch_inv d" "MarkManagedLaunchStarted e lease pid d = (Inr u, d')"
  shows "lease_state d lease = Some StatePending \<and> lease_state d' = (lease_state d)(lease \<mapsto> StateRunning)"
  using assms(2)
proof (cases rule: MarkManagedLaunchStarted_ok)
  case (1 l)
  show ?thesis
    using lease_state_update [OF assms(1) 1(1), of "\<lambda>r. r\<lparr>ml_state := StateRunning, ml_pid := Some pid\<rparr>"
        StateRunning d'] lease_in_Some [OF 1(1)]
    by (auto simp: 1(4) split: option.splits)
qed

lemma store_exited:
  assumes "launch_inv d" "MarkManagedLaunchExited e lease st d = (Inr u, d')"
  shows "lease_state d lease = Some StateRunning \<and> lease_state d' = (lease_state d)(lease \<mapsto> StateExited)"
  using assms(2)
proof (cases rule: MarkManagedLaunchExited_ok)
  case (1 l)
  show ?thesis
    using lease_state_update [OF assms(1) 1(1) _ _ arg_cong [OF 1(4), of launches]] lease_in_Some [OF 1(1)]
    by simp
qed

lemma store_abandoned:
  assumes "launch_inv d" "MarkManagedLaunchAbandoned e lease d = (Inr u, d')"
  shows "lease_state d lease \<in> {Some StatePending, Some StateRunning}
    \<and> lease_state d' = (lease_state d)(lease \<mapsto> StateAbandoned)"
  using assms(2)
proof (cases rule: MarkManagedLaunchAbandoned_ok)
  case (1 l)
  show ?thesis
    using lease_state_update [OF assms(1) 1(1), of "\<lambda>r. r\<lparr>ml_state := StateAbandoned, ml_ended := Some (clock_now e)\<rparr>"
        StateAbandoned d'] lease_in_Some [OF 1(1)]
    by (auto simp: 1(3) abandon_lease_def split: option.splits)
qed

lemma lease_state_abandon:
  assumes "launch_inv d" "l \<in> set (launches d)" "live l"
  shows "lease_state d (ml_lease l) = Some (ml_state l)"
    "lease_state (reconcile_one t d (ml_lease l, ml_checkpoint l)) = (lease_state d)(ml_lease l \<mapsto> StateAbandoned)"
proof -
  have "lease_in (ml_lease l) [StatePending, StateRunning] d = Some l"
    using assms by (intro live_lease_in) (auto simp: live_def launch_inv_def)
  note u = lease_state_update [OF assms(1) this, of "\<lambda>r. r\<lparr>ml_state := StateAbandoned, ml_ended := Some t\<rparr>"
      StateAbandoned "reconcile_one t d (ml_lease l, ml_checkpoint l)"]
  show "lease_state d (ml_lease l) = Some (ml_state l)"
    "lease_state (reconcile_one t d (ml_lease l, ml_checkpoint l)) = (lease_state d)(ml_lease l \<mapsto> StateAbandoned)"
    using u by (auto simp: reconcile_one_def abandon_lease_def split: option.splits)
qed

lemma store_reconcile_writes:
  assumes "launch_inv d" "set ls \<subseteq> set (launches d)" "\<forall>l\<in>set ls. live l" "distinct (map ml_lease ls)"
  shows "lease_state (foldl (reconcile_one t) d (map (\<lambda>l. (ml_lease l, ml_checkpoint l)) ls)) =
           (\<lambda>k. if k \<in> ml_lease ` set ls then Some StateAbandoned else lease_state d k)"
  using assms
proof (induction ls arbitrary: d)
  case (Cons l ls)
  let ?d = "reconcile_one t d (ml_lease l, ml_checkpoint l)"
  have "set (launches ?d) = insert (abandoned_row t l) (set (launches d) - {l})"
    using Cons.prems by (intro set_reconcile_one) (auto simp: launch_inv_def)
  then have "set ls \<subseteq> set (launches ?d)"
    using Cons.prems by (auto simp: image_iff)
  with Cons.IH [of ?d] inv_abandon [of d l t] Cons.prems lease_state_abandon(2) [of d l t] show ?case
    by (auto simp: fun_eq_iff)
qed simp

lemma store_reconciled:
  assumes "launch_inv d" "ReconcileManagedLaunches e insp d = (Inr u, d')"
  shows "lease_state d' = (\<lambda>k. if k \<in> ml_lease ` {l \<in> set (live_launches d). lost insp l}
           then Some StateAbandoned else lease_state d k)"
proof -
  have "distinct (map ml_lease (launches d))"
    using assms(1) by (simp add: launch_inv_def keys_ok_def launch_table.wf_def)
  then have "distinct (map ml_lease (filter (lost insp) (live_launches d)))"
    by (simp add: live_launches_def distinct_map_filter)
  then have "lease_state d' = (\<lambda>k. if k \<in> ml_lease ` set (filter (lost insp) (live_launches d))
      then Some StateAbandoned else lease_state d k)"
    unfolding ReconcileManagedLaunches_ok [OF assms(2)]
    by (intro store_reconcile_writes [OF assms(1)]) (auto simp: live_launches_def live_def)
  then show ?thesis by simp
qed

lemma live_lease_state:
  "launch_inv d \<Longrightarrow> l \<in> set (live_launches d) \<Longrightarrow>
     lease_state d (ml_lease l) \<in> {Some StatePending, Some StateRunning}"
  using lease_state_abandon(1) [of d l] by (auto simp: live_launches_def live_def)

interpretation store_leases: lease_repository store_repository lease_state launch_inv
proof
  show "launch_inv d' \<and> (\<forall>lease. lease_state d' lease = lease_state d lease
        \<or> (lease_state d lease \<in> {Some StatePending, Some StateRunning}
           \<and> lease_state d' lease = Some StateAbandoned))"
    if "launch_inv d" "reconcile store_repository e insp d = (Inr u, d')" for d e insp u d'
  proof -
    from that have r: "ReconcileManagedLaunches e insp d = (Inr u, d')" by simp
    show ?thesis
      unfolding store_reconciled [OF that(1) r]
      using inv_reconcile [OF that(1) r] live_lease_state [OF that(1)] by auto
  qed
qed (auto simp: launch_errors store_prepared store_started store_exited
     intro: launch_inv_ops dest: store_abandoned)

end
