(* ===== verification/Profile_Store.thy ===== *)
theory Profile_Store
  imports Store_State Alias
begin

text \<open>
  \<^verbatim>\<open>internal/store/profiles.go\<close>: the profile tables and the operations the setup workflow, the
  registry and the selector use. The row columns \<open>updated_at\<close> are not kept, except the one of
  \<open>identity_profiles\<close>, which is read back.
\<close>

section \<open>Values\<close>

record identity_profile =
  ip_id :: string
  ip_alias :: string
  ip_display_name :: string
  ip_email :: string
  ip_workspace :: string
  ip_status :: status
  ip_home :: string
  ip_ownership :: ownership
  ip_method :: auth_method
  ip_selected :: bool
  ip_created :: time
  ip_updated :: time
  ip_home_path :: string

record setup_stages =
  ss_discovery :: bool
  ss_home :: bool
  ss_authentication :: bool
  ss_validation :: bool
  ss_selection :: bool

record pending_profile =
  pp_id :: string
  pp_alias :: string
  pp_display_name :: string
  pp_status :: status
  pp_home :: string
  pp_ownership :: ownership
  pp_method :: auth_method
  pp_stages :: setup_stages
  pp_home_path :: string

record profile_edits =
  ed_alias :: "string option"
  ed_display_name :: "string option"
  ed_email :: "string option"
  ed_workspace :: "string option"

record documented_metadata =
  dm_login :: string
  dm_workspace :: string

datatype setup_stage =
    StageDiscovery | StageHome | StageAuthentication | StageValidation | StageSelection
  | StageOther string

definition state_write :: err where "state_write = write_failed ErrProfileState"
definition state_read :: err where "state_read = read_failed ErrProfileState"

definition setup_invalid :: "sentinel \<Rightarrow> err" where
  "setup_invalid s = New ProfileSetupInvalid (plain s)"

definition profile_home_invalid :: err where
  "profile_home_invalid = New ProfileHomeInvalid (plain ErrHomeInvalid)"

definition validProfileStatus :: "status \<Rightarrow> bool" where
  "validProfileStatus s \<longleftrightarrow>
     s = StatusPending \<or> s = StatusReady \<or> s = StatusNeedsReauthentication \<or> s = StatusUnavailable"

definition validStoredAuthMethod :: "auth_method \<Rightarrow> bool" where
  "validStoredAuthMethod m \<longleftrightarrow> m = AuthMethodUnset \<or> m = AuthMethodAutomatic
     \<or> m = AuthMethodBrowser \<or> m = AuthMethodDeviceCode"

definition storedAuthMethod :: "auth_method \<Rightarrow> auth_method" where
  "storedAuthMethod m =
     (if \<not> validStoredAuthMethod m \<or> m = AuthMethodUnset then AuthMethodAutomatic else m)"

section \<open>Reading profiles\<close>

definition alias_of :: "db \<Rightarrow> string \<Rightarrow> string option" where
  "alias_of d i = map_option al_alias (find (\<lambda>a. al_profile a = i) (aliases d))"

definition is_selected :: "db \<Rightarrow> string \<Rightarrow> bool" where
  "is_selected d i \<longleftrightarrow> selected d = Some (Some i)"

text \<open>One row of the profile queries: the columns joined with \<open>identity_homes\<close> and
  \<open>selected_profile\<close>, as \<open>scanIdentityProfile\<close> reads them; \<open>None\<close> when a timestamp does not parse.\<close>

definition scanIdentityProfile :: "db \<Rightarrow> profile_row \<Rightarrow> string \<Rightarrow> identity_profile option" where
  "scanIdentityProfile d p a =
     (if parseStoredTime (pr_created p) = None \<or> parseStoredTime (pr_updated p) = None then None
      else Some
        \<lparr>ip_id = pr_id p, ip_alias = a, ip_display_name = pr_display_name p, ip_email = pr_email p,
         ip_workspace = pr_workspace p, ip_status = pr_status p,
         ip_home = (case pr_home p of None \<Rightarrow> [] | Some h \<Rightarrow> h),
         ip_ownership = (case home_of d p of None \<Rightarrow> HomeOwnershipUnset | Some h \<Rightarrow> ho_ownership h),
         ip_method = storedAuthMethod (pr_method p), ip_selected = is_selected d (pr_id p),
         ip_created = pr_created p, ip_updated = pr_updated p, ip_home_path = []\<rparr>)"

text \<open>The alias is left-joined: a profile without one makes the scan of a \<open>NULL\<close> fail.\<close>

definition getIdentityProfile :: "env \<Rightarrow> nat \<Rightarrow> db \<Rightarrow> string \<Rightarrow> err + identity_profile" where
  "getIdentityProfile e n d i =
     (if db_fails e (Query n) then Inl state_read
      else case profile_table.lookup i (profiles d) of
        None \<Rightarrow> Inl (plain ErrNotFound)
      | Some p \<Rightarrow>
          (case alias_of d i of
             None \<Rightarrow> Inl state_read
           | Some a \<Rightarrow>
               (case scanIdentityProfile d p a of None \<Rightarrow> Inl state_read | Some r \<Rightarrow> Inr r)))"

definition populateIdentityHomePath ::
  "env \<Rightarrow> nat \<Rightarrow> db \<Rightarrow> identity_profile \<Rightarrow> err + identity_profile" where
  "populateIdentityHomePath e n d item =
     (if ip_home item = [] then Inr item
      else case requireVault e of
        Inl x \<Rightarrow> Inl x
      | Inr v \<Rightarrow>
          if db_fails e (Query n) then Inl state_read
          else case find (\<lambda>h. ho_id h = ip_home item) (homes d) of
            None \<Rightarrow> Inl profile_home_invalid
          | Some h \<Rightarrow>
              (case decryptField v (ho_location h) (identityHomeAAD (ip_home item)) of
                 Inl x \<Rightarrow> Inl x
               | Inr path \<Rightarrow>
                   if \<not> IsAbs (Clean path) then Inl profile_home_invalid
                   else Inr (item\<lparr>ip_home_path := Clean path\<rparr>)))"

definition read_profile :: "env \<Rightarrow> nat \<Rightarrow> db \<Rightarrow> string \<Rightarrow> err + identity_profile" where
  "read_profile e n d i =
     (case getIdentityProfile e n d i of
        Inl x \<Rightarrow> Inl x
      | Inr item \<Rightarrow> populateIdentityHomePath e (Suc n) d item)"

text \<open>The alias lookup of \<open>GetProfile\<close> and \<open>EditProfile\<close>.\<close>

definition live_alias :: "db \<Rightarrow> string \<Rightarrow> string option" where
  "live_alias d a =
     map_option al_profile
       (find (\<lambda>r. EqualFold (al_alias r) a \<and> \<not> quarantined d (al_profile r)) (aliases d))"

definition GetProfile :: "env \<Rightarrow> string \<Rightarrow> db \<Rightarrow> err + identity_profile" where
  "GetProfile e a d =
     (case ValidateAlias a of
        Some x \<Rightarrow> Inl x
      | None \<Rightarrow>
          if db_fails e (Query 1) then Inl state_read
          else case live_alias d a of
            None \<Rightarrow> Inl (plain ErrNotFound)
          | Some i \<Rightarrow> read_profile e 2 d i)"

text \<open>The two listings differ in their filter and their order.\<close>

definition profile_join :: "db \<Rightarrow> (profile_row \<times> string) list" where
  "profile_join d =
     concat (map (\<lambda>p. map (\<lambda>a. (p, al_alias a))
                        (filter (\<lambda>a. al_profile a = pr_id p) (aliases d)))
                 (filter (\<lambda>p. \<not> quarantined d (pr_id p)) (profiles d)))"

definition alias_before :: "identity_profile \<Rightarrow> identity_profile \<Rightarrow> bool" where
  "alias_before p q \<longleftrightarrow> string_less (ToLower (ip_alias p)) (ToLower (ip_alias q))"

definition selected_before :: "identity_profile \<Rightarrow> identity_profile \<Rightarrow> bool" where
  "selected_before p q \<longleftrightarrow>
     (if ip_selected p = ip_selected q then alias_before p q else ip_selected p)"

definition ListProfiles :: "env \<Rightarrow> db \<Rightarrow> err + identity_profile list" where
  "ListProfiles e d =
     (if db_fails e (Query 1) then Inl state_read
      else let items = map (\<lambda>(p, a). scanIdentityProfile d p a) (profile_join d)
      in if None \<in> set items then Inl state_read
         else Inr (sort_by alias_before (map the items)))"

definition ListEligibleProfiles :: "env \<Rightarrow> db \<Rightarrow> err + identity_profile list" where
  "ListEligibleProfiles e d =
     (if db_fails e (Query 1) then Inl state_read
      else let items = map (\<lambda>(p, a). scanIdentityProfile d p a)
                         (filter (\<lambda>(p, a). pr_status p = StatusReady) (profile_join d))
      in if None \<in> set items then Inl state_read
         else Inr (sort_by selected_before (map the items)))"

section \<open>Pending profiles\<close>

definition GetPendingProfile :: "env \<Rightarrow> nat \<Rightarrow> string \<Rightarrow> db \<Rightarrow> err + pending_profile" where
  "GetPendingProfile e n i d =
     (if db_fails e (Query n) then Inl state_read
      else case (find (\<lambda>r. pe_id r = i) (pendings d), profile_table.lookup i (profiles d), alias_of d i) of
        (Some pe, Some p, Some a) \<Rightarrow>
          (case stage_table.lookup i (stages d) of
             None \<Rightarrow> Inl state_read
           | Some st \<Rightarrow>
               let home = (case pe_home pe of None \<Rightarrow> None
                           | Some h \<Rightarrow> find (\<lambda>r. ho_id r = h) (homes d));
                   pending =
                     \<lparr>pp_id = i, pp_alias = a, pp_display_name = pe_display_name pe,
                      pp_status = pr_status p,
                      pp_home = (case pe_home pe of None \<Rightarrow> [] | Some h \<Rightarrow> h),
                      pp_ownership = (case home of None \<Rightarrow> HomeOwnershipUnset | Some h \<Rightarrow> ho_ownership h),
                      pp_method = pr_method p,
                      pp_stages = \<lparr>ss_discovery = st_discovery st, ss_home = st_home st,
                        ss_authentication = st_authentication st, ss_validation = st_validation st,
                        ss_selection = st_selection st\<rparr>,
                      pp_home_path = []\<rparr>
               in if pp_home pending = [] then Inr pending
                  else if pp_ownership pending \<noteq> HomeOwnershipManaged
                          \<and> pp_ownership pending \<noteq> HomeOwnershipReferenced
                  then Inl profile_home_invalid
                  else case requireVault e of
                    Inl x \<Rightarrow> Inl x
                  | Inr v \<Rightarrow>
                      if db_fails e (Query (Suc n)) then Inl state_read
                      else case home of
                        None \<Rightarrow> Inl profile_home_invalid
                      | Some h \<Rightarrow>
                          (case decryptField v (ho_location h) (identityHomeAAD (pp_home pending)) of
                             Inl x \<Rightarrow> Inl x
                           | Inr path \<Rightarrow> Inr (pending\<lparr>pp_home_path := path\<rparr>)))
      | _ \<Rightarrow> Inl (plain ErrNotFound))"

definition FindPendingProfile :: "env \<Rightarrow> string \<Rightarrow> db \<Rightarrow> err + pending_profile" where
  "FindPendingProfile e a d =
     (if db_fails e (Query 1) then Inl state_read
      else case find (\<lambda>r. EqualFold (al_alias r) a
                        \<and> exists_where (\<lambda>p. pe_id p = al_profile r) (pendings d)) (aliases d) of
        None \<Rightarrow> Inl (plain ErrNotFound)
      | Some r \<Rightarrow> GetPendingProfile e 2 (al_profile r) d)"

definition create_body :: "env \<Rightarrow> pending_profile \<Rightarrow> db \<Rightarrow> err + (unit \<times> db)" where
  "create_body e pp d =
     (if db_fails e BeginTx then Inl state_write
      else if db_fails e (Query 1) then Inl state_write
      else if exists_where (\<lambda>r. EqualFold (al_alias r) (pp_alias pp)) (aliases d)
      then Inl (New ProfileAliasTaken (plain ErrAliasTaken))
      else if db_fails e (Exec 1) \<or> exists_where (\<lambda>p. pr_id p = pp_id pp) (profiles d)
         \<or> db_fails e (Exec 2) \<or> exists_where (\<lambda>r. al_profile r = pp_id pp) (aliases d)
         \<or> db_fails e (Exec 3) \<or> exists_where (\<lambda>r. pe_id r = pp_id pp) (pendings d)
         \<or> db_fails e (Exec 4) \<or> exists_where (\<lambda>r. st_id r = pp_id pp) (stages d)
         \<or> db_fails e Commit
      then Inl state_write
      else Inr ((), d\<lparr>
        profiles := profiles d @ [\<lparr>pr_id = pp_id pp, pr_display_name = pp_display_name pp, pr_email = [],
          pr_workspace = [], pr_status = StatusPending, pr_home = None, pr_method = AuthMethodAutomatic,
          pr_created = clock_now e, pr_updated = clock_now e\<rparr>],
        aliases := aliases d @ [\<lparr>al_profile = pp_id pp, al_alias = pp_alias pp\<rparr>],
        pendings := pendings d @ [\<lparr>pe_id = pp_id pp, pe_display_name = pp_display_name pp,
          pe_alias = pp_alias pp, pe_state = PendingSetup, pe_home = None\<rparr>],
        stages := stages d @ [\<lparr>st_id = pp_id pp, st_discovery = False, st_home = False,
          st_authentication = False, st_validation = False, st_selection = False\<rparr>]\<rparr>))"

definition CreatePendingProfile :: "env \<Rightarrow> pending_profile \<Rightarrow> db \<Rightarrow> (err + unit) \<times> db" where
  "CreatePendingProfile e pp d =
     (case ValidateAlias (pp_alias pp) of
        Some x \<Rightarrow> (Inl x, d)
      | None \<Rightarrow>
          if blank (pp_id pp) \<or> blank (pp_display_name pp) then (Inl (setup_invalid ErrProfileState), d)
          else if IsZero (clock_now e) then (Inl state_write, d)
          else transact d (create_body e pp d))"

section \<open>Editing\<close>

definition upd_profile :: "string \<Rightarrow> (profile_row \<Rightarrow> profile_row) \<Rightarrow> db \<Rightarrow> db" where
  "upd_profile i f d = d\<lparr>profiles := upd_where (\<lambda>p. pr_id p = i) f (profiles d)\<rparr>"

definition upd_pending :: "string \<Rightarrow> (pending_row \<Rightarrow> pending_row) \<Rightarrow> db \<Rightarrow> db" where
  "upd_pending i f d = d\<lparr>pendings := upd_where (\<lambda>p. pe_id p = i) f (pendings d)\<rparr>"

definition upd_stage :: "string \<Rightarrow> (stage_row \<Rightarrow> stage_row) \<Rightarrow> db \<Rightarrow> db" where
  "upd_stage i f d = d\<lparr>stages := upd_where (\<lambda>s. st_id s = i) f (stages d)\<rparr>"

text \<open>\<open>COALESCE(?, column)\<close>.\<close>

definition coalesce :: "'a option \<Rightarrow> 'a \<Rightarrow> 'a" where
  "coalesce v x = (case v of None \<Rightarrow> x | Some y \<Rightarrow> y)"

definition set_alias :: "string \<Rightarrow> string option \<Rightarrow> db \<Rightarrow> db" where
  "set_alias i new d =
     (case new of None \<Rightarrow> d
      | Some a \<Rightarrow> d\<lparr>aliases := upd_where (\<lambda>r. al_profile r = i) (\<lambda>r. r\<lparr>al_alias := a\<rparr>) (aliases d)\<rparr>)"

definition edit_body :: "env \<Rightarrow> string \<Rightarrow> profile_edits \<Rightarrow> db \<Rightarrow> err + (string \<times> db)" where
  "edit_body e a ed d =
     (if db_fails e BeginTx then Inl state_write
      else if db_fails e (Query 1) then Inl state_read
      else case live_alias d a of
        None \<Rightarrow> Inl (plain ErrNotFound)
      | Some i \<Rightarrow>
          if ed_alias ed \<noteq> None \<and> db_fails e (Query 2) then Inl state_read
          else if (case ed_alias ed of None \<Rightarrow> False
                   | Some b \<Rightarrow> exists_where (\<lambda>r. EqualFold (al_alias r) b \<and> al_profile r \<noteq> i) (aliases d))
          then Inl (New ProfileAliasTaken (plain ErrAliasTaken))
          else if ed_alias ed \<noteq> None
             \<and> (db_fails e (Exec 1) \<or> 1 < count_where (\<lambda>r. al_profile r = i) (aliases d))
          then Inl state_write
          else if db_fails e (Exec 2) \<or> db_fails e (Exec 3) \<or> db_fails e Commit then Inl state_write
          else Inr (i,
            upd_pending i (\<lambda>p. p\<lparr>pe_display_name := coalesce (ed_display_name ed) (pe_display_name p),
                                 pe_alias := coalesce (ed_alias ed) (pe_alias p)\<rparr>)
           (upd_profile i (\<lambda>p. p\<lparr>pr_display_name := coalesce (ed_display_name ed) (pr_display_name p),
                                 pr_email := coalesce (ed_email ed) (pr_email p),
                                 pr_workspace := coalesce (ed_workspace ed) (pr_workspace p),
                                 pr_updated := clock_now e\<rparr>)
           (set_alias i (ed_alias ed) d))))"

definition EditProfile :: "env \<Rightarrow> string \<Rightarrow> profile_edits \<Rightarrow> db \<Rightarrow> (err + identity_profile) \<times> db" where
  "EditProfile e a ed d =
     (case ValidateAlias a of
        Some x \<Rightarrow> (Inl x, d)
      | None \<Rightarrow>
          (case (case ed_alias ed of None \<Rightarrow> None | Some b \<Rightarrow> ValidateAlias b) of
             Some x \<Rightarrow> (Inl x, d)
           | None \<Rightarrow>
               if (case ed_display_name ed of None \<Rightarrow> False | Some n \<Rightarrow> blank n)
               then (Inl (setup_invalid ErrProfileStateInvalid), d)
               else if IsZero (clock_now e) then (Inl state_write, d)
               else then_read (transact d (edit_body e a ed d)) (\<lambda>i d'. read_profile e 3 d' i)))"

section \<open>Homes and documented metadata\<close>

definition home_row_of :: "string \<Rightarrow> string \<Rightarrow> ownership \<Rightarrow> string \<Rightarrow> home_row" where
  "home_row_of h i ow c =
     \<lparr>ho_id = h, ho_profile = i, ho_ownership = ow, ho_location = c, ho_login = [], ho_workspace = []\<rparr>"

definition upsert_home :: "string \<Rightarrow> string \<Rightarrow> ownership \<Rightarrow> string \<Rightarrow> home_row list \<Rightarrow> home_row list" where
  "upsert_home h i ow c rows =
     (if exists_where (\<lambda>r. ho_id r = h) rows
      then upd_where (\<lambda>r. ho_id r = h)
             (\<lambda>r. r\<lparr>ho_profile := i, ho_ownership := ow, ho_location := c\<rparr>) rows
      else rows @ [home_row_of h i ow c])"

definition set_home_body ::
  "env \<Rightarrow> string \<Rightarrow> string \<Rightarrow> ownership \<Rightarrow> string \<Rightarrow> db \<Rightarrow> err + (unit \<times> db)" where
  "set_home_body e i h ow c d =
     (if db_fails e BeginTx \<or> db_fails e (Exec 1) then Inl state_write
      else if \<not> exists_where (\<lambda>p. pr_id p = i) (profiles d) then Inl (plain ErrNotFound)
      else if db_fails e (Exec 2) then Inl state_write
      else if \<not> exists_where (\<lambda>p. pe_id p = i) (pendings d) then Inl (plain ErrNotFound)
      else if db_fails e (Query 1) then Inl state_read
      else if (case find (\<lambda>r. ho_id r = h) (homes d) of None \<Rightarrow> False
               | Some r \<Rightarrow> ho_profile r \<noteq> i \<or> ho_ownership r \<noteq> ow)
      then Inl profile_home_invalid
      else if db_fails e (Exec 3) \<or> db_fails e Commit then Inl state_write
      else Inr ((), (upd_pending i (\<lambda>p. p\<lparr>pe_home := Some h\<rparr>)
             (upd_profile i (\<lambda>p. p\<lparr>pr_home := Some h, pr_updated := clock_now e\<rparr>) d))
                 \<lparr>homes := upsert_home h i ow c (homes d)\<rparr>))"

definition setHome ::
  "env \<Rightarrow> string \<Rightarrow> string \<Rightarrow> ownership \<Rightarrow> string \<Rightarrow> db \<Rightarrow> (err + unit) \<times> db" where
  "setHome e i h ow path d =
     (if (ow \<noteq> HomeOwnershipManaged \<and> ow \<noteq> HomeOwnershipReferenced) \<or> blank i \<or> blank h \<or> \<not> IsAbs path
      then (Inl profile_home_invalid, d)
      else case requireVault e of
        Inl x \<Rightarrow> (Inl x, d)
      | Inr v \<Rightarrow>
          (case encryptField v (Clean path) (identityHomeAAD h) of
             Inl x \<Rightarrow> (Inl x, d)
           | Inr c \<Rightarrow>
               if IsZero (clock_now e) then (Inl state_write, d)
               else transact d (set_home_body e i h ow c d)))"

definition SetManagedHome :: "env \<Rightarrow> string \<Rightarrow> string \<Rightarrow> string \<Rightarrow> db \<Rightarrow> (err + unit) \<times> db" where
  "SetManagedHome e i h path d = setHome e i h HomeOwnershipManaged path d"

definition SetReferencedHome :: "env \<Rightarrow> string \<Rightarrow> string \<Rightarrow> string \<Rightarrow> db \<Rightarrow> (err + unit) \<times> db" where
  "SetReferencedHome e i h path d = setHome e i h HomeOwnershipReferenced path d"

text \<open>The search for another profile that reports the same identity: lines 345--373.\<close>

definition documented_field :: "vault_ops \<Rightarrow> string \<Rightarrow> string \<Rightarrow> string \<Rightarrow> err + string" where
  "documented_field v ciphertext profile name =
     (if ciphertext = [] then Inr [] else decryptField v ciphertext (documentedMetadataAAD profile name))"

fun duplicate_metadata ::
  "vault_ops \<Rightarrow> string \<Rightarrow> string \<Rightarrow> string \<Rightarrow> home_row list \<Rightarrow> err + bool" where
  "duplicate_metadata v i login workspace [] = Inr False"
| "duplicate_metadata v i login workspace (r # rs) =
     (if ho_profile r = i then duplicate_metadata v i login workspace rs
      else case documented_field v (ho_login r) (ho_profile r) ''login-identity'' of
        Inl x \<Rightarrow> Inl x
      | Inr l \<Rightarrow>
          (case documented_field v (ho_workspace r) (ho_profile r) ''workspace'' of
             Inl x \<Rightarrow> Inl x
           | Inr w \<Rightarrow>
               (case duplicate_metadata v i login workspace rs of
                  Inl x \<Rightarrow> Inl x
                | Inr dup \<Rightarrow>
                    Inr (dup \<or> (login \<noteq> [] \<and> login = l) \<or> (workspace \<noteq> [] \<and> workspace = w)))))"

definition SaveDocumentedMetadata ::
  "env \<Rightarrow> string \<Rightarrow> documented_metadata \<Rightarrow> db \<Rightarrow> (err + bool) \<times> db" where
  "SaveDocumentedMetadata e i m d =
     (let login = TrimSpace (dm_login m); workspace = TrimSpace (dm_workspace m)
      in if login = [] \<and> workspace = [] then (Inr False, d)
         else case requireVault e of
           Inl x \<Rightarrow> (Inl x, d)
         | Inr v \<Rightarrow>
             if db_fails e (Query 1) then (Inl state_read, d)
             else case duplicate_metadata v i login workspace (homes d) of
               Inl x \<Rightarrow> (Inl x, d)
             | Inr dup \<Rightarrow>
                 (case encryptField v login (documentedMetadataAAD i ''login-identity'') of
                    Inl x \<Rightarrow> (Inl x, d)
                  | Inr lc \<Rightarrow>
                      (case encryptField v workspace (documentedMetadataAAD i ''workspace'') of
                         Inl x \<Rightarrow> (Inl x, d)
                       | Inr wc \<Rightarrow>
                           if db_fails e (Exec 1) then (Inl state_write, d)
                           else (Inr dup, d\<lparr>homes := upd_where (\<lambda>r. ho_profile r = i)
                                   (\<lambda>r. r\<lparr>ho_login := lc, ho_workspace := wc\<rparr>) (homes d)\<rparr>))))"

section \<open>Setup stages and status\<close>

definition set_stage :: "setup_stage \<Rightarrow> stage_row \<Rightarrow> stage_row" where
  "set_stage s r =
     (case s of
        StageDiscovery \<Rightarrow> r\<lparr>st_discovery := True\<rparr>
      | StageHome \<Rightarrow> r\<lparr>st_home := True\<rparr>
      | StageAuthentication \<Rightarrow> r\<lparr>st_authentication := True\<rparr>
      | StageValidation \<Rightarrow> r\<lparr>st_validation := True\<rparr>
      | StageSelection \<Rightarrow> r\<lparr>st_selection := True\<rparr>
      | StageOther x \<Rightarrow> r)"

definition stage_body :: "env \<Rightarrow> string \<Rightarrow> setup_stage \<Rightarrow> db \<Rightarrow> err + (unit \<times> db)" where
  "stage_body e i s d =
     (if db_fails e BeginTx \<or> db_fails e (Exec 1) then Inl state_write
      else if \<not> exists_where (\<lambda>r. st_id r = i) (stages d) then Inl (plain ErrNotFound)
      else if db_fails e (Exec 2) then Inl state_write
      else if \<not> exists_where (\<lambda>r. pe_id r = i) (pendings d) then Inl (plain ErrNotFound)
      else if db_fails e Commit then Inl state_write
      else Inr ((), upd_pending i (\<lambda>p. p\<lparr>pe_state := PendingSetup\<rparr>) (upd_stage i (set_stage s) d)))"

definition SaveSetupStage :: "env \<Rightarrow> string \<Rightarrow> setup_stage \<Rightarrow> db \<Rightarrow> (err + unit) \<times> db" where
  "SaveSetupStage e i s d =
     (if s \<notin> {StageDiscovery, StageHome, StageAuthentication, StageValidation, StageSelection}
      then (Inl (setup_invalid Opaque), d)
      else transact d (stage_body e i s d))"

definition ResetAuthentication :: "env \<Rightarrow> string \<Rightarrow> db \<Rightarrow> (err + unit) \<times> db" where
  "ResetAuthentication e i d =
     transact d
       (if db_fails e BeginTx \<or> db_fails e (Exec 1) \<or> db_fails e (Exec 2) \<or> db_fails e (Exec 3)
           \<or> db_fails e Commit
        then Inl state_write
        else Inr ((), upd_pending i (\<lambda>p. p\<lparr>pe_state := NeedsAttention\<rparr>)
               (upd_profile i (\<lambda>p. p\<lparr>pr_status := StatusPending, pr_updated := clock_now e\<rparr>)
               (upd_stage i (\<lambda>s. s\<lparr>st_authentication := False, st_validation := False,
                                   st_selection := False\<rparr>) d))))"

definition SetAuthenticationState ::
  "env \<Rightarrow> string \<Rightarrow> status \<Rightarrow> auth_method \<Rightarrow> db \<Rightarrow> (err + unit) \<times> db" where
  "SetAuthenticationState e i s m d =
     (if blank i \<or> \<not> validProfileStatus s \<or> \<not> validStoredAuthMethod m
      then (Inl (setup_invalid ErrProfileState), d)
      else if IsZero (clock_now e) then (Inl state_write, d)
      else transact d
        (if db_fails e BeginTx \<or> db_fails e (Exec 1) then Inl state_write
         else if \<not> exists_where (\<lambda>p. pr_id p = i) (profiles d) then Inl (plain ErrNotFound)
         else if db_fails e Commit then Inl state_write
         else Inr ((), upd_profile i (\<lambda>p. p\<lparr>pr_status := s,
                pr_method := (if m = AuthMethodUnset then pr_method p else m),
                pr_updated := clock_now e\<rparr>) d)))"

definition validation_failed :: err where
  "validation_failed = New ProfileValidationFailed (plain ErrValidationFailed)"

definition PromotePendingProfile :: "env \<Rightarrow> string \<Rightarrow> db \<Rightarrow> (err + identity_profile) \<times> db" where
  "PromotePendingProfile e i d =
     then_read (transact d
       (if db_fails e BeginTx then Inl state_write
        else if db_fails e (Query 1) then Inl state_read
        else case stage_table.lookup i (stages d) of
          None \<Rightarrow> Inl (plain ErrNotFound)
        | Some st \<Rightarrow>
            if \<not> st_authentication st \<or> \<not> st_validation st then Inl validation_failed
            else if db_fails e (Exec 1) \<or> db_fails e Commit then Inl state_write
            else Inr ((), upd_profile i (\<lambda>p. p\<lparr>pr_status := StatusReady, pr_updated := clock_now e\<rparr>) d)))
       (\<lambda>u d'. getIdentityProfile e 2 d' i)"

section \<open>Selection\<close>

text \<open>The optional assignment of a configuration pack: lines 664--685.\<close>

definition assign_pack :: "env \<Rightarrow> string \<Rightarrow> string \<Rightarrow> string \<Rightarrow> db \<Rightarrow> err + db" where
  "assign_pack e i pack version d =
     (if pack = [] then Inr d
      else if db_fails e (Query 2)
        \<or> (case profile_table.lookup i (profiles d) of None \<Rightarrow> True
            | Some p \<Rightarrow> (case home_of d p of None \<Rightarrow> True | Some h \<Rightarrow> ho_ownership h \<noteq> HomeOwnershipManaged))
      then Inl (New ConfigurationPackAssignmentInvalid (plain ErrAssignmentInvalid))
      else if db_fails e (Query 3) then Inl state_read
      else case find (\<lambda>r. pv_pack r = pack \<and> pv_version r = version) (packs d) of
        None \<Rightarrow> Inl (New ConfigurationPackNotFound (plain ErrPackNotFound))
      | Some r \<Rightarrow>
          if pv_state r \<noteq> PackApproved then Inl (New ConfigurationPackNotApproved (plain ErrPackNotApproved))
          else if db_fails e (Exec 1) then Inl state_write
          else Inr (d\<lparr>assignments :=
            (let row = \<lparr>as_profile = i, as_pack = pack, as_version = version\<rparr>
             in if exists_where (\<lambda>a. as_profile a = i) (assignments d)
                then upd_where (\<lambda>a. as_profile a = i) (\<lambda>a. row) (assignments d)
                else assignments d @ [row])\<rparr>))"

text \<open>The read of the current selection: lines 690--702. A failed read leaves \<open>selected\<close> invalid, so
  the first branch is taken for it as well, and the branch that would report it is never reached.\<close>

definition current_selection :: "env \<Rightarrow> db \<Rightarrow> string option" where
  "current_selection e d =
     (if db_fails e (Query 4) then None
      else case selected d of
        Some (Some s) \<Rightarrow> if s = [] then None else Some s
      | _ \<Rightarrow> None)"

definition selection_body ::
  "env \<Rightarrow> string \<Rightarrow> string \<Rightarrow> string \<Rightarrow> db \<Rightarrow> err + (string \<times> db)" where
  "selection_body e i pack version d =
     (if db_fails e BeginTx then Inl state_write
      else if db_fails e (Query 1) then Inl state_read
      else case (profile_table.lookup i (profiles d), stage_table.lookup i (stages d)) of
        (Some p, Some st) \<Rightarrow>
          if pr_status p \<noteq> StatusReady
             \<and> (pr_status p \<noteq> StatusPending \<or> \<not> st_authentication st \<or> \<not> st_validation st)
          then Inl validation_failed
          else (case assign_pack e i pack version d of
              Inl x \<Rightarrow> Inl x
            | Inr d1 \<Rightarrow>
                if db_fails e (Exec 2) then Inl state_write
                else let d2 = upd_profile i (\<lambda>p. p\<lparr>pr_status := StatusReady, pr_updated := clock_now e\<rparr>) d1
                in if current_selection e d2 = None \<and> db_fails e (Exec 3) then Inl state_write
                   else let sel = (case current_selection e d2 of None \<Rightarrow> i | Some s \<Rightarrow> s);
                            d3 = (if current_selection e d2 = None
                                  then d2\<lparr>selected := Some (Some i)\<rparr> else d2)
                   in if db_fails e (Exec 4) \<or> db_fails e (Exec 5) \<or> db_fails e Commit then Inl state_write
                      else Inr (sel, (upd_stage i (\<lambda>s. s\<lparr>st_selection := True\<rparr>) d3)
                             \<lparr>pendings := del_where (\<lambda>r. pe_id r = i) (pendings d3)\<rparr>))
      | _ \<Rightarrow> Inl (plain ErrNotFound))"

definition CompleteInitialSelection ::
  "env \<Rightarrow> string \<Rightarrow> string \<Rightarrow> string \<Rightarrow> db \<Rightarrow> (err + identity_profile) \<times> db" where
  "CompleteInitialSelection e i pack version d =
     (case before_selection e i of
        Some x \<Rightarrow> (Inl x, d)
      | None \<Rightarrow>
          then_read (transact d (selection_body e i pack version d))
            (\<lambda>sel d'. case getIdentityProfile e 5 d' i of
               Inl x \<Rightarrow> Inl x
             | Inr r \<Rightarrow> Inr (r\<lparr>ip_selected := (sel = i)\<rparr>)))"

definition not_selectable :: err where
  "not_selectable = New ProfileNotSelectable (plain ErrNotSelectable)"

definition select_body :: "env \<Rightarrow> string \<Rightarrow> db \<Rightarrow> err + ((string \<times> bool) \<times> db)" where
  "select_body e a d =
     (if db_fails e BeginTx then Inl state_write
      else if db_fails e (Query 1) then Inl state_read
      else case live_profile d a of
        None \<Rightarrow> Inl not_selectable
      | Some p \<Rightarrow>
          if pr_status p \<noteq> StatusReady then Inl not_selectable
          else if db_fails e (Exec 1) then Inl state_write
          else if db_fails e (Query 2) then Inl state_read
          else let differing = count_where (\<lambda>l. ml_state l = StateRunning \<and> ml_profile l \<noteq> pr_id p) (launches d)
          in if db_fails e Commit then Inl state_write
             else Inr ((pr_id p, 0 < differing), d\<lparr>selected := Some (Some (pr_id p))\<rparr>))"

text \<open>The result carries whether the running-launch warning is given.\<close>

definition SelectProfile :: "env \<Rightarrow> string \<Rightarrow> db \<Rightarrow> (err + identity_profile \<times> bool) \<times> db" where
  "SelectProfile e a d =
     (case ValidateAlias a of
        Some x \<Rightarrow> (Inl x, d)
      | None \<Rightarrow>
          then_read (transact d (select_body e a d))
            (\<lambda>(i, warn) d'. case getIdentityProfile e 3 d' i of
               Inl x \<Rightarrow> Inl x
             | Inr r \<Rightarrow> Inr (r, warn)))"

end
