(* ===== verification/Profile_Lifecycle.thy ===== *)
theory Profile_Lifecycle
  imports Profile_Store
begin

text \<open>
  Removal, quarantine, restore and purge of a profile: \<^verbatim>\<open>internal/store/profile_lifecycle.go\<close> and the
  workflow of \<^verbatim>\<open>internal/profile/lifecycle.go\<close> on top of it. The files of an Identity Home are
  moved by the injected \<open>HomeLifecycle\<close>, a parameter with a state of its own.
\<close>

section \<open>The store\<close>

datatype removal_action =
    RemovalUnset | RemovalQuarantined | RemovalDeregistered | RemovalRestored | RemovalPurged

record removal_record =
  rr_profile :: identity_profile
  rr_action :: removal_action
  rr_state :: quarantine_state
  rr_at :: time
  rr_purge_after :: time

definition profileQuarantinePeriod :: duration where
  "profileQuarantinePeriod = 7 * 24 * Hour"

definition quarantine_invalid :: err where
  "quarantine_invalid = New ProfileQuarantineInvalid (plain ErrQuarantineInvalid)"

definition quarantine_expired :: err where
  "quarantine_expired = New ProfileQuarantineExpired (plain ErrQuarantineExpired)"

definition replacement_required :: err where
  "replacement_required = New ProfileReplacementRequired (plain ErrReplacementRequired)"

definition quarantine_join :: "db \<Rightarrow> string \<Rightarrow> quarantine_row option" where
  "quarantine_join d a =
     find (\<lambda>q. exists_where (\<lambda>r. al_profile r = qu_id q \<and> EqualFold (al_alias r) a) (aliases d))
          (quarantine d)"

definition getQuarantinedProfile :: "env \<Rightarrow> nat \<Rightarrow> string \<Rightarrow> db \<Rightarrow> err + removal_record" where
  "getQuarantinedProfile e n a d =
     (if db_fails e (Query n) then Inl state_read
      else case quarantine_join d a of
        None \<Rightarrow> Inl (plain ErrNotFound)
      | Some q \<Rightarrow>
          (case read_profile e (Suc n) d (qu_id q) of
             Inl x \<Rightarrow> Inl x
           | Inr item \<Rightarrow>
               if parseStoredTime (qu_at q) = None \<or> parseStoredTime (qu_purge_after q) = None
               then Inl state_read
               else Inr \<lparr>rr_profile = item, rr_action = RemovalQuarantined, rr_state = qu_state q,
                         rr_at = qu_at q, rr_purge_after = qu_purge_after q\<rparr>))"

definition GetQuarantinedProfile :: "env \<Rightarrow> nat \<Rightarrow> string \<Rightarrow> db \<Rightarrow> err + removal_record" where
  "GetQuarantinedProfile e n a d =
     (case ValidateAlias a of Some x \<Rightarrow> Inl x | None \<Rightarrow> getQuarantinedProfile e n a d)"

text \<open>The aliases of the quarantined profiles by purge time, then each record.\<close>

definition quarantine_aliases :: "db \<Rightarrow> (time \<times> string) list" where
  "quarantine_aliases d =
     sort_by (\<lambda>(t, a) (u, b). stored_less t u
                \<or> (\<not> stored_less u t \<and> string_less (ToLower a) (ToLower b)))
       (concat (map (\<lambda>q. map (\<lambda>r. (qu_purge_after q, al_alias r))
                          (filter (\<lambda>r. al_profile r = qu_id q) (aliases d)))
                    (quarantine d)))"

fun quarantine_records :: "env \<Rightarrow> nat \<Rightarrow> (time \<times> string) list \<Rightarrow> db \<Rightarrow> err + removal_record list" where
  "quarantine_records e n [] d = Inr []"
| "quarantine_records e n ((t, a) # rest) d =
     (case getQuarantinedProfile e n a d of
        Inl x \<Rightarrow> Inl x
      | Inr r \<Rightarrow>
          (case quarantine_records e (n + 3) rest d of Inl x \<Rightarrow> Inl x | Inr rs \<Rightarrow> Inr (r # rs)))"

definition ListQuarantinedProfiles :: "env \<Rightarrow> db \<Rightarrow> err + removal_record list" where
  "ListQuarantinedProfiles e d =
     (if db_fails e (Query 1) then Inl state_read
      else quarantine_records e 2 (quarantine_aliases d) d)"

text \<open>\<open>deleteProfileRows\<close>: the row of \<open>identity_profiles\<close> stays as an emptied tombstone, every row
  that refers to the profile goes.\<close>

definition tombstone :: "profile_row \<Rightarrow> profile_row" where
  "tombstone p = p\<lparr>pr_display_name := [], pr_email := [], pr_workspace := [],
     pr_status := StatusUnavailable, pr_home := None, pr_method := AuthMethodAutomatic\<rparr>"

definition delete_rows :: "string \<Rightarrow> db \<Rightarrow> db" where
  "delete_rows i d = d\<lparr>
     profiles := upd_where (\<lambda>p. pr_id p = i) tombstone (profiles d),
     evidence := del_where (\<lambda>c. exists_where (\<lambda>l. ml_profile l = i \<and> ml_id l = ce_launch c) (launches d))
                   (evidence d),
     overrides := del_where (\<lambda>r. ov_profile r = i) (overrides d),
     assignments := del_where (\<lambda>r. as_profile r = i) (assignments d),
     launches := del_where (\<lambda>l. ml_profile l = i) (launches d),
     selected := (if is_selected d i then None else selected d),
     quarantine := del_where (\<lambda>q. qu_id q = i) (quarantine d),
     stages := del_where (\<lambda>s. st_id s = i) (stages d),
     pendings := del_where (\<lambda>p. pe_id p = i) (pendings d),
     homes := del_where (\<lambda>h. ho_profile h = i) (homes d),
     aliases := del_where (\<lambda>a. al_profile a = i) (aliases d)\<rparr>"

definition deleteProfileRows :: "env \<Rightarrow> nat \<Rightarrow> string \<Rightarrow> db \<Rightarrow> db option" where
  "deleteProfileRows e n i d =
     (if list_ex (\<lambda>k. db_fails e (Exec (n + k))) [0 ..< 11] then None else Some (delete_rows i d))"

definition removal_running :: "db \<Rightarrow> string \<Rightarrow> nat" where
  "removal_running d i =
     count_where (\<lambda>l. ml_profile l = i \<and> ml_state l \<in> {StatePending, StateRunning}) (launches d)"

text \<open>The replacement of a selected profile: lines 60--77. The result says whether the profile was
  selected.\<close>

definition replace_selection ::
  "env \<Rightarrow> string \<Rightarrow> string \<Rightarrow> string \<Rightarrow> db \<Rightarrow> err + (bool \<times> db)" where
  "replace_selection e i a replacement d =
     (if \<not> is_selected d i then Inr (False, d)
      else if ValidateAlias replacement \<noteq> None \<or> EqualFold a replacement then Inl replacement_required
      else if db_fails e (Query 12) then Inl replacement_required
      else case live_profile d replacement of
        None \<Rightarrow> Inl replacement_required
      | Some p \<Rightarrow>
          if pr_status p \<noteq> StatusReady then Inl replacement_required
          else if db_fails e (Exec 1) then Inl state_write
          else Inr (True, d\<lparr>selected := Some (Some (pr_id p))\<rparr>))"

definition removal_body ::
  "env \<Rightarrow> identity_profile \<Rightarrow> string \<Rightarrow> string \<Rightarrow> db \<Rightarrow> err + (removal_record \<times> db)" where
  "removal_body e item a replacement d =
     (if db_fails e BeginTx then Inl state_write
      else if db_fails e (Query 10) then Inl state_read
      else if removal_running d (ip_id item) \<noteq> 0
      then Inl (New ProfileRemovalBlocked (plain ErrRunningLaunch))
      else if db_fails e (Query 11) then Inl state_read
      else case replace_selection e (ip_id item) a replacement d of
        Inl x \<Rightarrow> Inl x
      | Inr (was, d1) \<Rightarrow>
          if ip_ownership item = HomeOwnershipReferenced then
            (case deleteProfileRows e 10 (ip_id item) d1 of
               None \<Rightarrow> Inl state_write
             | Some d2 \<Rightarrow>
                 if db_fails e Commit then Inl state_write
                 else Inr (\<lparr>rr_profile = item, rr_action = RemovalDeregistered, rr_state = QuarantineNone,
                            rr_at = 0, rr_purge_after = 0\<rparr>, d2))
          else if ip_ownership item = HomeOwnershipManaged then
            (if db_fails e (Exec 2) \<or> quarantined d1 (ip_id item) \<or> db_fails e Commit then Inl state_write
             else Inr (\<lparr>rr_profile = item, rr_action = RemovalQuarantined, rr_state = QuarantinePrepared,
                        rr_at = clock_now e, rr_purge_after = clock_now e + profileQuarantinePeriod\<rparr>,
                       d1\<lparr>quarantine := quarantine d1 @
                         [\<lparr>qu_id = ip_id item, qu_state = QuarantinePrepared, qu_was_selected = was,
                           qu_at = clock_now e,
                           qu_purge_after = clock_now e + profileQuarantinePeriod\<rparr>]\<rparr>))
          else Inl profile_home_invalid)"

text \<open>The first reads (the quarantine record, the profile) and the clock come before the code takes \<open>operationMu\<close>;
  here they are one step with the transaction, which looks for live launches and the selection itself. What an
  interleaved call changes meanwhile (an alias, a removal that another call completed) is not covered; a second
  quarantine row of the profile would fail on the primary key.\<close>

definition BeginProfileRemoval ::
  "env \<Rightarrow> string \<Rightarrow> string \<Rightarrow> db \<Rightarrow> (err + removal_record) \<times> db" where
  "BeginProfileRemoval e a replacement d =
     (case ValidateAlias a of
        Some x \<Rightarrow> (Inl x, d)
      | None \<Rightarrow>
          (case GetQuarantinedProfile e 20 a d of
             Inr existing \<Rightarrow> (Inr existing, d)
           | Inl x \<Rightarrow>
               if \<not> errors_Is x ErrNotFound then (Inl x, d)
               else case GetProfile e a d of
                 Inl y \<Rightarrow> (Inl y, d)
               | Inr item \<Rightarrow>
                   if IsZero (clock_now e) then (Inl (coded StoreWriteFailed (Some (plain ErrProfileState))), d)
                   else transact d (removal_body e item a replacement d)))"

definition updateQuarantineState ::
  "env \<Rightarrow> string \<Rightarrow> quarantine_state \<Rightarrow> quarantine_state \<Rightarrow> db \<Rightarrow> (err + unit) \<times> db" where
  "updateQuarantineState e i from to d =
     (if db_fails e (Exec 1) then (Inl state_write, d)
      else if count_where (\<lambda>q. qu_id q = i \<and> qu_state q = from) (quarantine d) \<noteq> 1
      then (Inl quarantine_invalid, d)
      else (Inr (), d\<lparr>quarantine := upd_where (\<lambda>q. qu_id q = i \<and> qu_state q = from)
                                       (\<lambda>q. q\<lparr>qu_state := to\<rparr>) (quarantine d)\<rparr>))"

definition CompleteProfileQuarantine :: "env \<Rightarrow> string \<Rightarrow> db \<Rightarrow> (err + unit) \<times> db" where
  "CompleteProfileQuarantine e i d = updateQuarantineState e i QuarantinePrepared QuarantineReady d"

definition in_quarantine :: "db \<Rightarrow> string \<Rightarrow> quarantine_state \<Rightarrow> quarantine_row option" where
  "in_quarantine d i s = find (\<lambda>q. qu_id q = i \<and> qu_state q = s) (quarantine d)"

definition leave_quarantine :: "string \<Rightarrow> db \<Rightarrow> db" where
  "leave_quarantine i d = d\<lparr>quarantine := del_where (\<lambda>q. qu_id q = i) (quarantine d)\<rparr>"

definition CancelProfileRemoval :: "env \<Rightarrow> string \<Rightarrow> db \<Rightarrow> (err + unit) \<times> db" where
  "CancelProfileRemoval e i d =
     transact d
       (if db_fails e BeginTx then Inl state_write
        else if db_fails e (Query 1) then Inl quarantine_invalid
        else case in_quarantine d i QuarantinePrepared of
          None \<Rightarrow> Inl quarantine_invalid
        | Some q \<Rightarrow>
            if qu_was_selected q \<and> db_fails e (Exec 1) then Inl state_write
            else if db_fails e (Exec 2) \<or> db_fails e Commit then Inl state_write
            else Inr ((), leave_quarantine i
              (if qu_was_selected q \<and> selected d \<noteq> None then d\<lparr>selected := Some (Some i)\<rparr> else d)))"

definition RestoreProfile :: "env \<Rightarrow> string \<Rightarrow> db \<Rightarrow> (err + unit) \<times> db" where
  "RestoreProfile e i d =
     (if db_fails e (Query 1) then (Inl quarantine_invalid, d)
      else case in_quarantine d i QuarantineReady of
        None \<Rightarrow> (Inl quarantine_invalid, d)
      | Some q \<Rightarrow>
          if parseStoredTime (qu_purge_after q) = None then (Inl state_read, d)
          else if \<not> clock_now e < qu_purge_after q then (Inl quarantine_expired, d)
          else if db_fails e (Exec 1) then (Inl state_write, d)
          else (Inr (), leave_quarantine i d))"

definition PurgeProfile :: "env \<Rightarrow> string \<Rightarrow> db \<Rightarrow> (err + unit) \<times> db" where
  "PurgeProfile e i d =
     transact d
       (if db_fails e BeginTx then Inl state_write
        else if db_fails e (Query 1) then Inl quarantine_invalid
        else case in_quarantine d i QuarantineReady of
          None \<Rightarrow> Inl quarantine_invalid
        | Some q \<Rightarrow>
            (case deleteProfileRows e 10 i d of
               None \<Rightarrow> Inl state_write
             | Some d' \<Rightarrow> if db_fails e Commit then Inl state_write else Inr ((), d')))"

section \<open>The workflow\<close>

text \<open>\<open>LifecycleRepository\<close> with its state \<open>'s\<close>, and \<open>HomeLifecycle\<close> with the state \<open>'h\<close> of the file
  system. Each call may take its own environment.\<close>

record ('e, 's) lifecycle_repository =
  begin_removal :: "'e \<Rightarrow> string \<Rightarrow> string \<Rightarrow> 's \<Rightarrow> (err + removal_record) \<times> 's"
  complete_quarantine :: "'e \<Rightarrow> string \<Rightarrow> 's \<Rightarrow> (err + unit) \<times> 's"
  cancel_removal :: "'e \<Rightarrow> string \<Rightarrow> 's \<Rightarrow> (err + unit) \<times> 's"
  get_quarantined :: "'e \<Rightarrow> string \<Rightarrow> 's \<Rightarrow> err + removal_record"
  restore_profile :: "'e \<Rightarrow> string \<Rightarrow> 's \<Rightarrow> (err + unit) \<times> 's"
  purge_profile :: "'e \<Rightarrow> string \<Rightarrow> 's \<Rightarrow> (err + unit) \<times> 's"

record 'h home_lifecycle =
  home_quarantine :: "string \<Rightarrow> string \<Rightarrow> 'h \<Rightarrow> err option \<times> 'h"
  home_restore :: "string \<Rightarrow> string \<Rightarrow> 'h \<Rightarrow> err option \<times> 'h"
  home_purge :: "string \<Rightarrow> 'h \<Rightarrow> err option \<times> 'h"

definition err_of :: "err + 'a \<Rightarrow> err option" where
  "err_of r = (case r of Inl x \<Rightarrow> Some x | Inr a \<Rightarrow> None)"

definition Remove ::
  "('e, 's) lifecycle_repository \<Rightarrow> 'h home_lifecycle \<Rightarrow> 'e \<Rightarrow> 'e \<Rightarrow> string \<Rightarrow> string \<Rightarrow> 's \<times> 'h \<Rightarrow>
    (err + removal_record) \<times> 's \<times> 'h" where
  "Remove repo hm e1 e2 a replacement st =
     (case st of (s, h) \<Rightarrow>
        (case begin_removal repo e1 a replacement s of
           (Inl x, s1) \<Rightarrow> (Inl x, s1, h)
         | (Inr r, s1) \<Rightarrow>
             if rr_action r = RemovalDeregistered then (Inr r, s1, h)
             else let i = ip_id (rr_profile r) in
               (case home_quarantine hm i (ip_home_path (rr_profile r)) h of
                  (Some x, h1) \<Rightarrow>
                    (case cancel_removal repo e2 i s1 of
                       (c, s2) \<Rightarrow> (Inl (errors_Join [Some x, err_of c]), s2, h1))
                | (None, h1) \<Rightarrow>
                    (case complete_quarantine repo e2 i s1 of
                       (Inl x, s2) \<Rightarrow> (Inl x, s2, h1)
                     | (Inr u, s2) \<Rightarrow> (Inr (r\<lparr>rr_state := QuarantineReady\<rparr>), s2, h1)))))"

definition Restore ::
  "('e, 's) lifecycle_repository \<Rightarrow> 'h home_lifecycle \<Rightarrow> time \<Rightarrow> 'e \<Rightarrow> 'e \<Rightarrow> string \<Rightarrow> 's \<times> 'h \<Rightarrow>
    (err + removal_record) \<times> 's \<times> 'h" where
  "Restore repo hm now e1 e2 a st =
     (case st of (s, h) \<Rightarrow>
        (case get_quarantined repo e1 a s of
           Inl x \<Rightarrow> (Inl x, s, h)
         | Inr r \<Rightarrow>
             if rr_state r \<noteq> QuarantineReady then (Inl quarantine_invalid, s, h)
             else if \<not> now < rr_purge_after r then (Inl quarantine_expired, s, h)
             else let i = ip_id (rr_profile r) in
               (case home_restore hm i (ip_home_path (rr_profile r)) h of
                  (Some x, h1) \<Rightarrow> (Inl x, s, h1)
                | (None, h1) \<Rightarrow>
                    (case restore_profile repo e2 i s of
                       (Inl x, s1) \<Rightarrow> (Inl x, s1, h1)
                     | (Inr u, s1) \<Rightarrow>
                         (Inr (r\<lparr>rr_action := RemovalRestored, rr_state := QuarantineNone\<rparr>), s1, h1)))))"

definition Purge ::
  "('e, 's) lifecycle_repository \<Rightarrow> 'h home_lifecycle \<Rightarrow> 'e \<Rightarrow> 'e \<Rightarrow> string \<Rightarrow> 's \<times> 'h \<Rightarrow>
    (err + removal_record) \<times> 's \<times> 'h" where
  "Purge repo hm e1 e2 a st =
     (case st of (s, h) \<Rightarrow>
        (case get_quarantined repo e1 a s of
           Inl x \<Rightarrow> (Inl x, s, h)
         | Inr r \<Rightarrow>
             if rr_state r \<noteq> QuarantineReady then (Inl quarantine_invalid, s, h)
             else let i = ip_id (rr_profile r) in
               (case home_purge hm i h of
                  (Some x, h1) \<Rightarrow> (Inl x, s, h1)
                | (None, h1) \<Rightarrow>
                    (case purge_profile repo e2 i s of
                       (Inl x, s1) \<Rightarrow> (Inl x, s1, h1)
                     | (Inr u, s1) \<Rightarrow>
                         (Inr (r\<lparr>rr_action := RemovalPurged, rr_state := QuarantineNone\<rparr>), s1, h1)))))"

text \<open>\<open>PreviewRemoval\<close> shows the profile, or its quarantine record when it is not found.\<close>

definition PreviewRemoval :: "env \<Rightarrow> env \<Rightarrow> string \<Rightarrow> db \<Rightarrow> err + removal_record" where
  "PreviewRemoval e1 e2 a d =
     (case GetProfile e1 a d of
        Inl x \<Rightarrow> if errors_Is x ErrNotFound then GetQuarantinedProfile e2 20 a d else Inl x
      | Inr item \<Rightarrow> Inr \<lparr>rr_profile = item, rr_action = RemovalUnset, rr_state = QuarantineNone,
                        rr_at = 0, rr_purge_after = 0\<rparr>)"

definition store_lifecycle :: "(env, db) lifecycle_repository" where
  "store_lifecycle =
     \<lparr>begin_removal = BeginProfileRemoval, complete_quarantine = CompleteProfileQuarantine,
      cancel_removal = CancelProfileRemoval,
      get_quarantined = (\<lambda>e a d. GetQuarantinedProfile e 1 a d),
      restore_profile = RestoreProfile, purge_profile = PurgeProfile\<rparr>"

end
