(* ===== verification/Store_Machine.thy ===== *)
theory Store_Machine
  imports Launch_Workflow Profile_Lifecycle
begin

text \<open>
  The store as a state machine: one step is one call of a writing operation, whatever it answers;
  \<open>reachable\<close> are the databases a sequence of calls can leave. \<open>store_inv\<close> is the consistency of
  the tables and holds in all of them.
\<close>

section \<open>The registry invariant\<close>

definition alias_key :: "alias_row \<Rightarrow> string" where
  "alias_key r = ToLower (al_alias r)"

definition registered :: "db \<Rightarrow> string set" where
  "registered d = set (map al_profile (aliases d))"

definition aliases_ok :: "db \<Rightarrow> bool" where
  "aliases_ok d \<longleftrightarrow> distinct (map alias_key (aliases d)) \<and> distinct (map al_profile (aliases d))
     \<and> (\<forall>r\<in>set (aliases d). ValidateAlias (al_alias r) = None)
     \<and> registered d \<subseteq> set (map pr_id (profiles d))"

definition quarantine_ok :: "db \<Rightarrow> bool" where
  "quarantine_ok d \<longleftrightarrow> distinct (map qu_id (quarantine d))
     \<and> set (map qu_id (quarantine d)) \<subseteq> registered d
     \<and> (\<forall>l\<in>set (launches d). live l \<longrightarrow> ml_profile l \<notin> set (map qu_id (quarantine d)))"

definition references_ok :: "db \<Rightarrow> bool" where
  "references_ok d \<longleftrightarrow> set (map st_id (stages d)) \<subseteq> registered d
     \<and> (\<forall>l\<in>set (launches d). ml_profile l \<in> registered d)
     \<and> (\<forall>i. selected d = Some (Some i) \<longrightarrow> i \<in> registered d)"

lemma references_ok_code [code]:
  "references_ok d \<longleftrightarrow> set (map st_id (stages d)) \<subseteq> registered d
     \<and> (\<forall>l\<in>set (launches d). ml_profile l \<in> registered d)
     \<and> (case selected d of None \<Rightarrow> True
        | Some s \<Rightarrow> (case s of None \<Rightarrow> True | Some i \<Rightarrow> i \<in> registered d))"
  by (auto simp: references_ok_def split: option.splits)

definition registry_inv :: "db \<Rightarrow> bool" where
  "registry_inv d \<longleftrightarrow> distinct (map pr_id (profiles d)) \<and> aliases_ok d \<and> quarantine_ok d \<and> references_ok d"

definition store_inv :: "db \<Rightarrow> bool" where
  "store_inv d \<longleftrightarrow> launch_inv d \<and> registry_inv d"

lemmas registry_defs = registry_inv_def aliases_ok_def quarantine_ok_def references_ok_def registered_def

lemma quarantined_set: "quarantined d i \<longleftrightarrow> i \<in> set (map qu_id (quarantine d))"
  by (auto simp: quarantined_iff)

lemma launch_inv_cong:
  "launches d' = launches d \<Longrightarrow> checkpoints d' = checkpoints d \<Longrightarrow> launch_inv d' = launch_inv d"
  by (simp add: launch_inv_def keys_ok_def handoffs_ok_def held_def reserved_def exclusive_def used_up_def)

lemma launch_inv_simps [simp]:
  "launch_inv (d\<lparr>profiles := x1\<rparr>) = launch_inv d" "launch_inv (d\<lparr>aliases := x2\<rparr>) = launch_inv d"
  "launch_inv (d\<lparr>homes := x3\<rparr>) = launch_inv d" "launch_inv (d\<lparr>pendings := x4\<rparr>) = launch_inv d"
  "launch_inv (d\<lparr>stages := x5\<rparr>) = launch_inv d" "launch_inv (d\<lparr>selected := x6\<rparr>) = launch_inv d"
  "launch_inv (d\<lparr>quarantine := x7\<rparr>) = launch_inv d" "launch_inv (d\<lparr>assignments := x8\<rparr>) = launch_inv d"
  "launch_inv (d\<lparr>overrides := x9\<rparr>) = launch_inv d" "launch_inv (d\<lparr>evidence := x10\<rparr>) = launch_inv d"
  by (rule launch_inv_cong; simp)+

section \<open>Launch operations keep the registry\<close>

definition same_registry :: "db \<Rightarrow> db \<Rightarrow> bool" where
  "same_registry d d' \<longleftrightarrow> profiles d' = profiles d \<and> aliases d' = aliases d
     \<and> quarantine d' = quarantine d \<and> stages d' = stages d \<and> selected d' = selected d"

lemma registry_launches:
  assumes "registry_inv d" "same_registry d d'"
    and "\<And>l. l \<in> set (launches d') \<Longrightarrow>
      \<exists>m\<in>set (launches d). ml_profile l = ml_profile m \<and> (live l \<longrightarrow> live m)"
  shows "registry_inv d'"
proof -
  have "\<forall>l\<in>set (launches d'). ml_profile l \<in> registered d"
    using assms(1,3) unfolding registry_inv_def references_ok_def by metis
  moreover have "\<forall>l\<in>set (launches d'). live l \<longrightarrow> ml_profile l \<notin> set (map qu_id (quarantine d))"
    using assms(1,3) unfolding registry_inv_def quarantine_ok_def by metis
  ultimately show ?thesis
    using assms(1,2) unfolding registry_defs same_registry_def by simp
qed

lemma update_lease_launches:
  assumes "l \<in> set (launches (update_lease le ss f d))" "set ss \<subseteq> {StatePending, StateRunning}"
    and "\<And>m. ml_profile (f m) = ml_profile m"
  shows "\<exists>m\<in>set (launches d). ml_profile l = ml_profile m \<and> (live l \<longrightarrow> live m)"
proof -
  obtain m where m: "m \<in> set (launches d)"
    "l = (if ml_lease m = le \<and> ml_state m \<in> set ss then f m else m)"
    using assms(1) unfolding launches_update_lease in_upd_where by auto
  then have "ml_profile l = ml_profile m \<and> (live l \<longrightarrow> live m)"
    using assms(2,3) by (auto simp: live_def)
  with m(1) show ?thesis by blast
qed

lemma registry_prepare:
  assumes "registry_inv d" "PrepareLaunch e rq d = (Inr pl, d')"
  shows "registry_inv d'"
  using assms(2)
proof (cases rule: PrepareLaunch_ok)
  case (1 p v home lid lease)
  note lp = live_profileD [OF 1(2)]
  have "pr_id p \<in> registered d" using lp(3) by (force simp: registered_def)
  moreover have "pr_id p \<notin> set (map qu_id (quarantine d))" using lp(2) by (simp add: quarantined_set)
  moreover have "same_registry d d'"
    by (simp add: 1(12) same_registry_def claimed_def set_checkpoint_def)
  ultimately show ?thesis
    using assms(1) by (auto simp: registry_defs same_registry_def 1(12) pending_launch_def)
qed

lemma registry_started:
  assumes "registry_inv d" "MarkManagedLaunchStarted e lease pid d = (Inr u, d')"
  shows "registry_inv d'"
  using assms(2)
proof (cases rule: MarkManagedLaunchStarted_ok)
  case (1 l)
  let ?d1 = "update_lease lease [StatePending] (\<lambda>r. r\<lparr>ml_state := StateRunning, ml_pid := Some pid\<rparr>) d"
  have "launches d' = launches ?d1" "same_registry d d'"
    by (auto simp: 1(4) same_registry_def split: option.splits)
  then show ?thesis
    by (intro registry_launches [OF assms(1)]) (auto dest!: update_lease_launches)
qed

lemma registry_exited:
  assumes "registry_inv d" "MarkManagedLaunchExited e lease st d = (Inr u, d')"
  shows "registry_inv d'"
  using assms(2)
proof (cases rule: MarkManagedLaunchExited_ok)
  case (1 l)
  have "same_registry d d'" by (simp add: 1(4) same_registry_def)
  then show ?thesis
    by (intro registry_launches [OF assms(1)]) (auto simp: 1(4) dest!: update_lease_launches)
qed

lemma registry_abandon_lease:
  assumes "registry_inv d"
  shows "registry_inv (abandon_lease t lease d)"
  by (rule registry_launches [OF assms])
     (auto simp: same_registry_def abandon_lease_def dest: update_lease_launches)

lemma registry_set_checkpoint: "registry_inv (set_checkpoint c s t d) = registry_inv d"
  by (simp add: registry_defs)

lemma registry_reconcile_one: "registry_inv d \<Longrightarrow> registry_inv (reconcile_one t d item)"
  by (auto simp: reconcile_one_def registry_set_checkpoint registry_abandon_lease
      split: prod.splits option.splits)

lemma registry_abandoned:
  assumes "registry_inv d" "MarkManagedLaunchAbandoned e lease d = (Inr u, d')"
  shows "registry_inv d'"
  using assms(2)
proof (cases rule: MarkManagedLaunchAbandoned_ok)
  case (1 l)
  then show ?thesis
    using registry_abandon_lease [OF assms(1)] by (auto simp: registry_set_checkpoint split: option.splits)
qed

lemma registry_reconcile:
  assumes "registry_inv d" "ReconcileManagedLaunches e insp d = (Inr u, d')"
  shows "registry_inv d'"
proof -
  have "registry_inv (foldl (reconcile_one t) d items)" if "registry_inv d" for t d items
    using that by (induction items arbitrary: d) (auto intro: registry_reconcile_one)
  then show ?thesis unfolding ReconcileManagedLaunches_ok [OF assms(2)] using assms(1) by blast
qed

lemma registry_put:
  assumes "registry_inv d" "putCheckpoint e c expected revision d = (Inr u, d')"
  shows "registry_inv d'"
  using assms(2) by (cases rule: putCheckpoint_ok) (use assms(1) in \<open>simp add: registry_defs\<close>)

lemma registry_purge_checkpoint:
  assumes "registry_inv d" "PurgeCheckpoint e c revision d = (Inr u, d')"
  shows "registry_inv d'"
proof (rule registry_launches [OF assms(1)])
  note d' = PurgeCheckpoint_ok(1) [OF assms(2)]
  show "same_registry d d'" by (simp add: d' same_registry_def)
  show "\<exists>m\<in>set (launches d). ml_profile l = ml_profile m \<and> (live l \<longrightarrow> live m)"
    if "l \<in> set (launches d')" for l
    using that by (auto simp: d' in_upd_where live_def)
qed

lemmas registry_launch_ops =
  registry_prepare registry_started registry_exited registry_abandoned registry_reconcile
  registry_put registry_purge_checkpoint

section \<open>Profile operations\<close>

lemma transact_cases: "transact d body = (r, d') \<Longrightarrow> d' = d \<or> (\<exists>a. body = Inr (a, d'))"
  by (auto simp: transact_def split: sum.splits prod.splits)

lemma then_read_cases:
  "then_read (transact d body) f = (r, d') \<Longrightarrow> d' = d \<or> (\<exists>a. body = Inr (a, d'))"
  by (auto simp: then_read_def transact_def split: sum.splits prod.splits)

text \<open>Updates that touch no key and no reference.\<close>

lemma upd_profile_inv: "(\<And>p. pr_id (f p) = pr_id p) \<Longrightarrow> store_inv (upd_profile i f d) = store_inv d"
  by (simp add: store_inv_def upd_profile_def registry_defs
      map_upd_where)

lemma upd_pending_inv: "store_inv (upd_pending i f d) = store_inv d"
  by (simp add: store_inv_def upd_pending_def registry_defs)

lemma upd_stage_inv: "(\<And>p. st_id (f p) = st_id p) \<Longrightarrow> store_inv (upd_stage i f d) = store_inv d"
  by (simp add: store_inv_def upd_stage_def registry_defs
      map_upd_where)

lemma minor_fields_inv:
  "store_inv (d\<lparr>homes := hs\<rparr>) = store_inv d" "store_inv (d\<lparr>pendings := ps\<rparr>) = store_inv d"
  "store_inv (d\<lparr>assignments := asg\<rparr>) = store_inv d"
  by (simp_all add: store_inv_def registry_defs)

lemma select_inv:
  "store_inv d \<Longrightarrow> i \<in> registered d \<Longrightarrow> store_inv (d\<lparr>selected := Some (Some i)\<rparr>)"
  by (simp add: store_inv_def registry_defs)

lemma set_stage_id [simp]: "st_id (set_stage s r) = st_id r"
  by (cases s) (simp_all add: set_stage_def)

lemmas minor_invs = upd_profile_inv upd_pending_inv upd_stage_inv minor_fields_inv

lemma inv_create:
  assumes "store_inv d" "CreatePendingProfile e pp d = (r, d')"
  shows "store_inv d'"
proof -
  have "store_inv d1" if b: "create_body e pp d = Inr (u, d1)" and v: "ValidateAlias (pp_alias pp) = None"
    for u d1
  proof -
    from b have fresh: "alias_key \<lparr>al_profile = pp_id pp, al_alias = pp_alias pp\<rparr> \<notin> alias_key ` set (aliases d)"
      "pp_id pp \<notin> pr_id ` set (profiles d)" "pp_id pp \<notin> al_profile ` set (aliases d)"
      by (auto simp: create_body_def alias_key_def EqualFold_def split: if_splits)
    have d1: "map pr_id (profiles d1) = map pr_id (profiles d) @ [pp_id pp]"
      "aliases d1 = aliases d @ [\<lparr>al_profile = pp_id pp, al_alias = pp_alias pp\<rparr>]"
      "map st_id (stages d1) = map st_id (stages d) @ [pp_id pp]"
      "quarantine d1 = quarantine d" "selected d1 = selected d"
      using b by (auto simp: create_body_def split: if_splits)
    from b have "launches d1 = launches d" "checkpoints d1 = checkpoints d"
      by (auto simp: create_body_def split: if_splits)
    moreover have "registry_inv d1"
    proof -
      from assms(1) have r: "distinct (map pr_id (profiles d))" "aliases_ok d" "quarantine_ok d" "references_ok d"
        by (simp_all add: store_inv_def registry_inv_def)
      have reg: "registered d1 = insert (pp_id pp) (registered d)"
        by (simp add: registered_def d1(2))
      have ids: "set (map pr_id (profiles d1)) = insert (pp_id pp) (set (map pr_id (profiles d)))"
        by (simp only: d1(1)) simp
      have st: "set (map st_id (stages d1)) = insert (pp_id pp) (set (map st_id (stages d)))"
        by (simp only: d1(3)) simp
      have "distinct (map pr_id (profiles d1))"
        unfolding d1(1) using r(1) fresh(2) by simp
      moreover have "aliases_ok d1"
        using r(2) fresh(1,3) v unfolding aliases_ok_def reg ids by (auto simp: d1(2))
      moreover have "quarantine_ok d1"
        using r(3) unfolding quarantine_ok_def reg d1(4) \<open>launches d1 = launches d\<close> by blast
      moreover have "references_ok d1"
        using r(4) unfolding references_ok_def reg st d1(5) \<open>launches d1 = launches d\<close> by blast
      ultimately show ?thesis by (simp add: registry_inv_def)
    qed
    ultimately show ?thesis
      using assms(1) by (simp add: store_inv_def launch_inv_cong [of d1 d])
  qed
  moreover have "d' = d \<or> (ValidateAlias (pp_alias pp) = None \<and> (\<exists>u. create_body e pp d = Inr (u, d')))"
    using assms(2)
    by (auto simp: CreatePendingProfile_def split: option.splits if_splits dest!: transact_cases)
  ultimately show ?thesis using assms(1) by blast
qed

lemma live_alias_registered: "live_alias d a = Some i \<Longrightarrow> i \<in> registered d"
  by (auto simp: live_alias_def registered_def dest: find_SomeD)

lemma set_alias_inv:
  assumes "store_inv d" "ValidateAlias b = None"
    and free: "\<forall>r\<in>set (aliases d). EqualFold (al_alias r) b \<longrightarrow> al_profile r = i"
  shows "store_inv (set_alias i (Some b) d)"
proof -
  let ?f = "\<lambda>r. r\<lparr>al_alias := b\<rparr>"
  from assms(1) have ok: "aliases_ok d" by (simp add: store_inv_def registry_inv_def)
  have keys: "map al_profile (upd_where (\<lambda>r. al_profile r = i) ?f (aliases d)) = map al_profile (aliases d)"
    by (rule map_upd_where) simp
  have "distinct (map alias_key (upd_where (\<lambda>r. al_profile r = i) ?f rows))"
    if "distinct (map alias_key rows)" "distinct (map al_profile rows)" "set rows \<subseteq> set (aliases d)" for rows
    using that
  proof (induction rows)
    case (Cons r rows)
    have "alias_key (if al_profile r = i then ?f r else r) \<notin>
        alias_key ` set (upd_where (\<lambda>r. al_profile r = i) ?f rows)"
    proof
      assume "alias_key (if al_profile r = i then ?f r else r) \<in>
        alias_key ` set (upd_where (\<lambda>r. al_profile r = i) ?f rows)"
      then obtain s where s: "s \<in> set rows"
        "alias_key (if al_profile r = i then ?f r else r) = alias_key (if al_profile s = i then ?f s else s)"
        by (auto simp: in_upd_where)
      have ne: "al_profile s \<noteq> al_profile r" "alias_key s \<noteq> alias_key r"
        using Cons.prems(1,2) s(1) by (auto simp: image_iff)
      have "r \<in> set (aliases d)" "s \<in> set (aliases d)" using Cons.prems(3) s(1) by auto
      then have "\<not> EqualFold (al_alias r) b \<or> al_profile r = i" "\<not> EqualFold (al_alias s) b \<or> al_profile s = i"
        using free by auto
      with s(2) ne show False
        by (auto simp: alias_key_def EqualFold_def split: if_splits)
    qed
    with Cons show ?case by simp
  qed simp
  with ok have "distinct (map alias_key (upd_where (\<lambda>r. al_profile r = i) ?f (aliases d)))"
    by (simp add: aliases_ok_def)
  moreover have "\<forall>r\<in>set (upd_where (\<lambda>r. al_profile r = i) ?f (aliases d)). ValidateAlias (al_alias r) = None"
    using ok assms(2) by (auto simp: in_upd_where aliases_ok_def)
  moreover have "set (map al_profile (upd_where (\<lambda>r. al_profile r = i) ?f (aliases d))) = registered d"
    unfolding registered_def keys ..
  ultimately have "registry_inv (set_alias i (Some b) d)"
    using assms(1) keys
    unfolding store_inv_def registry_inv_def aliases_ok_def quarantine_ok_def references_ok_def
    by (simp add: set_alias_def registered_def)
  then show ?thesis
    using assms(1) by (simp add: store_inv_def set_alias_def)
qed

lemma inv_edit:
  assumes "store_inv d" "EditProfile e a ed d = (r, d')"
  shows "store_inv d'"
proof -
  have "store_inv d1" if b: "edit_body e a ed d = Inr (i, d1)"
    and v: "(case ed_alias ed of None \<Rightarrow> None | Some b \<Rightarrow> ValidateAlias b) = None" for i d1
  proof (cases "ed_alias ed")
    case None
    with b assms(1) show ?thesis
      by (auto simp: edit_body_def minor_invs set_alias_def split: if_splits option.splits)
  next
    case (Some new)
    with b have "\<forall>r\<in>set (aliases d). EqualFold (al_alias r) new \<longrightarrow> al_profile r = i"
      by (auto simp: edit_body_def split: if_splits option.splits)
    with set_alias_inv [OF assms(1)] v Some have "store_inv (set_alias i (Some new) d)" by simp
    with b Some show ?thesis
      by (auto simp: edit_body_def minor_invs split: if_splits option.splits)
  qed
  moreover have "d' = d \<or> ((case ed_alias ed of None \<Rightarrow> None | Some b \<Rightarrow> ValidateAlias b) = None
      \<and> (\<exists>i. edit_body e a ed d = Inr (i, d')))"
    using assms(2) unfolding EditProfile_def
    by (cases "case ed_alias ed of None \<Rightarrow> None | Some b \<Rightarrow> ValidateAlias b")
       (simp_all split: option.splits if_splits, auto dest!: then_read_cases)
  ultimately show ?thesis using assms(1) by blast
qed

lemma inv_set_home:
  assumes "store_inv d" "setHome e i h ow path d = (r, d')"
  shows "store_inv d'"
proof -
  have "store_inv d1" if "set_home_body e i h ow c d = Inr (u, d1)" for c u d1
    using that assms(1) by (auto simp: set_home_body_def minor_invs split: if_splits)
  moreover have "d' = d \<or> (\<exists>c u. set_home_body e i h ow c d = Inr (u, d'))"
    using assms(2) by (auto simp: setHome_def split: if_splits sum.splits dest!: transact_cases)
  ultimately show ?thesis using assms(1) by blast
qed

lemma inv_metadata:
  "store_inv d \<Longrightarrow> SaveDocumentedMetadata e i m d = (r, d') \<Longrightarrow> store_inv d'"
  by (auto simp: SaveDocumentedMetadata_def Let_def minor_invs split: if_splits sum.splits)

lemma inv_stage:
  assumes "store_inv d" "SaveSetupStage e i s d = (r, d')"
  shows "store_inv d'"
proof -
  have "store_inv d1" if "stage_body e i s d = Inr (u, d1)" for u d1
    using that assms(1) by (auto simp: stage_body_def minor_invs split: if_splits)
  moreover have "d' = d \<or> (\<exists>u. stage_body e i s d = Inr (u, d'))"
    using assms(2) by (auto simp: SaveSetupStage_def split: if_splits dest!: transact_cases)
  ultimately show ?thesis using assms(1) by blast
qed

lemma inv_reset: "store_inv d \<Longrightarrow> ResetAuthentication e i d = (r, d') \<Longrightarrow> store_inv d'"
  unfolding ResetAuthentication_def
  by (drule transact_cases) (auto simp: minor_invs split: if_splits)

lemma inv_auth_state: "store_inv d \<Longrightarrow> SetAuthenticationState e i s m d = (r, d') \<Longrightarrow> store_inv d'"
  by (auto simp: SetAuthenticationState_def minor_invs split: if_splits dest!: transact_cases)

lemma inv_promote: "store_inv d \<Longrightarrow> PromotePendingProfile e i d = (r, d') \<Longrightarrow> store_inv d'"
  unfolding PromotePendingProfile_def
  by (drule then_read_cases) (auto simp: minor_invs split: if_splits option.splits)

lemma assign_pack_ok:
  "assign_pack e i pack version d = Inr d1 \<Longrightarrow> \<exists>asg. d1 = d\<lparr>assignments := asg\<rparr>"
  by (auto simp: assign_pack_def split: if_splits option.splits) (metis db.surjective db.update_convs(11))

section \<open>Selection\<close>

lemma lookup_stage_registered:
  "store_inv d \<Longrightarrow> stage_table.lookup i (stages d) = Some st \<Longrightarrow> i \<in> registered d"
  by (auto simp: store_inv_def registry_inv_def references_ok_def dest!: stage_table.lookup_SomeD)

lemma registered_simps [simp]:
  "registered (upd_profile i f d) = registered d" "registered (upd_pending i g d) = registered d"
  "registered (upd_stage i h d) = registered d" "registered (d\<lparr>assignments := asg\<rparr>) = registered d"
  "registered (d\<lparr>profiles := ps\<rparr>) = registered d"
  "registered (d\<lparr>selected := sel\<rparr>) = registered d" "registered (d\<lparr>quarantine := qs\<rparr>) = registered d"
  by (simp_all add: registered_def upd_profile_def upd_pending_def upd_stage_def)

lemma selection_body_ok:
  assumes "selection_body e i pack version d = Inr (sel, d')"
  obtains st asg where "stage_table.lookup i (stages d) = Some st"
    "d' = (upd_stage i (\<lambda>s. s\<lparr>st_selection := True\<rparr>)
             ((upd_profile i (\<lambda>p. p\<lparr>pr_status := StatusReady, pr_updated := clock_now e\<rparr>)
                (d\<lparr>assignments := asg\<rparr>))
               \<lparr>selected := (if current_selection e d = None then Some (Some i) else selected d)\<rparr>))
           \<lparr>pendings := del_where (\<lambda>r. pe_id r = i) (pendings d)\<rparr>"
    "sel = (case current_selection e d of None \<Rightarrow> i | Some s \<Rightarrow> s)"
proof -
  from assms obtain d1 where d1: "assign_pack e i pack version d = Inr d1"
    by (auto simp: selection_body_def split: if_splits option.splits sum.splits)
  from assign_pack_ok [OF this] obtain asg where asg: "d1 = d\<lparr>assignments := asg\<rparr>" by auto
  from assms obtain st where st: "stage_table.lookup i (stages d) = Some st"
    by (auto simp: selection_body_def split: if_splits option.splits)
  have cur: "current_selection e (d\<lparr>assignments := asg, profiles := ps\<rparr>) = current_selection e d" for ps
    by (simp add: current_selection_def)
  show ?thesis
    using assms d1 st
    by (intro that [of st asg])
       (auto simp: selection_body_def asg cur Let_def upd_profile_def upd_stage_def
         split: if_splits option.splits)
qed

lemma inv_complete_selection:
  assumes "store_inv d" "CompleteInitialSelection e i pack version d = (r, d')"
  shows "store_inv d'"
proof -
  have "store_inv d1" if "selection_body e i pack version d = Inr (sel, d1)" for sel d1
    using that
  proof (cases rule: selection_body_ok)
    case (1 st asg)
    have "store_inv (upd_profile i (\<lambda>p. p\<lparr>pr_status := StatusReady, pr_updated := clock_now e\<rparr>)
             (d\<lparr>assignments := asg\<rparr>))" (is "store_inv ?d2")
      using assms(1) by (simp add: minor_invs)
    moreover have "i \<in> registered d"
      using lookup_stage_registered [OF assms(1) 1(1)] .
    ultimately have "store_inv (?d2\<lparr>selected := if current_selection e d = None then Some (Some i) else selected d\<rparr>)"
      using select_inv [of ?d2 i] by (simp add: upd_profile_def)
    then show ?thesis by (simp add: 1(2) minor_invs)
  qed
  moreover have "d' = d \<or> (\<exists>sel. selection_body e i pack version d = Inr (sel, d'))"
    using assms(2)
    by (auto simp: CompleteInitialSelection_def split: option.splits dest!: then_read_cases)
  ultimately show ?thesis using assms(1) by blast
qed

lemma live_profile_registered: "live_profile d a = Some p \<Longrightarrow> pr_id p \<in> registered d"
  using live_profileD(3) [of d a p] by (force simp: registered_def)

lemma select_body_ok:
  "select_body e a d = Inr ((i, w), d') \<Longrightarrow>
     \<exists>p. live_profile d a = Some p \<and> pr_status p = StatusReady \<and> i = pr_id p
       \<and> d' = d\<lparr>selected := Some (Some i)\<rparr>
       \<and> w = (0 < count_where (\<lambda>l. ml_state l = StateRunning \<and> ml_profile l \<noteq> i) (launches d))"
  by (auto simp: select_body_def Let_def split: if_splits option.splits)

lemma inv_select:
  assumes "store_inv d" "SelectProfile e a d = (r, d')"
  shows "store_inv d'"
proof -
  have "d' = d \<or> (\<exists>i w. select_body e a d = Inr ((i, w), d'))"
    using assms(2) by (auto simp: SelectProfile_def split: option.splits dest!: then_read_cases)
  then show ?thesis
    using assms(1) by (auto dest!: select_body_ok intro: select_inv live_profile_registered)
qed

section \<open>Removal\<close>

lemma deleteProfileRows_ok: "deleteProfileRows e n i d = Some d' \<Longrightarrow> d' = delete_rows i d"
  by (auto simp: deleteProfileRows_def split: if_splits)

lemma delete_launch_inv:
  assumes "launch_inv d" "\<forall>l\<in>set (launches d). ml_profile l = i \<longrightarrow> \<not> live l"
  shows "launch_inv (delete_rows i d)"
proof -
  let ?d = "delete_rows i d"
  have L: "set (launches ?d) = {l \<in> set (launches d). ml_profile l \<noteq> i}"
    and C: "checkpoints ?d = checkpoints d"
    by (simp_all add: delete_rows_def)
  have "keys_ok ?d"
    using assms(1) by (simp add: launch_inv_def keys_ok_def delete_rows_def launch_table.wf_def
        del_where_def distinct_map_filter)
  moreover have "held ?d"
    using assms unfolding launch_inv_def handoffs_ok_def held_def exists_where_iff L C live_def by blast
  moreover have "reserved ?d" "exclusive ?d" "used_up ?d"
    using assms(1) unfolding launch_inv_def handoffs_ok_def reserved_def exclusive_def used_up_def
      exists_where_iff L C by blast+
  ultimately show ?thesis
    using assms(1) by (simp add: launch_inv_def handoffs_ok_def L)
qed

lemma distinct_del: "distinct (map f xs) \<Longrightarrow> distinct (map f (del_where p xs))"
  by (simp add: del_where_def distinct_map_filter)

lemma delete_registry_inv:
  assumes "registry_inv d"
  shows "registry_inv (delete_rows i d)"
proof -
  let ?d = "delete_rows i d"
  have reg: "registered ?d = registered d - {i}"
    by (auto simp: registered_def delete_rows_def)
  have ids: "map pr_id (profiles ?d) = map pr_id (profiles d)"
    by (simp add: delete_rows_def map_upd_where tombstone_def)
  have "aliases_ok ?d"
    using assms unfolding registry_inv_def aliases_ok_def reg ids
    by (auto simp: delete_rows_def distinct_del)
  moreover have "quarantine_ok ?d"
    using assms unfolding registry_inv_def quarantine_ok_def reg
    by (auto simp: delete_rows_def distinct_del)
  moreover have "references_ok ?d"
    using assms unfolding registry_inv_def references_ok_def reg
    by (auto simp: delete_rows_def is_selected_def)
  ultimately show ?thesis
    using assms by (simp add: registry_inv_def ids)
qed

lemma delete_rows_inv:
  "store_inv d \<Longrightarrow> \<forall>l\<in>set (launches d). ml_profile l = i \<longrightarrow> \<not> live l \<Longrightarrow> store_inv (delete_rows i d)"
  by (simp add: store_inv_def delete_launch_inv delete_registry_inv)

lemma replace_selection_ok:
  assumes "replace_selection e i a replacement d = Inr (was, d')"
  shows "was = is_selected d i"
    and "\<not> was \<Longrightarrow> d' = d"
    and "was \<Longrightarrow> \<exists>p. live_profile d replacement = Some p \<and> pr_status p = StatusReady
       \<and> \<not> EqualFold a replacement \<and> d' = d\<lparr>selected := Some (Some (pr_id p))\<rparr>"
  using assms by (auto simp: replace_selection_def split: if_splits option.splits)

lemma removal_body_ok:
  assumes "removal_body e item a replacement d = Inr (r, d')"
  obtains was d1 where "removal_running d (ip_id item) = 0"
    "replace_selection e (ip_id item) a replacement d = Inr (was, d1)"
    "(ip_ownership item = HomeOwnershipReferenced \<and> d' = delete_rows (ip_id item) d1
        \<and> rr_action r = RemovalDeregistered \<and> rr_profile r = item)
     \<or> (ip_ownership item = HomeOwnershipManaged \<and> \<not> quarantined d1 (ip_id item)
        \<and> r = \<lparr>rr_profile = item, rr_action = RemovalQuarantined, rr_state = QuarantinePrepared,
               rr_at = clock_now e, rr_purge_after = clock_now e + profileQuarantinePeriod\<rparr>
        \<and> d' = d1\<lparr>quarantine := quarantine d1 @
                         [\<lparr>qu_id = ip_id item, qu_state = QuarantinePrepared, qu_was_selected = was,
                           qu_at = clock_now e,
                           qu_purge_after = clock_now e + profileQuarantinePeriod\<rparr>]\<rparr>)"
  using assms
  by (auto simp: removal_body_def split: if_splits sum.splits option.splits prod.splits
      dest!: deleteProfileRows_ok)

lemma running_0: "removal_running d i = 0 \<longleftrightarrow> (\<forall>l\<in>set (launches d). ml_profile l = i \<longrightarrow> \<not> live l)"
  by (auto simp: removal_running_def count_where_0 live_def)

lemma replace_selection_inv:
  assumes "store_inv d" "replace_selection e i a replacement d = Inr (was, d')"
  shows "store_inv d' \<and> launches d' = launches d \<and> registered d' = registered d \<and> quarantine d' = quarantine d"
  using replace_selection_ok [OF assms(2)] assms(1)
  by (cases was) (auto intro: select_inv live_profile_registered)

lemma inv_removal_body:
  assumes "store_inv d" "ip_id item \<in> registered d" "removal_body e item a replacement d = Inr (r, d')"
  shows "store_inv d'"
  using assms(3)
proof (cases rule: removal_body_ok)
  case (1 was d1)
  note r = replace_selection_inv [OF assms(1) 1(2)]
  have idle: "\<forall>l\<in>set (launches d1). ml_profile l = ip_id item \<longrightarrow> \<not> live l"
    using 1(1) r by (simp add: running_0)
  from 1(3) show ?thesis
  proof
    assume "ip_ownership item = HomeOwnershipReferenced \<and> d' = delete_rows (ip_id item) d1
        \<and> rr_action r = RemovalDeregistered \<and> rr_profile r = item"
    then show ?thesis using delete_rows_inv [OF conjunct1 [OF r] idle] by simp
  next
    let ?q = "\<lparr>qu_id = ip_id item, qu_state = QuarantinePrepared, qu_was_selected = was,
                qu_at = clock_now e, qu_purge_after = clock_now e + profileQuarantinePeriod\<rparr>"
    assume a: "ip_ownership item = HomeOwnershipManaged \<and> \<not> quarantined d1 (ip_id item)
        \<and> r = \<lparr>rr_profile = item, rr_action = RemovalQuarantined, rr_state = QuarantinePrepared,
               rr_at = clock_now e, rr_purge_after = clock_now e + profileQuarantinePeriod\<rparr>
        \<and> d' = d1\<lparr>quarantine := quarantine d1 @ [?q]\<rparr>"
    have reg: "registered (d1\<lparr>quarantine := q\<rparr>) = registered d1" for q by simp
    have "quarantine_ok d'"
      using a r idle assms(2) unfolding store_inv_def registry_inv_def quarantine_ok_def
      by (auto simp: quarantined_set) (blast dest: subsetD [OF _ imageI])
    moreover have "aliases_ok d'" "references_ok d'"
      using a r unfolding store_inv_def registry_inv_def aliases_ok_def references_ok_def by auto
    ultimately show ?thesis
      using a r by (simp add: store_inv_def registry_inv_def)
  qed
qed

lemma getIdentityProfile_id: "getIdentityProfile e n d i = Inr r \<Longrightarrow> ip_id r = i \<and> alias_of d i = Some (ip_alias r)"
  by (auto simp: getIdentityProfile_def scanIdentityProfile_def split: if_splits option.splits
      dest: profile_table.lookup_SomeD)

lemma read_profile_id: "read_profile e n d i = Inr r \<Longrightarrow> ip_id r = i \<and> alias_of d i = Some (ip_alias r)"
  by (auto simp: read_profile_def populateIdentityHomePath_def split: sum.splits if_splits option.splits
      dest!: getIdentityProfile_id)

lemma GetProfile_ok:
  "GetProfile e a d = Inr item \<Longrightarrow> live_alias d a = Some (ip_id item) \<and> ip_id item \<in> registered d"
  by (auto simp: GetProfile_def split: option.splits if_splits dest!: read_profile_id
      intro: live_alias_registered)

lemma BeginProfileRemoval_cases:
  assumes "BeginProfileRemoval e a replacement d = (r, d')"
  obtains "d' = d" | item rec where "GetProfile e a d = Inr item" "r = Inr rec"
    "removal_body e item a replacement d = Inr (rec, d')" "clock_now e \<noteq> 0"
  using assms
  by (auto simp: BeginProfileRemoval_def transact_def split: option.splits sum.splits if_splits prod.splits)

lemma inv_begin:
  assumes "store_inv d" "BeginProfileRemoval e a replacement d = (r, d')"
  shows "store_inv d'"
  using assms(2)
proof (cases rule: BeginProfileRemoval_cases)
  case (2 item rec)
  with inv_removal_body [OF assms(1)] GetProfile_ok show ?thesis by blast
qed (use assms(1) in simp)

lemma inv_quarantine_state:
  assumes "store_inv d" "updateQuarantineState e i from to d = (r, d')"
  shows "store_inv d'"
proof (cases "d' = d")
  case False
  then have d': "d' = d\<lparr>quarantine := upd_where (\<lambda>q. qu_id q = i \<and> qu_state q = from)
                                       (\<lambda>q. q\<lparr>qu_state := to\<rparr>) (quarantine d)\<rparr>"
    using assms(2) by (auto simp: updateQuarantineState_def split: if_splits)
  have m: "map qu_id (quarantine d') = map qu_id (quarantine d)"
    unfolding d' by (simp add: map_upd_where)
  show ?thesis
    using assms(1)
    unfolding store_inv_def registry_inv_def aliases_ok_def quarantine_ok_def references_ok_def m
    by (simp add: d')
qed (use assms(1) in simp)

lemma leave_inv: "store_inv d \<Longrightarrow> store_inv (leave_quarantine i d)"
  unfolding store_inv_def registry_defs leave_quarantine_def
  by (auto simp: distinct_del)

lemma inv_cancel:
  assumes "store_inv d" "CancelProfileRemoval e i d = (r, d')"
  shows "store_inv d'"
proof (cases "d' = d")
  case False
  then obtain q where q: "in_quarantine d i QuarantinePrepared = Some q"
    and d': "d' = leave_quarantine i
              (if qu_was_selected q \<and> selected d \<noteq> None then d\<lparr>selected := Some (Some i)\<rparr> else d)"
    using assms(2) unfolding CancelProfileRemoval_def
    by (auto dest!: transact_cases split: if_splits option.splits)
  have "i \<in> set (map qu_id (quarantine d))"
    using q by (auto simp: in_quarantine_def dest!: find_SomeD)
  then have "i \<in> registered d"
    using assms(1) by (auto simp: store_inv_def registry_inv_def quarantine_ok_def)
  then show ?thesis unfolding d' using assms(1) by (auto intro: leave_inv select_inv)
qed (use assms(1) in simp)

lemma RestoreProfile_ok:
  assumes "RestoreProfile e i d = (Inr u, d')"
  shows "\<exists>q. in_quarantine d i QuarantineReady = Some q \<and> clock_now e < qu_purge_after q"
    "d' = leave_quarantine i d"
  using assms by (auto simp: RestoreProfile_def split: if_splits option.splits)

lemma RestoreProfile_error: "RestoreProfile e i d = (Inl x, d') \<Longrightarrow> d' = d"
  by (auto simp: RestoreProfile_def split: if_splits option.splits)

lemma inv_restore: "store_inv d \<Longrightarrow> RestoreProfile e i d = (r, d') \<Longrightarrow> store_inv d'"
  by (cases r) (auto dest: RestoreProfile_error RestoreProfile_ok(2) intro: leave_inv)

lemma PurgeProfile_ok:
  assumes "PurgeProfile e i d = (Inr u, d')"
  shows "\<exists>q. in_quarantine d i QuarantineReady = Some q" "d' = delete_rows i d"
  using assms
  by (auto simp: PurgeProfile_def transact_Inr split: if_splits option.splits dest!: deleteProfileRows_ok)

lemma inv_purge:
  assumes "store_inv d" "PurgeProfile e i d = (r, d')"
  shows "store_inv d'"
proof (cases r)
  case (Inl x)
  with assms show ?thesis by (simp add: PurgeProfile_def transact_Inl)
next
  case (Inr u)
  note p = PurgeProfile_ok [OF assms(2) [unfolded Inr]]
  from p(1) have "i \<in> set (map qu_id (quarantine d))"
    by (auto simp: in_quarantine_def dest!: find_SomeD)
  then have "\<forall>l\<in>set (launches d). ml_profile l = i \<longrightarrow> \<not> live l"
    using assms(1) by (auto simp: store_inv_def registry_inv_def quarantine_ok_def)
  with delete_rows_inv [OF assms(1)] p(2) show ?thesis by simp
qed

section \<open>Steps and reachable databases\<close>

inductive store_step :: "db \<Rightarrow> db \<Rightarrow> bool" where
  prepare: "PrepareLaunch e rq d = (r, d') \<Longrightarrow> store_step d d'"
| started: "MarkManagedLaunchStarted e lease pid d = (r1, d') \<Longrightarrow> store_step d d'"
| exited: "MarkManagedLaunchExited e lease st d = (r1, d') \<Longrightarrow> store_step d d'"
| abandoned: "MarkManagedLaunchAbandoned e lease d = (r1, d') \<Longrightarrow> store_step d d'"
| reconciled: "ReconcileManagedLaunches e insp d = (r1, d') \<Longrightarrow> store_step d d'"
| save: "SaveCheckpoint e c metadata expected revision d = (r1, d') \<Longrightarrow> save_allowed d c expected \<Longrightarrow>
    store_step d d'"
| purge_checkpoint: "PurgeCheckpoint e i revision d = (r1, d') \<Longrightarrow> store_step d d'"
| create: "CreatePendingProfile e pp d = (r1, d') \<Longrightarrow> store_step d d'"
| edit: "EditProfile e a ed d = (r2, d') \<Longrightarrow> store_step d d'"
| managed_home: "SetManagedHome e i h path d = (r1, d') \<Longrightarrow> store_step d d'"
| referenced_home: "SetReferencedHome e i h path d = (r1, d') \<Longrightarrow> store_step d d'"
| metadata: "SaveDocumentedMetadata e i m d = (r3, d') \<Longrightarrow> store_step d d'"
| stage: "SaveSetupStage e i s d = (r1, d') \<Longrightarrow> store_step d d'"
| reset: "ResetAuthentication e i d = (r1, d') \<Longrightarrow> store_step d d'"
| auth_state: "SetAuthenticationState e i status method d = (r1, d') \<Longrightarrow> store_step d d'"
| promote: "PromotePendingProfile e i d = (r2, d') \<Longrightarrow> store_step d d'"
| complete_selection: "CompleteInitialSelection e i pack version d = (r2, d') \<Longrightarrow> store_step d d'"
| select_profile: "SelectProfile e a d = (r4, d') \<Longrightarrow> store_step d d'"
| begin_removal: "BeginProfileRemoval e a replacement d = (r5, d') \<Longrightarrow> store_step d d'"
| complete_removal: "CompleteProfileQuarantine e i d = (r1, d') \<Longrightarrow> store_step d d'"
| cancel_removal: "CancelProfileRemoval e i d = (r1, d') \<Longrightarrow> store_step d d'"
| restored: "RestoreProfile e i d = (r1, d') \<Longrightarrow> store_step d d'"
| purged: "PurgeProfile e i d = (r1, d') \<Longrightarrow> store_step d d'"

definition empty_db :: db where
  "empty_db = \<lparr>profiles = [], aliases = [], homes = [], pendings = [], stages = [], selected = None,
     quarantine = [], launches = [], checkpoints = [], packs = [], assignments = [], overrides = [],
     evidence = []\<rparr>"

text \<open>The packs of a store are managed elsewhere; any set of them may be present.\<close>

inductive reachable :: "db \<Rightarrow> bool" where
  init: "reachable (empty_db\<lparr>packs := ps\<rparr>)"
| step: "reachable d \<Longrightarrow> store_step d d' \<Longrightarrow> reachable d'"

lemma store_inv_launch_ops:
  "store_inv d \<Longrightarrow> PrepareLaunch e rq d = (r, d') \<Longrightarrow> store_inv d'"
  "store_inv d \<Longrightarrow> MarkManagedLaunchStarted e lease pid d = (r1, d') \<Longrightarrow> store_inv d'"
  "store_inv d \<Longrightarrow> MarkManagedLaunchExited e lease st d = (r1, d') \<Longrightarrow> store_inv d'"
  "store_inv d \<Longrightarrow> MarkManagedLaunchAbandoned e lease d = (r1, d') \<Longrightarrow> store_inv d'"
  "store_inv d \<Longrightarrow> ReconcileManagedLaunches e insp d = (r1, d') \<Longrightarrow> store_inv d'"
  unfolding store_inv_def
  by (cases r; cases r1; auto dest: launch_errors intro: launch_inv_ops registry_launch_ops)+

lemma store_inv_checkpoint_ops:
  "store_inv d \<Longrightarrow> putCheckpoint e c expected revision d = (r, d') \<Longrightarrow> save_allowed d c expected \<Longrightarrow> store_inv d'"
  "store_inv d \<Longrightarrow> PurgeCheckpoint e i revision d = (r, d') \<Longrightarrow> store_inv d'"
  unfolding store_inv_def
  by (cases r; auto dest: putCheckpoint_error PurgeCheckpoint_error intro: launch_inv_ops registry_launch_ops)+

lemma save_allowed_metadata [simp]:
  "save_allowed d (c\<lparr>ck_metadata := m\<rparr>) expected = save_allowed d c expected"
  by (simp add: save_allowed_def split: option.splits)

lemma inv_save:
  assumes "store_inv d" "SaveCheckpoint e c metadata expected revision d = (r, d')" "save_allowed d c expected"
  shows "store_inv d'"
  using store_inv_checkpoint_ops(1) [OF assms(1) assms(2) [unfolded SaveCheckpoint_def]] assms(3)
  by simp

lemmas store_inv_ops =
  store_inv_launch_ops store_inv_checkpoint_ops(2) inv_save inv_create inv_edit inv_metadata inv_stage inv_reset
  inv_auth_state inv_promote inv_complete_selection inv_select inv_begin inv_cancel inv_restore inv_purge

lemma store_step_inv: "store_step d d' \<Longrightarrow> store_inv d \<Longrightarrow> store_inv d'"
  by (induction rule: store_step.induct)
     (auto intro: store_inv_ops inv_set_home inv_quarantine_state
       simp: SetManagedHome_def SetReferencedHome_def CompleteProfileQuarantine_def)

lemma empty_inv: "store_inv (empty_db\<lparr>packs := ps\<rparr>)"
  by (simp add: store_inv_def registry_defs launch_inv_def keys_ok_def handoffs_ok_def held_def
      reserved_def exclusive_def used_up_def empty_db_def launch_table.wf_def checkpoint_table.wf_def)

lemma reachable_inv: "reachable d \<Longrightarrow> store_inv d"
  by (induction rule: reachable.induct) (auto intro: empty_inv store_step_inv)

end
