(* ===== verification/Sample_Env.thy ===== *)
theory Sample_Env
  imports Store_State
begin

text \<open>The collaborators of a sample call, for the witnesses: a vault that prefixes its texts, and no failing call.\<close>

definition sample_vault :: vault_ops where
  "sample_vault = \<lparr>v_encrypt = \<lambda>p a. Inr (CHR ''!'' # p),
     v_decrypt = \<lambda>c a. (case c of [] \<Rightarrow> Inl (plain Opaque) | x # p \<Rightarrow> Inr p)\<rparr>"

definition sample_env :: "time \<Rightarrow> env" where
  "sample_env t = \<lparr>clock_now = t, db_fails = \<lambda>c. False, vault = Some sample_vault,
     fresh = \<lambda>k. Some (''new-'' @ k), is_dir = \<lambda>p. True,
     metadata_fields = \<lambda>m. Some (''approved'', m), metadata_revision = \<lambda>m. Some m,
     before_selection = \<lambda>i. None\<rparr>"

end
