(* ===== verification/Sample_Store.thy ===== *)
theory Sample_Store
  imports Store_Machine Sample_Env
begin

text \<open>
  One concrete store and environment on which the witnesses of the store's properties run: two
  ready profiles with managed homes, \<open>work\<close> selected; a project whose last launch, of \<open>work\<close>, has
  exited; an approved checkpoint of that project.
\<close>

definition sample_profile :: "string \<Rightarrow> string \<Rightarrow> profile_row" where
  "sample_profile i n =
     \<lparr>pr_id = i, pr_display_name = n, pr_email = [], pr_workspace = [], pr_status = StatusReady,
      pr_home = Some i, pr_method = AuthMethodBrowser, pr_created = 10, pr_updated = 10\<rparr>"

definition sample_home :: "string \<Rightarrow> home_row" where
  "sample_home i = \<lparr>ho_id = i, ho_profile = i, ho_ownership = HomeOwnershipManaged,
     ho_location = ''!/homes/'' @ i, ho_login = [], ho_workspace = []\<rparr>"

definition sample_stage :: "string \<Rightarrow> stage_row" where
  "sample_stage i = \<lparr>st_id = i, st_discovery = True, st_home = True, st_authentication = True,
     st_validation = True, st_selection = True\<rparr>"

definition sample_launch :: launch_row where
  "sample_launch = \<lparr>ml_id = ''l1'', ml_profile = ''p1'', ml_lease = ''lease1'', ml_project = Some ''proj'',
     ml_state = StateExited, ml_started = 20, ml_ended = Some 30, ml_pid = Some 7, ml_exit = Some 0,
     ml_session = None, ml_checkpoint = None, ml_revision = None, ml_boot = None\<rparr>"

definition sample_checkpoint :: checkpoint_row where
  "sample_checkpoint = \<lparr>cp_id = ''c1'', cp_project = Some ''proj'', cp_status = StatusApproved,
     cp_fields = [None, None, None, None, None, None], cp_metadata = Some ''!r1'', cp_created = 25,
     cp_expires = Some 1000\<rparr>"

definition sample_db :: db where
  "sample_db = \<lparr>profiles = [sample_profile ''p1'' ''Work'', sample_profile ''p2'' ''Alt''],
     aliases = [\<lparr>al_profile = ''p1'', al_alias = ''work''\<rparr>, \<lparr>al_profile = ''p2'', al_alias = ''alt''\<rparr>],
     homes = [sample_home ''p1'', sample_home ''p2''], pendings = [],
     stages = [sample_stage ''p1'', sample_stage ''p2''], selected = Some (Some ''p1''),
     quarantine = [], launches = [sample_launch], checkpoints = [sample_checkpoint], packs = [],
     assignments = [], overrides = [], evidence = []\<rparr>"

definition sample_request :: prepare_request where
  "sample_request = \<lparr>rq_alias = ''alt'', rq_executable = ''/bin/codex'', rq_directory = ''/src'',
     rq_arguments = [''resume''], rq_project = ''proj'', rq_session = [], rq_checkpoint = ''c1'',
     rq_revision = ''r1'', rq_source = ''p1'', rq_boot = ''b1''\<rparr>"

lemma sample_vault_inverse: "vault_inverse sample_vault"
  by (simp add: vault_inverse_def sample_vault_def)

lemma sample_inv: "store_inv sample_db"
  by code_simp

definition sample_launching :: db where
  "sample_launching = snd (PrepareLaunch (sample_env 100) sample_request sample_db)"

lemma sample_prepare:
  "PrepareLaunch (sample_env 100) sample_request sample_db =
     (Inr (planned sample_request ''new-lease'' ''/homes/p2''), sample_launching)"
  by code_simp

section \<open>A history from the empty store\<close>

text \<open>Two profiles are set up; \<open>work\<close> is launched in a project and exits; a checkpoint is drafted and
  approved and handed off to \<open>alt\<close>; then \<open>work\<close> is removed with \<open>alt\<close> as its replacement.\<close>

definition sample_pending :: "string \<Rightarrow> string \<Rightarrow> pending_profile" where
  "sample_pending i a = \<lparr>pp_id = i, pp_alias = a, pp_display_name = a, pp_status = StatusPending,
     pp_home = [], pp_ownership = HomeOwnershipUnset, pp_method = AuthMethodUnset,
     pp_stages = \<lparr>ss_discovery = False, ss_home = False, ss_authentication = False,
       ss_validation = False, ss_selection = False\<rparr>, pp_home_path = []\<rparr>"

definition sample_draft :: "checkpoint_status \<Rightarrow> checkpoint" where
  "sample_draft st = \<lparr>ck_id = ''c1'', ck_project = ''proj'', ck_status = st, ck_goal = Some ''goal'',
     ck_completed = None, ck_pending = None, ck_validation = None, ck_risks = None, ck_next = None,
     ck_metadata = Some ''r1'', ck_created = 40, ck_expires = Some 1000\<rparr>"

datatype operation =
    OCreate string string | OHome string | OStage string setup_stage | OSelect string
  | OPrepare prepare_request | OStart string | OExit string | OSave checkpoint "checkpoint_status option"
  | ORemove string string

fun operate :: "time \<Rightarrow> operation \<Rightarrow> db \<Rightarrow> db" where
  "operate t (OCreate i a) d = snd (CreatePendingProfile (sample_env t) (sample_pending i a) d)"
| "operate t (OHome i) d = snd (SetManagedHome (sample_env t) i i (''/homes/'' @ i) d)"
| "operate t (OStage i s) d = snd (SaveSetupStage (sample_env t) i s d)"
| "operate t (OSelect i) d = snd (CompleteInitialSelection (sample_env t) i [] [] d)"
| "operate t (OPrepare rq) d =
     snd (PrepareLaunch (sample_env t\<lparr>fresh := \<lambda>k. Some (rq_alias rq @ k)\<rparr>) rq d)"
| "operate t (OStart l) d = snd (MarkManagedLaunchStarted (sample_env t) l 9 d)"
| "operate t (OExit l) d = snd (MarkManagedLaunchExited (sample_env t) l 0 d)"
| "operate t (OSave c st) d =
     (if save_allowed d c st
      then snd (SaveCheckpoint (sample_env t) c ''r1'' st (if st = None then [] else ''r1'') d) else d)"
| "operate t (ORemove a b) d = snd (BeginProfileRemoval (sample_env t) a b d)"

definition operate_all :: "(time \<times> operation) list \<Rightarrow> db \<Rightarrow> db" where
  "operate_all ops d = foldl (\<lambda>d (t, op). operate t op d) d ops"

lemma operate_reachable: "reachable d \<Longrightarrow> reachable (operate t op d)"
proof -
  assume r: "reachable d"
  note p = prod.collapse [symmetric]
  show ?thesis
    by (cases op; simp; intro conjI impI r reachable.step [OF r])
       (assumption | rule store_step.create [OF p] store_step.managed_home [OF p] store_step.stage [OF p]
          store_step.complete_selection [OF p] store_step.prepare [OF p] store_step.started [OF p]
          store_step.exited [OF p] store_step.save [OF p] store_step.begin_removal [OF p])+
qed

lemma operate_all_reachable: "reachable d \<Longrightarrow> reachable (operate_all ops d)"
  unfolding operate_all_def by (induction ops arbitrary: d) (auto intro: operate_reachable)

definition sample_setup :: "(time \<times> operation) list" where
  "sample_setup =
     concat (map (\<lambda>(i, a). [(10, OCreate i a), (11, OHome i), (12, OStage i StageAuthentication),
                            (13, OStage i StageValidation), (14, OSelect i)])
                 [(''p1'', ''work''), (''p2'', ''alt'')])
     @ [(20, OPrepare (sample_request\<lparr>rq_alias := ''work'', rq_checkpoint := []\<rparr>)),
        (21, OStart ''worklease''), (30, OExit ''worklease''), (40, OSave (sample_draft StatusDraft) None),
        (41, OSave (sample_draft StatusApproved) (Some StatusDraft)), (50, OPrepare sample_request)]"

definition sample_store :: db where
  "sample_store = operate_all sample_setup (empty_db\<lparr>packs := []\<rparr>)"

definition sample_removed :: db where
  "sample_removed = operate 60 (ORemove ''work'' ''alt'') sample_store"

lemma sample_reachable: "reachable sample_store" "reachable sample_removed"
  unfolding sample_removed_def sample_store_def
  by (intro operate_reachable operate_all_reachable reachable.init)+

lemma sample_store_facts:
  "map (\<lambda>l. (ml_lease l, ml_profile l, ml_state l, ml_checkpoint l)) (launches sample_store) =
     [(''worklease'', ''p1'', StateExited, None), (''altlease'', ''p2'', StatePending, Some ''c1'')]"
  "map (\<lambda>c. (cp_id c, cp_status c)) (checkpoints sample_store) = [(''c1'', StatusLaunching)]"
  "selected sample_store = Some (Some ''p1'')"
  by code_simp+

lemma sample_removed_facts:
  "map (\<lambda>q. (qu_id q, qu_state q)) (quarantine sample_removed) = [(''p1'', QuarantinePrepared)]"
  "selected sample_removed = Some (Some ''p2'')"
  by code_simp+

end
