(* ===== verification/Lifecycle_Contract.thy ===== *)
theory Lifecycle_Contract
  imports Sample_Store
begin

text \<open>
  The contract between the removal workflow (\<open>Remove\<close>, \<open>Restore\<close>, \<open>Purge\<close> of
  \<^verbatim>\<open>internal/profile/lifecycle.go\<close>) and its repository, over the phase a profile is in; the
  workflow's guarantees from it; and the store as such a repository.
\<close>

datatype phase = Active | Prepared | InQuarantine | Removed

text \<open>The moves of one profile.\<close>

inductive phase_step :: "phase \<Rightarrow> phase \<Rightarrow> bool" where
  deregister: "phase_step Active Removed"
| prepare: "phase_step Active Prepared"
| cancel: "phase_step Prepared Active"
| complete: "phase_step Prepared InQuarantine"
| restore: "phase_step InQuarantine Active"
| purge: "phase_step InQuarantine Removed"

inductive_cases phase_step_removed: "phase_step Removed p"

inductive_simps phase_step_prepared: "phase_step Prepared p"

lemma removed_final: "phase_step\<^sup>*\<^sup>* Removed p \<Longrightarrow> p = Removed"
  by (induction rule: rtranclp_induct) (auto elim: phase_step_removed)

locale removal_repository =
  fixes repo :: "('e, 's) lifecycle_repository"
    and phase_of :: "'s \<Rightarrow> string \<Rightarrow> phase"
    and named :: "'s \<Rightarrow> string \<Rightarrow> string \<Rightarrow> bool"
    and inv :: "'s \<Rightarrow> bool"
  assumes refused:
      "begin_removal repo e a rp s = (Inl x, s') \<Longrightarrow> s' = s"
      "complete_quarantine repo e i s = (Inl x, s') \<Longrightarrow> s' = s"
      "cancel_removal repo e i s = (Inl x, s') \<Longrightarrow> s' = s"
      "restore_profile repo e i s = (Inl x, s') \<Longrightarrow> s' = s"
      "purge_profile repo e i s = (Inl x, s') \<Longrightarrow> s' = s"
    and begun: "inv s \<Longrightarrow> begin_removal repo e a rp s = (Inr r, s') \<Longrightarrow> inv s' \<and>
      named s a (ip_id (rr_profile r)) \<and>
      ((s' = s \<and> rr_action r \<noteq> RemovalDeregistered)
       \<or> (phase_of s (ip_id (rr_profile r)) = Active
          \<and> phase_of s' = (phase_of s)(ip_id (rr_profile r) :=
              (if rr_action r = RemovalDeregistered then Removed else Prepared))))"
    and completed: "inv s \<Longrightarrow> complete_quarantine repo e i s = (Inr u, s') \<Longrightarrow>
      inv s' \<and> phase_of s i = Prepared \<and> phase_of s' = (phase_of s)(i := InQuarantine)"
    and cancelled: "inv s \<Longrightarrow> cancel_removal repo e i s = (Inr u, s') \<Longrightarrow>
      inv s' \<and> phase_of s i = Prepared \<and> phase_of s' = (phase_of s)(i := Active)"
    and restored: "inv s \<Longrightarrow> restore_profile repo e i s = (Inr u, s') \<Longrightarrow>
      inv s' \<and> phase_of s i = InQuarantine \<and> phase_of s' = (phase_of s)(i := Active)"
    and purged: "inv s \<Longrightarrow> purge_profile repo e i s = (Inr u, s') \<Longrightarrow>
      inv s' \<and> phase_of s i = InQuarantine \<and> phase_of s' = (phase_of s)(i := Removed)"
begin

lemma remove_ok:
  assumes "inv s" "Remove repo hm e1 e2 a rp (s, h) = (Inr r, s', h')"
  shows "inv s'" and "phase_of s' = (phase_of s)(ip_id (rr_profile r) :=
      (if rr_action r = RemovalDeregistered then Removed else InQuarantine))"
    and "phase_of s (ip_id (rr_profile r)) \<in> {Active, Prepared}" and "named s a (ip_id (rr_profile r))"
proof -
  obtain b s1 where b: "begin_removal repo e1 a rp s = (b, s1)" by fastforce
  with assms(2) obtain r1 where r1: "b = Inr r1"
    by (cases b) (auto simp: Remove_def)
  let ?i = "ip_id (rr_profile r1)"
  note bg = begun [OF assms(1) b [unfolded r1]]
  have "inv s' \<and> phase_of s' = (phase_of s)(ip_id (rr_profile r) :=
      (if rr_action r = RemovalDeregistered then Removed else InQuarantine))
    \<and> phase_of s (ip_id (rr_profile r)) \<in> {Active, Prepared} \<and> named s a (ip_id (rr_profile r))"
  proof (cases "rr_action r1 = RemovalDeregistered")
    case True
    with assms(2) b r1 bg show ?thesis by (auto simp: Remove_def)
  next
    case False
    with assms(2) b r1 obtain h1 where hq: "home_quarantine hm ?i (ip_home_path (rr_profile r1)) h = (None, h1)"
      by (auto simp: Remove_def Let_def split: prod.splits option.splits)
    with assms(2) b r1 False obtain s2 u where c: "complete_quarantine repo e2 ?i s1 = (Inr u, s2)"
      "s' = s2" "r = r1\<lparr>rr_state := QuarantineReady\<rparr>"
      by (auto simp: Remove_def Let_def split: prod.splits sum.splits)
    from bg completed [OF _ c(1)] False show ?thesis
      by (auto simp: c(2,3))
  qed
  then show "inv s'" "phase_of s' = (phase_of s)(ip_id (rr_profile r) :=
      (if rr_action r = RemovalDeregistered then Removed else InQuarantine))"
    "phase_of s (ip_id (rr_profile r)) \<in> {Active, Prepared}" "named s a (ip_id (rr_profile r))"
    by auto
qed

text \<open>After a failed removal the phases are what they were, or the named profile, active or prepared before, is
  back to active or stays prepared for a retry; no other profile moves.\<close>

lemma remove_failed:
  assumes "inv s" "Remove repo hm e1 e2 a rp (s, h) = (Inl x, s', h')"
  shows "inv s' \<and> (phase_of s' = phase_of s \<or> (\<exists>i. named s a i \<and> phase_of s i \<in> {Active, Prepared}
      \<and> (phase_of s' = (phase_of s)(i := Prepared) \<or> phase_of s' = (phase_of s)(i := Active))))"
proof -
  obtain b s1 where b: "begin_removal repo e1 a rp s = (b, s1)" by fastforce
  show ?thesis
  proof (cases b)
    case (Inl y)
    with assms b refused(1) [of e1 a rp s y s1] show ?thesis by (auto simp: Remove_def)
  next
    case (Inr r1)
    let ?i = "ip_id (rr_profile r1)"
    note bg = begun [OF assms(1) b [unfolded Inr]]
    have na: "rr_action r1 \<noteq> RemovalDeregistered"
      using assms(2) b Inr by (auto simp: Remove_def)
    obtain q h1 where q: "home_quarantine hm ?i (ip_home_path (rr_profile r1)) h = (q, h1)" by fastforce
    show ?thesis
    proof (cases q)
      case None
      obtain c s2 where c: "complete_quarantine repo e2 ?i s1 = (c, s2)" by fastforce
      from assms(2) b Inr na q None c have "\<exists>y. c = Inl y" "s' = s2"
        by (auto simp: Remove_def Let_def split: sum.splits)
      then have "s' = s1" using refused(2) c by auto
      with bg na show ?thesis by auto
    next
      case (Some y)
      obtain c s2 where c: "cancel_removal repo e2 ?i s1 = (c, s2)" by fastforce
      from assms(2) b Inr na q Some c have s': "s' = s2"
        by (auto simp: Remove_def Let_def)
      show ?thesis
      proof (cases c)
        case (Inl z)
        then have "s2 = s1" using refused(3) c by blast
        with s' bg na show ?thesis by auto
      next
        case (Inr u)
        with cancelled [of s1 e2 ?i u s2] c s' bg na show ?thesis by auto
      qed
    qed
  qed
qed

lemma restore_ok:
  assumes "inv s" "Restore repo hm now e1 e2 a (s, h) = (Inr r, s', h')"
  shows "inv s' \<and> phase_of s (ip_id (rr_profile r)) = InQuarantine
    \<and> phase_of s' = (phase_of s)(ip_id (rr_profile r) := Active) \<and> now < rr_purge_after r"
proof -
  from assms(2) obtain r1 where r1: "get_quarantined repo e1 a s = Inr r1"
    by (auto simp: Restore_def split: sum.splits)
  let ?i = "ip_id (rr_profile r1)"
  obtain q h1 where q: "home_restore hm ?i (ip_home_path (rr_profile r1)) h = (q, h1)" by fastforce
  obtain c s2 where c: "restore_profile repo e2 ?i s = (c, s2)" by fastforce
  from assms(2) r1 q c obtain u where "c = Inr u" "s' = s2" "now < rr_purge_after r1"
    "r = r1\<lparr>rr_action := RemovalRestored, rr_state := QuarantineNone\<rparr>"
    by (auto simp: Restore_def Let_def split: if_splits option.splits sum.splits)
  with restored [OF assms(1)] c show ?thesis by auto
qed

lemma purge_ok:
  assumes "inv s" "Purge repo hm e1 e2 a (s, h) = (Inr r, s', h')"
  shows "inv s' \<and> phase_of s (ip_id (rr_profile r)) = InQuarantine
    \<and> phase_of s' = (phase_of s)(ip_id (rr_profile r) := Removed)"
proof -
  from assms(2) obtain r1 where r1: "get_quarantined repo e1 a s = Inr r1"
    by (auto simp: Purge_def split: sum.splits)
  let ?i = "ip_id (rr_profile r1)"
  obtain q h1 where q: "home_purge hm ?i h = (q, h1)" by fastforce
  obtain c s2 where c: "purge_profile repo e2 ?i s = (c, s2)" by fastforce
  from assms(2) r1 q c obtain u where "c = Inr u" "s' = s2"
    "r = r1\<lparr>rr_action := RemovalPurged, rr_state := QuarantineNone\<rparr>"
    by (auto simp: Purge_def Let_def split: if_splits option.splits sum.splits)
  with purged [OF assms(1)] c show ?thesis by auto
qed

end

section \<open>The store\<close>

definition profile_phase :: "db \<Rightarrow> string \<Rightarrow> phase" where
  "profile_phase d i =
     (case quarantine_table.lookup i (quarantine d) of
        Some q \<Rightarrow> if qu_state q = QuarantineReady then InQuarantine else Prepared
      | None \<Rightarrow> if i \<in> registered d then Active else Removed)"

text \<open>The profile bears the alias, up to case, live or quarantined.\<close>

definition bears_alias :: "db \<Rightarrow> string \<Rightarrow> string \<Rightarrow> bool" where
  "bears_alias d a i \<longleftrightarrow> (\<exists>r\<in>set (aliases d). al_profile r = i \<and> EqualFold (al_alias r) a)"

lemma bears_alias_unique: "store_inv d \<Longrightarrow> bears_alias d a i \<Longrightarrow> bears_alias d a j \<Longrightarrow> i = j"
  by (auto simp: bears_alias_def store_inv_def registry_inv_def aliases_ok_def distinct_map inj_on_def
      alias_key_def EqualFold_def)

lemma getQuarantined_named: "getQuarantinedProfile e n a d = Inr r \<Longrightarrow> bears_alias d a (ip_id (rr_profile r))"
  by (auto simp: getQuarantinedProfile_def quarantine_join_def bears_alias_def split: if_splits option.splits sum.splits
      dest!: find_SomeD read_profile_id)

lemma live_alias_named: "live_alias d a = Some i \<Longrightarrow> bears_alias d a i"
  by (auto simp: live_alias_def bears_alias_def dest!: find_SomeD)

lemma removal_body_profile: "removal_body e item a rp d = Inr (r, d') \<Longrightarrow> rr_profile r = item"
  by (auto simp: removal_body_def split: if_splits sum.splits option.splits)

lemma begin_named:
  assumes "BeginProfileRemoval e a rp d = (Inr r, d')"
  shows "bears_alias d a (ip_id (rr_profile r))"
  using assms
  by (auto simp: BeginProfileRemoval_def GetQuarantinedProfile_def transact_Inr split: option.splits sum.splits if_splits
      dest!: removal_body_profile dest: getQuarantined_named GetProfile_ok live_alias_named)

lemma store_lifecycle_sel [simp]:
  "begin_removal store_lifecycle = BeginProfileRemoval"
  "complete_quarantine store_lifecycle = CompleteProfileQuarantine"
  "cancel_removal store_lifecycle = CancelProfileRemoval"
  "restore_profile store_lifecycle = RestoreProfile"
  "purge_profile store_lifecycle = PurgeProfile"
  by (simp_all add: store_lifecycle_def)

lemma lookup_quarantine_None:
  "\<not> quarantined d i \<Longrightarrow> quarantine_table.lookup i (quarantine d) = None"
  by (auto simp: quarantined_iff quarantine_table.lookup_None)

lemma quarantine_wf: "store_inv d \<Longrightarrow> quarantine_table.wf (quarantine d)"
  by (simp add: store_inv_def registry_inv_def quarantine_ok_def quarantine_table.wf_def)

lemma in_quarantine_lookup:
  assumes "store_inv d" "in_quarantine d i s = Some q"
  shows "quarantine_table.lookup i (quarantine d) = Some q" "qu_state q = s" "i \<in> registered d"
proof -
  have q: "q \<in> set (quarantine d)" "qu_id q = i" "qu_state q = s"
    using assms(2) by (auto simp: in_quarantine_def dest!: find_SomeD)
  with quarantine_table.lookup_SomeI [OF quarantine_wf [OF assms(1)] q(1)]
  show "quarantine_table.lookup i (quarantine d) = Some q" "qu_state q = s" by simp_all
  show "i \<in> registered d"
    using assms(1) q by (auto simp: store_inv_def registry_inv_def quarantine_ok_def)
qed

lemma lookup_del: "quarantine_table.lookup k (del_where (\<lambda>q. qu_id q = i) rows) =
    (if k = i then None else quarantine_table.lookup k rows)"
  unfolding quarantine_table.lookup_def del_where_def by (induction rows) auto

lemma phase_leave:
  assumes "store_inv d" "in_quarantine d i s = Some q" "registered d' = registered d"
    and "quarantine d' = del_where (\<lambda>q. qu_id q = i) (quarantine d)"
  shows "profile_phase d' = (profile_phase d)(i := Active)"
  using in_quarantine_lookup(3) [OF assms(1,2)] assms(3,4)
  by (auto simp: profile_phase_def fun_eq_iff lookup_del)

lemma phase_delete:
  assumes "store_inv d"
  shows "profile_phase (delete_rows i d) = (profile_phase d)(i := Removed)"
proof -
  have "registered (delete_rows i d) = registered d - {i}"
    by (auto simp: registered_def delete_rows_def)
  moreover have "quarantine (delete_rows i d) = del_where (\<lambda>q. qu_id q = i) (quarantine d)"
    by (simp add: delete_rows_def)
  ultimately show ?thesis by (auto simp: profile_phase_def fun_eq_iff lookup_del)
qed

lemma phase_select: "profile_phase (d\<lparr>selected := s\<rparr>) = profile_phase d"
  by (simp add: profile_phase_def fun_eq_iff)

lemma CancelProfileRemoval_ok:
  assumes "CancelProfileRemoval e i d = (Inr u, d')"
  shows "\<exists>q. in_quarantine d i QuarantinePrepared = Some q \<and> d' = leave_quarantine i
              (if qu_was_selected q \<and> selected d \<noteq> None then d\<lparr>selected := Some (Some i)\<rparr> else d)"
  using assms by (auto simp: CancelProfileRemoval_def transact_Inr split: if_splits option.splits)

lemma CompleteProfileQuarantine_ok:
  assumes "CompleteProfileQuarantine e i d = (Inr u, d')"
  shows "\<exists>q. in_quarantine d i QuarantinePrepared = Some q"
    "d' = d\<lparr>quarantine := upd_where (\<lambda>q. qu_id q = i \<and> qu_state q = QuarantinePrepared)
                            (\<lambda>q. q\<lparr>qu_state := QuarantineReady\<rparr>) (quarantine d)\<rparr>"
  using assms count_where_find [of "\<lambda>q. qu_id q = i \<and> qu_state q = QuarantinePrepared" "quarantine d"]
  by (auto simp: CompleteProfileQuarantine_def updateQuarantineState_def in_quarantine_def split: if_splits)

lemma begin_phase:
  assumes inv: "store_inv d" and b: "BeginProfileRemoval e a rp d = (Inr r, d')"
  shows "(d' = d \<and> rr_action r \<noteq> RemovalDeregistered)
    \<or> (profile_phase d (ip_id (rr_profile r)) = Active
       \<and> profile_phase d' = (profile_phase d)(ip_id (rr_profile r) :=
           (if rr_action r = RemovalDeregistered then Removed else Prepared)))"
proof (cases "\<exists>rec. GetQuarantinedProfile e 20 a d = Inr rec")
  case True
  then show ?thesis
    using b by (auto simp: BeginProfileRemoval_def GetQuarantinedProfile_def getQuarantinedProfile_def
        split: option.splits sum.splits if_splits)
next
  case False
  with b obtain item where g: "GetProfile e a d = Inr item"
    and body: "removal_body e item a rp d = Inr (r, d')"
    by (auto simp: BeginProfileRemoval_def transact_Inr split: option.splits sum.splits if_splits)
  have nq: "\<not> quarantined d (ip_id item)" "ip_id item \<in> registered d"
    using GetProfile_ok [OF g] by (auto simp: live_alias_def dest!: find_SomeD)
  then have act: "profile_phase d (ip_id item) = Active"
    by (simp add: profile_phase_def lookup_quarantine_None)
  from body show ?thesis
  proof (cases rule: removal_body_ok)
    case (1 was d1)
    have d1: "profile_phase d1 = profile_phase d" "store_inv d1"
      using replace_selection_ok [OF 1(2)] replace_selection_inv [OF inv 1(2)]
      by (cases was; auto simp: phase_select)+
    have nq1: "\<not> quarantined d1 (ip_id item)"
      using nq(1) replace_selection_inv [OF inv 1(2)] by (simp add: quarantined_set)
    from 1(3) show ?thesis
    proof
      assume "ip_ownership item = HomeOwnershipReferenced \<and> d' = delete_rows (ip_id item) d1
        \<and> rr_action r = RemovalDeregistered \<and> rr_profile r = item"
      with act d1 phase_delete [OF d1(2)] show ?thesis by simp
    next
      let ?q = "\<lparr>qu_id = ip_id item, qu_state = QuarantinePrepared, qu_was_selected = was,
                qu_at = clock_now e, qu_purge_after = clock_now e + profileQuarantinePeriod\<rparr>"
      assume q: "ip_ownership item = HomeOwnershipManaged \<and> \<not> quarantined d1 (ip_id item)
        \<and> r = \<lparr>rr_profile = item, rr_action = RemovalQuarantined, rr_state = QuarantinePrepared,
               rr_at = clock_now e, rr_purge_after = clock_now e + profileQuarantinePeriod\<rparr>
        \<and> d' = d1\<lparr>quarantine := quarantine d1 @ [?q]\<rparr>"
      have "quarantine_table.lookup (ip_id item) (quarantine d1) = None"
        using nq1 by (rule lookup_quarantine_None)
      then have "profile_phase d' = (profile_phase d1)(ip_id item := Prepared)"
        using q by (auto simp: profile_phase_def fun_eq_iff quarantine_table.lookup_insert split: option.splits)
      with q act d1(1) show ?thesis by simp
    qed
  qed
qed

lemma begin_error: "BeginProfileRemoval e a rp d = (Inl x, d') \<Longrightarrow> d' = d"
  by (auto simp: BeginProfileRemoval_def transact_Inl split: option.splits sum.splits if_splits)

lemma complete_phase:
  assumes inv: "store_inv d" and c: "CompleteProfileQuarantine e i d = (Inr u, d')"
  shows "profile_phase d i = Prepared \<and> profile_phase d' = (profile_phase d)(i := InQuarantine)"
proof -
  obtain q where q: "in_quarantine d i QuarantinePrepared = Some q"
    using CompleteProfileQuarantine_ok(1) [OF c] by auto
  note lk = in_quarantine_lookup [OF inv q]
  have l: "quarantine_table.lookup k (quarantine d') =
      map_option (\<lambda>q. if qu_id q = i \<and> qu_state q = QuarantinePrepared then q\<lparr>qu_state := QuarantineReady\<rparr> else q)
        (quarantine_table.lookup k (quarantine d))" for k
    unfolding CompleteProfileQuarantine_ok(2) [OF c] quarantine_table.lookup_def
    by (simp add: find_upd_where)
  have r: "registered d' = registered d"
    unfolding CompleteProfileQuarantine_ok(2) [OF c] by simp
  show ?thesis
    using lk quarantine_table.lookup_SomeD
    by (auto simp: profile_phase_def fun_eq_iff l r split: option.splits)
qed

lemma cancel_phase:
  assumes inv: "store_inv d" and c: "CancelProfileRemoval e i d = (Inr u, d')"
  shows "profile_phase d i = Prepared \<and> profile_phase d' = (profile_phase d)(i := Active)"
proof -
  obtain q where q: "in_quarantine d i QuarantinePrepared = Some q" and d': "d' = leave_quarantine i
              (if qu_was_selected q \<and> selected d \<noteq> None then d\<lparr>selected := Some (Some i)\<rparr> else d)"
    using CancelProfileRemoval_ok [OF c] by auto
  have "registered d' = registered d" "quarantine d' = del_where (\<lambda>q. qu_id q = i) (quarantine d)"
    by (simp_all add: d' leave_quarantine_def)
  with phase_leave [OF inv q] in_quarantine_lookup [OF inv q] show ?thesis
    by (simp add: profile_phase_def)
qed

lemma restore_phase:
  assumes inv: "store_inv d" and c: "RestoreProfile e i d = (Inr u, d')"
  shows "profile_phase d i = InQuarantine \<and> profile_phase d' = (profile_phase d)(i := Active)"
proof -
  obtain q where q: "in_quarantine d i QuarantineReady = Some q"
    using RestoreProfile_ok(1) [OF c] by auto
  have "registered d' = registered d" "quarantine d' = del_where (\<lambda>q. qu_id q = i) (quarantine d)"
    using RestoreProfile_ok(2) [OF c] by (simp_all add: leave_quarantine_def)
  with phase_leave [OF inv q] in_quarantine_lookup [OF inv q] show ?thesis
    by (simp add: profile_phase_def)
qed

lemma purge_phase:
  assumes inv: "store_inv d" and c: "PurgeProfile e i d = (Inr u, d')"
  shows "profile_phase d i = InQuarantine \<and> profile_phase d' = (profile_phase d)(i := Removed)"
proof -
  obtain q where q: "in_quarantine d i QuarantineReady = Some q"
    using PurgeProfile_ok(1) [OF c] by auto
  with phase_delete [OF inv] in_quarantine_lookup [OF inv q] PurgeProfile_ok(2) [OF c] show ?thesis
    by (simp add: profile_phase_def)
qed

lemma removal_errors:
  "CompleteProfileQuarantine e i d = (Inl x, d') \<Longrightarrow> d' = d"
  "CancelProfileRemoval e i d = (Inl x, d') \<Longrightarrow> d' = d"
  "PurgeProfile e i d = (Inl x, d') \<Longrightarrow> d' = d"
  by (auto simp: CompleteProfileQuarantine_def updateQuarantineState_def CancelProfileRemoval_def
      PurgeProfile_def transact_Inl split: if_splits)

interpretation store_removal: removal_repository store_lifecycle profile_phase bears_alias store_inv
  by unfold_locales
     (auto simp: begin_error removal_errors RestoreProfile_error CompleteProfileQuarantine_def
        intro: inv_begin inv_cancel inv_restore inv_purge inv_quarantine_state
        dest: begin_phase begin_named complete_phase [unfolded CompleteProfileQuarantine_def] cancel_phase
          restore_phase purge_phase)

end
