(* ===== verification/Store_Properties.thy ===== *)
theory Store_Properties
  imports Lifecycle_Contract
begin

text \<open>
  The properties of launches, checkpoints, profiles and their removal, each with a witness on the
  sample store.
\<close>

section \<open>Consistency of reachable stores\<close>

lemma reachable_parts:
  assumes "reachable d"
  shows "keys_ok d" "\<forall>l\<in>set (launches d). launch_row_ok l" "held d" "reserved d" "exclusive d" "used_up d"
    "aliases_ok d" "quarantine_ok d" "references_ok d"
  using reachable_inv [OF assms]
  by (auto simp: store_inv_def launch_inv_def handoffs_ok_def registry_inv_def)

text \<open>C1: In every reachable store a checkpoint is being launched exactly when there is one, and only one,
  pending launch that holds it; so no two launches can consume the same approved checkpoint.\<close>

theorem checkpoint_held_by_one_launch:
  assumes "reachable d" "r \<in> set (checkpoints d)"
  shows "cp_status r = StatusLaunching \<longleftrightarrow>
    (\<exists>!l. l \<in> set (launches d) \<and> ml_state l = StatePending \<and> ml_checkpoint l = Some (cp_id r))"
proof
  assume "cp_status r = StatusLaunching"
  with heldD [OF reachable_parts(3) [OF assms(1)] assms(2)] exclusiveD [OF reachable_parts(5) [OF assms(1)]]
  show "\<exists>!l. l \<in> set (launches d) \<and> ml_state l = StatePending \<and> ml_checkpoint l = Some (cp_id r)"
    by metis
next
  assume "\<exists>!l. l \<in> set (launches d) \<and> ml_state l = StatePending \<and> ml_checkpoint l = Some (cp_id r)"
  then obtain l where "l \<in> set (launches d)" "ml_state l = StatePending" "ml_checkpoint l = Some (cp_id r)"
    by auto
  from reservedD [OF reachable_parts(4) [OF assms(1)] this] obtain q where
    q: "q \<in> set (checkpoints d)" "cp_id q = cp_id r" "cp_status q = StatusLaunching" by auto
  from cp_unique [OF reachable_parts(1) [OF assms(1)] q(1) assms(2) q(2)] q(3)
  show "cp_status r = StatusLaunching" by simp
qed

theorem checkpoint_held_by_one_launch_witness:
  "\<exists>!l. l \<in> set (launches sample_store) \<and> ml_state l = StatePending \<and> ml_checkpoint l = Some ''c1''"
proof -
  obtain r where r: "checkpoints sample_store = [r]" "cp_id r = ''c1''" "cp_status r = StatusLaunching"
    using sample_store_facts(2) by (auto simp: map_eq_Cons_conv)
  then show ?thesis
    using checkpoint_held_by_one_launch [OF sample_reachable(1), of r] by simp
qed

text \<open>C22: In every reachable store the columns of a launch fit its state: a pending launch has no process,
  a running one a positive process id and no end, an exited one its end and a 32-bit exit status,
  an abandoned one an end and no exit status; and leases are unique.\<close>

theorem launch_rows_consistent:
  assumes "reachable d" "l \<in> set (launches d)"
  shows "launch_row_ok l \<and> (\<forall>m. m \<in> set (launches d) \<and> ml_lease m = ml_lease l \<longrightarrow> m = l)"
  using reachable_parts(1,2) [OF assms(1)] assms(2) by (auto simp: keys_ok_def dest: launch_table.wf_unique)

theorem launch_rows_consistent_witness:
  "\<exists>l\<in>set (launches sample_store). ml_state l = StateExited \<and> launch_row_ok l"
proof -
  obtain l ls where l: "launches sample_store = l # ls" "ml_state l = StateExited"
    using sample_store_facts(1) by (auto simp: map_eq_Cons_conv)
  then show ?thesis
    using launch_rows_consistent [OF sample_reachable(1), of l] by auto
qed

text \<open>C4: In every reachable store a quarantined profile has no pending or running launch, still owns its
  alias, and is not offered by the alias lookup of launches and selections.\<close>

theorem quarantined_profile_is_idle:
  assumes "reachable d" "quarantined d i"
  shows "(\<forall>l\<in>set (launches d). ml_profile l = i \<longrightarrow> ml_state l \<in> {StateExited, StateAbandoned})
    \<and> (\<exists>a\<in>set (aliases d). al_profile a = i)
    \<and> (\<forall>a p. live_profile d a = Some p \<longrightarrow> pr_id p \<noteq> i)"
proof (intro conjI ballI allI impI)
  note q = reachable_parts(8) [OF assms(1), unfolded quarantine_ok_def] assms(2) [unfolded quarantined_set]
  show "ml_state l \<in> {StateExited, StateAbandoned}" if "l \<in> set (launches d)" "ml_profile l = i" for l
    using q that by (cases "ml_state l") (auto simp: live_def)
  show "\<exists>a\<in>set (aliases d). al_profile a = i"
    using q by (force simp: registered_def)
  show "pr_id p \<noteq> i" if "live_profile d a = Some p" for a p
    using live_profileD(2) [OF that] assms(2) by auto
qed

theorem quarantined_profile_is_idle_witness:
  "\<exists>p. live_profile sample_removed ''alt'' = Some p \<and> pr_id p \<noteq> ''p1''"
proof -
  have "quarantined sample_removed ''p1''"
    using sample_removed_facts(1) by (auto simp: quarantined_iff map_eq_Cons_conv)
  note idle = quarantined_profile_is_idle [OF sample_reachable(2) this]
  have "live_profile sample_removed ''alt'' \<noteq> None" by code_simp
  with idle show ?thesis by auto
qed

text \<open>C23: In every reachable store aliases are unique up to case, syntactically valid, and belong to an
  existing profile that has no other alias.\<close>

theorem aliases_unique_up_to_case:
  assumes "reachable d" "a \<in> set (aliases d)"
  shows "alias_grammar (al_alias a) \<and> (\<exists>p\<in>set (profiles d). pr_id p = al_profile a)
    \<and> (\<forall>b\<in>set (aliases d). EqualFold (al_alias b) (al_alias a) \<or> al_profile b = al_profile a \<longrightarrow> b = a)"
proof -
  note ok = reachable_parts(7) [OF assms(1), unfolded aliases_ok_def]
  have "b = a" if "b \<in> set (aliases d)" "EqualFold (al_alias b) (al_alias a) \<or> al_profile b = al_profile a" for b
    using ok assms(2) that by (auto simp: distinct_map inj_on_def alias_key_def EqualFold_def)
  moreover have "al_profile a \<in> set (map pr_id (profiles d))"
    using ok assms(2) by (force simp: registered_def)
  ultimately show ?thesis
    using ok assms(2) by (auto simp: ValidateAlias_iff)
qed

theorem aliases_unique_up_to_case_witness:
  "\<exists>a\<in>set (aliases sample_store). al_alias a = ''work'' \<and> alias_grammar (al_alias a)"
proof -
  let ?a = "\<lparr>al_profile = ''p1'', al_alias = ''work''\<rparr>"
  have a: "?a \<in> set (aliases sample_store)" by code_simp
  from aliases_unique_up_to_case [OF sample_reachable(1) a] have "alias_grammar (al_alias ?a)" by blast
  then show ?thesis by (intro bexI [OF _ a]) simp
qed

section \<open>Launches\<close>

text \<open>C20: A launch is only planned for a ready profile that is not quarantined, with the profile's own
  decrypted absolute home as \<open>CODEX_HOME\<close>; nothing but one pending row of that profile is added,
  and the checkpoint of a handoff moves from approved to launching.\<close>

theorem prepare_launch_plans_ready_profile:
  assumes "PrepareLaunch e rq d = (Inr pl, d')"
  shows "\<exists>p v home lid. live_profile d (rq_alias rq) = Some p \<and> pr_status p = StatusReady
    \<and> \<not> quarantined d (pr_id p)
    \<and> (\<exists>h path. home_of d p = Some h \<and> ho_ownership h \<in> {HomeOwnershipManaged, HomeOwnershipReferenced}
         \<and> vault e = Some v \<and> decryptField v (ho_location h) (identityHomeAAD (ho_id h)) = Inr path
         \<and> home = Clean path)
    \<and> IsAbs home \<and> pl_environment pl = [(''CODEX_HOME'', home)]
    \<and> (\<forall>l\<in>set (launches d). ml_lease l \<noteq> pl_lease pl)
    \<and> d' = d\<lparr>launches := launches d @ [pending_launch rq lid (pr_id p) (pl_lease pl) (clock_now e)],
             checkpoints := checkpoints (claimed rq d)\<rparr>"
  using assms
proof (cases rule: PrepareLaunch_ok)
  case (1 p v home lid lease)
  have "d' = d\<lparr>launches := launches d @ [pending_launch rq lid (pr_id p) (pl_lease pl) (clock_now e)],
             checkpoints := checkpoints (claimed rq d)\<rparr>"
    by (simp add: 1(11,12) planned_def claimed_def set_checkpoint_def)
  with 1 live_profileD(2) [OF 1(2)] launch_home_ok [OF 1(4)] show ?thesis
    by (intro exI [of _ p] exI [of _ v] exI [of _ home] exI [of _ lid]) (simp add: planned_def)
qed

theorem prepare_launch_plans_ready_profile_witness:
  "\<exists>p. live_profile sample_db ''alt'' = Some p \<and> pr_status p = StatusReady"
  using prepare_launch_plans_ready_profile [OF sample_prepare] by (auto simp: sample_request_def)



text \<open>C5: Over any sequence of workflow calls, failing ones included, each lease of the store only moves
  along the life of a lease (granted, started, exited or abandoned), and an exited or abandoned
  lease keeps its state for good.\<close>

theorem leases_only_advance:
  assumes "launch_inv d"
  shows "lease_step\<^sup>*\<^sup>* (lease_state d lease) (lease_state (calls store_repository cs d) lease)
    \<and> (\<forall>s\<in>{StateExited, StateAbandoned}. lease_state d lease = Some s \<longrightarrow>
         lease_state (calls store_repository cs d) lease = Some s)"
  using store_leases.calls_refine [OF assms] store_leases.terminal_final [OF assms] by blast

definition sample_calls :: "env request list" where
  "sample_calls = [CPrepare (sample_env 100) (sample_request\<lparr>rq_arguments := []\<rparr>),
     CStarted (sample_env 110) ''new-lease'' 42, CExited (sample_env 120) ''new-lease'' 3]"

theorem leases_only_advance_witness:
  "lease_step\<^sup>*\<^sup>* None (lease_state (calls store_repository sample_calls sample_db) ''new-lease'')
   \<and> lease_state (calls store_repository sample_calls sample_db) ''new-lease'' = Some StateExited"
proof -
  have "launch_inv sample_db" using sample_inv by (simp add: store_inv_def)
  moreover have "lease_state sample_db ''new-lease'' = None" by code_simp
  moreover have "lease_state (calls store_repository sample_calls sample_db) ''new-lease'' = Some StateExited"
    by code_simp
  ultimately show ?thesis using leases_only_advance [of sample_db "''new-lease''" sample_calls] by simp
qed

text \<open>C21: Reconciliation abandons exactly the lost launches: a running one whose process the inspector
  reports gone, and a pending handoff of an earlier boot session; every other lease keeps its
  state.\<close>

theorem reconcile_abandons_exactly_the_lost:
  assumes "launch_inv d" "ReconcileManagedLaunches e insp d = (Inr u, d')"
  shows "lease_state d' lease =
    (if \<exists>l\<in>set (live_launches d). lost insp l \<and> ml_lease l = lease then Some StateAbandoned
     else lease_state d lease)"
  unfolding store_reconciled [OF assms] by auto

definition sample_inspector :: inspector where
  "sample_inspector = \<lparr>is_running = (\<lambda>p. Inr False), boot_session = Inr ''b2''\<rparr>"

theorem reconcile_abandons_exactly_the_lost_witness:
  "lease_state (snd (ReconcileManagedLaunches (sample_env 130) (Some sample_inspector) sample_launching))
     ''new-lease'' = Some StateAbandoned"
proof -
  have "launch_inv sample_launching"
    using inv_prepare [OF _ sample_prepare] sample_inv by (simp add: store_inv_def)
  moreover have "ReconcileManagedLaunches (sample_env 130) (Some sample_inspector) sample_launching =
      (Inr (), snd (ReconcileManagedLaunches (sample_env 130) (Some sample_inspector) sample_launching))"
    by code_simp
  moreover have "\<exists>l\<in>set (live_launches sample_launching). lost (Some sample_inspector) l \<and> ml_lease l = ''new-lease''"
  proof
    let ?l = "pending_launch sample_request ''new-launch'' ''p2'' ''new-lease'' 100"
    show "?l \<in> set (live_launches sample_launching)" by code_simp
    show "lost (Some sample_inspector) ?l \<and> ml_lease ?l = ''new-lease''"
      by (simp add: lost_def pending_launch_def sample_inspector_def sample_request_def nullableString_def)
  qed
  ultimately show ?thesis
    using reconcile_abandons_exactly_the_lost [of sample_launching] by simp
qed

text \<open>A handoff's checkpoint follows its launch: a started launch completes it, an abandoned pending
  launch gives it back as approved, so that it can be launched again.\<close>

theorem checkpoint_follows_its_launch:
  assumes "launch_inv d" "l \<in> set (launches d)" "ml_state l = StatePending" "ml_checkpoint l = Some c"
    and "MarkManagedLaunchStarted e1 (ml_lease l) pid d = (Inr u1, d1)"
    and "MarkManagedLaunchAbandoned e2 (ml_lease l) d = (Inr u2, d2)"
  shows "map_option cp_status (checkpoint_table.lookup c (checkpoints d1)) = Some StatusCompleted
    \<and> map_option cp_status (checkpoint_table.lookup c (checkpoints d2)) = Some StatusApproved"
proof
  have k: "keys_ok d" using assms(1) by (simp add: launch_inv_def)
  obtain r where r: "r \<in> set (checkpoints d)" "cp_id r = c" "cp_status r = StatusLaunching"
    using reservedD [OF _ assms(2-4)] assms(1) by (auto simp: launch_inv_def handoffs_ok_def)
  have lk: "checkpoint_table.lookup c (checkpoints d) = Some r"
    using checkpoint_table.lookup_SomeI [OF _ r(1)] k r(2) by (auto simp: keys_ok_def)
  have upd: "map_option cp_status (checkpoint_table.lookup c
      (checkpoints (set_checkpoint c StatusLaunching t (update_lease le ss f d)))) = Some t" for t le ss f
    using lk r by (simp add: checkpoints_set_checkpoint checkpoint_table.lookup_def find_upd_where)
  have one: "lease_in (ml_lease l) ss d = Some m \<Longrightarrow> m = l" for ss m
    using lease_in_Some [of "ml_lease l" ss d m] assms(2) k
    by (auto simp: keys_ok_def dest: launch_table.wf_unique)
  show "map_option cp_status (checkpoint_table.lookup c (checkpoints d1)) = Some StatusCompleted"
    by (rule MarkManagedLaunchStarted_ok [OF assms(5)]) (use one assms(4) upd in fastforce)
  show "map_option cp_status (checkpoint_table.lookup c (checkpoints d2)) = Some StatusApproved"
    by (rule MarkManagedLaunchAbandoned_ok [OF assms(6)])
       (use one assms(4) upd in \<open>fastforce simp: abandon_lease_def\<close>)
qed

theorem checkpoint_follows_its_launch_witness:
  "map_option cp_status (checkpoint_table.lookup ''c1'' (checkpoints
     (snd (MarkManagedLaunchStarted (sample_env 110) ''new-lease'' 42 sample_launching)))) = Some StatusCompleted"
proof -
  let ?l = "pending_launch sample_request ''new-launch'' ''p2'' ''new-lease'' 100"
  have "launch_inv sample_launching"
    using inv_prepare [OF _ sample_prepare] sample_inv by (simp add: store_inv_def)
  moreover have "?l \<in> set (launches sample_launching)" by code_simp
  moreover have "MarkManagedLaunchStarted (sample_env 110) (ml_lease ?l) 42 sample_launching =
      (Inr (), snd (MarkManagedLaunchStarted (sample_env 110) (ml_lease ?l) 42 sample_launching))"
    "MarkManagedLaunchAbandoned (sample_env 110) (ml_lease ?l) sample_launching =
      (Inr (), snd (MarkManagedLaunchAbandoned (sample_env 110) (ml_lease ?l) sample_launching))"
    by code_simp+
  moreover have "ml_state ?l = StatePending" "ml_checkpoint ?l = Some ''c1''" "ml_lease ?l = ''new-lease''"
    by (simp_all add: pending_launch_def sample_request_def nullableString_def)
  ultimately show ?thesis
    using checkpoint_follows_its_launch [of sample_launching ?l "''c1''"] by (metis (no_types))
qed

end
