(* ===== verification/Profile_Properties.thy ===== *)
theory Profile_Properties
  imports Store_Properties
begin

text \<open>
  The properties of aliases, checkpoints as stored, selection, and the removal of profiles.
\<close>

section \<open>Aliases\<close>

text \<open>\<open>ValidateAlias\<close> accepts exactly the aliases of 1 to 64 bytes that start with an ASCII letter or digit
  and continue with letters, digits, \<open>-\<close>, \<open>_\<close> or \<open>.\<close>; every other alias gets the one coded error.\<close>

theorem alias_syntax:
  "ValidateAlias a = (if a \<noteq> [] \<and> length a \<le> 64 \<and> alnum (hd a) \<and> list_all alias_char a then None
     else Some (New ProfileAliasInvalid (plain ErrAliasInvalid)))"
  using ValidateAlias_iff [of a] ValidateAlias_error [of a]
  by (cases "ValidateAlias a") (auto simp: alias_grammar_def alias_error_def)

section \<open>Checkpoints as stored\<close>

text \<open>C10: What is saved is what is loaded: with a vault that decrypts what it encrypts, a checkpoint saved
  without error is read back field by field, whatever its earlier version was.\<close>

theorem checkpoint_save_load:
  assumes "vault e = Some v" "vault_inverse v"
    and "putCheckpoint e c status revision d = (Inr u, d')"
    and "vault e' = Some v" "\<not> db_fails e' (Query 1)"
    and "parseStoredTime (ck_created c) \<noteq> None"
    and "\<And>t. ck_expires c = Some t \<Longrightarrow> parseStoredTime t \<noteq> None"
  shows "GetCheckpoint e' (ck_id c) d' = Some (Inr c)"
  using assms(3)
proof (cases rule: putCheckpoint_ok)
  case (1 w cs)
  have w: "w = v" using 1(1) assms(1) by simp
  have len: "length cs = 7"
    using encrypt_fields_length [OF 1(2)] by (simp add: sensitive_values_def checkpoint_fields_def)
  let ?r = "checkpoint_row_of c cs"
  have "take 6 cs @ [cs ! 6] = cs"
    using len take_Suc_conv_app_nth [of 6 cs] by simp
  then have dec: "decrypt_fields v (ck_id c) (zip (cp_fields ?r @ [cp_metadata ?r]) checkpoint_fields)
      = Inr (sensitive_values c)"
    using decrypt_encrypt_fields [OF assms(2) 1(2) [unfolded w]]
    by (simp add: checkpoint_row_of_def sensitive_values_def checkpoint_fields_def)
  have lk: "checkpoint_table.lookup (ck_id c) (checkpoints d') = Some ?r"
    using upsert_lookup [of ?r "checkpoints d"] by (simp add: 1(4) checkpoint_row_of_def)
  show ?thesis
    using assms(4-7) dec
    by (cases "ck_project c")
       (auto simp: GetCheckpoint_def lk requireVault_def checkpoint_row_of_def nullableString_def
          sensitive_values_def split: option.splits)
qed

theorem checkpoint_save_load_witness:
  "GetCheckpoint (sample_env 70) ''c1''
     (snd (putCheckpoint (sample_env 60) (sample_draft StatusDraft) None [] sample_db)) =
   Some (Inr (sample_draft StatusDraft))"
proof -
  have "putCheckpoint (sample_env 60) (sample_draft StatusDraft) None [] sample_db =
      (Inr (), snd (putCheckpoint (sample_env 60) (sample_draft StatusDraft) None [] sample_db))"
    by code_simp
  then have "GetCheckpoint (sample_env 70) (ck_id (sample_draft StatusDraft))
     (snd (putCheckpoint (sample_env 60) (sample_draft StatusDraft) None [] sample_db)) =
   Some (Inr (sample_draft StatusDraft))"
    by (intro checkpoint_save_load [OF _ sample_vault_inverse])
       (simp_all add: sample_env_def sample_draft_def parseStoredTime_def)
  then show ?thesis by (simp add: sample_draft_def)
qed

text \<open>C11: Saving is optimistic: a save that names an expected status only succeeds while the stored
  checkpoint still has that status and the expected revision, and otherwise leaves the store as
  it was.\<close>

theorem checkpoint_save_is_optimistic:
  assumes "SaveCheckpoint e c metadata (Some st) revision d = (r, d')"
  shows "case r of
      Inr u \<Rightarrow> \<exists>v q m. vault e = Some v \<and> checkpoint_table.lookup (ck_id c) (checkpoints d) = Some q
        \<and> cp_status q = st
        \<and> decryptField v (metadata_bytes q) (checkpointAAD (ck_id c) checkpointRecoveryField) = Inr m
        \<and> metadata_revision e m = Some revision
        \<and> launches d' = launches d
        \<and> map_option cp_status (checkpoint_table.lookup (ck_id c) (checkpoints d')) = Some (ck_status c)
    | Inl x \<Rightarrow> d' = d"
proof (cases r)
  case (Inl x)
  with assms show ?thesis by (auto simp: SaveCheckpoint_def dest: putCheckpoint_error)
next
  case (Inr u)
  with assms have "putCheckpoint e (c\<lparr>ck_metadata := Some metadata\<rparr>) (Some st) revision d = (Inr u, d')"
    by (simp add: SaveCheckpoint_def)
  then show ?thesis
  proof (cases rule: putCheckpoint_ok)
    case (1 v cs)
    let ?r = "checkpoint_row_of (c\<lparr>ck_metadata := Some metadata\<rparr>) cs"
    have "checkpoint_table.lookup (ck_id c) (checkpoints d') = Some ?r"
      using upsert_lookup [of ?r "checkpoints d"] by (simp add: 1(4) checkpoint_row_of_def)
    moreover have "cp_status ?r = ck_status c" "launches d' = launches d"
      by (simp_all add: checkpoint_row_of_def 1(4))
    moreover obtain q m where "checkpoint_table.lookup (ck_id c) (checkpoints d) = Some q" "cp_status q = st"
      "decryptField v (metadata_bytes q) (checkpointAAD (ck_id c) checkpointRecoveryField) = Inr m"
      "metadata_revision e m = Some revision"
      using expectation_None [OF 1(3)] by auto
    ultimately show ?thesis using Inr 1(1) by simp
  qed
qed

theorem checkpoint_save_is_optimistic_witness:
  "\<exists>q. checkpoint_table.lookup ''c1'' (checkpoints sample_db) = Some q \<and> cp_status q = StatusApproved"
proof -
  let ?r = "SaveCheckpoint (sample_env 60) (sample_draft StatusDraft) ''r2'' (Some StatusApproved) ''r1'' sample_db"
  have "?r = (Inr (), snd ?r)" by code_simp
  from checkpoint_save_is_optimistic [OF this] show ?thesis by (auto simp: sample_draft_def)
qed

text \<open>The stored order of launch ends is not their order in time: of two ends in the same second, the
  one on the whole second counts as later than any with a fraction, since the texts are compared
  and \<open>"Z"\<close> sorts after \<open>"."\<close>. So the launch a handoff takes as the project's last may not be it.\<close>

theorem stored_order_is_not_time_order:
  "\<exists>d a b. launches d = [a, b] \<and> ml_state a = StateExited \<and> ml_state b = StateExited
    \<and> ml_project a = Some ''proj'' \<and> ml_project b = Some ''proj''
    \<and> the (ml_ended a) < the (ml_ended b)
    \<and> definitiveSourceLaunch d ''proj'' = Some a \<and> latestExitedSourceLaunch d ''proj'' = Some a"
proof -
  let ?a = "sample_launch\<lparr>ml_ended := Some (5 * Second)\<rparr>"
  let ?b = "sample_launch\<lparr>ml_ended := Some (5 * Second + 250000000), ml_lease := ''lease2''\<rparr>"
  let ?d = "sample_db\<lparr>launches := [?a, ?b]\<rparr>"
  have "definitiveSourceLaunch ?d ''proj'' = Some ?a" "latestExitedSourceLaunch ?d ''proj'' = Some ?a"
    by code_simp+
  moreover have "the (ml_ended ?a) < the (ml_ended ?b)" by simp
  ultimately show ?thesis
    by (intro exI [of _ ?d] exI [of _ ?a] exI [of _ ?b]) (simp add: sample_launch_def)
qed

section \<open>Selection\<close>

text \<open>Selecting by alias only ever selects a ready profile that is not quarantined, and changes nothing
  but the selection; when the call fails before its commit, nothing at all.\<close>

theorem select_profile_is_guarded:
  assumes "SelectProfile e a d = (r, d')"
  shows "d' = d \<or> (\<exists>p. live_profile d a = Some p \<and> pr_status p = StatusReady
    \<and> \<not> quarantined d (pr_id p) \<and> d' = d\<lparr>selected := Some (Some (pr_id p))\<rparr>
    \<and> (\<forall>item w. r = Inr (item, w) \<longrightarrow> ip_id item = pr_id p
         \<and> w = (\<exists>l\<in>set (launches d). ml_state l = StateRunning \<and> ml_profile l \<noteq> pr_id p)))"
proof (cases "d' = d")
  case False
  with assms obtain i w where b: "select_body e a d = Inr ((i, w), d')"
    by (auto simp: SelectProfile_def split: option.splits dest!: then_read_cases)
  have r: "\<forall>item w'. r = Inr (item, w') \<longrightarrow> ip_id item = i \<and> w' = w"
    using assms b False
    by (auto simp: SelectProfile_def then_read_def transact_def split: option.splits sum.splits
        dest: getIdentityProfile_id)
  from select_body_ok [OF b] obtain p where p: "live_profile d a = Some p" "pr_status p = StatusReady"
    "i = pr_id p" "d' = d\<lparr>selected := Some (Some i)\<rparr>"
    "w = (0 < count_where (\<lambda>l. ml_state l = StateRunning \<and> ml_profile l \<noteq> i) (launches d))" by auto
  with r live_profileD(2) [OF p(1)] show ?thesis
    using count_where_0 [of "\<lambda>l. ml_state l = StateRunning \<and> ml_profile l \<noteq> i" "launches d"] by auto
qed simp

theorem select_profile_is_guarded_witness:
  "selected (snd (SelectProfile (sample_env 70) ''alt'' sample_db)) = Some (Some ''p2'')"
proof -
  let ?r = "SelectProfile (sample_env 70) ''alt'' sample_db"
  have "snd ?r \<noteq> sample_db" "live_profile sample_db ''alt'' = Some (sample_profile ''p2'' ''Alt'')"
    by code_simp+
  with select_profile_is_guarded [of "sample_env 70" "''alt''" sample_db "fst ?r" "snd ?r"]
  show ?thesis by (auto simp: sample_profile_def)
qed

text \<open>C25: A successful \<open>CompleteInitialSelection\<close> keeps the selected profile, or selects the one being set up
  when none is selected. But a failed read of the current selection is taken for "none is selected": the call then
  replaces whatever profile was selected by the one being set up, and still reports success.\<close>

theorem selection_read_failure_replaces_selection:
  assumes "CompleteInitialSelection e i pack version d = (Inr item, d')"
  shows "selected d' = (if db_fails e (Query 4) \<or> selected d \<in> {None, Some None, Some (Some [])}
      then Some (Some i) else selected d)
    \<and> (db_fails e (Query 4) \<longrightarrow> is_selected d' i \<and> ip_selected item)"
proof -
  obtain sel r where b: "selection_body e i pack version d = Inr (sel, d')" and item: "item = r\<lparr>ip_selected := (sel = i)\<rparr>"
    using assms by (auto simp: CompleteInitialSelection_def then_read_def transact_def
        split: option.splits sum.splits prod.splits)
  from b have s: "selected d' = (if current_selection e d = None then Some (Some i) else selected d)"
  proof (cases rule: selection_body_ok)
    case (1 st asg)
    then show ?thesis by (simp add: upd_stage_def upd_profile_def)
  qed
  have "sel = i" if "db_fails e (Query 4)"
    using b that by (auto simp: selection_body_def current_selection_def Let_def split: if_splits option.splits sum.splits)
  then show ?thesis
    using s item by (auto simp: current_selection_def is_selected_def split: option.splits if_splits)
qed

theorem selection_read_failure_replaces_selection_witness:
  "is_selected sample_db ''p1'' \<and> selected (snd (CompleteInitialSelection
     ((sample_env 70)\<lparr>db_fails := \<lambda>c. c = Query 4\<rparr>) ''p2'' [] [] sample_db)) = Some (Some ''p2'')"
proof -
  let ?e = "(sample_env 70)\<lparr>db_fails := \<lambda>c. c = Query 4\<rparr>"
  let ?r = "CompleteInitialSelection ?e ''p2'' [] [] sample_db"
  have "\<not> isl (fst ?r)" "is_selected sample_db ''p1''" by code_simp+
  then show ?thesis
    using selection_read_failure_replaces_selection [of ?e "''p2''" "[]" "[]" sample_db "projr (fst ?r)" "snd ?r"]
    by (simp add: prod_eq_iff sum.expand)
qed

text \<open>C24: Setup does not look at the quarantine: a profile whose setup was never completed and that has
  been removed is still found by its alias as pending, and completing its setup makes the
  quarantined profile the selected one, which \<open>SelectProfile\<close> would refuse.\<close>

theorem setup_selects_quarantined_profile:
  "\<exists>d e pp d' item. reachable d \<and> quarantined d ''p1'' \<and> FindPendingProfile e ''work'' d = Inr pp
    \<and> pp_id pp = ''p1'' \<and> CompleteInitialSelection e ''p1'' [] [] d = (Inr item, d')
    \<and> quarantined d' ''p1'' \<and> is_selected d' ''p1''
    \<and> SelectProfile e ''work'' d = (Inl not_selectable, d)"
proof -
  let ?ops = "[(10, OCreate ''p1'' ''work''), (11, OHome ''p1''), (12, OStage ''p1'' StageAuthentication),
     (13, OStage ''p1'' StageValidation), (14, ORemove ''work'' [])]"
  let ?d = "operate_all ?ops (empty_db\<lparr>packs := []\<rparr>)" and ?e = "sample_env 20"
  let ?r = "CompleteInitialSelection ?e ''p1'' [] [] ?d"
  have "\<not> isl (fst ?r)" "\<not> isl (FindPendingProfile ?e ''work'' ?d)"
    "pp_id (projr (FindPendingProfile ?e ''work'' ?d)) = ''p1''"
    "quarantined ?d ''p1''" "quarantined (snd ?r) ''p1''" "is_selected (snd ?r) ''p1''"
    "SelectProfile ?e ''work'' ?d = (Inl not_selectable, ?d)"
    by code_simp+
  moreover have "reachable ?d" by (intro operate_all_reachable reachable.init)
  ultimately show ?thesis
    by (intro exI [of _ ?d] exI [of _ ?e] exI [of _ "projr (FindPendingProfile ?e ''work'' ?d)"]
        exI [of _ "snd ?r"] exI [of _ "projr (fst ?r)"])
       (simp add: prod_eq_iff sum.expand)
qed

section \<open>Removal\<close>

text \<open>C7: Cancelling a removal undoes it: after a removal that quarantined a profile, cancelling it gives the
  store from before the removal back, the selection included.\<close>

theorem cancel_undoes_removal:
  assumes "store_inv d" "BeginProfileRemoval e a rp d = (Inr r, d1)" "d1 \<noteq> d"
    and "rr_action r = RemovalQuarantined"
    and "CancelProfileRemoval e' (ip_id (rr_profile r)) d1 = (Inr u, d2)"
  shows "d2 = d"
  using assms(2)
proof (cases rule: BeginProfileRemoval_cases)
  case (2 item rec)
  let ?i = "ip_id item"
  from 2(3) show ?thesis
  proof (cases rule: removal_body_ok)
    case (1 was d0)
    let ?q = "\<lparr>qu_id = ?i, qu_state = QuarantinePrepared, qu_was_selected = was,
                qu_at = clock_now e, qu_purge_after = clock_now e + profileQuarantinePeriod\<rparr>"
    from 1(3) 2(2) assms(4) have q: "\<not> quarantined d0 ?i" "rr_profile r = item"
      "d1 = d0\<lparr>quarantine := quarantine d0 @ [?q]\<rparr>" by auto
    have nq: "\<forall>x\<in>set (quarantine d0). qu_id x \<noteq> ?i" using q(1) by (simp add: quarantined_iff)
    obtain x where x: "in_quarantine d1 ?i QuarantinePrepared = Some x"
      "d2 = leave_quarantine ?i (if qu_was_selected x \<and> selected d1 \<noteq> None
               then d1\<lparr>selected := Some (Some ?i)\<rparr> else d1)"
      using CancelProfileRemoval_ok [OF assms(5) [unfolded q(2)]] by auto
    have "find (\<lambda>y. qu_id y = ?i \<and> qu_state y = QuarantinePrepared) (quarantine d0) = None"
      using nq by (auto simp: find_None)
    then have "x = ?q" using x(1) by (simp add: in_quarantine_def q(3) find_append)
    moreover have "del_where (\<lambda>y. qu_id y = ?i) (quarantine d0 @ [?q]) = quarantine d0"
      using nq by (auto simp: del_where_def)
    ultimately show ?thesis
      using replace_selection_ok [OF 1(2)] x(2)
      by (cases was) (auto simp: leave_quarantine_def q(3) is_selected_def)
  qed
qed (use assms(3) in simp)

theorem cancel_undoes_removal_witness:
  "snd (CancelProfileRemoval (sample_env 80) ''p1''
     (snd (BeginProfileRemoval (sample_env 70) ''work'' ''alt'' sample_db))) = sample_db"
proof -
  let ?b = "BeginProfileRemoval (sample_env 70) ''work'' ''alt'' sample_db"
  let ?c = "CancelProfileRemoval (sample_env 80) ''p1'' (snd ?b)"
  have "\<not> isl (fst ?b)" "snd ?b \<noteq> sample_db" "rr_action (projr (fst ?b)) = RemovalQuarantined"
    "ip_id (rr_profile (projr (fst ?b))) = ''p1''" "fst ?c = Inr ()"
    by code_simp+
  then show ?thesis
    using cancel_undoes_removal [OF sample_inv, of "sample_env 70" "''work''" "''alt''" "projr (fst ?b)" "snd ?b"
        "sample_env 80" "()" "snd ?c"]
    by (simp add: prod_eq_iff sum.expand)
qed

text \<open>C8: A quarantined profile is restored only before its deadline of seven days after the removal, and
  then the store is the one from before the removal except for the selection.\<close>

theorem restore_before_the_deadline:
  assumes "store_inv d" "BeginProfileRemoval e a rp d = (Inr r, d1)" "d1 \<noteq> d"
    and "rr_action r = RemovalQuarantined"
    and "CompleteProfileQuarantine e' (ip_id (rr_profile r)) d1 = (Inr u, d2)"
    and "RestoreProfile e'' (ip_id (rr_profile r)) d2 = (x, d3)"
  shows "case x of
      Inr v \<Rightarrow> clock_now e'' < clock_now e + 7 * 24 * Hour \<and> d3 = d\<lparr>selected := selected d1\<rparr>
    | Inl y \<Rightarrow> d3 = d2 \<and> (y = quarantine_expired \<longrightarrow> clock_now e + 7 * 24 * Hour \<le> clock_now e'')"
  using assms(2)
proof (cases rule: BeginProfileRemoval_cases)
  case (2 item rec)
  let ?i = "ip_id item"
  from 2(3) show ?thesis
  proof (cases rule: removal_body_ok)
    case (1 was d0)
    let ?q = "\<lparr>qu_id = ?i, qu_state = QuarantinePrepared, qu_was_selected = was,
                qu_at = clock_now e, qu_purge_after = clock_now e + profileQuarantinePeriod\<rparr>"
    let ?p = "?q\<lparr>qu_state := QuarantineReady\<rparr>"
    from 1(3) 2(2) assms(4) have q: "\<not> quarantined d0 ?i" "rr_profile r = item"
      "d1 = d0\<lparr>quarantine := quarantine d0 @ [?q]\<rparr>" by auto
    have nq: "\<forall>x\<in>set (quarantine d0). qu_id x \<noteq> ?i" using q(1) by (simp add: quarantined_iff)
    have d2: "d2 = d0\<lparr>quarantine := quarantine d0 @ [?p]\<rparr>"
      unfolding CompleteProfileQuarantine_ok(2) [OF assms(5)] using nq
      by (simp add: q(2,3) upd_where_none)
    have "find (\<lambda>y. qu_id y = ?i \<and> qu_state y = QuarantineReady) (quarantine d0) = None"
      using nq by (auto simp: find_None)
    then have find: "in_quarantine d2 ?i QuarantineReady = Some ?p"
      by (simp add: in_quarantine_def d2 find_append)
    have "del_where (\<lambda>y. qu_id y = ?i) (quarantine d0 @ [?p]) = quarantine d0"
      using nq by (auto simp: del_where_def)
    then have leave: "leave_quarantine ?i d2 = d\<lparr>selected := selected d1\<rparr>"
      using replace_selection_ok [OF 1(2)] by (cases was) (auto simp: leave_quarantine_def d2 q(3))
    show ?thesis
    proof (cases x)
      case (Inr v)
      with RestoreProfile_ok [OF assms(6) [unfolded q(2) Inr]] find leave show ?thesis
        by (simp add: profileQuarantinePeriod_def)
    next
      case (Inl y)
      have "y = quarantine_expired \<Longrightarrow> clock_now e + profileQuarantinePeriod \<le> clock_now e''"
        using assms(6) Inl find
        by (auto simp: RestoreProfile_def q(2) quarantine_expired_def quarantine_invalid_def state_read_def
            read_failed_def state_write_def write_failed_def coded_def split: if_splits)
      with RestoreProfile_error [OF assms(6) [unfolded Inl]] Inl show ?thesis
        by (simp add: profileQuarantinePeriod_def)
    qed
  qed
qed (use assms(3) in simp)

theorem restore_before_the_deadline_witness:
  "snd (RestoreProfile (sample_env 90) ''p1'' (snd (CompleteProfileQuarantine (sample_env 80) ''p1''
     (snd (BeginProfileRemoval (sample_env 70) ''work'' ''alt'' sample_db)))))
   = sample_db\<lparr>selected := Some (Some ''p2'')\<rparr>"
proof -
  let ?b = "BeginProfileRemoval (sample_env 70) ''work'' ''alt'' sample_db"
  let ?c = "CompleteProfileQuarantine (sample_env 80) ''p1'' (snd ?b)"
  let ?r = "RestoreProfile (sample_env 90) ''p1'' (snd ?c)"
  have "\<not> isl (fst ?b)" "snd ?b \<noteq> sample_db" "rr_action (projr (fst ?b)) = RemovalQuarantined"
    "ip_id (rr_profile (projr (fst ?b))) = ''p1''" "fst ?c = Inr ()" "fst ?r = Inr ()"
    "selected (snd ?b) = Some (Some ''p2'')"
    by code_simp+
  then show ?thesis
    using restore_before_the_deadline [OF sample_inv, of "sample_env 70" "''work''" "''alt''" "projr (fst ?b)"
        "snd ?b" "sample_env 80" "()" "snd ?c" "sample_env 90" "fst ?r" "snd ?r"]
    by (simp add: prod_eq_iff sum.expand)
qed




definition no_files :: "unit home_lifecycle" where
  "no_files = \<lparr>home_quarantine = \<lambda>i p h. (None, h), home_restore = \<lambda>i p h. (None, h),
     home_purge = \<lambda>i h. (None, h)\<rparr>"


end
