(* ===== verification/Profile_Setup.thy ===== *)
theory Profile_Setup
  imports Profile_Store
begin

text \<open>
  The setup and reauthentication workflows of \<^verbatim>\<open>internal/profile/profile.go\<close>. The repository acts on a
  state \<open>'s\<close>; the other collaborators (Codex discovery, home provisioning, the authenticator, the
  identifier source) act on a world \<open>'w\<close>. The input and output streams of the requests are not
  kept. \<open>samePath\<close> is the one of Unix.
\<close>

section \<open>Requests, results and collaborators\<close>

record discovery =
  dv_executable :: string
  dv_version :: string

record setup_request =
  sr_alias :: string
  sr_display_name :: string
  sr_codex :: string
  sr_home :: string
  sr_method :: auth_method
  sr_non_interactive :: bool
  sr_pack :: string
  sr_version :: string

record setup_result =
  sx_profile :: identity_profile
  sx_discovery :: discovery
  sx_stages :: setup_stages
  sx_resumed :: bool
  sx_method :: auth_method
  sx_duplicate :: bool

record reauthentication_request =
  rt_alias :: string
  rt_codex :: string
  rt_method :: auth_method
  rt_non_interactive :: bool

record reauthentication_result =
  rx_profile :: "identity_profile option"
  rx_discovery :: discovery
  rx_method :: auth_method
  rx_reauthenticated :: bool

record auth_request =
  aq_discovery :: discovery
  aq_home :: string
  aq_method :: auth_method

record 's auth_repository =
  auth_get_profile :: "string \<Rightarrow> 's \<Rightarrow> (err + identity_profile) \<times> 's"
  auth_set_state :: "string \<Rightarrow> status \<Rightarrow> auth_method \<Rightarrow> 's \<Rightarrow> (err + unit) \<times> 's"

text \<open>\<open>as_auth\<close> is the type assertion to \<open>AuthenticationRepository\<close>.\<close>

record 's setup_repository =
  find_pending :: "string \<Rightarrow> 's \<Rightarrow> (err + pending_profile) \<times> 's"
  create_pending :: "pending_profile \<Rightarrow> 's \<Rightarrow> (err + unit) \<times> 's"
  set_managed_home :: "string \<Rightarrow> string \<Rightarrow> string \<Rightarrow> 's \<Rightarrow> (err + unit) \<times> 's"
  set_referenced_home :: "string \<Rightarrow> string \<Rightarrow> string \<Rightarrow> 's \<Rightarrow> (err + unit) \<times> 's"
  save_metadata :: "string \<Rightarrow> documented_metadata \<Rightarrow> 's \<Rightarrow> (err + bool) \<times> 's"
  save_stage :: "string \<Rightarrow> setup_stage \<Rightarrow> 's \<Rightarrow> (err + unit) \<times> 's"
  reset_authentication :: "string \<Rightarrow> 's \<Rightarrow> (err + unit) \<times> 's"
  complete_selection :: "string \<Rightarrow> string \<Rightarrow> string \<Rightarrow> 's \<Rightarrow> (err + identity_profile) \<times> 's"
  as_auth :: "'s auth_repository option"

text \<open>\<open>observe_metadata\<close> is the type assertion to \<open>DocumentedMetadataObserver\<close>, \<open>resolve_home\<close> the optional
  resolver of referenced homes.\<close>

record 'w collaborators =
  discover :: "string \<Rightarrow> 'w \<Rightarrow> (err + discovery) \<times> 'w"
  ensure_home :: "string \<Rightarrow> 'w \<Rightarrow> (err + string) \<times> 'w"
  resolve_home :: "(string \<Rightarrow> 'w \<Rightarrow> (err + string) \<times> 'w) option"
  authenticate_with :: "auth_request \<Rightarrow> 'w \<Rightarrow> err option \<times> 'w"
  check_auth :: "auth_request \<Rightarrow> 'w \<Rightarrow> err option \<times> 'w"
  observe_metadata :: "(auth_request \<Rightarrow> 'w \<Rightarrow> (err + documented_metadata) \<times> 'w) option"
  new_profile_id :: "'w \<Rightarrow> (err + string) \<times> 'w"

section \<open>Sequencing\<close>

definition on_repo :: "('s \<Rightarrow> 'r \<times> 's) \<Rightarrow> 's \<times> 'w \<Rightarrow> 'r \<times> 's \<times> 'w" where
  "on_repo f st = (case st of (s, w) \<Rightarrow> (case f s of (r, s') \<Rightarrow> (r, s', w)))"

definition on_world :: "('w \<Rightarrow> 'r \<times> 'w) \<Rightarrow> 's \<times> 'w \<Rightarrow> 'r \<times> 's \<times> 'w" where
  "on_world f st = (case st of (s, w) \<Rightarrow> (case f w of (r, w') \<Rightarrow> (r, s, w')))"

section \<open>Error wrapping and methods\<close>

definition wrapHomeError :: "err \<Rightarrow> err" where
  "wrapHomeError x =
     (if Code x \<noteq> None then x else New ProfileHomeInvalid (errors_Join [Some (plain ErrHomeInvalid), Some x]))"

definition wrapAuthenticationError :: "err \<Rightarrow> err" where
  "wrapAuthenticationError x =
     (if errors_Is x ErrAuthCancelled \<or> errors_Is x ContextCanceled
      then New ProfileAuthenticationCancelled (errors_Join [Some (plain ErrAuthCancelled), Some x])
      else if Code x \<noteq> None then x
      else New ProfileAuthenticationFailed (errors_Join [Some (plain ErrAuthenticationFailed), Some x]))"

definition wrapValidationError :: "err \<Rightarrow> err" where
  "wrapValidationError x =
     (if errors_Is x ContextCanceled
      then New ProfileAuthenticationCancelled (errors_Join [Some (plain ErrAuthCancelled), Some x])
      else if Code x \<noteq> None then x
      else New ProfileValidationFailed (errors_Join [Some (plain ErrValidationFailed), Some x]))"

definition normalizeAuthMethod :: "auth_method \<Rightarrow> auth_method" where
  "normalizeAuthMethod m = (if m = AuthMethodUnset then AuthMethodAutomatic else m)"

definition validAuthMethod :: "auth_method \<Rightarrow> bool" where
  "validAuthMethod m \<longleftrightarrow> m = AuthMethodUnset \<or> m = AuthMethodAutomatic \<or> m = AuthMethodBrowser
     \<or> m = AuthMethodDeviceCode"

definition choice_required :: err where
  "choice_required = New ProfileSetupChoiceRequired (plain ErrSetupChoiceRequired)"

section \<open>Authentication\<close>

definition authenticate ::
  "'w collaborators \<Rightarrow> auth_request \<Rightarrow> auth_method \<Rightarrow> 'w \<Rightarrow> (auth_method \<times> err option) \<times> 'w" where
  "authenticate col rq preferred w =
     (if preferred = AuthMethodBrowser \<or> preferred = AuthMethodDeviceCode then
        (case authenticate_with col (rq\<lparr>aq_method := preferred\<rparr>) w of
           (x, w') \<Rightarrow> ((preferred, map_option wrapAuthenticationError x), w'))
      else
        (case authenticate_with col (rq\<lparr>aq_method := AuthMethodBrowser\<rparr>) w of
           (None, w1) \<Rightarrow> ((AuthMethodBrowser, None), w1)
         | (Some x, w1) \<Rightarrow>
             if \<not> errors_Is x ErrBrowserUnavailable
             then ((AuthMethodBrowser, Some (wrapAuthenticationError x)), w1)
             else (case authenticate_with col (rq\<lparr>aq_method := AuthMethodDeviceCode\<rparr>) w1 of
                     (y, w2) \<Rightarrow> ((AuthMethodDeviceCode, map_option wrapAuthenticationError y), w2))))"

definition authenticateUsingPreference ::
  "'w collaborators \<Rightarrow> auth_request \<Rightarrow> auth_method \<Rightarrow> bool \<Rightarrow> 'w \<Rightarrow> (auth_method \<times> err option) \<times> 'w" where
  "authenticateUsingPreference col rq preferred explicit w =
     (if preferred = AuthMethodDeviceCode then
        (case authenticate_with col (rq\<lparr>aq_method := AuthMethodDeviceCode\<rparr>) w of
           (x, w') \<Rightarrow> ((preferred, map_option wrapAuthenticationError x), w'))
      else if preferred \<noteq> AuthMethodAutomatic \<and> preferred \<noteq> AuthMethodBrowser
      then ((preferred, Some (setup_invalid Opaque)), w)
      else
        (case authenticate_with col (rq\<lparr>aq_method := AuthMethodBrowser\<rparr>) w of
           (None, w1) \<Rightarrow> ((AuthMethodBrowser, None), w1)
         | (Some x, w1) \<Rightarrow>
             if \<not> errors_Is x ErrBrowserUnavailable \<or> explicit
             then ((AuthMethodBrowser, Some (wrapAuthenticationError x)), w1)
             else (case authenticate_with col (rq\<lparr>aq_method := AuthMethodDeviceCode\<rparr>) w1 of
                     (y, w2) \<Rightarrow> ((AuthMethodDeviceCode, map_option wrapAuthenticationError y), w2))))"

text \<open>The three parts of one attempt of \<open>authenticateAndValidate\<close>; each may return from it.
  Lines 720--733: a validated profile is checked again.\<close>

definition revalidate ::
  "'s setup_repository \<Rightarrow> 'w collaborators \<Rightarrow> string \<Rightarrow> auth_request \<Rightarrow> auth_method \<Rightarrow> bool \<Rightarrow> bool \<Rightarrow>
    's \<times> 'w \<Rightarrow> ((auth_method \<times> err option) + bool) \<times> 's \<times> 'w" where
  "revalidate repo col i rq method authenticated validated st =
     (if \<not> validated then (Inr authenticated, st)
      else case on_world (check_auth col (rq\<lparr>aq_method := AuthMethodReused\<rparr>)) st of
        (None, st1) \<Rightarrow> (Inl (method, None), st1)
      | (Some x, st1) \<Rightarrow>
          if errors_Is x ErrNotAuthenticated then
            (case on_repo (reset_authentication repo i) st1 of
               (Inl y, st2) \<Rightarrow> (Inl (method, Some y), st2)
             | (Inr u, st2) \<Rightarrow> (Inr False, st2))
          else (Inl (method, Some (wrapValidationError x)), st1))"

text \<open>Lines 735--754: authenticate and record the stage.\<close>

definition obtain_authentication ::
  "'s setup_repository \<Rightarrow> 'w collaborators \<Rightarrow> setup_request \<Rightarrow> auth_method \<Rightarrow> string \<Rightarrow> auth_request \<Rightarrow>
    auth_method \<Rightarrow> bool \<Rightarrow> 's \<times> 'w \<Rightarrow> ((auth_method \<times> err option) + auth_method) \<times> 's \<times> 'w" where
  "obtain_authentication repo col sr preferred i rq method authenticated st =
     (if authenticated then (Inr method, st)
      else if sr_non_interactive sr \<and> preferred = AuthMethodAutomatic
      then (Inl (method, Some choice_required), st)
      else case on_world (authenticate col rq preferred) st of
        ((selected_method, Some x), st1) \<Rightarrow> (Inl (selected_method, Some x), st1)
      | ((selected_method, None), st1) \<Rightarrow>
          (case (case as_auth repo of
                   None \<Rightarrow> (Inr (), st1)
                 | Some ar \<Rightarrow> on_repo (auth_set_state ar i StatusPending selected_method) st1) of
             (Inl x, st2) \<Rightarrow> (Inl (selected_method, Some x), st2)
           | (Inr u, st2) \<Rightarrow>
               (case on_repo (save_stage repo i StageAuthentication) st2 of
                  (Inl x, st3) \<Rightarrow> (Inl (selected_method, Some x), st3)
                | (Inr u, st3) \<Rightarrow> (Inr selected_method, st3))))"

text \<open>Lines 756--773: check and record the stage; \<open>Inr\<close> when the attempt is to be repeated.\<close>

definition validate_authentication ::
  "'s setup_repository \<Rightarrow> 'w collaborators \<Rightarrow> string \<Rightarrow> auth_request \<Rightarrow> auth_method \<Rightarrow> 's \<times> 'w \<Rightarrow>
    ((auth_method \<times> err option) + unit) \<times> 's \<times> 'w" where
  "validate_authentication repo col i rq method st =
     (case on_world (check_auth col (rq\<lparr>aq_method := method\<rparr>)) st of
        (None, st1) \<Rightarrow>
          (case on_repo (save_stage repo i StageValidation) st1 of
             (Inl x, st2) \<Rightarrow> (Inl (method, Some x), st2)
           | (Inr u, st2) \<Rightarrow> (Inl (method, None), st2))
      | (Some x, st1) \<Rightarrow>
          if errors_Is x ErrNotAuthenticated then
            (case on_repo (reset_authentication repo i) st1 of
               (Inl y, st2) \<Rightarrow> (Inl (method, Some y), st2)
             | (Inr u, st2) \<Rightarrow> (Inr (), st2))
          else (Inl (method, Some (wrapValidationError x)), st1))"

fun auth_attempts ::
  "nat \<Rightarrow> 's setup_repository \<Rightarrow> 'w collaborators \<Rightarrow> setup_request \<Rightarrow> auth_method \<Rightarrow> string \<Rightarrow> auth_request \<Rightarrow>
    auth_method \<Rightarrow> bool \<Rightarrow> bool \<Rightarrow> 's \<times> 'w \<Rightarrow> (auth_method \<times> err option) \<times> 's \<times> 'w" where
  "auth_attempts 0 repo col sr preferred i rq method authenticated validated st =
     ((method, Some (wrapAuthenticationError (plain ErrAuthenticationFailed))), st)"
| "auth_attempts (Suc k) repo col sr preferred i rq method authenticated validated st =
     flow (revalidate repo col i rq method authenticated validated st) id (\<lambda>authenticated st1.
       flow (obtain_authentication repo col sr preferred i rq method authenticated st1) id (\<lambda>method st2.
         flow (validate_authentication repo col i rq method st2) id (\<lambda>u st3.
           auth_attempts k repo col sr preferred i rq method False False st3)))"

definition authenticateAndValidate ::
  "'s setup_repository \<Rightarrow> 'w collaborators \<Rightarrow> setup_request \<Rightarrow> auth_method \<Rightarrow> pending_profile \<Rightarrow> discovery \<Rightarrow>
    's \<times> 'w \<Rightarrow> (auth_method \<times> err option) \<times> 's \<times> 'w" where
  "authenticateAndValidate repo col sr preferred pending dv st =
     (let rq = \<lparr>aq_discovery = dv, aq_home = pp_home_path pending, aq_method = AuthMethodUnset\<rparr>;
          stages = pp_stages pending;
          method = (if ss_authentication stages
                       \<and> (pp_method pending = AuthMethodBrowser \<or> pp_method pending = AuthMethodDeviceCode)
                    then pp_method pending else AuthMethodReused);
          attempts = auth_attempts 2 repo col sr preferred (pp_id pending) rq method
                       (ss_authentication stages) (ss_validation stages)
      in if pp_ownership pending = HomeOwnershipReferenced \<and> \<not> ss_authentication stages
            \<and> \<not> ss_validation stages \<and> preferred = AuthMethodAutomatic then
           (case on_world (check_auth col (rq\<lparr>aq_method := AuthMethodReused\<rparr>)) st of
              (None, st1) \<Rightarrow>
                flow (on_repo (save_stage repo (pp_id pending) StageAuthentication) st1)
                  (\<lambda>x. (method, Some x)) (\<lambda>u st2.
                flow (on_repo (save_stage repo (pp_id pending) StageValidation) st2)
                  (\<lambda>x. (method, Some x)) (\<lambda>u st3. ((method, None), st3)))
            | (Some x, st1) \<Rightarrow>
                if \<not> errors_Is x ErrNotAuthenticated then ((method, Some (wrapValidationError x)), st1)
                else attempts st1)
         else attempts st)"

section \<open>Setup\<close>

definition no_stages :: setup_stages where
  "no_stages = \<lparr>ss_discovery = False, ss_home = False, ss_authentication = False,
     ss_validation = False, ss_selection = False\<rparr>"

definition no_discovery :: discovery where
  "no_discovery = \<lparr>dv_executable = [], dv_version = []\<rparr>"

definition no_profile :: identity_profile where
  "no_profile = \<lparr>ip_id = [], ip_alias = [], ip_display_name = [], ip_email = [], ip_workspace = [],
     ip_status = StatusOther [], ip_home = [], ip_ownership = HomeOwnershipUnset,
     ip_method = AuthMethodUnset, ip_selected = False, ip_created = 0, ip_updated = 0, ip_home_path = []\<rparr>"

definition no_result :: setup_result where
  "no_result = \<lparr>sx_profile = no_profile, sx_discovery = no_discovery, sx_stages = no_stages,
     sx_resumed = False, sx_method = AuthMethodUnset, sx_duplicate = False\<rparr>"

text \<open>\<open>Workflow.result\<close>: what a failing setup reports.\<close>

definition partial_result :: "pending_profile \<Rightarrow> discovery \<Rightarrow> bool \<Rightarrow> auth_method \<Rightarrow> setup_result" where
  "partial_result pp dv resumed m =
     \<lparr>sx_profile = no_profile\<lparr>ip_id := pp_id pp, ip_alias := pp_alias pp,
        ip_display_name := pp_display_name pp, ip_status := pp_status pp, ip_home := pp_home pp,
        ip_ownership := pp_ownership pp\<rparr>,
      sx_discovery = dv, sx_stages = pp_stages pp, sx_resumed = resumed, sx_method = m,
      sx_duplicate = False\<rparr>"

definition new_pending :: "string \<Rightarrow> setup_request \<Rightarrow> pending_profile" where
  "new_pending i sr = \<lparr>pp_id = i, pp_alias = sr_alias sr,
     pp_display_name = (if sr_display_name sr = [] then sr_alias sr else sr_display_name sr),
     pp_status = StatusPending, pp_home = [], pp_ownership = HomeOwnershipUnset,
     pp_method = AuthMethodUnset, pp_stages = no_stages, pp_home_path = []\<rparr>"

text \<open>Lines 407--432: find the pending profile, or register a new one.\<close>

definition start_setup ::
  "'s setup_repository \<Rightarrow> 'w collaborators \<Rightarrow> setup_request \<Rightarrow> 's \<times> 'w \<Rightarrow>
    (err + (pending_profile \<times> bool)) \<times> 's \<times> 'w" where
  "start_setup repo col sr st =
     (case on_repo (find_pending repo (sr_alias sr)) st of
        (Inr pp, st1) \<Rightarrow> (Inr (pp, True), st1)
      | (Inl x, st1) \<Rightarrow>
          if \<not> errors_Is x ErrNotFound then (Inl x, st1)
          else (case on_world (new_profile_id col) st1 of
              (Inl y, st2) \<Rightarrow> (Inl (New ProfileSetupInvalid y), st2)
            | (Inr i, st2) \<Rightarrow>
                if blank i then (Inl (setup_invalid Opaque), st2)
                else (case on_repo (create_pending repo (new_pending i sr)) st2 of
                    (Inl y, st3) \<Rightarrow> (Inl y, st3)
                  | (Inr u, st3) \<Rightarrow> (Inr (new_pending i sr, False), st3))))"

text \<open>A stage is saved unless the pending profile already has it.\<close>

definition save_missing ::
  "'s setup_repository \<Rightarrow> bool \<Rightarrow> string \<Rightarrow> setup_stage \<Rightarrow> 's \<times> 'w \<Rightarrow> (err + unit) \<times> 's \<times> 'w" where
  "save_missing repo present i stage st =
     (if present then (Inr (), st) else on_repo (save_stage repo i stage) st)"

text \<open>Lines 445--462: the ownership of the home and its path.\<close>

definition locate_home ::
  "'w collaborators \<Rightarrow> setup_request \<Rightarrow> pending_profile \<Rightarrow> 's \<times> 'w \<Rightarrow>
    (err + (ownership \<times> string)) \<times> 's \<times> 'w" where
  "locate_home col sr pp st =
     (if pp_ownership pp = HomeOwnershipReferenced \<or> \<not> blank (sr_home sr) then
        (case resolve_home col of
           None \<Rightarrow> (Inl profile_home_invalid, st)
         | Some resolve \<Rightarrow>
             (case on_world (resolve (if blank (sr_home sr) then pp_home_path pp else sr_home sr)) st of
                (Inl x, st1) \<Rightarrow> (Inl (wrapHomeError x), st1)
              | (Inr path, st1) \<Rightarrow> (Inr (HomeOwnershipReferenced, path), st1)))
      else
        (case on_world (ensure_home col (pp_id pp)) st of
           (Inl x, st1) \<Rightarrow> (Inl (wrapHomeError x), st1)
         | (Inr path, st1) \<Rightarrow> (Inr (HomeOwnershipManaged, path), st1)))"

definition samePath :: "string \<Rightarrow> string \<Rightarrow> bool" where
  "samePath l r \<longleftrightarrow> l = r"

text \<open>Lines 463--478: register the home, or insist on the registered one.\<close>

definition register_home ::
  "'s setup_repository \<Rightarrow> pending_profile \<Rightarrow> ownership \<Rightarrow> string \<Rightarrow> 's \<times> 'w \<Rightarrow>
    (err + pending_profile) \<times> 's \<times> 'w" where
  "register_home repo pp ow path st =
     (if pp_home pp = [] then
        flow (on_repo ((if ow = HomeOwnershipReferenced then set_referenced_home repo
                        else set_managed_home repo) (pp_id pp) (pp_id pp) path) st)
          Inl (\<lambda>u st1.
            (Inr (pp\<lparr>pp_home := pp_id pp, pp_ownership := ow, pp_home_path := path\<rparr>), st1))
      else if pp_ownership pp \<noteq> ow \<or> pp_home_path pp = []
        \<or> \<not> samePath (Clean (pp_home_path pp)) (Clean path)
      then (Inl profile_home_invalid, st)
      else (Inr pp, st))"

text \<open>Lines 501--513: the optional record of what Codex documents about the identity.\<close>

definition record_metadata ::
  "'s setup_repository \<Rightarrow> 'w collaborators \<Rightarrow> auth_request \<Rightarrow> string \<Rightarrow> 's \<times> 'w \<Rightarrow> (err + bool) \<times> 's \<times> 'w" where
  "record_metadata repo col rq i st =
     (case observe_metadata col of
        None \<Rightarrow> (Inr False, st)
      | Some observe \<Rightarrow>
          (case on_world (observe rq) st of
             (Inl x, st1) \<Rightarrow> (Inr False, st1)
           | (Inr m, st1) \<Rightarrow>
               if \<not> blank (dm_login m) \<or> \<not> blank (dm_workspace m)
               then on_repo (save_metadata repo i m) st1
               else (Inr False, st1)))"

text \<open>Lines 486--530: authentication, the record of its method, and the first selection.\<close>

definition finish_setup ::
  "'s setup_repository \<Rightarrow> 'w collaborators \<Rightarrow> setup_request \<Rightarrow> auth_method \<Rightarrow> pending_profile \<Rightarrow> discovery \<Rightarrow>
    bool \<Rightarrow> 's \<times> 'w \<Rightarrow> (setup_result \<times> err option) \<times> 's \<times> 'w" where
  "finish_setup repo col sr method pp dv resumed st =
     (case authenticateAndValidate repo col sr method pp dv st of
        ((m, Some x), st1) \<Rightarrow> ((partial_result pp dv resumed m, Some x), st1)
      | ((m, None), st1) \<Rightarrow>
          let pp1 = pp\<lparr>pp_stages := (pp_stages pp)\<lparr>ss_authentication := True, ss_validation := True\<rparr>\<rparr>;
              failed = (\<lambda>x. (partial_result pp1 dv resumed m, Some x))
          in flow (case as_auth repo of
                None \<Rightarrow> (Inr (), st1)
              | Some ar \<Rightarrow> on_repo (auth_set_state ar (pp_id pp) StatusPending
                    (if m = AuthMethodReused then AuthMethodUnset else m)) st1) failed (\<lambda>u st2.
             flow (record_metadata repo col
                 \<lparr>aq_discovery = dv, aq_home = pp_home_path pp, aq_method = m\<rparr> (pp_id pp) st2)
               failed (\<lambda>duplicate st3.
             flow (on_repo (complete_selection repo (pp_id pp) (sr_pack sr) (sr_version sr)) st3)
               failed (\<lambda>selected st4.
               ((\<lparr>sx_profile = selected, sx_discovery = dv,
                  sx_stages = (pp_stages pp1)\<lparr>ss_selection := True\<rparr>, sx_resumed = resumed,
                  sx_method = m, sx_duplicate = duplicate\<rparr>, None), st4)))))"

definition Add ::
  "'s setup_repository \<Rightarrow> 'w collaborators \<Rightarrow> setup_request \<Rightarrow> 's \<times> 'w \<Rightarrow>
    (setup_result \<times> err option) \<times> 's \<times> 'w" where
  "Add repo col sr st =
     (case ValidateAlias (sr_alias sr) of
        Some x \<Rightarrow> ((no_result, Some x), st)
      | None \<Rightarrow>
          let method = normalizeAuthMethod (sr_method sr) in
          if 128 < rune_count (sr_display_name sr)
             \<or> (method \<noteq> AuthMethodAutomatic \<and> method \<noteq> AuthMethodBrowser \<and> method \<noteq> AuthMethodDeviceCode)
          then ((no_result, Some (setup_invalid Opaque)), st)
          else
            flow (start_setup repo col sr st) (\<lambda>x. (no_result, Some x)) (\<lambda>(pp, resumed) st1.
            flow (on_world (discover col (sr_codex sr)) st1)
              (\<lambda>x. (partial_result pp no_discovery resumed AuthMethodUnset, Some x)) (\<lambda>dv st2.
            flow (save_missing repo (ss_discovery (pp_stages pp)) (pp_id pp) StageDiscovery st2)
              (\<lambda>x. (partial_result pp dv resumed AuthMethodUnset, Some x)) (\<lambda>u st3.
            let pp1 = pp\<lparr>pp_stages := (pp_stages pp)\<lparr>ss_discovery := True\<rparr>\<rparr> in
            flow (locate_home col sr pp1 st3)
              (\<lambda>x. (partial_result pp1 dv resumed AuthMethodUnset, Some x)) (\<lambda>(ow, path) st4.
            flow (register_home repo pp1 ow path st4)
              (\<lambda>x. (partial_result pp1 dv resumed AuthMethodUnset, Some x)) (\<lambda>pp2 st5.
            flow (save_missing repo (ss_home (pp_stages pp2)) (pp_id pp2) StageHome st5)
              (\<lambda>x. (partial_result pp2 dv resumed AuthMethodUnset, Some x)) (\<lambda>u st6.
            finish_setup repo col sr method
              (pp2\<lparr>pp_stages := (pp_stages pp2)\<lparr>ss_home := True\<rparr>\<rparr>) dv resumed st6)))))))"

section \<open>Reauthentication\<close>

text \<open>\<open>set_state\<close> writes the status and returns either the write's error or the given outcome.\<close>

definition set_state ::
  "'s auth_repository \<Rightarrow> identity_profile \<Rightarrow> status \<Rightarrow> auth_method \<Rightarrow> (err \<Rightarrow> 'b) \<Rightarrow>
    ('s \<times> 'w \<Rightarrow> 'b \<times> 's \<times> 'w) \<Rightarrow> 's \<times> 'w \<Rightarrow> 'b \<times> 's \<times> 'w" where
  "set_state ar item status m failed go st =
     flow (on_repo (auth_set_state ar (ip_id item) status m) st) failed (\<lambda>u st1. go st1)"

definition usable :: "identity_profile \<Rightarrow> bool" where
  "usable item \<longleftrightarrow> ip_status item \<noteq> StatusPending \<and> ip_home item \<noteq> [] \<and> IsAbs (ip_home_path item)"

definition authentication_unavailable :: err where
  "authentication_unavailable = New ProfileAuthenticationUnavailable (plain ErrAuthenticationUnavailable)"

definition rx :: "identity_profile option \<Rightarrow> discovery \<Rightarrow> auth_method \<Rightarrow> bool \<Rightarrow> reauthentication_result" where
  "rx item dv m done = \<lparr>rx_profile = item, rx_discovery = dv, rx_method = m, rx_reauthenticated = done\<rparr>"

text \<open>Lines 622--650: authenticate, check again and store the outcome.\<close>

definition reauthenticate_now ::
  "'s auth_repository \<Rightarrow> 'w collaborators \<Rightarrow> identity_profile \<Rightarrow> discovery \<Rightarrow> auth_request \<Rightarrow> auth_method \<Rightarrow>
    bool \<Rightarrow> 's \<times> 'w \<Rightarrow> (reauthentication_result \<times> err option) \<times> 's \<times> 'w" where
  "reauthenticate_now ar col item dv rq preferred explicit st =
     (case on_world (authenticateUsingPreference col rq preferred explicit) st of
        ((m, Some x), st1) \<Rightarrow> ((rx (Some item) dv m False, Some x), st1)
      | ((m, None), st1) \<Rightarrow>
          let failed = (\<lambda>x. (rx (Some item) dv m False, Some x)) in
          (case on_world (check_auth col (rq\<lparr>aq_method := m\<rparr>)) st1 of
             (Some x, st2) \<Rightarrow>
               if errors_Is x ErrAuthCancelled then
                 set_state ar item StatusNeedsReauthentication AuthMethodUnset failed
                   (\<lambda>st3. (failed (wrapAuthenticationError x), st3)) st2
               else if errors_Is x ErrNotAuthenticated \<or> errors_Is x ContextCanceled then
                 set_state ar item StatusNeedsReauthentication AuthMethodUnset failed
                   (\<lambda>st3. (failed (wrapValidationError x), st3)) st2
               else
                 set_state ar item StatusUnavailable AuthMethodUnset failed
                   (\<lambda>st3. (failed authentication_unavailable, st3)) st2
           | (None, st2) \<Rightarrow>
               set_state ar item StatusReady m failed
                 (\<lambda>st3. ((rx (Some (item\<lparr>ip_status := StatusReady, ip_method := m\<rparr>)) dv m True, None), st3)) st2))"

definition Reauthenticate ::
  "'s auth_repository \<Rightarrow> 'w collaborators \<Rightarrow> reauthentication_request \<Rightarrow> 's \<times> 'w \<Rightarrow>
    (reauthentication_result \<times> err option) \<times> 's \<times> 'w" where
  "Reauthenticate ar col rt st =
     (case ValidateAlias (rt_alias rt) of
        Some x \<Rightarrow> ((rx None no_discovery AuthMethodUnset False, Some x), st)
      | None \<Rightarrow>
          if \<not> validAuthMethod (rt_method rt)
          then ((rx None no_discovery AuthMethodUnset False, Some (setup_invalid Opaque)), st)
          else
            flow (on_repo (auth_get_profile ar (rt_alias rt)) st)
              (\<lambda>x. (rx None no_discovery AuthMethodUnset False,
                    Some (if errors_Is x ErrNotFound then not_selectable else x))) (\<lambda>item st1.
            if \<not> usable item
            then ((rx (Some item) no_discovery AuthMethodUnset False, Some not_selectable), st1)
            else
            flow (on_world (discover col (rt_codex rt)) st1)
              (\<lambda>x. (rx (Some item) no_discovery AuthMethodUnset False, Some x)) (\<lambda>dv st2.
              let rq = \<lparr>aq_discovery = dv, aq_home = ip_home_path item, aq_method = AuthMethodReused\<rparr>;
                  failed = (\<lambda>x. (rx (Some item) dv AuthMethodUnset False, Some x));
                  failed_as = (\<lambda>s x. (rx (Some (item\<lparr>ip_status := s\<rparr>)) dv AuthMethodUnset False, Some x))
              in case on_world (check_auth col rq) st2 of
                (None, st3) \<Rightarrow>
                  if ip_status item \<noteq> StatusReady then
                    set_state ar item StatusReady AuthMethodUnset failed
                      (\<lambda>st4. ((rx (Some (item\<lparr>ip_status := StatusReady\<rparr>)) dv AuthMethodReused False, None), st4)) st3
                  else ((rx (Some item) dv AuthMethodReused False, None), st3)
              | (Some x, st3) \<Rightarrow>
                  if errors_Is x ErrAuthCancelled \<or> errors_Is x ContextCanceled then
                    set_state ar item StatusNeedsReauthentication AuthMethodUnset failed
                      (\<lambda>st4. (failed_as StatusNeedsReauthentication (wrapAuthenticationError x), st4)) st3
                  else if \<not> errors_Is x ErrNotAuthenticated then
                    set_state ar item StatusUnavailable AuthMethodUnset failed
                      (\<lambda>st4. (failed_as StatusUnavailable authentication_unavailable, st4)) st3
                  else
                    set_state ar item StatusNeedsReauthentication AuthMethodUnset failed (\<lambda>st4.
                      let item1 = item\<lparr>ip_status := StatusNeedsReauthentication\<rparr>;
                          preferred = normalizeAuthMethod
                            (if rt_method rt = AuthMethodUnset then ip_method item else rt_method rt);
                          explicit = (rt_method rt = AuthMethodBrowser \<or> rt_method rt = AuthMethodDeviceCode)
                      in if rt_non_interactive rt \<and> preferred = AuthMethodAutomatic
                         then (failed_as StatusNeedsReauthentication choice_required, st4)
                         else reauthenticate_now ar col item1 dv rq preferred explicit st4) st3)))"

definition VerifyAuthentication ::
  "'s auth_repository \<Rightarrow> 'w collaborators \<Rightarrow> string \<Rightarrow> discovery \<Rightarrow> 's \<times> 'w \<Rightarrow>
    (identity_profile option \<times> err option) \<times> 's \<times> 'w" where
  "VerifyAuthentication ar col a dv st =
     flow (on_repo (auth_get_profile ar a) st) (\<lambda>x. (None, Some x)) (\<lambda>item st1.
       if \<not> usable item
       then ((Some item, Some (New LaunchProfileUnavailable (plain ErrNotSelectable))), st1)
       else
         (case on_world (check_auth col
             \<lparr>aq_discovery = dv, aq_home = ip_home_path item, aq_method = AuthMethodReused\<rparr>) st1 of
            (None, st2) \<Rightarrow>
              if ip_status item \<noteq> StatusReady then
                set_state ar item StatusReady AuthMethodUnset (\<lambda>x. (Some item, Some x))
                  (\<lambda>st3. ((Some (item\<lparr>ip_status := StatusReady\<rparr>), None), st3)) st2
              else ((Some item, None), st2)
          | (Some x, st2) \<Rightarrow>
              if errors_Is x ErrNotAuthenticated then
                set_state ar item StatusNeedsReauthentication AuthMethodUnset (\<lambda>x. (Some item, Some x))
                  (\<lambda>st3. ((Some (item\<lparr>ip_status := StatusNeedsReauthentication\<rparr>),
                    Some (New ProfileReauthenticationRequired (plain ErrReauthenticationRequired))), st3)) st2
              else ((Some item, Some authentication_unavailable), st2)))"

section \<open>Registry and selector\<close>

definition Edit ::
  "(string \<Rightarrow> profile_edits \<Rightarrow> 's \<Rightarrow> (err + identity_profile) \<times> 's) \<Rightarrow> string \<Rightarrow> profile_edits \<Rightarrow> 's \<Rightarrow>
    (err + identity_profile) \<times> 's" where
  "Edit edit_profile a ed s =
     (case ValidateAlias a of
        Some x \<Rightarrow> (Inl x, s)
      | None \<Rightarrow>
          if ed_alias ed = None \<and> ed_display_name ed = None \<and> ed_email ed = None \<and> ed_workspace ed = None
          then (Inl (setup_invalid ErrProfileStateInvalid), s)
          else (case (case ed_alias ed of None \<Rightarrow> None | Some b \<Rightarrow> ValidateAlias b) of
              Some x \<Rightarrow> (Inl x, s)
            | None \<Rightarrow>
                if (case ed_display_name ed of None \<Rightarrow> False | Some n \<Rightarrow> blank n)
                then (Inl (setup_invalid ErrProfileStateInvalid), s)
                else edit_profile a
                  (ed\<lparr>ed_display_name := map_option TrimSpace (ed_display_name ed),
                      ed_email := map_option TrimSpace (ed_email ed),
                      ed_workspace := map_option TrimSpace (ed_workspace ed)\<rparr>) s))"

definition Select ::
  "(string \<Rightarrow> 's \<Rightarrow> (err + identity_profile \<times> bool) \<times> 's) \<Rightarrow> string \<Rightarrow> 's \<Rightarrow>
    (err + identity_profile \<times> bool) \<times> 's" where
  "Select select_profile a s =
     (case ValidateAlias a of Some x \<Rightarrow> (Inl x, s) | None \<Rightarrow> select_profile a s)"

end
