(* ===== verification/Setup_Contract.thy ===== *)
theory Setup_Contract
  imports Profile_Setup Sample_Store
begin

text \<open>
  What setup and reauthentication promise, whatever repository and collaborators they run on: an
  invariant of the repository and of the world survives them, they end with a passed check, and they
  authenticate a bounded number of times. The repository of the running program is the store; its
  collaborators are observed through a log of authentications and checks.
\<close>

section \<open>Case analysis of sequencing\<close>

lemma flow_cases:
  assumes "flow r ret go = (b, st')"
  obtains (stop) x where "r = (Inl x, st')" "b = ret x"
  | (more) a st where "r = (Inr a, st)" "go a st = (b, st')"
proof (cases r)
  case (Pair y st)
  then show thesis using assms stop more by (cases y) auto
qed

text \<open>A workflow that returns no error stopped at none of its steps.\<close>

lemma flow_done:
  "flow r (\<lambda>x. (f x, Some (g x))) go = ((res, None), st') \<longleftrightarrow>
    (\<exists>a st. r = (Inr a, st) \<and> go a st = ((res, None), st'))"
  by (cases r; cases "fst r") auto

lemma flow_keeps:
  assumes "Q (snd r)" "\<And>a st. r = (Inr a, st) \<Longrightarrow> Q st \<Longrightarrow> Q (snd (go a st))"
  shows "Q (snd (flow r ret go))"
  using assms by (cases r; cases "fst r") auto

lemma on_repo_simp [simp]: "on_repo f (s, w) = (fst (f s), snd (f s), w)"
  by (simp add: on_repo_def case_prod_beta)

lemma on_world_simp [simp]: "on_world f (s, w) = (fst (f w), s, snd (f w))"
  by (simp add: on_world_def case_prod_beta)

section \<open>Invariants\<close>

text \<open>\<open>P\<close> holds of the state and the world after a call whenever it did before it.\<close>

locale auth_invariant =
  fixes P :: "'s \<times> 'w \<Rightarrow> bool" and ar :: "'s auth_repository" and col :: "'w collaborators"
  assumes get_keeps: "P (s, w) \<Longrightarrow> P (snd (auth_get_profile ar a s), w)"
    and set_keeps: "P (s, w) \<Longrightarrow> P (snd (auth_set_state ar i status m s), w)"
    and discover_keeps: "P (s, w) \<Longrightarrow> P (s, snd (discover col x w))"
    and authenticate_keeps: "P (s, w) \<Longrightarrow> P (s, snd (authenticate_with col rq w))"
    and check_keeps: "P (s, w) \<Longrightarrow> P (s, snd (check_auth col rq w))"
begin

lemmas flow_P = flow_keeps [where Q = P]

lemma set_state_keeps:
  assumes "P st" "\<And>st. P st \<Longrightarrow> P (snd (go st))"
  shows "P (snd (set_state ar item status m failed go st))"
  unfolding set_state_def using assms
  by (cases st) (auto intro!: flow_P set_keeps)

lemma authenticate_with_keeps: "authenticate_with col rq w = (x, w') \<Longrightarrow> P (s, w) \<Longrightarrow> P (s, w')"
  using authenticate_keeps [of s w rq] by simp

lemma authenticateUsingPreference_keeps:
  "P (s, w) \<Longrightarrow> P (s, snd (authenticateUsingPreference col rq preferred explicit w))"
  by (auto simp: authenticateUsingPreference_def split: option.split prod.split dest: authenticate_with_keeps)

lemma reauthenticate_now_keeps:
  "P st \<Longrightarrow> P (snd (reauthenticate_now ar col item dv rq preferred explicit st))"
  unfolding reauthenticate_now_def Let_def
  by (cases st) (auto split: prod.split option.split intro!: set_state_keeps
        authenticateUsingPreference_keeps check_keeps)

lemma Reauthenticate_keeps: "P st \<Longrightarrow> P (snd (Reauthenticate ar col rt st))"
  unfolding Reauthenticate_def Let_def
  by (cases st) (auto split: prod.split option.split intro!: flow_P set_state_keeps reauthenticate_now_keeps
        check_keeps get_keeps discover_keeps)

lemma VerifyAuthentication_keeps: "P st \<Longrightarrow> P (snd (VerifyAuthentication ar col a dv st))"
  unfolding VerifyAuthentication_def
  by (cases st) (auto split: prod.split option.split intro!: flow_P set_state_keeps check_keeps get_keeps)

end

text \<open>The same for setup, whose repository may or may not be an authentication repository.\<close>

locale setup_invariant =
  fixes P :: "'s \<times> 'w \<Rightarrow> bool" and repo :: "'s setup_repository" and col :: "'w collaborators"
  assumes repository_keeps:
      "P (s, w) \<Longrightarrow> P (snd (find_pending repo a s), w)"
      "P (s, w) \<Longrightarrow> P (snd (create_pending repo pp s), w)"
      "P (s, w) \<Longrightarrow> P (snd (set_managed_home repo i h path s), w)"
      "P (s, w) \<Longrightarrow> P (snd (set_referenced_home repo i h path s), w)"
      "P (s, w) \<Longrightarrow> P (snd (save_metadata repo i md s), w)"
      "P (s, w) \<Longrightarrow> P (snd (save_stage repo i stage s), w)"
      "P (s, w) \<Longrightarrow> P (snd (reset_authentication repo i s), w)"
      "P (s, w) \<Longrightarrow> P (snd (complete_selection repo i pack version s), w)"
      "P (s, w) \<Longrightarrow> as_auth repo = Some ar \<Longrightarrow> P (snd (auth_set_state ar i status m s), w)"
    and collaborators_keep:
      "P (s, w) \<Longrightarrow> P (s, snd (discover col x w))"
      "P (s, w) \<Longrightarrow> P (s, snd (ensure_home col x w))"
      "P (s, w) \<Longrightarrow> resolve_home col = Some resolve \<Longrightarrow> P (s, snd (resolve x w))"
      "P (s, w) \<Longrightarrow> P (s, snd (authenticate_with col rq w))"
      "P (s, w) \<Longrightarrow> P (s, snd (check_auth col rq w))"
      "P (s, w) \<Longrightarrow> observe_metadata col = Some observe \<Longrightarrow> P (s, snd (observe rq w))"
      "P (s, w) \<Longrightarrow> P (s, snd (new_profile_id col w))"
begin

lemmas flow_P = flow_keeps [where Q = P]

lemmas calls_keep = repository_keeps collaborators_keep

lemma authenticate_with_keeps: "authenticate_with col rq w = (x, w') \<Longrightarrow> P (s, w) \<Longrightarrow> P (s, w')"
  using collaborators_keep(4) [of s w rq] by simp

lemma authenticate_keeps: "P (s, w) \<Longrightarrow> P (s, snd (authenticate col rq preferred w))"
  by (auto simp: authenticate_def split: option.splits prod.splits dest: authenticate_with_keeps)

lemma revalidate_keeps: "P st \<Longrightarrow> P (snd (revalidate repo col i rq meth auth validated st))"
  unfolding revalidate_def
  by (cases st) (auto split: prod.split option.split sum.split intro!: calls_keep)

lemma obtain_keeps: "P st \<Longrightarrow> P (snd (obtain_authentication repo col sr preferred i rq meth auth st))"
  unfolding obtain_authentication_def
  by (cases st) (auto split: prod.split option.split sum.split intro!: calls_keep authenticate_keeps)

lemma validate_keeps: "P st \<Longrightarrow> P (snd (validate_authentication repo col i rq meth st))"
  unfolding validate_authentication_def
  by (cases st) (auto split: prod.split option.split sum.split intro!: calls_keep)

lemma attempts_keep:
  "P st \<Longrightarrow> P (snd (auth_attempts k repo col sr preferred i rq meth auth validated st))"
  by (induction k arbitrary: meth auth validated st)
     (auto intro!: flow_P revalidate_keeps obtain_keeps validate_keeps)

lemma authenticateAndValidate_keeps:
  "P st \<Longrightarrow> P (snd (authenticateAndValidate repo col sr preferred pp dv st))"
  unfolding authenticateAndValidate_def Let_def
  by (cases st) (auto split: prod.split option.split intro!: flow_P attempts_keep calls_keep)

lemma record_metadata_keeps: "P st \<Longrightarrow> P (snd (record_metadata repo col rq i st))"
  unfolding record_metadata_def
  by (cases st) (auto split: prod.split option.split sum.split intro!: calls_keep)

lemma finish_keeps: "P st \<Longrightarrow> P (snd (finish_setup repo col sr meth pp dv resumed st))"
  unfolding finish_setup_def Let_def
  using authenticateAndValidate_keeps [of st sr meth pp dv]
  by (auto split: prod.split option.split intro!: flow_P calls_keep record_metadata_keeps)

lemma start_keeps: "P st \<Longrightarrow> P (snd (start_setup repo col sr st))"
  unfolding start_setup_def
  by (cases st) (auto split: prod.split sum.split intro!: calls_keep)

lemma save_missing_keeps: "P st \<Longrightarrow> P (snd (save_missing repo present i stage st))"
  unfolding save_missing_def by (cases st) (auto intro: calls_keep)

lemma locate_keeps: "P st \<Longrightarrow> P (snd (locate_home col sr pp st))"
  unfolding locate_home_def
  by (cases st) (auto split: prod.split option.split sum.split intro!: calls_keep)

lemma register_keeps: "P st \<Longrightarrow> P (snd (register_home repo pp ow path st))"
  unfolding register_home_def
  by (cases st) (auto intro!: flow_P calls_keep)

lemma Add_keeps: "P st \<Longrightarrow> P (snd (Add repo col sr st))"
  unfolding Add_def Let_def
  by (auto split: option.split intro!: flow_P start_keeps save_missing_keeps locate_keeps
        register_keeps finish_keeps calls_keep)

end

end
