(* ===== verification/Setup_Audit.thy ===== *)
theory Setup_Audit
  imports Setup_Contract
begin

text \<open>
  Setup and reauthentication observed through a log: every answer of the authenticator and every home
  that was located is an event, the newest first. A locale states what a log must record; \<open>logged\<close>
  adds one to any collaborators.
\<close>

section \<open>Logs\<close>

datatype auth_event = Authenticated auth_request "err option" | Checked auth_request "err option" | Located string

fun is_authenticated :: "auth_event \<Rightarrow> bool" where
  "is_authenticated (Authenticated rq x) = True"
| "is_authenticated (Checked rq x) = False"
| "is_authenticated (Located p) = False"

fun is_checked :: "auth_event \<Rightarrow> bool" where
  "is_checked (Authenticated rq x) = False"
| "is_checked (Checked rq x) = True"
| "is_checked (Located p) = False"

definition authentications :: "auth_event list \<Rightarrow> nat" where
  "authentications l = length (filter is_authenticated l)"

definition checks :: "auth_event list \<Rightarrow> nat" where
  "checks l = length (filter is_checked l)"

lemma counts_simps [simp]:
  "authentications [] = 0" "checks [] = 0"
  "authentications (Authenticated rq x # l) = Suc (authentications l)"
  "authentications (Checked rq x # l) = authentications l" "authentications (Located p # l) = authentications l"
  "checks (Authenticated rq x # l) = checks l" "checks (Checked rq x # l) = Suc (checks l)"
  "checks (Located p # l) = checks l"
  by (simp_all add: authentications_def checks_def)

definition with_log :: "('w \<Rightarrow> 'r \<times> 'w) \<Rightarrow> ('r \<Rightarrow> auth_event list) \<Rightarrow> 'w \<times> auth_event list \<Rightarrow>
    'r \<times> 'w \<times> auth_event list" where
  "with_log f ev = (\<lambda>(w, l). case f w of (r, w') \<Rightarrow> (r, w', ev r @ l))"

definition located :: "err + string \<Rightarrow> auth_event list" where
  "located r = (case r of Inl x \<Rightarrow> [] | Inr p \<Rightarrow> [Located p])"

definition logged :: "'w collaborators \<Rightarrow> ('w \<times> auth_event list) collaborators" where
  "logged col =
     \<lparr>discover = \<lambda>x. with_log (discover col x) (\<lambda>r. []),
      ensure_home = \<lambda>i. with_log (ensure_home col i) located,
      resolve_home = map_option (\<lambda>f p. with_log (f p) located) (resolve_home col),
      authenticate_with = \<lambda>rq. with_log (authenticate_with col rq) (\<lambda>x. [Authenticated rq x]),
      check_auth = \<lambda>rq. with_log (check_auth col rq) (\<lambda>x. [Checked rq x]),
      observe_metadata = map_option (\<lambda>f rq. with_log (f rq) (\<lambda>r. [])) (observe_metadata col),
      new_profile_id = with_log (new_profile_id col) (\<lambda>r. [])\<rparr>"

text \<open>The budget of one attempt: none when the choice of a method would need the user.\<close>

definition allowance :: "setup_request \<Rightarrow> auth_method \<Rightarrow> nat" where
  "allowance sr preferred = (if sr_non_interactive sr \<and> preferred = AuthMethodAutomatic then 0 else 2)"

text \<open>What a reauthentication that ends without error has done: the check of the profile's home passed, and
  the profile was ready already or has just been stored as ready.\<close>

definition made_ready :: "'s auth_repository \<Rightarrow> identity_profile \<Rightarrow> 's \<Rightarrow> 's \<Rightarrow> bool" where
  "made_ready ar item s s' \<longleftrightarrow> (ip_status item = StatusReady \<and> s' = s)
     \<or> (\<exists>s0 m. auth_set_state ar (ip_id item) StatusReady m s0 = (Inr (), s'))"

section \<open>What a log records\<close>

locale audited =
  fixes log :: "'w \<Rightarrow> auth_event list" and col :: "'w collaborators"
  assumes log_calls:
      "log (snd (discover col x w)) = log w"
      "log (snd (ensure_home col x w)) = located (fst (ensure_home col x w)) @ log w"
      "resolve_home col = Some resolve \<Longrightarrow> log (snd (resolve x w)) = located (fst (resolve x w)) @ log w"
      "log (snd (authenticate_with col rq w)) = Authenticated rq (fst (authenticate_with col rq w)) # log w"
      "log (snd (check_auth col rq w)) = Checked rq (fst (check_auth col rq w)) # log w"
      "observe_metadata col = Some observe \<Longrightarrow> log (snd (observe rq w)) = log w"
      "log (snd (new_profile_id col w)) = log w"
begin

text \<open>\<open>spent a c st st'\<close>: from \<open>st\<close> to \<open>st'\<close> at most \<open>a\<close> authentications and \<open>c\<close> checks were made.\<close>

definition spent :: "nat \<Rightarrow> nat \<Rightarrow> 's \<times> 'w \<Rightarrow> 's \<times> 'w \<Rightarrow> bool" where
  "spent a c st st' \<longleftrightarrow> authentications (log (snd st')) \<le> a + authentications (log (snd st))
     \<and> checks (log (snd st')) \<le> c + checks (log (snd st))"

lemma spent_refl [simp, intro]: "spent a c st st"
  by (simp add: spent_def)

lemma spent_trans: "spent a c st st1 \<Longrightarrow> spent a' c' st1 st2 \<Longrightarrow> spent (a + a') (c + c') st st2"
  by (simp add: spent_def)

lemma spent_flow:
  assumes "spent a c st (snd r)" "\<And>x st1. r = (Inr x, st1) \<Longrightarrow> spent a' c' st1 (snd (go x st1))"
  shows "spent (a + a') (c + c') st (snd (flow r ret go))"
  using assms by (cases r; cases "fst r") (auto intro: spent_trans simp: spent_def)

lemma log_located_counts [simp]:
  "authentications (located r @ l) = authentications l" "checks (located r @ l) = checks l"
  by (simp_all add: located_def split: sum.split)

lemma with_pairs:
  "authenticate_with col rq w = (x, w') \<Longrightarrow> log w' = Authenticated rq x # log w"
  "check_auth col rq w = (x, w') \<Longrightarrow> log w' = Checked rq x # log w"
  using log_calls(4) [of rq w] log_calls(5) [of rq w] by simp_all

lemma authenticate_spent:
  "authentications (log (snd (authenticate col rq preferred w))) \<le> 2 + authentications (log w)
   \<and> checks (log (snd (authenticate col rq preferred w))) = checks (log w)"
  by (auto simp: authenticate_def log_calls with_pairs split: option.splits prod.splits)

lemma authenticateUsingPreference_spent:
  "authentications (log (snd (authenticateUsingPreference col rq preferred explicit w))) \<le> 2 + authentications (log w)
   \<and> checks (log (snd (authenticateUsingPreference col rq preferred explicit w))) = checks (log w)"
  by (auto simp: authenticateUsingPreference_def log_calls with_pairs split: option.splits prod.splits)

lemma revalidate_spent:
  "spent 0 (of_bool validated) st (snd (revalidate repo col i rq meth auth validated st))"
  unfolding revalidate_def spent_def
  by (cases st) (auto simp: log_calls split: prod.split option.split sum.split)

lemma obtain_spent:
  "spent (allowance sr preferred) 0 st (snd (obtain_authentication repo col sr preferred i rq meth auth st))"
  unfolding obtain_authentication_def spent_def allowance_def
  using authenticate_spent [of rq preferred "snd st"]
  by (cases st) (auto split: prod.split option.split sum.split)

lemma validate_spent: "spent 0 1 st (snd (validate_authentication repo col i rq meth st))"
  unfolding validate_authentication_def spent_def
  by (cases st) (auto simp: log_calls split: prod.split option.split sum.split)

lemma attempts_spent:
  "spent (k * allowance sr preferred) (k + of_bool validated) st
     (snd (auth_attempts k repo col sr preferred i rq meth auth validated st))"
proof (induction k arbitrary: meth auth validated st)
  case (Suc k)
  let ?a = "allowance sr preferred"
  have "spent (0 + (?a + (0 + k * ?a))) (of_bool validated + (0 + (1 + (k + of_bool False)))) st
     (snd (auth_attempts (Suc k) repo col sr preferred i rq meth auth validated st))"
    unfolding auth_attempts.simps
    by (intro spent_flow revalidate_spent obtain_spent validate_spent Suc.IH)
  then show ?case by (simp add: algebra_simps)
qed simp

lemma authenticateAndValidate_spent:
  "spent (2 * allowance sr preferred) 3 st (snd (authenticateAndValidate repo col sr preferred pp dv st))"
proof -
  let ?rq = "\<lparr>aq_discovery = dv, aq_home = pp_home_path pp, aq_method = AuthMethodUnset\<rparr>"
  let ?a = "allowance sr preferred" and ?vd = "ss_validation (pp_stages pp)"
  have run: "spent (2 * ?a) 3 st
      (snd (auth_attempts 2 repo col sr preferred (pp_id pp) ?rq m (ss_authentication (pp_stages pp)) ?vd st))" for m
    using attempts_spent [of 2 sr preferred ?vd st repo "pp_id pp" ?rq m "ss_authentication (pp_stages pp)"]
    by (cases ?vd) (auto simp: spent_def)
  have again: "spent (2 * ?a) 3 (s, w)
      (snd (auth_attempts 2 repo col sr preferred (pp_id pp) ?rq m a False
        (s, snd (check_auth col (?rq\<lparr>aq_method := AuthMethodReused\<rparr>) w))))" for m s w a
    using attempts_spent [of 2 sr preferred False "(s, snd (check_auth col (?rq\<lparr>aq_method := AuthMethodReused\<rparr>) w))"
        repo "pp_id pp" ?rq m a]
    by (simp add: spent_def log_calls)
  show ?thesis
    unfolding authenticateAndValidate_def Let_def
    using run again
    by (cases st) (auto simp: spent_def log_calls flow_def split: prod.split option.split sum.split)
qed

lemma unspent:
  "spent 0 0 st (snd (start_setup repo col sr st))"
  "spent 0 0 st (snd (locate_home col sr pp st))"
  "spent 0 0 st (snd (register_home repo pp ow path st))"
  "spent 0 0 st (snd (save_missing repo present i stage st))"
  "spent 0 0 st (snd (record_metadata repo col rq i st))"
  "spent 0 0 st (snd (on_world (discover col x) st))"
  "spent 0 0 st (snd (on_repo f st))"
  unfolding start_setup_def locate_home_def register_home_def save_missing_def record_metadata_def flow_def
  by (cases st; auto simp: spent_def log_calls split: prod.split option.split sum.split)+

lemma unspent_flow:
  "spent 0 0 st (snd r) \<Longrightarrow> (\<And>x st1. r = (Inr x, st1) \<Longrightarrow> spent a c st1 (snd (go x st1))) \<Longrightarrow>
    spent a c st (snd (flow r ret go))"
  using spent_flow [of 0 0 st r a c go ret] by simp

lemma finish_spent:
  "spent (2 * allowance sr meth) 3 st (snd (finish_setup repo col sr meth pp dv resumed st))"
proof -
  obtain m x st1 where av: "authenticateAndValidate repo col sr meth pp dv st = ((m, x), st1)"
    by (metis surj_pair)
  have "spent 0 0 st1 (snd (finish_setup repo col sr meth pp dv resumed st))"
    unfolding finish_setup_def Let_def av
    by (auto split: prod.split option.split intro!: unspent_flow unspent)
  moreover have "spent (2 * allowance sr meth) 3 st st1"
    using authenticateAndValidate_spent [of sr meth st repo pp dv] av by simp
  ultimately show ?thesis by (simp add: spent_def)
qed

lemma Add_spent: "spent (2 * allowance sr (normalizeAuthMethod (sr_method sr))) 3 st (snd (Add repo col sr st))"
  unfolding Add_def Let_def
  by (auto split: option.split intro!: unspent_flow unspent finish_spent)

text \<open>The newest event is a check of the home that passed.\<close>

definition passed :: "discovery \<Rightarrow> string \<Rightarrow> 's \<times> 'w \<Rightarrow> bool" where
  "passed dv home st \<longleftrightarrow>
     (\<exists>m l. log (snd st) = Checked \<lparr>aq_discovery = dv, aq_home = home, aq_method = m\<rparr> None # l)"

lemma passed_check:
  "check_auth col (rq\<lparr>aq_method := m\<rparr>) w = (None, w') \<Longrightarrow> passed (aq_discovery rq) (aq_home rq) (s, w')"
  by (cases rq) (auto simp: passed_def dest: with_pairs(2))

lemma passed_repo [simp]: "passed dv home (s, w) \<Longrightarrow> passed dv home (s', w)"
  by (simp add: passed_def)

lemma on_world_check:
  assumes "on_world (check_auth col (rq\<lparr>aq_method := m\<rparr>)) st = (None, st')"
  shows "passed (aq_discovery rq) (aq_home rq) st'"
  using assms by (cases st) (auto intro!: passed_check [where rq = rq and m = m] prod_eqI)

lemma on_repo_passed: "on_repo f st = (r, st') \<Longrightarrow> passed dv home st \<Longrightarrow> passed dv home st'"
  by (cases st) (auto simp: passed_def)

lemma revalidate_passed:
  "revalidate repo col i rq meth auth validated st = (Inl (m, None), st') \<Longrightarrow>
    passed (aq_discovery rq) (aq_home rq) st'"
  by (auto simp: revalidate_def on_world_check simp del: on_world_simp on_repo_simp
        split: if_splits option.splits prod.splits sum.splits)

lemma obtain_not_done: "obtain_authentication repo col sr preferred i rq meth auth st \<noteq> (Inl (m, None), st')"
  by (auto simp: obtain_authentication_def split: if_splits option.splits prod.splits sum.splits)

lemma validate_passed:
  "validate_authentication repo col i rq meth st = (Inl (m, None), st') \<Longrightarrow>
    passed (aq_discovery rq) (aq_home rq) st'"
  by (auto simp: validate_authentication_def simp del: on_world_simp on_repo_simp
        split: if_splits option.splits prod.splits sum.splits
        elim: on_repo_passed [OF _ on_world_check])

lemma attempts_passed:
  "auth_attempts k repo col sr preferred i rq meth auth validated st = ((m, None), st') \<Longrightarrow>
    passed (aq_discovery rq) (aq_home rq) st'"
proof (induction k arbitrary: meth auth validated st)
  case (Suc k)
  then show ?case
    by (auto elim!: flow_cases dest: revalidate_passed validate_passed simp: obtain_not_done)
qed simp

lemma authenticateAndValidate_passed:
  assumes "authenticateAndValidate repo col sr preferred pp dv st = ((m, None), st')"
  shows "passed dv (pp_home_path pp) st'"
proof -
  let ?rq = "\<lparr>aq_discovery = dv, aq_home = pp_home_path pp, aq_method = AuthMethodUnset\<rparr>"
  have *: "passed dv (pp_home_path pp) st3"
    if "on_world (check_auth col \<lparr>aq_discovery = dv, aq_home = pp_home_path pp, aq_method = m\<rparr>) st = (None, st1)"
      "on_repo f st1 = (r, st2)"
      "on_repo g st2 = (q, st3)" for m f g r q st1 st2 st3
  proof -
    have "passed dv (pp_home_path pp) st1"
      using on_world_check [where rq = ?rq and m = m] that(1) by simp
    then show ?thesis
      by (rule on_repo_passed [OF that(3) on_repo_passed [OF that(2)]])
  qed
  show ?thesis
    using assms unfolding authenticateAndValidate_def Let_def
    by (auto simp del: on_world_simp on_repo_simp elim!: flow_cases elim: *
          split: if_splits option.splits prod.splits dest!: attempts_passed)
qed

lemma record_metadata_log: "record_metadata repo col rq i st = (r, st') \<Longrightarrow> log (snd st') = log (snd st)"
  by (cases st) (auto simp: record_metadata_def log_calls split: option.splits prod.splits sum.splits if_splits)

lemma finish_passed:
  assumes "finish_setup repo col sr meth pp dv resumed st = ((res, None), st')"
  shows "passed dv (pp_home_path pp) st' \<and> sx_discovery res = dv \<and> sx_resumed res = resumed
    \<and> sx_stages res = (pp_stages pp)\<lparr>ss_authentication := True, ss_validation := True, ss_selection := True\<rparr>
    \<and> (\<exists>st0. on_repo (complete_selection repo (pp_id pp) (sr_pack sr) (sr_version sr)) st0
        = (Inr (sx_profile res), st'))"
proof -
  obtain m x st1 where av: "authenticateAndValidate repo col sr meth pp dv st = ((m, x), st1)"
    by (metis surj_pair)
  have x: "x = None"
    using assms by (auto simp: finish_setup_def av split: option.splits)
  obtain s1 w1 where st1: "st1 = (s1, w1)" by (cases st1)
  have p: "passed dv (pp_home_path pp) (s1, w1)"
    using authenticateAndValidate_passed [of repo sr meth pp dv st m st1] av x st1 by simp
  have meta: "passed dv (pp_home_path pp) (s3, w3)"
    if "record_metadata repo col rq i (s2, w1) = (r, s3, w3)" for rq i s2 r s3 w3
    using p record_metadata_log [OF that] by (simp add: passed_def)
  show ?thesis
    using assms p unfolding finish_setup_def Let_def av x st1
    by (auto elim!: flow_cases dest!: meta split: option.splits simp: passed_def)
qed

lemma log_grows: "setup_invariant (\<lambda>(s, w). E \<in> set (log w)) repo col"
  by unfold_locales (auto simp: log_calls)

lemmas event_stays = setup_invariant.finish_keeps [OF log_grows]

lemma locate_home_located:
  "locate_home col sr pp st = (Inr (ow, path), st') \<Longrightarrow> Located path \<in> set (log (snd st'))"
  by (cases st) (auto simp: locate_home_def log_calls located_def split: if_splits option.splits prod.splits sum.splits
        dest: arg_cong [where f = "\<lambda>(r, w). log w"])

lemma register_home_path:
  "register_home repo pp ow path st = (Inr pp', st') \<Longrightarrow>
    Clean (pp_home_path pp') = Clean path \<and> pp_stages pp' = pp_stages pp \<and> pp_id pp' = pp_id pp
    \<and> log (snd st') = log (snd st)"
  by (cases st) (auto simp: register_home_def samePath_def elim!: flow_cases split: if_splits)

lemma save_missing_log: "save_missing repo present i stage st = (r, st') \<Longrightarrow> log (snd st') = log (snd st)"
  by (cases st) (auto simp: save_missing_def split: if_splits)

lemma Add_ok:
  assumes "Add repo col sr st = ((res, None), st')"
  obtains pp dv pp1 ow path pp2 resumed meth st3 st4 st5 st6 where
    "locate_home col sr pp1 st3 = (Inr (ow, path), st4)"
    "register_home repo pp1 ow path st4 = (Inr pp2, st5)"
    "save_missing repo (ss_home (pp_stages pp2)) (pp_id pp2) StageHome st5 = (Inr (), st6)"
    "pp1 = pp\<lparr>pp_stages := (pp_stages pp)\<lparr>ss_discovery := True\<rparr>\<rparr>"
    "finish_setup repo col sr meth (pp2\<lparr>pp_stages := (pp_stages pp2)\<lparr>ss_home := True\<rparr>\<rparr>) dv resumed st6
       = ((res, None), st')"
proof -
  have "ValidateAlias (sr_alias sr) = None"
    using assms by (auto simp: Add_def split: option.splits)
  with assms show thesis
    unfolding Add_def Let_def
    by (clarsimp split: if_splits simp: flow_done simp del: on_world_simp on_repo_simp) (erule (2) that; simp)
qed

lemma Add_passed:
  assumes "Add repo col sr st = ((res, None), st')"
  shows "\<exists>home path i. passed (sx_discovery res) home st' \<and> Located path \<in> set (log (snd st'))
    \<and> Clean home = Clean path
    \<and> (\<exists>stages. sx_stages res = stages\<lparr>ss_discovery := True, ss_home := True, ss_authentication := True,
          ss_validation := True, ss_selection := True\<rparr>)
    \<and> (\<exists>st0. on_repo (complete_selection repo i (sr_pack sr) (sr_version sr)) st0
        = (Inr (sx_profile res), st'))"
  using assms
proof (cases rule: Add_ok)
  case (1 pp dv pp1 ow path pp2 resumed meth st3 st4 st5 st6)
  note f = finish_passed [OF 1(5)]
  have "Located path \<in> set (log (snd st6))"
    using locate_home_located [OF 1(1)] register_home_path [OF 1(2)] save_missing_log [OF 1(3)] by simp
  then have "Located path \<in> set (log (snd st'))"
    using event_stays [where st = st6 and E = "Located path" and repo = repo and sr = sr and meth = meth
        and pp = "pp2\<lparr>pp_stages := (pp_stages pp2)\<lparr>ss_home := True\<rparr>\<rparr>" and dv = dv and resumed = resumed]
    by (simp add: 1(5) case_prod_beta)
  moreover have "passed (sx_discovery res) (pp_home_path pp2) st'" "Clean (pp_home_path pp2) = Clean path"
    "\<exists>st0. on_repo (complete_selection repo (pp_id pp2) (sr_pack sr) (sr_version sr)) st0
        = (Inr (sx_profile res), st')"
    "sx_stages res = (pp_stages pp)\<lparr>ss_discovery := True, ss_home := True, ss_authentication := True,
          ss_validation := True, ss_selection := True\<rparr>"
    using f register_home_path [OF 1(2)] 1(4) by auto
  ultimately show ?thesis by blast
qed

section \<open>Reauthentication\<close>

lemma set_state_done:
  "set_state ar item status m (\<lambda>x. (f x, Some (g x))) go st = ((res, None), st') \<longleftrightarrow>
    (\<exists>st1. on_repo (auth_set_state ar (ip_id item) status m) st = (Inr (), st1) \<and> go st1 = ((res, None), st'))"
  by (simp add: set_state_def flow_done)

lemma reauthenticate_now_ok:
  assumes "reauthenticate_now ar col item dv rq preferred explicit st = ((res, None), st')"
    and "aq_discovery rq = dv" "aq_home rq = ip_home_path item"
  shows "passed dv (ip_home_path item) st' \<and> rx_discovery res = dv
    \<and> (\<exists>p m s0. rx_profile res = Some p \<and> p = item\<lparr>ip_status := StatusReady, ip_method := m\<rparr>
        \<and> auth_set_state ar (ip_id item) StatusReady m s0 = (Inr (), fst st'))"
proof -
  obtain s w where st: "st = (s, w)" by (cases st)
  show ?thesis
    using assms on_world_check [where rq = rq]
    unfolding reauthenticate_now_def Let_def st
    by (auto simp: set_state_done rx_def passed_def log_calls split: prod.splits option.splits if_splits)
       (auto simp: prod_eq_iff intro: exI [of _ s])
qed

text \<open>Here only the repository and the newest event matter, so the three outcomes of the first check are
  taken one by one.\<close>

lemma Reauthenticate_ok:
  assumes "Reauthenticate ar col rt (s, w) = ((res, None), st')"
  shows "\<exists>item p s1. auth_get_profile ar (rt_alias rt) s = (Inr item, s1) \<and> usable item
    \<and> rx_profile res = Some p \<and> ip_id p = ip_id item \<and> ip_status p = StatusReady
    \<and> passed (rx_discovery res) (ip_home_path item) st' \<and> made_ready ar item s1 (fst st')"
proof -
  have "ValidateAlias (rt_alias rt) = None" "validAuthMethod (rt_method rt)"
    using assms by (auto simp: Reauthenticate_def split: option.splits if_splits)
  with assms obtain item s1 dv w1 where g: "auth_get_profile ar (rt_alias rt) s = (Inr item, s1)"
    and u: "usable item" and d: "discover col (rt_codex rt) w = (Inr dv, w1)"
    by (auto simp: Reauthenticate_def flow_done intro!: that prod_eqI split: if_splits)
  define rq where "rq = \<lparr>aq_discovery = dv, aq_home = ip_home_path item, aq_method = AuthMethodReused\<rparr>"
  show ?thesis
  proof (cases "fst (check_auth col rq w1)")
    case None
    then show ?thesis
      using assms g u d
      by (auto simp: Reauthenticate_def rq_def flow_done set_state_done rx_def made_ready_def passed_def log_calls
          Let_def split: option.splits if_splits intro!: exI prod_eqI)
  next
    case (Some x)
    have "\<exists>explicit preferred st1. reauthenticate_now ar col (item\<lparr>ip_status := StatusNeedsReauthentication\<rparr>) dv rq
        preferred explicit st1 = ((res, None), st')"
      using assms g u d Some
      by (auto simp: Reauthenticate_def rq_def flow_done set_state_done Let_def split: option.splits if_splits)
    then show ?thesis
      using g u by (auto simp: rq_def made_ready_def dest!: reauthenticate_now_ok)
  qed
qed

lemma reauthenticate_now_spent:
  "spent 2 1 st (snd (reauthenticate_now ar col item dv rq preferred explicit st))"
  unfolding reauthenticate_now_def Let_def set_state_def flow_def
  using authenticateUsingPreference_spent [of rq preferred explicit "snd st"]
  by (cases st) (auto simp: spent_def log_calls split: prod.split option.split sum.split)

lemma spent_after_check:
  assumes "\<And>st1. spent 2 1 st1 (snd (f st1))" "\<And>x st1. spent 2 1 st1 (snd (g x st1))"
  shows "spent 2 2 st (snd (case on_world (check_auth col rq) st of (None, st1) \<Rightarrow> f st1 | (Some x, st1) \<Rightarrow> g x st1))"
proof -
  obtain s w where st: "st = (s, w)" by (cases st)
  let ?st1 = "(s, snd (check_auth col rq w))"
  have "spent 2 2 (s, w) st'" if "spent 2 1 ?st1 st'" for st'
    using that by (simp add: spent_def log_calls)
  then show ?thesis using assms st by (simp split: option.split)
qed

lemma set_state_spent:
  assumes "\<And>st1. spent 2 1 st1 (snd (go st1))"
  shows "spent 2 1 st (snd (set_state ar item status m failed go st))"
  unfolding set_state_def by (intro unspent_flow unspent assms)

lemma Reauthenticate_spent: "spent 2 2 st (snd (Reauthenticate ar col rt st))"
  unfolding Reauthenticate_def Let_def
  by (cases "ValidateAlias (rt_alias rt)")
     (auto intro!: unspent_flow unspent spent_after_check set_state_spent [unfolded One_nat_def]
        reauthenticate_now_spent [unfolded One_nat_def] simp: spent_def [of 0 0] log_calls)

end

text \<open>\<open>logged\<close> keeps such a log beside any world.\<close>

interpretation lg: audited snd "logged col" for col
  by unfold_locales (auto simp: logged_def with_log_def located_def split: prod.split)

end
