(* ===== verification/Setup_Properties.thy ===== *)
theory Setup_Properties
  imports Setup_Audit
begin

text \<open>
  Setup and reauthentication on the store: the repositories the program passes to the workflows, the
  interpretations of their contracts, and the properties.
\<close>

section \<open>The store as a repository\<close>

text \<open>Every call of the store happens in an environment of its own: \<open>envs n\<close> is that of the \<open>n\<close>-th call.\<close>

definition reading :: "(nat \<Rightarrow> env) \<Rightarrow> (env \<Rightarrow> db \<Rightarrow> err + 'a) \<Rightarrow> nat \<times> db \<Rightarrow> (err + 'a) \<times> nat \<times> db" where
  "reading envs f s = (case s of (n, d) \<Rightarrow> (f (envs n) d, Suc n, d))"

definition writing :: "(nat \<Rightarrow> env) \<Rightarrow> (env \<Rightarrow> db \<Rightarrow> (err + 'a) \<times> db) \<Rightarrow> nat \<times> db \<Rightarrow> (err + 'a) \<times> nat \<times> db" where
  "writing envs f s = (case s of (n, d) \<Rightarrow> (case f (envs n) d of (r, d') \<Rightarrow> (r, Suc n, d')))"

definition store_auth :: "(nat \<Rightarrow> env) \<Rightarrow> (nat \<times> db) auth_repository" where
  "store_auth envs =
     \<lparr>auth_get_profile = \<lambda>a. reading envs (\<lambda>e. GetProfile e a),
      auth_set_state = \<lambda>i s m. writing envs (\<lambda>e. SetAuthenticationState e i s m)\<rparr>"

definition store_setup :: "(nat \<Rightarrow> env) \<Rightarrow> (nat \<times> db) setup_repository" where
  "store_setup envs =
     \<lparr>find_pending = \<lambda>a. reading envs (\<lambda>e. FindPendingProfile e a),
      create_pending = \<lambda>pp. writing envs (\<lambda>e. CreatePendingProfile e pp),
      set_managed_home = \<lambda>i h path. writing envs (\<lambda>e. SetManagedHome e i h path),
      set_referenced_home = \<lambda>i h path. writing envs (\<lambda>e. SetReferencedHome e i h path),
      save_metadata = \<lambda>i m. writing envs (\<lambda>e. SaveDocumentedMetadata e i m),
      save_stage = \<lambda>i stage. writing envs (\<lambda>e. SaveSetupStage e i stage),
      reset_authentication = \<lambda>i. writing envs (\<lambda>e. ResetAuthentication e i),
      complete_selection = \<lambda>i pack version. writing envs (\<lambda>e. CompleteInitialSelection e i pack version),
      as_auth = Some (store_auth envs)\<rparr>"

definition reachable_store :: "(nat \<times> db) \<times> 'w \<Rightarrow> bool" where
  "reachable_store st \<longleftrightarrow> reachable (snd (fst st))"

lemma reading_db [simp]: "snd (snd (reading envs f s)) = snd s"
  by (simp add: reading_def split: prod.split)

lemma writing_step:
  assumes "\<And>e r d'. f e (snd s) = (r, d') \<Longrightarrow> store_step (snd s) d'" "reachable (snd s)"
  shows "reachable (snd (snd (writing envs f s)))"
  using assms by (auto simp: writing_def split: prod.split intro: reachable.step)

interpretation st: auth_invariant reachable_store "store_auth envs" col for envs col
  by unfold_locales
     (auto simp: reachable_store_def store_auth_def intro!: writing_step store_step.auth_state)

interpretation su: setup_invariant reachable_store "store_setup envs" col for envs col
  by unfold_locales
     (auto simp: reachable_store_def store_setup_def store_auth_def intro!: writing_step
        intro: store_step.create store_step.managed_home store_step.referenced_home store_step.metadata
          store_step.stage store_step.reset store_step.complete_selection store_step.auth_state)

section \<open>Statuses as stored\<close>

definition stored_status :: "db \<Rightarrow> string \<Rightarrow> status option" where
  "stored_status d i = map_option pr_status (profile_table.lookup i (profiles d))"

lemma getIdentityProfile_status:
  "getIdentityProfile e n d i = Inr r \<Longrightarrow> ip_id r = i \<and> stored_status d i = Some (ip_status r)"
  by (auto simp: getIdentityProfile_def scanIdentityProfile_def stored_status_def
      split: if_splits option.splits dest: profile_table.lookup_SomeD)

lemma GetProfile_status: "GetProfile e a d = Inr r \<Longrightarrow> stored_status d (ip_id r) = Some (ip_status r)"
  by (auto simp: GetProfile_def read_profile_def populateIdentityHomePath_def
      split: if_splits option.splits sum.splits dest!: getIdentityProfile_status)

lemma stored_status_upd:
  "(\<And>p. pr_id (f p) = pr_id p) \<Longrightarrow> stored_status (upd_profile i f d) i =
    map_option (\<lambda>p. pr_status (f p)) (profile_table.lookup i (profiles d))"
  by (simp add: stored_status_def upd_profile_def profile_table.lookup_def find_upd_where map_option.compositionality
      comp_def)
     (auto simp: map_option_case split: option.split dest: find_SomeD)

lemma SetAuthenticationState_stored:
  assumes "SetAuthenticationState e i s m d = (Inr u, d')"
  shows "stored_status d' i = Some s"
proof -
  have "\<exists>p\<in>set (profiles d). pr_id p = i"
    and d': "d' = upd_profile i (\<lambda>p. p\<lparr>pr_status := s, pr_method := (if m = AuthMethodUnset then pr_method p else m),
       pr_updated := clock_now e\<rparr>) d"
    using assms by (auto simp: SetAuthenticationState_def transact_iff split: if_splits)
  then have "profile_table.lookup i (profiles d) \<noteq> None"
    by (auto simp: profile_table.lookup_def find_None)
  then show ?thesis by (auto simp: d' stored_status_upd)
qed

lemma CompleteInitialSelection_stored:
  assumes "CompleteInitialSelection e i pack version d = (Inr p, d')"
  shows "ip_id p = i \<and> ip_status p = StatusReady \<and> stored_status d' i = Some StatusReady
    \<and> (ip_selected p \<longleftrightarrow> (case current_selection e d of None \<Rightarrow> True | Some s \<Rightarrow> s = i))"
proof -
  from assms obtain sel q where b: "selection_body e i pack version d = Inr (sel, d')"
    and g: "getIdentityProfile e 5 d' i = Inr q" and p: "p = q\<lparr>ip_selected := (sel = i)\<rparr>"
    by (auto simp: CompleteInitialSelection_def then_read_def transact_def split: option.splits sum.splits prod.splits)
  from b show ?thesis
  proof (cases rule: selection_body_ok)
    case (1 st asg)
    have "stored_status d' i = map_option (\<lambda>x. StatusReady) (profile_table.lookup i (profiles d))"
      by (simp add: 1(2) stored_status_def upd_profile_def upd_stage_def profile_table.lookup_def find_upd_where
          map_option.compositionality comp_def)
         (auto simp: map_option_case split: option.split dest: find_SomeD)
    then show ?thesis
      using getIdentityProfile_status [OF g] p 1(3)
      by (cases "profile_table.lookup i (profiles d)") (auto split: option.splits)
  qed
qed

lemma reading_Inr: "reading envs f s = (Inr a, s') \<longleftrightarrow> f (envs (fst s)) (snd s) = Inr a \<and> s' = (Suc (fst s), snd s)"
  by (auto simp: reading_def split: prod.split)

lemma writing_Inr:
  "writing envs f s = (Inr a, s') \<longleftrightarrow> (\<exists>d'. f (envs (fst s)) (snd s) = (Inr a, d') \<and> s' = (Suc (fst s), d'))"
  by (auto simp: writing_def split: prod.split)

section \<open>Setup\<close>

text \<open>C26: A setup that succeeds leaves a reachable store in which the profile it returns is ready, has gone
  through all five stages, and rests on a check: the last thing asked of the authenticator is a check
  that passed, of the Codex that was found and of the home that was located in this very setup.\<close>

theorem setup_ends_with_a_passed_check:
  assumes "reachable d"
    and "Add (store_setup envs) (logged col) sr ((n, d), w, []) = ((res, None), (n', d'), w', l)"
  shows "reachable d' \<and> ip_status (sx_profile res) = StatusReady
    \<and> stored_status d' (ip_id (sx_profile res)) = Some StatusReady
    \<and> sx_stages res = \<lparr>ss_discovery = True, ss_home = True, ss_authentication = True, ss_validation = True,
         ss_selection = True\<rparr>
    \<and> (\<exists>home m l' path. l = Checked \<lparr>aq_discovery = sx_discovery res, aq_home = home, aq_method = m\<rparr> None # l'
         \<and> Located path \<in> set l' \<and> Clean home = Clean path)"
proof -
  have "reachable d'"
    using su.Add_keeps [of "((n, d), w, [])" envs "logged col" sr] assms by (simp add: reachable_store_def)
  moreover obtain home path i s0 where a: "lg.passed (sx_discovery res) home ((n', d'), w', l)"
      "Located path \<in> set l" "Clean home = Clean path"
      "complete_selection (store_setup envs) i (sr_pack sr) (sr_version sr) s0 = (Inr (sx_profile res), n', d')"
    and stages: "\<exists>s. sx_stages res = s\<lparr>ss_discovery := True, ss_home := True, ss_authentication := True,
          ss_validation := True, ss_selection := True\<rparr>"
    using lg.Add_passed [OF assms(2)] by (auto simp: prod_eq_iff)
  moreover from a(4) have "ip_status (sx_profile res) = StatusReady
      \<and> stored_status d' (ip_id (sx_profile res)) = Some StatusReady"
    by (auto simp: store_setup_def writing_Inr dest!: CompleteInitialSelection_stored)
  moreover from stages have "sx_stages res = \<lparr>ss_discovery = True, ss_home = True, ss_authentication = True,
      ss_validation = True, ss_selection = True\<rparr>"
    by (auto intro: setup_stages.equality)
  ultimately show ?thesis
    by (auto simp: lg.passed_def)
qed

text \<open>Setup of a third profile: the browser is unavailable, so the device code is used.\<close>

definition sample_collaborators :: "nat collaborators" where
  "sample_collaborators =
     \<lparr>discover = \<lambda>x w. (Inr \<lparr>dv_executable = ''/bin/codex'', dv_version = ''1''\<rparr>, w),
      ensure_home = \<lambda>i w. (Inr (''/homes/'' @ i), w), resolve_home = None,
      authenticate_with = \<lambda>rq w. (if aq_method rq = AuthMethodBrowser then Some (plain ErrBrowserUnavailable)
        else None, Suc w),
      check_auth = \<lambda>rq w. (if w = 0 then Some (plain ErrNotAuthenticated) else None, Suc w),
      observe_metadata = None, new_profile_id = \<lambda>w. (Inr ''p3'', w)\<rparr>"

definition sample_setup_request :: setup_request where
  "sample_setup_request = \<lparr>sr_alias = ''third'', sr_display_name = [], sr_codex = [], sr_home = [],
     sr_method = AuthMethodUnset, sr_non_interactive = False, sr_pack = [], sr_version = []\<rparr>"

definition sample_setup_run where
  "sample_setup_run = Add (store_setup (\<lambda>n. sample_env (70 + int n))) (logged sample_collaborators)
     sample_setup_request ((0, sample_store), 0, [])"

theorem setup_ends_with_a_passed_check_witness:
  "\<exists>res n' d' w' l. sample_setup_run = ((res, None), (n', d'), w', l)
    \<and> reachable d' \<and> stored_status d' (ip_id (sx_profile res)) = Some StatusReady \<and> ss_selection (sx_stages res)"
proof -
  let ?r = "sample_setup_run"
  have "snd (fst ?r) = None" by code_simp
  then obtain res n' d' w' l where r: "?r = ((res, None), (n', d'), w', l)"
    by (metis prod.collapse)
  note h = setup_ends_with_a_passed_check [OF sample_reachable(1) r [unfolded sample_setup_run_def]]
  show ?thesis
    by (intro exI conjI, rule r) (use h in simp_all)
qed

text \<open>C27: However setup and reauthentication go, whatever the repository and the collaborators answer, they
  end, after at most four authentications and three checks for a setup (none of the former when the
  method would need a choice and nobody can make it) and two of each for a reauthentication.\<close>

theorem authentication_attempts_are_bounded:
  "(let l = snd (snd (snd (Add repo (logged col) sr (s, w, [])))) in checks l \<le> 3 \<and> authentications l \<le>
       (if sr_non_interactive sr \<and> normalizeAuthMethod (sr_method sr) = AuthMethodAutomatic then 0 else 4))
   \<and> (let l = snd (snd (snd (Reauthenticate ar (logged col) rt (s', w, []))))
      in checks l \<le> 2 \<and> authentications l \<le> 2)"
  using lg.Add_spent [of sr "(s, w, [])" repo col] lg.Reauthenticate_spent [of "(s', w, [])" ar col rt]
  by (auto simp: lg.spent_def allowance_def Let_def split: if_splits)

text \<open>A reauthentication that reports success is truthful: the profile it returns is the one of the alias,
  it is ready in what is returned and in the store, and the last check, of that profile's home, passed;
  the store stays reachable.\<close>

theorem reauthentication_stores_what_it_reports:
  assumes "reachable d"
    and "Reauthenticate (store_auth envs) (logged col) rt ((n, d), w, []) = ((res, None), (n', d'), w', l)"
  shows "reachable d' \<and> (\<exists>item p m l'. GetProfile (envs n) (rt_alias rt) d = Inr item
      \<and> rx_profile res = Some p \<and> ip_id p = ip_id item \<and> ip_status p = StatusReady
      \<and> stored_status d' (ip_id p) = Some StatusReady
      \<and> l = Checked \<lparr>aq_discovery = rx_discovery res, aq_home = ip_home_path item, aq_method = m\<rparr> None # l')"
proof
  show "reachable d'"
    using st.Reauthenticate_keeps [of "((n, d), w, [])" envs "logged col" rt] assms
    by (simp add: reachable_store_def)
  obtain item p s1 where
    "auth_get_profile (store_auth envs) (rt_alias rt) (n, d) = (Inr item, s1)"
    "rx_profile res = Some p" "ip_id p = ip_id item" "ip_status p = StatusReady"
    "lg.passed (rx_discovery res) (ip_home_path item) ((n', d'), w', l)"
    "made_ready (store_auth envs) item s1 (n', d')"
    using lg.Reauthenticate_ok [OF assms(2)] by auto
  then show "\<exists>item p m l'. GetProfile (envs n) (rt_alias rt) d = Inr item
      \<and> rx_profile res = Some p \<and> ip_id p = ip_id item \<and> ip_status p = StatusReady
      \<and> stored_status d' (ip_id p) = Some StatusReady
      \<and> l = Checked \<lparr>aq_discovery = rx_discovery res, aq_home = ip_home_path item, aq_method = m\<rparr> None # l'"
    by (auto simp: store_auth_def reading_Inr writing_Inr made_ready_def lg.passed_def
        dest: GetProfile_status SetAuthenticationState_stored)
qed

theorem reauthentication_stores_what_it_reports_witness:
  "\<exists>res n' d' w' l. Reauthenticate (store_auth (\<lambda>n. sample_env (70 + int n))) (logged sample_collaborators)
      \<lparr>rt_alias = ''work'', rt_codex = [], rt_method = AuthMethodDeviceCode, rt_non_interactive = True\<rparr>
      ((0, sample_store), 0, []) = ((res, None), (n', d'), w', l)
    \<and> rx_reauthenticated res \<and> reachable d' \<and> stored_status d' ''p1'' = Some StatusReady"
proof -
  let ?r = "Reauthenticate (store_auth (\<lambda>n. sample_env (70 + int n))) (logged sample_collaborators)
      \<lparr>rt_alias = ''work'', rt_codex = [], rt_method = AuthMethodDeviceCode, rt_non_interactive = True\<rparr>
      ((0, sample_store), 0, [])"
  have *: "snd (fst ?r) = None" "rx_reauthenticated (fst (fst ?r))" "map_option ip_id (rx_profile (fst (fst ?r))) = Some ''p1''"
    by code_simp+
  then obtain res n' d' w' l where r: "?r = ((res, None), (n', d'), w', l)"
    by (metis prod.collapse)
  then show ?thesis
    using reauthentication_stores_what_it_reports [OF sample_reachable(1) r] * by auto
qed

end
