(* ===== verification/Usage_Model.thy ===== *)
theory Usage_Model
  imports Go_Lib Rows Complex_Main
begin

text \<open>
  Usage snapshots: \<^verbatim>\<open>internal/usage/usage.go\<close>. Measured values are float64; they are compared and summed
  only. The comparisons are those of IEEE 754; the rounding sum is a parameter of what sums.
\<close>

section \<open>Floating-point values\<close>

datatype float64 = NaN | NInf | Fin rat | PInf

fun flt :: "float64 \<Rightarrow> float64 \<Rightarrow> bool" where
  "flt NaN y = False"
| "flt x NaN = False"
| "flt (Fin a) (Fin b) = (a < b)"
| "flt NInf y = (y \<noteq> NInf)"
| "flt x NInf = False"
| "flt PInf y = False"
| "flt (Fin a) PInf = True"

definition feq :: "float64 \<Rightarrow> float64 \<Rightarrow> bool" where
  "feq x y \<longleftrightarrow> x \<noteq> NaN \<and> x = y"

definition fle :: "float64 \<Rightarrow> float64 \<Rightarrow> bool" where
  "fle x y \<longleftrightarrow> flt x y \<or> feq x y"

lemma float_simps [simp]:
  "feq (Fin a) (Fin b) = (a = b)" "fle (Fin a) (Fin b) = (a \<le> b)" "\<not> flt x x"
  "fle (Fin a) x \<and> fle x (Fin b) \<longleftrightarrow> (\<exists>c. x = Fin c \<and> a \<le> c \<and> c \<le> b)"
  by (cases x; auto simp: feq_def fle_def)+

section \<open>Names\<close>

abbreviation "SourceCodexAppServer \<equiv> ''codex_app_server''"
abbreviation "ProvenanceProvider \<equiv> ''Provider-reported Metric''"
abbreviation "ProvenanceLocal \<equiv> ''Locally-derived Metric''"
abbreviation "ProvenanceEstimated \<equiv> ''Estimated Metric''"
abbreviation "FreshnessFresh \<equiv> ''fresh''"
abbreviation "FreshnessStale \<equiv> ''stale''"
abbreviation "AvailabilityAvailable \<equiv> ''available''"
abbreviation "AvailabilityUnsupported \<equiv> ''unsupported''"
abbreviation "AvailabilityTemporarilyUnavailable \<equiv> ''temporarily_unavailable''"
abbreviation "AvailabilityStale \<equiv> ''stale''"
abbreviation "AvailabilityReauthenticationRequired \<equiv> ''reauthentication_required''"
abbreviation "AvailabilityPartial \<equiv> ''partial''"
abbreviation "AvailabilityContradictory \<equiv> ''contradictory''"
abbreviation "ReasonUnsupported \<equiv> ''capability_unsupported''"
abbreviation "ReasonCollectionFailed \<equiv> ''collection_failed''"
abbreviation "ReasonMalformedSource \<equiv> ''malformed_source''"
abbreviation "ReasonReauthentication \<equiv> ''reauthentication_required''"
abbreviation "ReasonStale \<equiv> ''evidence_older_than_10_minutes''"
abbreviation "ReasonContradictory \<equiv> ''supported_sources_disagree''"
abbreviation "AggregationSum \<equiv> ''sum''"
abbreviation "ScopeSelectedProfile \<equiv> ''selected_profile''"
abbreviation "ScopeCombinedIdentity \<equiv> ''combined_identity''"

definition freshnessLimit :: duration where "freshnessLimit = 10 * Minute"

section \<open>Metrics, observations and snapshots\<close>

record metric =
  mt_key :: string
  mt_kind :: string
  mt_unit :: string
  mt_class :: string
  mt_scope :: string
  mt_aggregation :: string

definition Registry :: "metric list" where
  "Registry =
     [\<lparr>mt_key = ''codex.primary.used_percent'', mt_kind = ''percentage'', mt_unit = ''percent'',
       mt_class = ProvenanceProvider, mt_scope = ''provider_quota_window'', mt_aggregation = ''none''\<rparr>,
      \<lparr>mt_key = ''codex.secondary.used_percent'', mt_kind = ''percentage'', mt_unit = ''percent'',
       mt_class = ProvenanceProvider, mt_scope = ''provider_quota_window'', mt_aggregation = ''none''\<rparr>,
      \<lparr>mt_key = ''codex.local.tokens_used'', mt_kind = ''count'', mt_unit = ''tokens'',
       mt_class = ProvenanceLocal, mt_scope = ''login_identity'', mt_aggregation = AggregationSum\<rparr>,
      \<lparr>mt_key = ''codex.local.session_duration'', mt_kind = ''duration'', mt_unit = ''seconds'',
       mt_class = ProvenanceLocal, mt_scope = ''workspace'', mt_aggregation = AggregationSum\<rparr>]"

record observation =
  ob_id :: string
  ob_metric :: metric
  ob_value :: float64
  ob_observed :: time
  ob_captured :: time
  ob_age :: int
  ob_start :: "time option"
  ob_end :: "time option"
  ob_timezone :: string
  ob_source :: string
  ob_version :: string
  ob_provenance :: string
  ob_freshness :: string
  ob_availability :: string
  ob_assumptions :: string
  ob_uncertainty :: string

record availability =
  av_id :: string
  av_key :: string
  av_state :: string
  av_reason :: string
  av_checked :: time
  av_provenance :: string

record snapshot =
  sn_id :: string
  sn_profile :: string
  sn_alias :: string
  sn_source :: string
  sn_version :: string
  sn_captured :: time
  sn_status :: string
  sn_trigger :: string
  sn_observations :: "observation list"
  sn_availability :: "availability list"
  sn_login :: string
  sn_workspace :: string

definition no_snapshot :: snapshot where
  "no_snapshot = \<lparr>sn_id = [], sn_profile = [], sn_alias = [], sn_source = [], sn_version = [], sn_captured = 0,
     sn_status = [], sn_trigger = [], sn_observations = [], sn_availability = [], sn_login = [], sn_workspace = []\<rparr>"

abbreviation key_of :: "observation \<Rightarrow> string" where
  "key_of ob \<equiv> mt_key (ob_metric ob)"

section \<open>Freshness\<close>

text \<open>The freshness and the age in whole seconds; no result for an instant in the future.\<close>

definition FreshnessAt :: "time \<Rightarrow> time \<Rightarrow> (string \<times> int) option" where
  "FreshnessAt captured now =
     (let age = time_Sub now captured
      in if age < 0 then None
         else Some (if age > freshnessLimit then FreshnessStale else FreshnessFresh, quot age Second))"

section \<open>Windows\<close>

definition windowsOverlap :: "observation \<Rightarrow> observation \<Rightarrow> bool" where
  "windowsOverlap l r \<longleftrightarrow>
     (case (ob_start l, ob_end l, ob_start r, ob_end r) of
        (Some ls, Some le, Some rs, Some re) \<Rightarrow> ls < re \<and> rs < le
      | _ \<Rightarrow> True)"

text \<open>The windows \<open>projectCurrentQuotaWindows\<close> selects, by metric key.\<close>

record selected_window =
  sw_start :: time
  sw_end :: time
  sw_captured :: time
  sw_active :: bool

definition select_window ::
  "time \<Rightarrow> (string \<Rightarrow> selected_window option) \<Rightarrow> observation \<Rightarrow> string \<Rightarrow> selected_window option" where
  "select_window now sel ob =
     (if mt_scope (ob_metric ob) \<noteq> ''provider_quota_window'' \<or> ob_provenance ob \<noteq> ProvenanceProvider then sel
      else case (ob_start ob, ob_end ob) of
        (Some s, Some e) \<Rightarrow>
          let active = (\<not> now < s \<and> now < e);
              w = \<lparr>sw_start = s, sw_end = e, sw_captured = ob_captured ob, sw_active = active\<rparr>
          in (case sel (key_of ob) of
                None \<Rightarrow> sel(key_of ob \<mapsto> w)
              | Some c \<Rightarrow>
                  if (active \<and> \<not> sw_active c) \<or> (active = sw_active c \<and> sw_captured c < ob_captured ob)
                  then sel(key_of ob \<mapsto> w) else sel)
      | _ \<Rightarrow> sel)"

definition selected_windows :: "time \<Rightarrow> observation list \<Rightarrow> string \<Rightarrow> selected_window option" where
  "selected_windows now obs = foldl (select_window now) (\<lambda>k. None) obs"

definition projectCurrentQuotaWindows :: "observation list \<Rightarrow> time \<Rightarrow> observation list" where
  "projectCurrentQuotaWindows obs now =
     (let sel = selected_windows now obs
      in filter (\<lambda>ob. case sel (key_of ob) of
             None \<Rightarrow> True
           | Some w \<Rightarrow> ob_start ob = Some (sw_start w) \<and> ob_end ob = Some (sw_end w)) obs)"

section \<open>Finalizing a snapshot\<close>

text \<open>The first loop: an unexplained state gets its reason.\<close>

definition give_reason :: "availability \<Rightarrow> availability" where
  "give_reason a =
     (if av_reason a \<noteq> [] then a
      else if av_state a = AvailabilityUnsupported then a\<lparr>av_reason := ReasonUnsupported\<rparr>
      else if av_state a = AvailabilityReauthenticationRequired then a\<lparr>av_reason := ReasonReauthentication\<rparr>
      else a)"

text \<open>The second loop: age and freshness; it stops at the first observation it rejects, with the ones before
  it already stamped.\<close>

definition stamp :: "string \<Rightarrow> string \<Rightarrow> time \<Rightarrow> observation \<Rightarrow> observation option" where
  "stamp src ver now ob =
     (case FreshnessAt (ob_captured ob) now of
        None \<Rightarrow> None
      | Some (f, age) \<Rightarrow>
          if ob_provenance ob = ProvenanceEstimated \<and> ob_assumptions ob = [] \<and> ob_uncertainty ob = [] then None
          else Some (ob\<lparr>ob_age := age, ob_freshness := f,
             ob_source := (if ob_source ob = [] then src else ob_source ob),
             ob_version := (if ob_version ob = [] then ver else ob_version ob),
             ob_timezone := (if ob_timezone ob = [] \<and> (ob_start ob \<noteq> None \<or> ob_end ob \<noteq> None) then ''UTC''
                             else ob_timezone ob)\<rparr>))"

definition default_captured :: "observation \<Rightarrow> observation" where
  "default_captured ob = (if IsZero (ob_captured ob) then ob\<lparr>ob_captured := ob_observed ob\<rparr> else ob)"

fun stamp_all :: "string \<Rightarrow> string \<Rightarrow> time \<Rightarrow> observation list \<Rightarrow> observation list \<times> bool" where
  "stamp_all src ver now [] = ([], True)"
| "stamp_all src ver now (ob # obs) =
     (case stamp src ver now (default_captured ob) of
        None \<Rightarrow> (default_captured ob # obs, False)
      | Some ob' \<Rightarrow> (case stamp_all src ver now obs of (obs', ok) \<Rightarrow> (ob' # obs', ok)))"

text \<open>The third loop, per key: whether the key has observations, a fresh one, and one whose value differs
  from the first.\<close>

definition of_key :: "string \<Rightarrow> observation list \<Rightarrow> observation list" where
  "of_key k obs = filter (\<lambda>ob. key_of ob = k) obs"

definition fresh_key :: "string \<Rightarrow> observation list \<Rightarrow> bool" where
  "fresh_key k obs \<longleftrightarrow> list_ex (\<lambda>ob. ob_freshness ob = FreshnessFresh) (of_key k obs)"

definition contradictory_key :: "string \<Rightarrow> observation list \<Rightarrow> bool" where
  "contradictory_key k obs \<longleftrightarrow>
     (case of_key k obs of [] \<Rightarrow> False | ob # rest \<Rightarrow> list_ex (\<lambda>p. \<not> feq (ob_value ob) (ob_value p)) rest)"

text \<open>The fourth loop: an available metric becomes contradictory or stale. \<open>states\<close> holds the last item of
  each key.\<close>

definition judge :: "observation list \<Rightarrow> availability \<Rightarrow> availability" where
  "judge obs a =
     (if of_key (av_key a) obs = [] \<or> av_state a \<noteq> AvailabilityAvailable then a
      else if contradictory_key (av_key a) obs
      then a\<lparr>av_state := AvailabilityContradictory, av_reason := ReasonContradictory\<rparr>
      else if \<not> fresh_key (av_key a) obs then a\<lparr>av_state := AvailabilityStale, av_reason := ReasonStale\<rparr>
      else a)"

fun judge_last :: "observation list \<Rightarrow> availability list \<Rightarrow> availability list" where
  "judge_last obs [] = []"
| "judge_last obs (a # as) =
     (if av_key a \<in> av_key ` set as then a else judge obs a) # judge_last obs as"

definition state_of :: "availability list \<Rightarrow> string \<Rightarrow> string option" where
  "state_of as k = map_option av_state (find (\<lambda>a. av_key a = k) (rev as))"

text \<open>The last loop: every observation takes the state of its metric.\<close>

definition take_state :: "availability list \<Rightarrow> observation \<Rightarrow> observation" where
  "take_state as ob =
     (case state_of as (key_of ob) of
        None \<Rightarrow> ob
      | Some s \<Rightarrow> if ob_availability ob \<noteq> AvailabilityContradictory then ob\<lparr>ob_availability := s\<rparr> else ob)"

fun status_loop :: "string \<Rightarrow> availability list \<Rightarrow> string" where
  "status_loop state [] = state"
| "status_loop state (a # as) =
     (if av_state a = AvailabilityContradictory then AvailabilityContradictory
      else status_loop (if av_state a \<noteq> state then AvailabilityPartial else state) as)"

definition snapshotStatus :: "availability list \<Rightarrow> string" where
  "snapshotStatus as = (case as of [] \<Rightarrow> AvailabilityUnsupported | a # _ \<Rightarrow> status_loop (av_state a) as)"

text \<open>The snapshot as the pointer leaves it, and whether \<open>ErrSourceInvalid\<close> is returned.\<close>

definition finalizeSnapshot :: "snapshot \<Rightarrow> time \<Rightarrow> snapshot \<times> bool" where
  "finalizeSnapshot sn now =
     (let as = map give_reason (sn_availability sn) in
      case stamp_all (sn_source sn) (sn_version sn) now (sn_observations sn) of
        (obs, False) \<Rightarrow> (sn\<lparr>sn_availability := as, sn_observations := obs\<rparr>, False)
      | (obs, True) \<Rightarrow>
          let obs1 = projectCurrentQuotaWindows obs now;
              as1 = judge_last obs1 as
          in (sn\<lparr>sn_availability := as1, sn_observations := map (take_state as1) obs1,
                 sn_status := snapshotStatus as1\<rparr>, True))"

definition NewUnavailableSnapshot :: "string \<Rightarrow> time \<Rightarrow> string \<Rightarrow> string \<Rightarrow> snapshot" where
  "NewUnavailableSnapshot version captured state reason =
     no_snapshot\<lparr>sn_source := SourceCodexAppServer, sn_version := version, sn_captured := captured,
       sn_status := state,
       sn_availability := map (\<lambda>m. \<lparr>av_id = [], av_key = mt_key m, av_state = state, av_reason = reason,
          av_checked = captured, av_provenance = mt_class m\<rparr>) Registry\<rparr>"

section \<open>Combining profiles\<close>

definition lookup_metric :: "metric list \<Rightarrow> string \<Rightarrow> metric option" where
  "lookup_metric metrics k = find (\<lambda>m. mt_key m = k) (rev metrics)"

text \<open>The evidence that is summed: registered under its very definition, additive and no percentage.\<close>

definition is_additive :: "metric list \<Rightarrow> observation \<Rightarrow> bool" where
  "is_additive metrics ob \<longleftrightarrow>
     (case lookup_metric metrics (key_of ob) of
        None \<Rightarrow> False
      | Some m \<Rightarrow> m = ob_metric ob \<and> mt_aggregation m = AggregationSum \<and> mt_kind m \<noteq> ''percentage'')"

definition scope_key :: "snapshot \<Rightarrow> metric \<Rightarrow> string" where
  "scope_key sn m =
     (if mt_scope m = ''login_identity'' \<and> sn_login sn \<noteq> [] then ''login_identity:'' @ sn_login sn
      else if mt_scope m = ''workspace'' \<and> sn_workspace sn \<noteq> [] then ''workspace:'' @ sn_workspace sn
      else ''profile:'' @ sn_profile sn)"

record evidence =
  ev_ob :: observation
  ev_scope :: string
  ev_profile :: string

definition same_window :: "evidence \<Rightarrow> evidence \<Rightarrow> bool" where
  "same_window p q \<longleftrightarrow> key_of (ev_ob p) = key_of (ev_ob q) \<and> ev_scope p = ev_scope q
     \<and> windowsOverlap (ev_ob p) (ev_ob q)"

definition evidence_of :: "snapshot \<Rightarrow> observation \<Rightarrow> evidence" where
  "evidence_of sn ob = \<lparr>ev_ob = ob, ev_scope = scope_key sn (ob_metric ob), ev_profile = sn_profile sn\<rparr>"

text \<open>\<open>DeduplicateCombinedEvidence\<close>: \<open>seen\<close> are all additive observations so far.\<close>

fun dedup_observations ::
  "snapshot \<Rightarrow> evidence list \<Rightarrow> observation list \<Rightarrow> observation list \<times> evidence list" where
  "dedup_observations sn seen [] = ([], seen)"
| "dedup_observations sn seen (ob # obs) =
     (if \<not> is_additive Registry ob
      then (case dedup_observations sn seen obs of (kept, seen') \<Rightarrow> (ob # kept, seen'))
      else
        let e = evidence_of sn ob;
            duplicate = list_ex (\<lambda>p. same_window p e \<and> feq (ob_value (ev_ob p)) (ob_value ob)) seen
        in (case dedup_observations sn (seen @ [e]) obs of
              (kept, seen') \<Rightarrow> (if duplicate then kept else ob # kept, seen')))"

fun dedup_snapshots :: "evidence list \<Rightarrow> snapshot list \<Rightarrow> snapshot list" where
  "dedup_snapshots seen [] = []"
| "dedup_snapshots seen (sn # sns) =
     (case dedup_observations sn seen (sn_observations sn) of
        (kept, seen') \<Rightarrow> sn\<lparr>sn_observations := kept\<rparr> # dedup_snapshots seen' sns)"

definition DeduplicateCombinedEvidence :: "snapshot list \<Rightarrow> snapshot list" where
  "DeduplicateCombinedEvidence sns = dedup_snapshots [] sns"

text \<open>\<open>combineWithRegistry\<close>. The maps of the code by metric key are lists here, of which only the elements of
  the key are used; their order is the one in which the evidence comes.\<close>

record combine_state =
  cb_seen :: "evidence list"
  cb_grouped :: "evidence list"
  cb_ambiguous :: "string list"

definition combine_one :: "metric list \<Rightarrow> snapshot \<Rightarrow> combine_state \<Rightarrow> observation \<Rightarrow> combine_state" where
  "combine_one metrics sn st ob =
     (if \<not> is_additive metrics ob then st
      else
        let e = evidence_of sn ob;
            same = filter (\<lambda>p. same_window p e) (cb_seen st);
            st1 = st\<lparr>cb_seen := cb_seen st @ [e],
                     cb_ambiguous := (if list_ex (\<lambda>p. \<not> feq (ob_value (ev_ob p)) (ob_value ob)) same
                                      then key_of ob # cb_ambiguous st else cb_ambiguous st)\<rparr>
        in if same \<noteq> [] then st1 else st1\<lparr>cb_grouped := cb_grouped st @ [e]\<rparr>)"

definition combine_snapshot :: "metric list \<Rightarrow> combine_state \<Rightarrow> snapshot \<Rightarrow> combine_state" where
  "combine_snapshot metrics st sn = foldl (combine_one metrics sn) st (sn_observations sn)"

definition combine_all :: "metric list \<Rightarrow> snapshot list \<Rightarrow> combine_state" where
  "combine_all metrics sns =
     foldl (combine_snapshot metrics) \<lparr>cb_seen = [], cb_grouped = [], cb_ambiguous = []\<rparr> sns"

record aggregate =
  ag_metric :: metric
  ag_value :: float64
  ag_profiles :: nat

record candidate =
  ca_profile :: string
  ca_alias :: string
  ca_eligible :: bool
  ca_capacity :: string

record dashboard =
  da_scope :: string
  da_eligible :: nat
  da_profiles :: "snapshot list"
  da_aggregates :: "aggregate list"
  da_ambiguous :: "string list"
  da_candidates :: "candidate list"
  da_recommended :: string

definition group_keys :: "combine_state \<Rightarrow> string list" where
  "group_keys st = sort_by string_less (remdups (map (\<lambda>e. key_of (ev_ob e)) (cb_grouped st)))"

definition group_of :: "combine_state \<Rightarrow> string \<Rightarrow> evidence list" where
  "group_of st k = filter (\<lambda>e. key_of (ev_ob e) = k) (cb_grouped st)"

definition aggregate_of ::
  "(float64 \<Rightarrow> float64 \<Rightarrow> float64) \<Rightarrow> metric list \<Rightarrow> combine_state \<Rightarrow> string \<Rightarrow> aggregate" where
  "aggregate_of fadd metrics st k =
     \<lparr>ag_metric = the (lookup_metric metrics k),
      ag_value = foldl (\<lambda>v e. fadd v (ob_value (ev_ob e))) (Fin 0) (group_of st k),
      ag_profiles = length (remdups (map ev_profile (group_of st k)))\<rparr>"

definition combineWithRegistry ::
  "(float64 \<Rightarrow> float64 \<Rightarrow> float64) \<Rightarrow> snapshot list \<Rightarrow> nat \<Rightarrow> metric list \<Rightarrow> dashboard" where
  "combineWithRegistry fadd sns eligible metrics =
     (let st = combine_all metrics sns;
          ks = group_keys st
      in \<lparr>da_scope = ScopeCombinedIdentity, da_eligible = eligible, da_profiles = sns,
          da_aggregates = map (aggregate_of fadd metrics st) (filter (\<lambda>k. k \<notin> set (cb_ambiguous st)) ks),
          da_ambiguous = filter (\<lambda>k. k \<in> set (cb_ambiguous st)) ks,
          da_candidates = [], da_recommended = []\<rparr>)"

definition Combine ::
  "(float64 \<Rightarrow> float64 \<Rightarrow> float64) \<Rightarrow> snapshot list \<Rightarrow> nat \<Rightarrow> dashboard" where
  "Combine fadd sns eligible = combineWithRegistry fadd sns eligible Registry"

end
