(* ===== verification/Ranking.thy ===== *)
theory Ranking
  imports Usage_Model
begin

text \<open>
  The ranking of profiles by remaining provider capacity: \<^verbatim>\<open>internal/usage/ranking.go\<close>.
\<close>

section \<open>Capacity of one profile\<close>

record target =
  tg_id :: string
  tg_alias :: string
  tg_home :: string
  tg_login :: string
  tg_workspace :: string
  tg_selected :: bool
  tg_eligible :: bool

text \<open>Of the availability items of a metric the last counts, unless one is contradictory.\<close>

definition metric_state :: "availability list \<Rightarrow> string \<Rightarrow> string option" where
  "metric_state as k =
     (let items = filter (\<lambda>a. av_key a = k) as
      in if list_ex (\<lambda>a. av_state a = AvailabilityContradictory) items then None
         else Some (if items = [] then [] else av_state (last items)))"

text \<open>The scan of the observations of a metric: the one found so far and whether evidence is stale;
  \<open>Inl\<close> is an early return.\<close>

fun scan_metric ::
  "metric \<Rightarrow> string \<Rightarrow> time \<Rightarrow> observation list \<Rightarrow> observation option \<Rightarrow> bool \<Rightarrow>
    string + (observation option \<times> bool)" where
  "scan_metric m state now [] found stale = Inr (found, stale)"
| "scan_metric m state now (ob # obs) found stale =
     (if key_of ob \<noteq> mt_key m then scan_metric m state now obs found stale
      else if ob_availability ob = AvailabilityContradictory then Inl AvailabilityContradictory
      else if ob_provenance ob \<noteq> ProvenanceProvider then scan_metric m state now obs found stale
      else if found \<noteq> None then Inl AvailabilityContradictory
      else case (ob_start ob, ob_end ob) of
        (Some s, Some e) \<Rightarrow>
          if ob_metric ob \<noteq> m \<or> ob_source ob \<noteq> SourceCodexAppServer \<or> ob_version ob = [] \<or> \<not> s < e
          then Inl ''incompatible''
          else if IsZero (ob_captured ob) \<or> now < ob_captured ob
            \<or> \<not> (fle (Fin 0) (ob_value ob) \<and> fle (ob_value ob) (Fin 100))
            \<or> (ob_availability ob \<noteq> AvailabilityAvailable \<and> ob_availability ob \<noteq> AvailabilityStale)
          then Inl AvailabilityPartial
          else scan_metric m state now obs (Some ob)
            (stale \<or> time_Sub now (ob_captured ob) > freshnessLimit \<or> state = AvailabilityStale
              \<or> ob_availability ob = AvailabilityStale)
      | _ \<Rightarrow> Inl ''incompatible'')"

fun capacity_loop ::
  "snapshot \<Rightarrow> time \<Rightarrow> metric list \<Rightarrow> observation list \<Rightarrow> bool \<Rightarrow> string + (observation list \<times> bool)" where
  "capacity_loop sn now [] capacity stale = Inr (capacity, stale)"
| "capacity_loop sn now (m # ms) capacity stale =
     (if mt_class m \<noteq> ProvenanceProvider then capacity_loop sn now ms capacity stale
      else case metric_state (sn_availability sn) (mt_key m) of
        None \<Rightarrow> Inl AvailabilityContradictory
      | Some state \<Rightarrow>
          if state \<noteq> AvailabilityAvailable \<and> state \<noteq> AvailabilityStale then Inl AvailabilityPartial
          else case scan_metric m state now (sn_observations sn) None stale of
            Inl s \<Rightarrow> Inl s
          | Inr (None, stale') \<Rightarrow> Inl AvailabilityPartial
          | Inr (Some ob, stale') \<Rightarrow> capacity_loop sn now ms (capacity @ [ob]) stale')"

definition in_window :: "time \<Rightarrow> observation \<Rightarrow> bool" where
  "in_window now ob \<longleftrightarrow> (case (ob_start ob, ob_end ob) of (Some s, Some e) \<Rightarrow> \<not> now < s \<and> now < e | _ \<Rightarrow> False)"

definition providerCapacity :: "snapshot \<Rightarrow> time \<Rightarrow> observation list \<times> string" where
  "providerCapacity sn now =
     (case capacity_loop sn now Registry [] False of
        Inl s \<Rightarrow> ([], s)
      | Inr (capacity, stale) \<Rightarrow>
          if stale then ([], FreshnessStale)
          else if list_all (in_window now) capacity then (capacity, FreshnessFresh)
          else ([], ''incompatible''))"

section \<open>Comparing two profiles\<close>

definition window_length :: "observation \<Rightarrow> duration" where
  "window_length ob = (case (ob_start ob, ob_end ob) of (Some s, Some e) \<Rightarrow> time_Sub e s | _ \<Rightarrow> 0)"

definition comparable :: "observation \<Rightarrow> observation \<Rightarrow> bool" where
  "comparable a b \<longleftrightarrow> ob_metric a = ob_metric b \<and> ob_source a = ob_source b \<and> ob_version a = ob_version b
     \<and> ob_timezone a = ob_timezone b \<and> window_length a = window_length b"

definition shared_scope :: "snapshot \<Rightarrow> snapshot \<Rightarrow> bool" where
  "shared_scope l r \<longleftrightarrow> sn_login l \<noteq> [] \<and> sn_workspace l \<noteq> [] \<and> sn_login l = sn_login r
     \<and> sn_workspace l = sn_workspace r"

record comparison =
  cm_left_better :: bool
  cm_right_better :: bool
  cm_compatible :: bool
  cm_contradictory :: bool

text \<open>The loop over the windows, pairwise; both sides have as many (\<open>providerCapacity_length\<close>).\<close>

definition compare_profiles ::
  "snapshot \<Rightarrow> snapshot \<Rightarrow> observation list \<Rightarrow> observation list \<Rightarrow> comparison" where
  "compare_profiles l r as bs =
     \<lparr>cm_left_better = list_ex (\<lambda>(a, b). flt (ob_value a) (ob_value b)) (zip as bs),
      cm_right_better = list_ex (\<lambda>(a, b). flt (ob_value b) (ob_value a)) (zip as bs),
      cm_compatible = list_all (\<lambda>(a, b). comparable a b) (zip as bs),
      cm_contradictory = list_ex (\<lambda>(a, b). shared_scope l r \<and> ob_source a = ob_source b \<and> windowsOverlap a b
         \<and> \<not> feq (ob_value a) (ob_value b)) (zip as bs)\<rparr>"

record ranking =
  rk_states :: "string list"
  rk_dominated :: "nat list"
  rk_uncertain :: bool

definition mark_state :: "string \<Rightarrow> nat \<Rightarrow> string list \<Rightarrow> string list" where
  "mark_state s i states = (if states ! i \<noteq> AvailabilityContradictory then states[i := s] else states)"

definition count_dominated :: "nat \<Rightarrow> nat list \<Rightarrow> nat list" where
  "count_dominated i ds = ds[i := Suc (ds ! i)]"

text \<open>The body of the inner loop, for positions \<open>l < r\<close> of the profiles.\<close>

definition rank_pair ::
  "(nat \<Rightarrow> snapshot) \<Rightarrow> observation list list \<Rightarrow> ranking \<Rightarrow> nat \<times> nat \<Rightarrow> ranking" where
  "rank_pair sn ev rk lr =
     (case lr of (l, r) \<Rightarrow>
        if ev ! l = [] \<or> ev ! r = [] then rk
        else let c = compare_profiles (sn l) (sn r) (ev ! l) (ev ! r) in
          if cm_contradictory c \<or> \<not> cm_compatible c then
            let s = (if cm_contradictory c then AvailabilityContradictory else ''incompatible'')
            in rk\<lparr>rk_states := mark_state s r (mark_state s l (rk_states rk)), rk_uncertain := True\<rparr>
          else if cm_left_better c \<and> \<not> cm_right_better c
          then rk\<lparr>rk_dominated := count_dominated r (rk_dominated rk)\<rparr>
          else if cm_right_better c \<and> \<not> cm_left_better c
          then rk\<lparr>rk_dominated := count_dominated l (rk_dominated rk)\<rparr>
          else rk)"

definition all_pairs :: "nat \<Rightarrow> (nat \<times> nat) list" where
  "all_pairs n = concat (map (\<lambda>l. map (\<lambda>r. (l, r)) [Suc l ..< n]) [0 ..< n])"

section \<open>Ranking\<close>

definition snapshot_of :: "snapshot list \<Rightarrow> string \<Rightarrow> snapshot" where
  "snapshot_of sns i = (case find (\<lambda>s. sn_profile s = i) (rev sns) of None \<Rightarrow> no_snapshot | Some s \<Rightarrow> s)"

definition may_rank :: "bool \<Rightarrow> target \<Rightarrow> bool" where
  "may_rank compatible t \<longleftrightarrow> tg_eligible t \<and> compatible \<and> tg_id t \<noteq> []"

text \<open>The first loop: evidence and capacity state of one profile.\<close>

definition assess :: "snapshot list \<Rightarrow> time \<Rightarrow> bool \<Rightarrow> target \<Rightarrow> observation list \<times> string" where
  "assess sns now compatible t =
     (if may_rank compatible t then providerCapacity (snapshot_of sns (tg_id t)) now else ([], ''ineligible''))"

definition compare_all :: "target list \<Rightarrow> snapshot list \<Rightarrow> time \<Rightarrow> bool \<Rightarrow> ranking" where
  "compare_all ts sns now compatible =
     (let as = map (assess sns now compatible) ts
      in foldl (rank_pair (\<lambda>i. snapshot_of sns (tg_id (ts ! i))) (map fst as))
           \<lparr>rk_states = map snd as, rk_dominated = replicate (length ts) 0,
            rk_uncertain = list_ex (\<lambda>(t, a). may_rank compatible t \<and> snd a \<noteq> FreshnessFresh \<and> snd a \<noteq> FreshnessStale)
              (zip ts as)\<rparr>
           (all_pairs (length ts)))"

definition winners :: "ranking \<Rightarrow> nat list" where
  "winners rk = filter (\<lambda>i. rk_states rk ! i = FreshnessFresh \<and> rk_dominated rk ! i = 0) [0 ..< length (rk_states rk)]"

definition exhausted :: "observation list \<Rightarrow> bool" where
  "exhausted obs \<longleftrightarrow> list_ex (\<lambda>ob. feq (ob_value ob) (Fin 100)) obs"

definition recommended :: "target list \<Rightarrow> snapshot list \<Rightarrow> time \<Rightarrow> bool \<Rightarrow> string" where
  "recommended ts sns now compatible =
     (let rk = compare_all ts sns now compatible; ws = winners rk
      in if rk_uncertain rk \<or> list_ex (\<lambda>i. exhausted (fst (assess sns now compatible (ts ! i)))) ws
           \<or> length ws \<noteq> 1
         then [] else tg_id (ts ! hd ws))"

definition candidate_of :: "bool \<Rightarrow> target \<Rightarrow> string \<Rightarrow> candidate" where
  "candidate_of compatible t s =
     \<lparr>ca_profile = tg_id t, ca_alias = tg_alias t, ca_eligible = may_rank compatible t, ca_capacity = s\<rparr>"

definition candidate_group :: "candidate \<Rightarrow> nat" where
  "candidate_group c =
     (if \<not> ca_eligible c then 3 else if ca_capacity c = FreshnessFresh then 0
      else if ca_capacity c = FreshnessStale then 1 else 2)"

text \<open>The comparison of the final sort; \<open>order\<close> maps profiles to the number of those that dominate them.\<close>

definition candidate_before :: "(string \<Rightarrow> nat) \<Rightarrow> candidate \<Rightarrow> candidate \<Rightarrow> bool" where
  "candidate_before order a b =
     (if candidate_group a \<noteq> candidate_group b then candidate_group a < candidate_group b
      else if ca_capacity a = FreshnessFresh \<and> ca_capacity b = FreshnessFresh
        \<and> order (ca_profile a) \<noteq> order (ca_profile b)
      then order (ca_profile a) < order (ca_profile b)
      else if ToLower (ca_alias a) \<noteq> ToLower (ca_alias b)
      then string_less (ToLower (ca_alias a)) (ToLower (ca_alias b))
      else string_less (ca_profile a) (ca_profile b))"

definition domination :: "target list \<Rightarrow> ranking \<Rightarrow> string \<Rightarrow> nat" where
  "domination ts rk i =
     (case find (\<lambda>(t, d). tg_id t = i) (rev (zip ts (rk_dominated rk))) of None \<Rightarrow> 0 | Some (t, d) \<Rightarrow> d)"

definition Rank :: "target list \<Rightarrow> snapshot list \<Rightarrow> time \<Rightarrow> bool \<Rightarrow> candidate list \<times> string" where
  "Rank ts sns now compatible =
     (let rk = compare_all ts sns now compatible
      in (sort_by (candidate_before (domination ts rk))
            (map (\<lambda>(t, s). candidate_of compatible t s) (zip ts (rk_states rk))),
          recommended ts sns now compatible))"

end
