(* ===== verification/Ranking_Properties.thy ===== *)
theory Ranking_Properties
  imports Ranking
begin

text \<open>
  What a recommendation means: the recommended profile has strictly the most remaining capacity.
  Domination is a finite strict order, so a unique undominated profile dominates all the others.
\<close>

section \<open>Evidence\<close>

definition good_evidence :: "observation \<Rightarrow> bool" where
  "good_evidence ob \<longleftrightarrow> (\<exists>c. ob_value ob = Fin c \<and> 0 \<le> c \<and> c \<le> 100)
     \<and> (\<exists>s e. ob_start ob = Some s \<and> ob_end ob = Some e \<and> s < e)"

lemma scan_metric_good:
  "scan_metric m state now obs found stale = Inr (Some ob, stale') \<Longrightarrow> found = Some ob \<or> good_evidence ob"
  by (induction m state now obs found stale rule: scan_metric.induct)
     (auto simp: good_evidence_def split: if_splits option.splits)

lemma capacity_loop_good:
  "capacity_loop sn now ms cap stale = Inr (obs, stale') \<Longrightarrow> list_all good_evidence cap \<Longrightarrow>
    list_all good_evidence obs
    \<and> length obs = length cap + length (filter (\<lambda>m. mt_class m = ProvenanceProvider) ms)"
proof (induction sn now ms cap stale rule: capacity_loop.induct)
  case (2 sn now m ms cap stale)
  show ?case
  proof (cases "mt_class m = ProvenanceProvider")
    case True
    with 2(3) obtain state ob st1 where "metric_state (sn_availability sn) (mt_key m) = Some state"
      "\<not> (state \<noteq> AvailabilityAvailable \<and> state \<noteq> AvailabilityStale)"
      "scan_metric m state now (sn_observations sn) None stale = Inr (Some ob, st1)"
      "capacity_loop sn now ms (cap @ [ob]) st1 = Inr (obs, stale')"
      by (auto split: if_splits option.splits sum.splits prod.splits)
    moreover from this have "good_evidence ob" using scan_metric_good by blast
    ultimately show ?thesis using 2(2) [of state "(Some ob, st1)" "Some ob" st1 ob] 2(4) True by auto
  qed (use 2 in simp)
qed simp

lemma capacity_loop_error:
  "capacity_loop sn now ms cap stale = Inl s \<Longrightarrow> s \<noteq> FreshnessFresh"
proof -
  have "scan_metric m state now obs found stale = Inl s \<Longrightarrow> s \<noteq> FreshnessFresh" for m state obs found stale
    by (induction m state now obs found stale rule: scan_metric.induct)
       (auto split: if_splits option.splits)
  then show "capacity_loop sn now ms cap stale = Inl s \<Longrightarrow> s \<noteq> FreshnessFresh"
    by (induction sn now ms cap stale rule: capacity_loop.induct)
       (auto split: if_splits option.splits sum.splits prod.splits)
qed

lemma capacity_loop_not_fresh [simp]: "capacity_loop sn now ms cap stale \<noteq> Inl FreshnessFresh"
  using capacity_loop_error by blast

lemma providerCapacity_fresh:
  assumes "providerCapacity sn now = (obs, FreshnessFresh)"
  shows "length obs = 2 \<and> list_all good_evidence obs \<and> list_all (in_window now) obs"
proof -
  obtain stale where "capacity_loop sn now Registry [] False = Inr (obs, stale)" "list_all (in_window now) obs"
    using assms by (auto simp: providerCapacity_def split: sum.splits prod.splits if_splits)
  then show ?thesis
    using capacity_loop_good [of sn now Registry "[]" False obs stale] by (simp add: Registry_def)
qed

lemma providerCapacity_evidence:
  assumes "providerCapacity sn now = (obs, s)"
  shows "obs = [] \<longleftrightarrow> s \<noteq> FreshnessFresh"
  using assms providerCapacity_fresh [of sn now obs]
  by (auto simp: providerCapacity_def split: sum.splits prod.splits if_splits)

lemma assess_fresh:
  assumes "snd (assess sns now c t) = FreshnessFresh"
  shows "length (fst (assess sns now c t)) = 2" "list_all good_evidence (fst (assess sns now c t))"
    "list_all (in_window now) (fst (assess sns now c t))" "may_rank c t"
proof -
  have m: "may_rank c t" using assms by (auto simp: assess_def split: if_splits)
  then show "may_rank c t" .
  have "providerCapacity (snapshot_of sns (tg_id t)) now = (fst (assess sns now c t), FreshnessFresh)"
    using assms m by (simp add: assess_def prod_eq_iff)
  from providerCapacity_fresh [OF this]
  show "length (fst (assess sns now c t)) = 2" "list_all good_evidence (fst (assess sns now c t))"
    "list_all (in_window now) (fst (assess sns now c t))" by simp_all
qed

lemma assess_evidence: "fst (assess sns now c t) = [] \<longleftrightarrow> snd (assess sns now c t) \<noteq> FreshnessFresh"
  using providerCapacity_evidence [of "snapshot_of sns (tg_id t)" now "fst (assess sns now c t)" "snd (assess sns now c t)"]
  by (auto simp: assess_def)

section \<open>Domination\<close>

text \<open>\<open>beats as bs\<close>: in no window less capacity left, in one window more.\<close>

definition beats :: "observation list \<Rightarrow> observation list \<Rightarrow> bool" where
  "beats as bs \<longleftrightarrow> list_ex (\<lambda>(a, b). flt (ob_value a) (ob_value b)) (zip as bs)
     \<and> \<not> list_ex (\<lambda>(a, b). flt (ob_value b) (ob_value a)) (zip as bs)"

lemma pair_lists:
  assumes "length as = 2" "list_all good_evidence as"
  obtains a b x y where "as = [a, b]" "ob_value a = Fin x" "ob_value b = Fin y"
  using assms by (cases as; cases "tl as") (auto simp: good_evidence_def)

lemma beats_values:
  assumes "length as = 2" "list_all good_evidence as" "length bs = 2" "list_all good_evidence bs"
  shows "beats as bs \<longleftrightarrow> list_all2 (\<lambda>a b. fle (ob_value a) (ob_value b)) as bs
    \<and> \<not> list_all2 (\<lambda>a b. fle (ob_value b) (ob_value a)) as bs"
proof -
  obtain a b x y where "as = [a, b]" "ob_value a = Fin x" "ob_value b = Fin y"
    using assms(1,2) by (rule pair_lists)
  moreover obtain a' b' x' y' where "bs = [a', b']" "ob_value a' = Fin x'" "ob_value b' = Fin y'"
    using assms(3,4) by (rule pair_lists)
  ultimately show ?thesis by (auto simp: beats_def)
qed

lemma beats_trans:
  assumes "length as = 2" "list_all good_evidence as" "length bs = 2" "list_all good_evidence bs"
    and "length cs = 2" "list_all good_evidence cs" "beats as bs" "beats bs cs"
  shows "beats as cs"
proof -
  obtain a b x y where "as = [a, b]" "ob_value a = Fin x" "ob_value b = Fin y"
    using assms(1,2) by (rule pair_lists)
  moreover obtain a' b' x' y' where "bs = [a', b']" "ob_value a' = Fin x'" "ob_value b' = Fin y'"
    using assms(3,4) by (rule pair_lists)
  moreover obtain a'' b'' x'' y'' where "cs = [a'', b'']" "ob_value a'' = Fin x''" "ob_value b'' = Fin y''"
    using assms(5,6) by (rule pair_lists)
  ultimately show ?thesis using assms(7,8) by (auto simp: beats_def)
qed

lemma beats_irrefl: "\<not> beats as as"
  by (auto simp: beats_def list_ex_iff zip_same)

lemma compare_beats:
  "cm_left_better (compare_profiles l r as bs) \<and> \<not> cm_right_better (compare_profiles l r as bs) \<longleftrightarrow> beats as bs"
  "cm_right_better (compare_profiles l r as bs) \<and> \<not> cm_left_better (compare_profiles l r as bs) \<longleftrightarrow> beats bs as"
  by (auto simp: compare_profiles_def beats_def list_ex_iff zip_commute [of bs as] split_beta)

text \<open>In a finite strict order every element that is not undominated lies below an undominated one.\<close>

lemma undominated_above:
  fixes R :: "nat \<Rightarrow> nat \<Rightarrow> bool"
  assumes "finite A" and R: "transp_on A R" "irreflp R" and "j \<in> A" "\<exists>i\<in>A. R i j"
  shows "\<exists>w\<in>A. R w j \<and> (\<forall>i\<in>A. \<not> R i w)"
  using assms(4,5)
proof (induction "card {i\<in>A. R i j}" arbitrary: j rule: less_induct)
  case less
  then obtain i where i: "i \<in> A" "R i j" by blast
  show ?case
  proof (cases "\<exists>k\<in>A. R k i")
    case True
    have "{k\<in>A. R k i} \<subset> {k\<in>A. R k j}"
      using i transp_onD [OF R(1), of _ i j] irreflpD [OF R(2), of i] less.prems(1) by blast
    then have "card {k\<in>A. R k i} < card {k\<in>A. R k j}"
      using assms(1) by (intro psubset_card_mono) auto
    from less.hyps [OF this i(1) True] obtain w where "w \<in> A" "R w i" "\<forall>k\<in>A. \<not> R k w" by blast
    then show ?thesis using i transp_onD [OF R(1), of w i j] less.prems(1) by blast
  qed (use i in blast)
qed

lemma unique_undominated:
  fixes R :: "nat \<Rightarrow> nat \<Rightarrow> bool"
  assumes F: "finite F" and R: "transp_on F R" "irreflp R"
  shows "{j\<in>F. \<not> (\<exists>i\<in>F. R i j)} = {w} \<longleftrightarrow> w \<in> F \<and> (\<forall>j\<in>F. j \<noteq> w \<longrightarrow> R w j)"
proof
  assume l: "{j\<in>F. \<not> (\<exists>i\<in>F. R i j)} = {w}"
  have "R w j" if j: "j \<in> F" "j \<noteq> w" for j
  proof -
    have "\<exists>i\<in>F. R i j" using l j by blast
    from undominated_above [OF F R j(1) this]
    obtain v where v: "v \<in> F" "R v j" "\<forall>i\<in>F. \<not> R i v" by blast
    then have "v \<in> {j\<in>F. \<not> (\<exists>i\<in>F. R i j)}" by simp
    then have "v = w" unfolding l by simp
    then show ?thesis using v(2) by simp
  qed
  then show "w \<in> F \<and> (\<forall>j\<in>F. j \<noteq> w \<longrightarrow> R w j)" using l by blast
next
  assume r: "w \<in> F \<and> (\<forall>j\<in>F. j \<noteq> w \<longrightarrow> R w j)"
  have "\<not> R i w" if "i \<in> F" for i
    using r that transp_onD [OF R(1), of w i w] irreflpD [OF R(2), of w] by metis
  then show "{j\<in>F. \<not> (\<exists>i\<in>F. R i j)} = {w}" using r by blast
qed

section \<open>The comparison of all pairs\<close>

definition doubtful :: "(nat \<Rightarrow> snapshot) \<Rightarrow> observation list list \<Rightarrow> nat \<times> nat \<Rightarrow> bool" where
  "doubtful sn ev lr \<longleftrightarrow> (case lr of (l, r) \<Rightarrow> ev ! l \<noteq> [] \<and> ev ! r \<noteq> []
     \<and> (cm_contradictory (compare_profiles (sn l) (sn r) (ev ! l) (ev ! r))
        \<or> \<not> cm_compatible (compare_profiles (sn l) (sn r) (ev ! l) (ev ! r))))"

lemma beats_Nil [simp]: "\<not> beats [] bs" "\<not> beats as []"
  by (simp_all add: beats_def)

lemma beats_asym: "beats as bs \<Longrightarrow> \<not> beats bs as"
  by (auto simp: beats_def list_ex_iff zip_commute [of bs as] split_beta)

lemma rank_pair_certain:
  assumes "\<not> rk_uncertain (rank_pair sn ev rk (l, r))"
  shows "\<not> rk_uncertain rk \<and> \<not> doubtful sn ev (l, r)
    \<and> rk_states (rank_pair sn ev rk (l, r)) = rk_states rk
    \<and> rk_dominated (rank_pair sn ev rk (l, r)) =
        (if beats (ev ! l) (ev ! r) then count_dominated r (rk_dominated rk)
         else if beats (ev ! r) (ev ! l) then count_dominated l (rk_dominated rk) else rk_dominated rk)"
  using assms compare_beats [of "sn l" "sn r" "ev ! l" "ev ! r"]
  by (auto simp: rank_pair_def doubtful_def Let_def split: if_splits)

text \<open>\<open>beaten_in\<close>: some pair of the list makes the profile at \<open>j\<close> the worse one.\<close>

definition beaten_in :: "observation list list \<Rightarrow> (nat \<times> nat) list \<Rightarrow> nat \<Rightarrow> bool" where
  "beaten_in ev ps j \<longleftrightarrow> (\<exists>(l, r)\<in>set ps. (r = j \<and> beats (ev ! l) (ev ! r)) \<or> (l = j \<and> beats (ev ! r) (ev ! l)))"

lemma rank_pairs_certain:
  assumes "\<not> rk_uncertain (foldl (rank_pair sn ev) rk ps)"
    and "\<forall>(l, r)\<in>set ps. l < length (rk_dominated rk) \<and> r < length (rk_dominated rk) \<and> l \<noteq> r"
  shows "\<not> rk_uncertain rk \<and> (\<forall>p\<in>set ps. \<not> doubtful sn ev p)
    \<and> rk_states (foldl (rank_pair sn ev) rk ps) = rk_states rk
    \<and> (\<forall>j<length (rk_dominated rk). rk_dominated (foldl (rank_pair sn ev) rk ps) ! j = 0 \<longleftrightarrow>
         rk_dominated rk ! j = 0 \<and> \<not> beaten_in ev ps j)"
  using assms
proof (induction ps arbitrary: rk)
  case Nil then show ?case by (simp add: beaten_in_def)
next
  case (Cons p ps)
  obtain l r where p: "p = (l, r)" by (cases p)
  let ?rk = "rank_pair sn ev rk (l, r)"
  have len: "length (rk_dominated ?rk) = length (rk_dominated rk)"
    by (simp add: rank_pair_def count_dominated_def Let_def)
  have ih: "\<not> rk_uncertain ?rk \<and> (\<forall>p\<in>set ps. \<not> doubtful sn ev p)
    \<and> rk_states (foldl (rank_pair sn ev) ?rk ps) = rk_states ?rk
    \<and> (\<forall>j<length (rk_dominated ?rk). rk_dominated (foldl (rank_pair sn ev) ?rk ps) ! j = 0 \<longleftrightarrow>
         rk_dominated ?rk ! j = 0 \<and> \<not> beaten_in ev ps j)"
    using Cons.IH [of ?rk] Cons.prems by (simp add: p len)
  have c: "\<not> rk_uncertain ?rk" using ih by simp
  have "rk_dominated ?rk ! j = 0 \<longleftrightarrow> rk_dominated rk ! j = 0
      \<and> \<not> (r = j \<and> beats (ev ! l) (ev ! r)) \<and> \<not> (l = j \<and> beats (ev ! r) (ev ! l))"
    if "j < length (rk_dominated rk)" for j
    using rank_pair_certain [OF c] that Cons.prems(2) beats_asym [of "ev ! l" "ev ! r"]
    by (auto simp: p count_dominated_def nth_list_update)
  then show ?case
    using ih rank_pair_certain [OF c] len by (auto simp: p beaten_in_def)
qed

lemma in_all_pairs: "(l, r) \<in> set (all_pairs n) \<longleftrightarrow> l < r \<and> r < n"
  unfolding all_pairs_def by (auto intro!: bexI [of _ l])

lemma beaten_in_all:
  assumes "j < n"
  shows "beaten_in ev (all_pairs n) j \<longleftrightarrow> (\<exists>i<n. beats (ev ! i) (ev ! j))"
proof
  assume "beaten_in ev (all_pairs n) j"
  then obtain l r where "(l, r) \<in> set (all_pairs n)"
    "(r = j \<and> beats (ev ! l) (ev ! r)) \<or> (l = j \<and> beats (ev ! r) (ev ! l))"
    unfolding beaten_in_def by blast
  then show "\<exists>i<n. beats (ev ! i) (ev ! j)"
    using less_trans by (auto simp: in_all_pairs)
next
  assume "\<exists>i<n. beats (ev ! i) (ev ! j)"
  then obtain i where i: "i < n" "beats (ev ! i) (ev ! j)" by blast
  then have "i \<noteq> j" using beats_irrefl by auto
  then have "(i, j) \<in> set (all_pairs n) \<or> (j, i) \<in> set (all_pairs n)"
    using i(1) assms by (auto simp: in_all_pairs)
  then show "beaten_in ev (all_pairs n) j"
    unfolding beaten_in_def using i(2) by auto
qed

lemma rank_pairs_no_doubt:
  assumes "\<forall>p\<in>set ps. \<not> doubtful sn ev p" "\<not> rk_uncertain rk"
  shows "\<not> rk_uncertain (foldl (rank_pair sn ev) rk ps)"
  using assms
proof (induction ps arbitrary: rk)
  case (Cons p ps)
  have "\<not> rk_uncertain (rank_pair sn ev rk p)"
    using Cons.prems by (cases p) (auto simp: rank_pair_def doubtful_def Let_def)
  then show ?case using Cons by simp
qed simp

section \<open>Recommendations\<close>

text \<open>\<open>more_capacity as bs\<close>: at least as much is left in every window, and not the other way round.\<close>

definition more_capacity :: "observation list \<Rightarrow> observation list \<Rightarrow> bool" where
  "more_capacity as bs \<longleftrightarrow> list_all2 (\<lambda>a b. fle (ob_value a) (ob_value b)) as bs
     \<and> \<not> list_all2 (\<lambda>a b. fle (ob_value b) (ob_value a)) as bs"

text \<open>Nothing is in doubt: every profile that may be ranked has fresh or stale evidence, and any two with fresh
  evidence have comparable windows that do not contradict each other.\<close>

definition certain :: "target list \<Rightarrow> snapshot list \<Rightarrow> time \<Rightarrow> bool \<Rightarrow> bool" where
  "certain ts sns now c \<longleftrightarrow>
     (\<forall>t\<in>set ts. may_rank c t \<longrightarrow> snd (assess sns now c t) \<in> {FreshnessFresh, FreshnessStale})
     \<and> (\<forall>p\<in>set (all_pairs (length ts)).
          \<not> doubtful (\<lambda>i. snapshot_of sns (tg_id (ts ! i))) (map (fst \<circ> assess sns now c) ts) p)"

lemma singleton_list: "distinct xs \<Longrightarrow> xs = [x] \<longleftrightarrow> set xs = {x}"
  by (cases xs rule: list.exhaust; cases "tl xs") auto

lemma list_ex_zip_map: "list_ex P (zip xs (map f xs)) \<longleftrightarrow> (\<exists>x\<in>set xs. P (x, f x))"
  by (induction xs) auto

lemma compare_all_facts:
  fixes ts sns now c
  defines "rk \<equiv> compare_all ts sns now c" and "ev \<equiv> map (fst \<circ> assess sns now c) ts"
  shows "\<not> rk_uncertain rk \<longleftrightarrow> certain ts sns now c"
    and "\<not> rk_uncertain rk \<Longrightarrow> rk_states rk = map (snd \<circ> assess sns now c) ts"
    and "\<not> rk_uncertain rk \<Longrightarrow> j < length ts \<Longrightarrow>
      rk_dominated rk ! j = 0 \<longleftrightarrow> \<not> (\<exists>i<length ts. beats (ev ! i) (ev ! j))"
proof -
  let ?sn = "\<lambda>i. snapshot_of sns (tg_id (ts ! i))"
  let ?doubt = "list_ex (\<lambda>(t, a). may_rank c t \<and> snd a \<noteq> FreshnessFresh \<and> snd a \<noteq> FreshnessStale)
              (zip ts (map (assess sns now c) ts))"
  let ?rk0 = "\<lparr>rk_states = map (snd \<circ> assess sns now c) ts, rk_dominated = replicate (length ts) 0,
            rk_uncertain = ?doubt\<rparr>"
  have rk: "rk = foldl (rank_pair ?sn ev) ?rk0 (all_pairs (length ts))"
    by (simp add: rk_def ev_def compare_all_def Let_def comp_def)
  have pairs: "\<forall>(l, r)\<in>set (all_pairs (length ts)). l < length (rk_dominated ?rk0) \<and> r < length (rk_dominated ?rk0) \<and> l \<noteq> r"
    by (auto simp: in_all_pairs)
  have doubt: "\<not> ?doubt \<longleftrightarrow> (\<forall>t\<in>set ts. may_rank c t \<longrightarrow> snd (assess sns now c t) \<in> {FreshnessFresh, FreshnessStale})"
    by (auto simp: list_ex_zip_map)
  note sure = rank_pairs_certain [OF _ pairs, of ?sn ev, folded rk]
  show "\<not> rk_uncertain rk \<longleftrightarrow> certain ts sns now c"
    using sure rank_pairs_no_doubt [of "all_pairs (length ts)" ?sn ev ?rk0, folded rk] doubt
    unfolding certain_def ev_def by auto
  assume *: "\<not> rk_uncertain rk"
  show "rk_states rk = map (snd \<circ> assess sns now c) ts" using sure [OF *] by simp
  assume "j < length ts"
  then show "rk_dominated rk ! j = 0 \<longleftrightarrow> \<not> (\<exists>i<length ts. beats (ev ! i) (ev ! j))"
    using sure [OF *] beaten_in_all [of j "length ts" ev] by simp
qed

text \<open>C28: A profile is recommended exactly when nothing is in doubt and it has, with fresh evidence and no
  exhausted window, strictly more remaining capacity than every other profile with fresh evidence: at
  least as much in both quota windows and more in one. The order of the profiles plays no part.\<close>

theorem recommendation_is_strictly_best:
  "recommended ts sns now c = i \<and> i \<noteq> [] \<longleftrightarrow>
    certain ts sns now c \<and> (\<exists>w<length ts. tg_id (ts ! w) = i \<and> may_rank c (ts ! w)
      \<and> snd (assess sns now c (ts ! w)) = FreshnessFresh \<and> \<not> exhausted (fst (assess sns now c (ts ! w)))
      \<and> (\<forall>j<length ts. j \<noteq> w \<longrightarrow> snd (assess sns now c (ts ! j)) = FreshnessFresh \<longrightarrow>
           more_capacity (fst (assess sns now c (ts ! w))) (fst (assess sns now c (ts ! j)))))"
proof -
  define rk where "rk = compare_all ts sns now c"
  define ev where "ev = map (fst \<circ> assess sns now c) ts"
  define F where "F = {j. j < length ts \<and> snd (assess sns now c (ts ! j)) = FreshnessFresh}"
  note facts = compare_all_facts [of ts sns now c, folded rk_def ev_def]
  have good: "length (ev ! j) = 2" "list_all good_evidence (ev ! j)" if "j \<in> F" for j
    using that assess_fresh [of sns now c "ts ! j"] by (auto simp: ev_def F_def)
  have more: "more_capacity (ev ! i) (ev ! j) \<longleftrightarrow> beats (ev ! i) (ev ! j)" if "i \<in> F" "j \<in> F" for i j
    using beats_values [OF good [OF that(1)] good [OF that(2)]] by (simp add: more_capacity_def)
  have outside: "\<not> beats (ev ! i) (ev ! j)" if "i < length ts" "i \<notin> F \<or> j \<notin> F" "j < length ts" for i j
    using that assess_evidence [of sns now c "ts ! i"] assess_evidence [of sns now c "ts ! j"]
    by (auto simp: ev_def F_def)
  define R where "R i j = beats (ev ! i) (ev ! j)" for i j
  have tr: "transp_on F R"
    by (rule transp_onI) (auto simp: R_def intro: beats_trans [OF good good good])
  have ir: "irreflp R" by (rule irreflpI) (simp add: R_def beats_irrefl)
  have win: "winners rk = filter (\<lambda>j. j \<in> F \<and> \<not> (\<exists>i\<in>F. beats (ev ! i) (ev ! j))) [0 ..< length ts]"
    if "\<not> rk_uncertain rk"
    using facts(2,3) [OF that] outside by (auto simp: winners_def F_def intro!: filter_cong)
  have fin: "finite F" by (simp add: F_def)
  have unique: "winners rk = [w] \<longleftrightarrow> w \<in> F \<and> (\<forall>j\<in>F. j \<noteq> w \<longrightarrow> R w j)" if "\<not> rk_uncertain rk" for w
    unfolding unique_undominated [OF fin tr ir, symmetric]
    using singleton_list [of "winners rk" w] win [OF that] by (simp add: F_def R_def)
  have rec: "recommended ts sns now c = i \<and> i \<noteq> [] \<longleftrightarrow> \<not> rk_uncertain rk \<and>
      (\<exists>w. winners rk = [w] \<and> \<not> exhausted (fst (assess sns now c (ts ! w))) \<and> tg_id (ts ! w) = i \<and> i \<noteq> [])"
    by (auto simp: recommended_def Let_def length_Suc_conv simp flip: rk_def)
  have ids: "tg_id (ts ! w) \<noteq> []" "may_rank c (ts ! w)" if "w \<in> F" for w
    using that assess_fresh(4) [of sns now c "ts ! w"] by (auto simp: F_def may_rank_def)
  have "winners rk = [w] \<longleftrightarrow> w < length ts \<and> snd (assess sns now c (ts ! w)) = FreshnessFresh
      \<and> (\<forall>j<length ts. j \<noteq> w \<longrightarrow> snd (assess sns now c (ts ! j)) = FreshnessFresh \<longrightarrow>
           more_capacity (fst (assess sns now c (ts ! w))) (fst (assess sns now c (ts ! j))))"
    if "\<not> rk_uncertain rk" for w
  proof -
    have "winners rk = [w] \<longleftrightarrow> w \<in> F \<and> (\<forall>j\<in>F. j \<noteq> w \<longrightarrow> more_capacity (ev ! w) (ev ! j))"
      unfolding unique [OF that] R_def using more by blast
    then show ?thesis by (auto simp: F_def ev_def)
  qed
  then show ?thesis
    unfolding rec facts(1) [symmetric] using ids [unfolded F_def mem_Collect_eq] by blast
qed

section \<open>A sample\<close>

text \<open>Two profiles with fresh evidence; the first has used 20 percent of both windows, the second 50.\<close>

definition sample_quota :: "metric \<Rightarrow> rat \<Rightarrow> observation" where
  "sample_quota m v = \<lparr>ob_id = [], ob_metric = m, ob_value = Fin v, ob_observed = 50, ob_captured = 50,
     ob_age = 0, ob_start = Some 10, ob_end = Some 1000, ob_timezone = ''UTC'', ob_source = SourceCodexAppServer,
     ob_version = ''1'', ob_provenance = ProvenanceProvider, ob_freshness = FreshnessFresh,
     ob_availability = AvailabilityAvailable, ob_assumptions = [], ob_uncertainty = []\<rparr>"

definition sample_capacity :: "string \<Rightarrow> rat \<Rightarrow> snapshot" where
  "sample_capacity p v = no_snapshot\<lparr>sn_profile := p, sn_captured := 50,
     sn_observations := [sample_quota (Registry ! 0) v, sample_quota (Registry ! 1) v],
     sn_availability := map (\<lambda>m. \<lparr>av_id = [], av_key = mt_key m, av_state = AvailabilityAvailable, av_reason = [],
       av_checked = 50, av_provenance = mt_class m\<rparr>) Registry\<rparr>"

definition sample_targets :: "target list" where
  "sample_targets = map (\<lambda>p. \<lparr>tg_id = p, tg_alias = p, tg_home = [], tg_login = [], tg_workspace = [],
     tg_selected = False, tg_eligible = True\<rparr>) [''p2'', ''p1'']"

theorem recommendation_is_strictly_best_witness:
  "recommended sample_targets [sample_capacity ''p1'' 20, sample_capacity ''p2'' 50] 100 True = ''p1''
   \<and> certain sample_targets [sample_capacity ''p1'' 20, sample_capacity ''p2'' 50] 100 True"
proof -
  have "recommended sample_targets [sample_capacity ''p1'' 20, sample_capacity ''p2'' 50] 100 True = ''p1''"
    by code_simp
  then show ?thesis
    using recommendation_is_strictly_best
      [of sample_targets "[sample_capacity ''p1'' 20, sample_capacity ''p2'' 50]" 100 True "''p1''"] by simp
qed

end
