(* ===== verification/Scheduler.thy ===== *)
theory Scheduler
  imports Ranking
begin

text \<open>
  The collection scheduler: \<^verbatim>\<open>internal/usage/scheduler.go\<close>. Durations are int64 and wrap where the code adds,
  doubles or negates them; the rotation cursor is a uint64. The store, the refresher and the random
  jitter act on a state \<open>'s\<close>. \<open>Tick\<close> holds the running flag from its entry to its return.
\<close>

section \<open>Settings\<close>

definition DefaultActiveInterval :: duration where "DefaultActiveInterval = 5 * Minute"
definition DefaultIdleInterval :: duration where "DefaultIdleInterval = 30 * Minute"
definition ProviderSafeMinimum :: duration where "ProviderSafeMinimum = 5 * Minute"
definition MaximumInterval :: duration where "MaximumInterval = 24 * Hour"
definition MaximumBackoff :: duration where "MaximumBackoff = 6 * Hour"
definition MaxCollectionsPerTick :: nat where "MaxCollectionsPerTick = 4"
definition MaxScheduleTargets :: nat where "MaxScheduleTargets = 64"
definition ResetApproachingLead :: duration where "ResetApproachingLead = 30 * Minute"

abbreviation "TriggerPeriodicActive \<equiv> ''periodic_active''"
abbreviation "TriggerPeriodicIdle \<equiv> ''periodic_idle''"
abbreviation "TriggerPeriodicReset \<equiv> ''periodic_reset''"
abbreviation "ScheduleOutcomeSucceeded \<equiv> ''succeeded''"
abbreviation "ScheduleOutcomeFailed \<equiv> ''failed''"

record collection_settings =
  cs_active :: duration
  cs_idle :: duration
  cs_minimum :: duration

definition DefaultCollectionSettings :: collection_settings where
  "DefaultCollectionSettings =
     \<lparr>cs_active = DefaultActiveInterval, cs_idle = DefaultIdleInterval, cs_minimum = ProviderSafeMinimum\<rparr>"

definition ValidateCollectionSettings :: "collection_settings \<Rightarrow> bool" where
  "ValidateCollectionSettings s \<longleftrightarrow>
     (let m = (if cs_minimum s = 0 then ProviderSafeMinimum else cs_minimum s)
      in \<not> (m \<noteq> ProviderSafeMinimum \<or> cs_active s < m \<or> cs_idle s < m
            \<or> cs_active s > MaximumInterval \<or> cs_idle s > MaximumInterval))"

record schedule_state =
  ss_last :: time
  ss_next :: time
  ss_failures :: int
  ss_outcome :: string

record schedule_target =
  st_profile :: target
  st_active :: bool
  st_latest :: snapshot
  st_state :: schedule_state

section \<open>Due times\<close>

definition interval_of :: "collection_settings \<Rightarrow> schedule_target \<Rightarrow> duration" where
  "interval_of s t = (if st_active t then cs_active s else cs_idle s)"

definition periodicTrigger :: "schedule_target \<Rightarrow> string" where
  "periodicTrigger t = (if st_active t then TriggerPeriodicActive else TriggerPeriodicIdle)"

definition targetWithoutPersistedAttempt :: "schedule_target \<Rightarrow> schedule_target" where
  "targetWithoutPersistedAttempt t = t\<lparr>st_state := (st_state t)\<lparr>ss_next := 0\<rparr>\<rparr>"

text \<open>The loop body of \<open>scheduledAttemptFromEvidence\<close>: an approaching reset brings the attempt forward.\<close>

definition consider_reset :: "time \<Rightarrow> time \<Rightarrow> time \<times> string \<Rightarrow> observation \<Rightarrow> time \<times> string" where
  "consider_reset captured now due ob =
     (case ob_end ob of
        None \<Rightarrow> due
      | Some reset \<Rightarrow>
          let alert = reset - ResetApproachingLead;
              boundary = (if now < alert \<or> (alert = now \<and> captured < now) then alert else reset)
          in if now < boundary \<and> boundary < fst due then (boundary, TriggerPeriodicReset) else due)"

definition scheduledAttemptFromEvidence ::
  "schedule_target \<Rightarrow> collection_settings \<Rightarrow> time \<Rightarrow> time \<times> string" where
  "scheduledAttemptFromEvidence t s now =
     (let captured = sn_captured (st_latest t) in
      if IsZero captured then (now, periodicTrigger t)
      else case foldl (consider_reset captured now) (captured + interval_of s t, periodicTrigger t)
             (sn_observations (st_latest t)) of
        (due, trigger) \<Rightarrow> (max due (captured + cs_minimum s), trigger))"

definition at_reset :: "schedule_target \<Rightarrow> bool" where
  "at_reset t \<longleftrightarrow> list_ex (\<lambda>ob. case ob_end ob of None \<Rightarrow> False
      | Some e \<Rightarrow> e = ss_next (st_state t) \<or> e - ResetApproachingLead = ss_next (st_state t))
     (sn_observations (st_latest t))"

definition nextScheduledAttempt :: "schedule_target \<Rightarrow> collection_settings \<Rightarrow> time \<Rightarrow> time \<times> string" where
  "nextScheduledAttempt t s now =
     (let next = ss_next (st_state t) in
      if IsZero next then scheduledAttemptFromEvidence t s now
      else if at_reset t then (next, TriggerPeriodicReset)
      else if ss_outcome (st_state t) = ScheduleOutcomeFailed \<and> 0 < ss_failures (st_state t)
      then (next, periodicTrigger t)
      else if IsZero (sn_captured (st_latest t)) then (next, periodicTrigger t)
      else case scheduledAttemptFromEvidence t s now of
        (due, trigger) \<Rightarrow>
          if trigger = TriggerPeriodicReset then (due, trigger)
          else if \<not> next < due \<and> \<not> due + quot (interval_of s t) 10 < next then (next, trigger)
          else (due, trigger))"

section \<open>Backoff and jitter\<close>

fun backoff_loop :: "nat \<Rightarrow> duration \<Rightarrow> duration" where
  "backoff_loop 0 b = b"
| "backoff_loop (Suc k) b =
     (if b < MaximumBackoff
      then backoff_loop k (if wrap64 (2 * b) > MaximumBackoff then MaximumBackoff else wrap64 (2 * b))
      else b)"

definition exponentialBackoff :: "int \<Rightarrow> duration \<Rightarrow> duration" where
  "exponentialBackoff failures minimum =
     backoff_loop (nat ((if failures < 1 then 1 else failures) - 1)) minimum"

text \<open>\<open>boundedJitter\<close> of the value the jitter function gave.\<close>

definition boundedJitter :: "duration \<Rightarrow> duration \<Rightarrow> duration" where
  "boundedJitter interval value =
     (let maximum = quot interval 10;
          v = (if value < 0 then wrap64 (- value) else value)
      in if v > maximum then maximum else v)"

text \<open>The jitter function of the service (\<open>randomScheduleJitter\<close>) for the random byte it draws, if any.\<close>

definition randomScheduleJitter :: "duration \<Rightarrow> nat option \<Rightarrow> duration" where
  "randomScheduleJitter interval sample =
     (let maximum = quot interval 10 in
      if maximum \<le> 0 then 0
      else case sample of None \<Rightarrow> 0 | Some b \<Rightarrow> quot (wrap64 (maximum * int b)) 255)"

section \<open>Ticks\<close>

record 's schedule_io =
  io_settings :: "'s \<Rightarrow> (err + collection_settings) \<times> 's"
  io_targets :: "'s \<Rightarrow> (err + schedule_target list) \<times> 's"
  io_save :: "string \<Rightarrow> schedule_state \<Rightarrow> 's \<Rightarrow> err option \<times> 's"
  io_refresh :: "string \<Rightarrow> string \<Rightarrow> 's \<Rightarrow> (err + snapshot) \<times> 's"
  io_jitter :: "duration \<Rightarrow> 's \<Rightarrow> duration \<times> 's"

record tick_result =
  tr_collected :: nat
  tr_failed :: nat
  tr_coalesced :: bool

definition target_before :: "schedule_target \<Rightarrow> schedule_target \<Rightarrow> bool" where
  "target_before a b =
     (if st_active a \<noteq> st_active b then st_active a
      else string_less (tg_alias (st_profile a)) (tg_alias (st_profile b)))"

definition failed_state :: "schedule_state \<Rightarrow> time \<Rightarrow> schedule_state" where
  "failed_state st now = st\<lparr>ss_last := now, ss_failures := wrap64 (ss_failures st + 1),
     ss_outcome := ScheduleOutcomeFailed\<rparr>"

definition succeeded_state :: "schedule_state \<Rightarrow> time \<Rightarrow> schedule_state" where
  "succeeded_state st now = st\<lparr>ss_last := now, ss_failures := 0, ss_outcome := ScheduleOutcomeSucceeded\<rparr>"

text \<open>Lines 149--175: one collection, and the state to save for it.\<close>

definition collect ::
  "'s schedule_io \<Rightarrow> collection_settings \<Rightarrow> time \<Rightarrow> schedule_target \<Rightarrow> string \<Rightarrow> 's \<Rightarrow>
    (bool \<times> schedule_state) \<times> 's" where
  "collect io s now t trigger sg =
     (case io_refresh io (tg_alias (st_profile t)) trigger sg of
        (Inl x, sg1) \<Rightarrow>
          let st = failed_state (st_state t) now;
              backoff = exponentialBackoff (ss_failures st) (cs_minimum s)
          in (case io_jitter io backoff sg1 of (j, sg2) \<Rightarrow>
                ((True, st\<lparr>ss_next := now + wrap64 (backoff + boundedJitter backoff j)\<rparr>), sg2))
      | (Inr sn, sg1) \<Rightarrow>
          let st = succeeded_state (st_state t) now; interval = interval_of s t in
          if IsZero (sn_captured sn) then
            (case io_jitter io interval sg1 of (j, sg2) \<Rightarrow>
              ((False, st\<lparr>ss_next := now + wrap64 (interval + boundedJitter interval j)\<rparr>), sg2))
          else
            let next = fst (nextScheduledAttempt
                  (targetWithoutPersistedAttempt (t\<lparr>st_latest := sn, st_state := st\<rparr>)) s now) in
            if next = sn_captured sn + interval then
              (case io_jitter io interval sg1 of (j, sg2) \<Rightarrow>
                ((False, st\<lparr>ss_next := next + boundedJitter interval j\<rparr>), sg2))
            else ((False, st\<lparr>ss_next := next\<rparr>), sg1))"

text \<open>The body of the loop for one target: what was collected, whether it failed, and the error of the save.\<close>

definition visit ::
  "'s schedule_io \<Rightarrow> collection_settings \<Rightarrow> time \<Rightarrow> schedule_target \<Rightarrow> 's \<Rightarrow>
    (bool \<times> bool \<times> err option) \<times> 's" where
  "visit io s now t sg =
     (case nextScheduledAttempt t s now of (due, trigger) \<Rightarrow>
        if now < due then
          if IsZero (ss_next (st_state t)) \<or> ss_next (st_state t) \<noteq> due then
            (case io_save io (tg_id (st_profile t)) ((st_state t)\<lparr>ss_next := due\<rparr>) sg of
               (x, sg1) \<Rightarrow> ((False, False, x), sg1))
          else ((False, False, None), sg)
        else
          (case collect io s now t trigger sg of
             ((failed, st), sg1) \<Rightarrow>
               (case io_save io (tg_id (st_profile t)) st sg1 of (x, sg2) \<Rightarrow> ((True, failed, x), sg2))))"

fun tick_loop ::
  "nat \<Rightarrow> 's schedule_io \<Rightarrow> collection_settings \<Rightarrow> time \<Rightarrow> schedule_target list \<Rightarrow> nat \<Rightarrow> nat \<Rightarrow> tick_result \<Rightarrow> 's \<Rightarrow>
    (tick_result \<times> err option) \<times> nat \<times> 's" where
  "tick_loop 0 io s now ts start inspected res sg = ((res, None), inspected, sg)"
| "tick_loop (Suc k) io s now ts start inspected res sg =
     (if tr_collected res \<ge> MaxCollectionsPerTick then ((res, None), inspected, sg)
      else case visit io s now (ts ! ((start + inspected) mod length ts)) sg of
        ((collected, failed, x), sg1) \<Rightarrow>
          let res1 = res\<lparr>tr_collected := tr_collected res + of_bool collected,
                         tr_failed := tr_failed res + of_bool failed\<rparr>
          in (case x of
                Some e \<Rightarrow> ((res1, Some e), Suc inspected, sg1)
              | None \<Rightarrow> tick_loop k io s now ts start (Suc inspected) res1 sg1))"

definition no_tick :: tick_result where
  "no_tick = \<lparr>tr_collected = 0, tr_failed = 0, tr_coalesced = False\<rparr>"

text \<open>The cursor is a uint64.\<close>

definition wrap_uint64 :: "nat \<Rightarrow> nat" where
  "wrap_uint64 n = n mod 2 ^ 64"

lemma wrap_uint64_code [code]: "wrap_uint64 n = nat (int n mod 18446744073709551616)"
  by (simp add: wrap_uint64_def nat_mod_distrib)

record scheduler =
  sd_running :: bool
  sd_cursor :: nat

text \<open>The targets of a tick, in the order of the rotation.\<close>

definition tick_targets :: "schedule_target list \<Rightarrow> schedule_target list" where
  "tick_targets ts = sort_by target_before ts"

definition Tick ::
  "'s schedule_io \<Rightarrow> time \<Rightarrow> scheduler \<times> 's \<Rightarrow> (tick_result \<times> err option) \<times> scheduler \<times> 's" where
  "Tick io now st =
     (case st of (sd, sg) \<Rightarrow>
        if sd_running sd then ((no_tick\<lparr>tr_coalesced := True\<rparr>, None), sd, sg)
        else if IsZero now then ((no_tick, Some (plain ErrScheduleInvalid)), sd, sg)
        else (case io_settings io sg of
            (Inl x, sg1) \<Rightarrow> ((no_tick, Some x), sd, sg1)
          | (Inr s, sg1) \<Rightarrow>
              if \<not> ValidateCollectionSettings s then ((no_tick, Some (plain ErrScheduleInvalid)), sd, sg1)
              else (case io_targets io sg1 of
                  (Inl x, sg2) \<Rightarrow> ((no_tick, Some x), sd, sg2)
                | (Inr ts, sg2) \<Rightarrow>
                    (case tick_loop (min (length ts) MaxScheduleTargets) io s now (tick_targets ts)
                        (sd_cursor sd mod length ts) 0 no_tick sg2 of
                       (r, inspected, sg3) \<Rightarrow>
                         (r, sd\<lparr>sd_cursor := wrap_uint64 (sd_cursor sd + inspected)\<rparr>, sg3)))))"

end
