(* ===== verification/Scheduler_Properties.thy ===== *)
theory Scheduler_Properties
  imports Scheduler
begin

text \<open>
  The scheduler keeps its limits: backoff and jitter are bounded, no attempt is planned earlier than the
  provider allows, a tick collects at most four profiles, and the rotation reaches every profile.
\<close>

section \<open>Backoff and jitter\<close>

lemmas duration_defs = MaximumBackoff_def MaximumInterval_def ProviderSafeMinimum_def ResetApproachingLead_def
  Hour_def Minute_def min_duration_def max_duration_def

lemma backoff_loop_closed:
  "0 < b \<Longrightarrow> b \<le> MaximumBackoff \<Longrightarrow> backoff_loop k b = min MaximumBackoff (b * 2 ^ k)"
proof (induction k arbitrary: b)
  case (Suc k)
  show ?case
  proof (cases "b < MaximumBackoff")
    case True
    have w: "wrap64 (2 * b) = 2 * b"
      using True Suc.prems by (intro wrap64_id) (simp_all add: duration_defs)
    have p: "(1 :: int) \<le> 2 ^ k" by simp
    show ?thesis
    proof (cases "2 * b > MaximumBackoff")
      case big: True
      have "MaximumBackoff \<le> MaximumBackoff * 2 ^ k" "2 * b \<le> (2 * b) * 2 ^ k"
        using mult_left_mono [OF p, of MaximumBackoff] mult_left_mono [OF p, of "2 * b"] Suc.prems by simp_all
      then have "MaximumBackoff \<le> MaximumBackoff * 2 ^ k" "MaximumBackoff \<le> b * 2 ^ Suc k"
        using big by simp_all
      then show ?thesis
        using True big w Suc.IH [of MaximumBackoff] Suc.prems by simp
    next
      case False
      then show ?thesis using True w Suc.IH [of "2 * b"] Suc.prems by (simp add: mult_ac)
    qed
  next
    case False
    then have "b = MaximumBackoff" using Suc.prems by simp
    moreover have "MaximumBackoff \<le> MaximumBackoff * 2 ^ Suc k"
      using mult_left_mono [of 1 "2 ^ Suc k" MaximumBackoff] one_le_power [of "2 :: int" "Suc k"]
      by (simp add: duration_defs)
    ultimately show ?thesis by simp
  qed
qed simp

lemma exponentialBackoff_closed:
  "0 < m \<Longrightarrow> m \<le> MaximumBackoff \<Longrightarrow>
    exponentialBackoff f m = min MaximumBackoff (m * 2 ^ nat (max 1 f - 1))"
  by (simp add: exponentialBackoff_def backoff_loop_closed max_def)

lemma exponentialBackoff_bounds:
  assumes "0 < m" "m \<le> MaximumBackoff"
  shows "m \<le> exponentialBackoff f m" "exponentialBackoff f m \<le> MaximumBackoff"
  using assms mult_left_mono [of 1 "2 ^ nat (max 1 f - 1)" m]
  by (auto simp: exponentialBackoff_closed)

lemma boundedJitter_bounds:
  assumes "0 \<le> i" "min_duration < v" "v \<le> max_duration"
  shows "0 \<le> boundedJitter i v" "boundedJitter i v \<le> i div 10"
proof -
  have "wrap64 (- v) = - v" if "v < 0"
    using assms that by (intro wrap64_id) (simp_all add: min_duration_def max_duration_def)
  then show "0 \<le> boundedJitter i v" "boundedJitter i v \<le> i div 10"
    using assms by (auto simp: boundedJitter_def Let_def quot_nonneg)
qed

text \<open>The backoff after \<open>f\<close> consecutive failures is the provider's minimum doubled \<open>f - 1\<close> times, capped at
  six hours, for every number of failures, with no overflow of the 64-bit durations on the way.\<close>

theorem backoff_doubles_up_to_the_cap:
  "exponentialBackoff f ProviderSafeMinimum = min MaximumBackoff (ProviderSafeMinimum * 2 ^ nat (max 1 f - 1))"
  by (rule exponentialBackoff_closed) (simp_all add: duration_defs)

text \<open>Whatever 64-bit value the jitter function gives, the jitter applied to an interval lies between 0 and a
  tenth of it, with one exception: the least value has no absolute value, passes both tests of
  \<open>boundedJitter\<close> and is applied as it is, 292 years into the past.\<close>

theorem jitter_is_a_tenth_except_for_the_least_value:
  assumes "0 \<le> interval" "interval \<le> max_duration" "min_duration \<le> v" "v \<le> max_duration"
  shows "if v = min_duration then boundedJitter interval v = min_duration
    else 0 \<le> boundedJitter interval v \<and> boundedJitter interval v \<le> interval div 10"
proof (cases "v = min_duration")
  case True
  have "wrap64 (- min_duration) = min_duration"
    by (simp add: wrap64_def min_duration_def)
  moreover have "\<not> min_duration > quot interval 10"
    using assms(1,2) by (simp add: quot_nonneg min_duration_def)
  moreover have "min_duration < 0" by (simp add: min_duration_def)
  ultimately show ?thesis using True by (simp add: boundedJitter_def Let_def)
qed (use assms boundedJitter_bounds [of interval v] in simp)

theorem jitter_is_a_tenth_except_for_the_least_value_witness:
  "boundedJitter DefaultIdleInterval min_duration = min_duration
   \<and> boundedJitter DefaultIdleInterval (- Hour) = 3 * Minute"
  using jitter_is_a_tenth_except_for_the_least_value [of DefaultIdleInterval min_duration]
  by (simp add: DefaultIdleInterval_def duration_defs boundedJitter_def quot_def wrap64_def)

section \<open>Limits of a tick\<close>

lemma visit_counts:
  "visit io s now t sg = ((collected, failed, x), sg') \<Longrightarrow> failed \<Longrightarrow> collected"
  by (auto simp: visit_def split: prod.splits if_splits)

lemma tick_loop_limits:
  assumes "tick_loop k io s now ts start inspected res sg = ((res', x), inspected', sg')"
    and "tr_failed res \<le> tr_collected res" "tr_collected res \<le> MaxCollectionsPerTick"
  shows "tr_failed res' \<le> tr_collected res' \<and> tr_collected res' \<le> MaxCollectionsPerTick
    \<and> inspected \<le> inspected' \<and> inspected' \<le> inspected + k
    \<and> tr_collected res' + inspected \<le> tr_collected res + inspected'
    \<and> (x = None \<longrightarrow> inspected' = inspected + k \<or> tr_collected res' = MaxCollectionsPerTick)"
  using assms
proof (induction k arbitrary: inspected res sg)
  case (Suc k)
  obtain collected failed y sg1 where
    v: "visit io s now (ts ! ((start + inspected) mod length ts)) sg = ((collected, failed, y), sg1)"
    by (metis surj_pair)
  show ?case
  proof (cases "tr_collected res \<ge> MaxCollectionsPerTick \<or> y \<noteq> None")
    case True
    then show ?thesis
      using Suc.prems v visit_counts [OF v] by (auto simp: Let_def split: if_splits)
  next
    case False
    let ?res = "res\<lparr>tr_collected := tr_collected res + of_bool collected, tr_failed := tr_failed res + of_bool failed\<rparr>"
    have "tick_loop k io s now ts start (Suc inspected) ?res sg1 = ((res', x), inspected', sg')"
      using Suc.prems(1) v False by (simp add: Let_def)
    from Suc.IH [OF this] Suc.prems(2) False visit_counts [OF v] show ?thesis
      by (cases collected; cases failed; auto)
  qed
qed simp

lemma Tick_ok:
  assumes "Tick io now (sd, sg) = ((r, x), sd', sg')" "x = None" "\<not> tr_coalesced r"
  obtains s ts sg1 sg2 inspected where "io_settings io sg = (Inr s, sg1)" "ValidateCollectionSettings s"
    "io_targets io sg1 = (Inr ts, sg2)"
    "tick_loop (min (length ts) MaxScheduleTargets) io s now (tick_targets ts) (sd_cursor sd mod length ts) 0 no_tick sg2
       = ((r, None), inspected, sg')"
    "sd' = sd\<lparr>sd_cursor := wrap_uint64 (sd_cursor sd + inspected)\<rparr>"
proof -
  note tick = assms(1) [unfolded Tick_def assms(2)]
  obtain s sg1 where s: "io_settings io sg = (Inr s, sg1)"
    using tick assms(3) by (cases "io_settings io sg"; cases "fst (io_settings io sg)") (auto split: if_splits)
  obtain ts sg2 where ts: "io_targets io sg1 = (Inr ts, sg2)"
    using tick assms(3) s by (cases "io_targets io sg1"; cases "fst (io_targets io sg1)") (auto split: if_splits)
  obtain q m sg3 where l: "tick_loop (min (length ts) MaxScheduleTargets) io s now (tick_targets ts)
      (sd_cursor sd mod length ts) 0 no_tick sg2 = (q, m, sg3)"
    by (metis surj_pair)
  have "ValidateCollectionSettings s" "q = (r, None)" "sg3 = sg'"
    "sd' = sd\<lparr>sd_cursor := wrap_uint64 (sd_cursor sd + m)\<rparr>"
    using tick assms(3) s ts l by (auto split: if_splits)
  then show thesis using s ts l that by blast
qed

text \<open>A tick, successful or not, collects at most four profiles and reports no more failures than
  collections; one that succeeds advances the rotation past at least four targets, or past all of them
  when there are fewer, and past at most sixty-four.\<close>

theorem tick_limits:
  assumes "Tick io now (sd, sg) = ((r, x), sd', sg')"
  shows "tr_collected r \<le> 4 \<and> tr_failed r \<le> tr_collected r
    \<and> (x = None \<and> \<not> tr_coalesced r \<longrightarrow>
        (\<exists>ts sg1 sg2 m. io_targets io sg1 = (Inr ts, sg2) \<and> min (length ts) 4 \<le> m \<and> m \<le> min (length ts) 64
          \<and> sd_cursor sd' = wrap_uint64 (sd_cursor sd + m)))"
proof -
  have "tr_collected r = 0 \<and> tr_failed r = 0
      \<or> (\<exists>k s ts start sg2 m. tick_loop k io s now ts start 0 no_tick sg2 = ((r, x), m, sg'))"
    using assms by (auto simp: Tick_def no_tick_def split: if_splits sum.splits prod.splits)
  then have "tr_collected r \<le> 4 \<and> tr_failed r \<le> tr_collected r"
  proof
    assume "\<exists>k s ts start sg2 m. tick_loop k io s now ts start 0 no_tick sg2 = ((r, x), m, sg')"
    then obtain k s ts start sg2 m where "tick_loop k io s now ts start 0 no_tick sg2 = ((r, x), m, sg')"
      by blast
    from tick_loop_limits [OF this] show ?thesis by (simp add: no_tick_def MaxCollectionsPerTick_def)
  qed simp
  moreover have "\<exists>ts sg1 sg2 m. io_targets io sg1 = (Inr ts, sg2) \<and> min (length ts) 4 \<le> m \<and> m \<le> min (length ts) 64
          \<and> sd_cursor sd' = wrap_uint64 (sd_cursor sd + m)" if "x = None" "\<not> tr_coalesced r"
    using assms that
  proof (cases rule: Tick_ok)
    case (1 s ts sg1 sg2 inspected)
    have "min (length ts) 4 \<le> inspected \<and> inspected \<le> min (length ts) 64"
      using tick_loop_limits [OF 1(4)]
      by (auto simp: no_tick_def MaxCollectionsPerTick_def MaxScheduleTargets_def min_def split: if_splits)
    then show ?thesis
      using 1(3,5) by fastforce
  qed
  ultimately show ?thesis by blast
qed

section \<open>The rotation reaches every target\<close>

fun tick_run :: "'s schedule_io \<Rightarrow> (nat \<Rightarrow> time) \<Rightarrow> nat \<Rightarrow> scheduler \<times> 's \<Rightarrow> scheduler \<times> 's" where
  "tick_run io clk 0 st = st"
| "tick_run io clk (Suc k) st = snd (Tick io (clk k) (tick_run io clk k st))"

text \<open>The settings and the targets a tick reads in a state.\<close>

definition tick_reads :: "'s schedule_io \<Rightarrow> 's \<Rightarrow> (collection_settings \<times> schedule_target list) option" where
  "tick_reads io sg =
     (case io_settings io sg of
        (Inl x, sg1) \<Rightarrow> None
      | (Inr s, sg1) \<Rightarrow> (case io_targets io sg1 of (Inl x, sg2) \<Rightarrow> None | (Inr ts, sg2) \<Rightarrow> Some (s, ts)))"

text \<open>The same calls with a log of the profiles that are refreshed, in the state beside that of the calls.\<close>

definition noting :: "'s schedule_io \<Rightarrow> ('s \<times> string list) schedule_io" where
  "noting io =
     \<lparr>io_settings = \<lambda>(sg, l). case io_settings io sg of (r, sg') \<Rightarrow> (r, sg', l),
      io_targets = \<lambda>(sg, l). case io_targets io sg of (r, sg') \<Rightarrow> (r, sg', l),
      io_save = \<lambda>i ss (sg, l). case io_save io i ss sg of (r, sg') \<Rightarrow> (r, sg', l),
      io_refresh = \<lambda>a trigger (sg, l). case io_refresh io a trigger sg of (r, sg') \<Rightarrow> (r, sg', a # l),
      io_jitter = \<lambda>d (sg, l). case io_jitter io d sg of (j, sg') \<Rightarrow> (j, sg', l)\<rparr>"

abbreviation alias_of :: "schedule_target \<Rightarrow> string" where
  "alias_of t \<equiv> tg_alias (st_profile t)"

lemma noting_sel [simp]:
  "io_settings (noting io) (sg, l) = (case io_settings io sg of (r, sg') \<Rightarrow> (r, sg', l))"
  "io_targets (noting io) (sg, l) = (case io_targets io sg of (r, sg') \<Rightarrow> (r, sg', l))"
  "io_save (noting io) i ss (sg, l) = (case io_save io i ss sg of (r, sg') \<Rightarrow> (r, sg', l))"
  "io_refresh (noting io) a trigger (sg, l) = (case io_refresh io a trigger sg of (r, sg') \<Rightarrow> (r, sg', a # l))"
  "io_jitter (noting io) d (sg, l) = (case io_jitter io d sg of (j, sg') \<Rightarrow> (j, sg', l))"
  by (simp_all add: noting_def)

lemma collect_notes:
  "collect (noting io) s now t trigger (sg, l) = ((failed, st), sg', l') \<Longrightarrow> l' = alias_of t # l"
  by (auto simp: collect_def Let_def split: prod.splits sum.splits if_splits)

lemma visit_notes:
  assumes "visit (noting io) s now t (sg, l) = ((collected, failed, x), sg', l')"
  shows "l' = (if fst (nextScheduledAttempt t s now) \<le> now then alias_of t # l else l)"
  using assms by (auto simp: visit_def not_less split: prod.splits if_splits dest!: collect_notes)

lemma tick_loop_notes:
  assumes "tick_loop k (noting io) s now ts start inspected res (sg, l) = ((res', None), inspected', sg', l')"
  shows "set l \<subseteq> set l' \<and> (\<forall>j. inspected \<le> j \<longrightarrow> j < inspected' \<longrightarrow>
    fst (nextScheduledAttempt (ts ! ((start + j) mod length ts)) s now) \<le> now \<longrightarrow>
    alias_of (ts ! ((start + j) mod length ts)) \<in> set l')"
  using assms
proof (induction k arbitrary: inspected res sg l)
  case (Suc k)
  let ?t = "ts ! ((start + inspected) mod length ts)"
  obtain collected failed y sg1 l1 where
    v: "visit (noting io) s now ?t (sg, l) = ((collected, failed, y), sg1, l1)"
    by (metis surj_pair)
  note l1 = visit_notes [OF v]
  show ?case
  proof (cases "tr_collected res \<ge> MaxCollectionsPerTick")
    case True
    then show ?thesis using Suc.prems by simp
  next
    case False
    let ?res = "res\<lparr>tr_collected := tr_collected res + of_bool collected, tr_failed := tr_failed res + of_bool failed\<rparr>"
    have y: "y = None" and rest: "tick_loop k (noting io) s now ts start (Suc inspected) ?res (sg1, l1)
        = ((res', None), inspected', sg', l')"
      using Suc.prems v False by (auto simp: Let_def split: option.splits)
    note ih = Suc.IH [OF rest]
    have "set l \<subseteq> set l'" using ih l1 by auto
    moreover have "alias_of (ts ! ((start + j) mod length ts)) \<in> set l'"
      if "inspected \<le> j" "j < inspected'" "fst (nextScheduledAttempt (ts ! ((start + j) mod length ts)) s now) \<le> now" for j
    proof (cases "j = inspected")
      case True
      then show ?thesis using that(3) l1 ih by auto
    next
      case False
      then show ?thesis using that ih by auto
    qed
    ultimately show ?thesis by blast
  qed
qed simp

lemma tick_loop_log:
  "tick_loop k (noting io) s now ts start inspected res (sg, l) = (q, inspected', sg', l') \<Longrightarrow> set l \<subseteq> set l'"
proof (induction k arbitrary: inspected res sg l)
  case (Suc k)
  let ?t = "ts ! ((start + inspected) mod length ts)"
  obtain collected failed y sg1 l1 where
    v: "visit (noting io) s now ?t (sg, l) = ((collected, failed, y), sg1, l1)"
    by (metis surj_pair)
  have l1: "set l \<subseteq> set l1" using visit_notes [OF v] by auto
  show ?case
    using Suc.prems v l1 Suc.IH [of "Suc inspected" _ sg1 l1] by (auto simp: Let_def split: option.splits if_splits)
qed simp

lemma Tick_notes: "Tick (noting io) now (sd, sg, l) = (q, sd', sg', l') \<Longrightarrow> set l \<subseteq> set l'"
  by (auto simp: Tick_def split: if_splits sum.splits prod.splits dest!: tick_loop_log)

text \<open>A tick that succeeds inspects the positions of the rotation from the cursor on, and collects the ones that are due.\<close>

lemma tick_advance:
  assumes "snd (fst (Tick (noting io) now (sd, sg, l))) = None" "\<not> tr_coalesced (fst (fst (Tick (noting io) now (sd, sg, l))))"
    and names: "\<And>s ts. tick_reads io sg = Some (s, ts) \<Longrightarrow> map alias_of (tick_targets ts) = names"
    and "sd_cursor sd + 64 < 2 ^ 64" "Tick (noting io) now (sd, sg, l) = (q, sd', sg', l')"
  obtains m s ts where "min (length names) 4 \<le> m" "m \<le> 64" "sd_cursor sd' = sd_cursor sd + m"
    "set l \<subseteq> set l'" "tick_reads io sg = Some (s, ts)"
    "\<And>j. j < m \<Longrightarrow> fst (nextScheduledAttempt (tick_targets ts ! ((sd_cursor sd + j) mod length names)) s now) \<le> now \<Longrightarrow>
       names ! ((sd_cursor sd + j) mod length names) \<in> set l'"
proof -
  obtain r where t: "Tick (noting io) now (sd, sg, l) = ((r, None), sd', sg', l')" and r: "\<not> tr_coalesced r"
    using assms(1,2,5) by (metis fst_conv prod.collapse snd_conv)
  obtain s ts p1 p2 m where s: "io_settings (noting io) (sg, l) = (Inr s, p1)" and ts: "io_targets (noting io) p1 = (Inr ts, p2)"
    and loop: "tick_loop (min (length ts) MaxScheduleTargets) (noting io) s now (tick_targets ts) (sd_cursor sd mod length ts)
       0 no_tick p2 = ((r, None), m, sg', l')"
    and sd': "sd' = sd\<lparr>sd_cursor := wrap_uint64 (sd_cursor sd + m)\<rparr>"
    by (rule Tick_ok [OF t refl r]) blast
  obtain sg2 where p2: "p2 = (sg2, l)" and reads: "tick_reads io sg = Some (s, ts)"
    using s ts by (auto simp: tick_reads_def split: prod.splits sum.splits)
  note n = names [OF reads]
  have len: "length ts = length names" "length (tick_targets ts) = length names"
    using arg_cong [OF n, of length] by (simp_all add: tick_targets_def)
  have m: "min (length names) 4 \<le> m" "m \<le> 64" "m \<le> length names"
    using tick_loop_limits [OF loop] len
    by (auto simp: no_tick_def MaxCollectionsPerTick_def MaxScheduleTargets_def min_def split: if_splits)
  show ?thesis
  proof (rule that [OF m(1,2) _ _ reads])
    show "sd_cursor sd' = sd_cursor sd + m" using sd' assms(4) m(2) by (simp add: wrap_uint64_def)
    note passed = tick_loop_notes [OF loop [unfolded p2]]
    then show "set l \<subseteq> set l'" ..
    fix j assume j: "j < m"
      and due: "fst (nextScheduledAttempt (tick_targets ts ! ((sd_cursor sd + j) mod length names)) s now) \<le> now"
    have "(sd_cursor sd + j) mod length names < length names"
      using j m(3) by (intro mod_less_divisor) linarith
    then have name: "alias_of (tick_targets ts ! ((sd_cursor sd + j) mod length names)) = names ! ((sd_cursor sd + j) mod length names)"
      using n len by (metis nth_map)
    have "alias_of (tick_targets ts ! ((sd_cursor sd + j) mod length names)) \<in> set l'"
      using passed j due len by (simp add: mod_add_left_eq)
    then show "names ! ((sd_cursor sd + j) mod length names) \<in> set l'" unfolding name .
  qed
qed

lemma interval_between:
  "f 0 \<le> x \<Longrightarrow> x < f k \<Longrightarrow> \<exists>j<k. f j \<le> x \<and> x < f (Suc j)" for f :: "nat \<Rightarrow> nat"
proof (induction k)
  case (Suc k)
  then show ?case by (cases "x < f k") (auto intro: less_SucI)
qed simp

text \<open>The states of \<open>n\<close> ticks that succeed, while the rotation keeps its profiles: every position is passed.\<close>

lemma rotation_passes:
  fixes io :: "'s schedule_io" and clk :: "nat \<Rightarrow> time" and sd :: scheduler and sg :: 's
  defines "run k \<equiv> tick_run (noting io) clk k (sd, sg, [])"
  assumes i: "i < length names"
    and ok: "\<And>k. k < length names \<Longrightarrow> snd (fst (Tick (noting io) (clk k) (run k))) = None
      \<and> \<not> tr_coalesced (fst (fst (Tick (noting io) (clk k) (run k))))"
    and names: "\<And>k s ts. k < length names \<Longrightarrow> tick_reads io (fst (snd (run k))) = Some (s, ts) \<Longrightarrow>
      map alias_of (tick_targets ts) = names"
    and cursor: "sd_cursor sd + 64 * (length names + 1) < 2 ^ 64"
  obtains k s ts where "k < length names" "tick_reads io (fst (snd (run k))) = Some (s, ts)" "i < length (tick_targets ts)"
    "alias_of (tick_targets ts ! i) = names ! i"
    "fst (nextScheduledAttempt (tick_targets ts ! i) s (clk k)) \<le> clk k \<Longrightarrow> names ! i \<in> set (snd (snd (run (Suc k))))"
proof -
  define c where "c k = sd_cursor (fst (run k))" for k
  let ?n = "length names"
  have step: "\<exists>m s ts. min ?n 4 \<le> m \<and> m \<le> 64 \<and> c (Suc k) = c k + m \<and> tick_reads io (fst (snd (run k))) = Some (s, ts)
      \<and> (\<forall>j<m. fst (nextScheduledAttempt (tick_targets ts ! ((c k + j) mod ?n)) s (clk k)) \<le> clk k \<longrightarrow>
            names ! ((c k + j) mod ?n) \<in> set (snd (snd (run (Suc k)))))"
    if "k < ?n" "c k + 64 < 2 ^ 64" for k
  proof -
    obtain d g l where st: "run k = (d, g, l)" by (metis surj_pair)
    obtain q d' g' l' where t: "Tick (noting io) (clk k) (d, g, l) = (q, d', g', l')" by (metis surj_pair)
    have st': "run (Suc k) = (d', g', l')" using st t by (simp add: run_def)
    have ok': "snd (fst (Tick (noting io) (clk k) (d, g, l))) = None"
      "\<not> tr_coalesced (fst (fst (Tick (noting io) (clk k) (d, g, l))))"
      using ok [OF that(1)] st by simp_all
    have names': "map alias_of (tick_targets ts) = names" if "tick_reads io g = Some (s, ts)" for s ts
      using names [OF \<open>k < ?n\<close>] that st by simp
    have cur: "sd_cursor d + 64 < 2 ^ 64" using that(2) st by (simp add: c_def)
    show ?thesis
      by (rule tick_advance [OF ok' names' cur t], assumption) (use st st' in \<open>auto simp: c_def\<close>)
  qed
  have bounds: "c 0 + k \<le> c k \<and> c k \<le> c 0 + 64 * k" if "k \<le> ?n" for k
    using that
  proof (induction k)
    case (Suc k)
    then have "c k + 64 < 2 ^ 64" using cursor by (simp add: c_def run_def)
    then show ?case using step [of k] Suc i by fastforce
  qed simp
  define x where "x = c 0 + (i + ?n - c 0 mod ?n) mod ?n"
  have "x < c 0 + ?n" unfolding x_def by (intro add_strict_left_mono mod_less_divisor) (use i in linarith)
  then have "x < c ?n" using bounds [of ?n] by simp
  then obtain k where k: "k < ?n" "c k \<le> x" "x < c (Suc k)"
    using interval_between [of c x ?n] by (auto simp: x_def)
  have "x mod ?n = (c 0 mod ?n + (i + ?n - c 0 mod ?n)) mod ?n"
    by (simp add: x_def mod_add_left_eq mod_add_right_eq)
  also have "c 0 mod ?n + (i + ?n - c 0 mod ?n) = i + ?n"
    using i mod_less_divisor [of ?n "c 0"] by linarith
  finally have x: "x mod ?n = i" using i by simp
  have "c k + 64 < 2 ^ 64" using bounds [of k] k(1) cursor by (simp add: c_def run_def)
  from step [OF k(1) this] obtain m s ts where m: "c (Suc k) = c k + m"
    and reads: "tick_reads io (fst (snd (run k))) = Some (s, ts)"
    and passed: "\<forall>j<m. fst (nextScheduledAttempt (tick_targets ts ! ((c k + j) mod ?n)) s (clk k)) \<le> clk k \<longrightarrow>
            names ! ((c k + j) mod ?n) \<in> set (snd (snd (run (Suc k))))" by blast
  note n = names [OF k(1) reads]
  have len: "length (tick_targets ts) = ?n" using arg_cong [OF n, of length] by simp
  show ?thesis
  proof (rule that [OF k(1) reads])
    show "i < length (tick_targets ts)" using i len by simp
    then show "alias_of (tick_targets ts ! i) = names ! i" using n by (metis nth_map)
    assume "fst (nextScheduledAttempt (tick_targets ts ! i) s (clk k)) \<le> clk k"
    then show "names ! i \<in> set (snd (snd (run (Suc k))))"
      using passed [rule_format, of "x - c k"] k m x by simp
  qed
qed

lemma tick_run_notes:
  "j \<le> k \<Longrightarrow> set (snd (snd (tick_run (noting io) clk j st))) \<subseteq> set (snd (snd (tick_run (noting io) clk k st)))"
proof (induction k)
  case (Suc k)
  obtain d g l where st: "tick_run (noting io) clk k st = (d, g, l)" by (metis surj_pair)
  obtain q d' g' l' where "Tick (noting io) (clk k) (d, g, l) = (q, d', g', l')" by (metis surj_pair)
  then show ?case using Suc st Tick_notes by (cases "j = Suc k") (fastforce simp: le_Suc_eq)+
qed simp

text \<open>C30: No profile that is due is starved: while the profiles of the rotation stay the same and the ticks
  succeed, a profile that is due at every tick until it is collected is collected by one of any \<open>n\<close> successive
  ticks, where \<open>n\<close> is the number of profiles. (The cursor does not wrap around in these ticks.)\<close>

theorem rotation_reaches_every_target:
  assumes "a \<in> set names"
    and "\<And>k. k < length names \<Longrightarrow> snd (fst (Tick (noting io) (clk k) (tick_run (noting io) clk k (sd, sg, [])))) = None
      \<and> \<not> tr_coalesced (fst (fst (Tick (noting io) (clk k) (tick_run (noting io) clk k (sd, sg, [])))))"
    and "\<And>k s ts. k < length names \<Longrightarrow>
      tick_reads io (fst (snd (tick_run (noting io) clk k (sd, sg, [])))) = Some (s, ts) \<Longrightarrow>
      map alias_of (tick_targets ts) = names"
    and "\<And>k s ts t. k < length names \<Longrightarrow>
      tick_reads io (fst (snd (tick_run (noting io) clk k (sd, sg, [])))) = Some (s, ts) \<Longrightarrow>
      a \<notin> set (snd (snd (tick_run (noting io) clk k (sd, sg, [])))) \<Longrightarrow> t \<in> set ts \<Longrightarrow> alias_of t = a \<Longrightarrow>
      fst (nextScheduledAttempt t s (clk k)) \<le> clk k"
    and "sd_cursor sd + 64 * (length names + 1) < 2 ^ 64"
  shows "a \<in> set (snd (snd (tick_run (noting io) clk (length names) (sd, sg, []))))"
proof -
  obtain i where i: "i < length names" "names ! i = a" using assms(1) by (auto simp: in_set_conv_nth)
  let ?run = "\<lambda>k. tick_run (noting io) clk k (sd, sg, [])"
  obtain k s ts where k: "k < length names" "tick_reads io (fst (snd (?run k))) = Some (s, ts)" "i < length (tick_targets ts)"
    "alias_of (tick_targets ts ! i) = a"
    "fst (nextScheduledAttempt (tick_targets ts ! i) s (clk k)) \<le> clk k \<Longrightarrow> a \<in> set (snd (snd (?run (Suc k))))"
    by (rule rotation_passes [OF i(1) assms(2,3,5)]) (use i(2) in auto)
  have "tick_targets ts ! i \<in> set ts" using nth_mem [OF k(3)] by (simp add: tick_targets_def)
  then have "a \<in> set (snd (snd (?run (Suc k))))"
    using assms(4) [OF k(1,2) _ _ k(4)] k(5) tick_run_notes [of "k" "Suc k" io clk "(sd, sg, [])"] by auto
  then show ?thesis using tick_run_notes [of "Suc k" "length names" io clk "(sd, sg, [])"] k(1) by auto
qed

section \<open>The provider's minimum\<close>

text \<open>A target is paced when its next attempt, if one is planned, is no earlier than the provider's minimum after
  the capture of its latest snapshot.\<close>

definition paced :: "collection_settings \<Rightarrow> schedule_target \<Rightarrow> bool" where
  "paced s t \<longleftrightarrow> ss_next (st_state t) = 0 \<or> sn_captured (st_latest t) = 0
     \<or> sn_captured (st_latest t) + cs_minimum s \<le> ss_next (st_state t)"

lemma evidence_floor:
  "sn_captured (st_latest t) \<noteq> 0 \<Longrightarrow>
    sn_captured (st_latest t) + cs_minimum s \<le> fst (scheduledAttemptFromEvidence t s now)"
  by (simp add: scheduledAttemptFromEvidence_def Let_def case_prod_beta)

lemma next_floor:
  "paced s t \<Longrightarrow> sn_captured (st_latest t) \<noteq> 0 \<Longrightarrow>
    sn_captured (st_latest t) + cs_minimum s \<le> fst (nextScheduledAttempt t s now)"
  using evidence_floor [of t s now]
  by (auto simp: nextScheduledAttempt_def paced_def Let_def case_prod_beta)

lemma valid_settings:
  "ValidateCollectionSettings s \<Longrightarrow> cs_minimum s \<noteq> 0 \<Longrightarrow>
    cs_minimum s = ProviderSafeMinimum \<and> ProviderSafeMinimum \<le> interval_of s t \<and> interval_of s t \<le> MaximumInterval"
  by (auto simp: ValidateCollectionSettings_def interval_of_def Let_def)

lemma planned_add:
  assumes "ProviderSafeMinimum \<le> b" "b \<le> MaximumInterval" "min_duration < v" "v \<le> max_duration"
  shows "ProviderSafeMinimum \<le> wrap64 (b + boundedJitter b v) \<and> wrap64 (b + boundedJitter b v) \<le> b + b div 10"
proof -
  have j: "0 \<le> boundedJitter b v" "boundedJitter b v \<le> b div 10"
    using assms by (auto intro!: boundedJitter_bounds simp: duration_defs)
  have "b div 10 \<le> b" using assms(1) by (simp add: duration_defs)
  then have "wrap64 (b + boundedJitter b v) = b + boundedJitter b v"
    using j assms(1,2) by (intro wrap64_id) (simp_all add: duration_defs)
  then show ?thesis using j assms(1) by simp
qed

text \<open>C29: The provider is never asked too early. With valid settings and a jitter function that never gives the
  least value, a paced target is only collected when the provider's minimum has passed since its latest
  capture; and what a collection plans is at least the minimum ahead: of now after a failure (and at
  most six hours and thirty-six minutes), of the new capture, or of now when there is none, after a
  success. So the target stays paced.\<close>

theorem provider_minimum_is_kept:
  assumes "ValidateCollectionSettings s" "cs_minimum s \<noteq> 0"
    and "\<And>d sg. min_duration < fst (io_jitter io d sg) \<and> fst (io_jitter io d sg) \<le> max_duration"
    and "paced s t" "collect io s now t trigger sg = ((failed, st), sg')"
  shows "(fst (nextScheduledAttempt t s now) \<le> now \<and> sn_captured (st_latest t) \<noteq> 0 \<longrightarrow>
      sn_captured (st_latest t) + ProviderSafeMinimum \<le> now)
    \<and> (case fst (io_refresh io (tg_alias (st_profile t)) trigger sg) of
         Inl x \<Rightarrow> failed \<and> now + ProviderSafeMinimum \<le> ss_next st
           \<and> ss_next st \<le> now + MaximumBackoff + MaximumBackoff div 10
       | Inr sn \<Rightarrow> \<not> failed
           \<and> (if sn_captured sn = 0 then now + ProviderSafeMinimum \<le> ss_next st
              else paced s (t\<lparr>st_latest := sn, st_state := st\<rparr>)))"
proof -
  note v = valid_settings [OF assms(1,2)]
  have m: "cs_minimum s = ProviderSafeMinimum" using v by blast
  obtain q sg1 where r: "io_refresh io (tg_alias (st_profile t)) trigger sg = (q, sg1)"
    by (cases "io_refresh io (tg_alias (st_profile t)) trigger sg")
  have jit: "min_duration < j \<and> j \<le> max_duration" if "io_jitter io d sg1 = (j, sg2)" for d j sg2
    using assms(3) [of d sg1] that by simp
  show ?thesis
  proof (cases q)
    case (Inl x)
    let ?st = "failed_state (st_state t) now"
    let ?b = "exponentialBackoff (ss_failures ?st) ProviderSafeMinimum"
    obtain j sg2 where j: "io_jitter io ?b sg1 = (j, sg2)" by (cases "io_jitter io ?b sg1")
    have b: "ProviderSafeMinimum \<le> ?b" "?b \<le> MaximumBackoff"
      by (rule exponentialBackoff_bounds; simp add: duration_defs)+
    moreover from b(2) have "?b div 10 \<le> MaximumBackoff div 10" by (rule zdiv_mono1) simp
    ultimately show ?thesis
      using assms(5) r Inl j m planned_add [of ?b j] jit [OF j] next_floor [OF assms(4)] m
      by (auto simp: collect_def Let_def duration_defs(1,2,5) intro: order_trans)
  next
    case (Inr sn)
    let ?i = "interval_of s t"
    obtain j sg2 where j: "io_jitter io ?i sg1 = (j, sg2)" by (cases "io_jitter io ?i sg1")
    have "0 \<le> boundedJitter ?i j"
      using jit [OF j] v [of t] by (intro boundedJitter_bounds) (auto simp: duration_defs)
    moreover have "sn_captured sn + cs_minimum s \<le> fst (nextScheduledAttempt
        (targetWithoutPersistedAttempt (t\<lparr>st_latest := sn, st_state := succeeded_state (st_state t) now\<rparr>)) s now)"
      if "sn_captured sn \<noteq> 0"
      using next_floor [of s "targetWithoutPersistedAttempt (t\<lparr>st_latest := sn,
          st_state := succeeded_state (st_state t) now\<rparr>)" now] that
      by (simp add: paced_def targetWithoutPersistedAttempt_def)
    ultimately show ?thesis
      using assms(5) r Inr j m planned_add [of ?i j] jit [OF j] v [of t] next_floor [OF assms(4)]
      by (auto simp: collect_def Let_def paced_def split: if_splits intro: order_trans)
  qed
qed

section \<open>A sample\<close>

text \<open>Six profiles that were never collected; the source of one is out of order. The state counts the calls.\<close>

definition sample_target :: "string \<Rightarrow> schedule_target" where
  "sample_target a = \<lparr>st_profile = \<lparr>tg_id = a, tg_alias = a, tg_home = [], tg_login = [], tg_workspace = [],
     tg_selected = False, tg_eligible = True\<rparr>, st_active = False, st_latest = no_snapshot,
     st_state = \<lparr>ss_last = 0, ss_next = 0, ss_failures = 0, ss_outcome = []\<rparr>\<rparr>"

definition sample_io :: "nat schedule_io" where
  "sample_io = \<lparr>io_settings = \<lambda>n. (Inr DefaultCollectionSettings, n),
     io_targets = \<lambda>n. (Inr (map sample_target [''f'', ''e'', ''d'', ''c'', ''b'', ''a'']), n),
     io_save = \<lambda>i st n. (None, n),
     io_refresh = \<lambda>a trigger n. (if a = ''b'' then Inl (plain ErrCollectionFailed)
        else Inr (no_snapshot\<lparr>sn_captured := 100\<rparr>), Suc n),
     io_jitter = \<lambda>d n. (7, n)\<rparr>"

definition sample_scheduler :: "scheduler \<times> nat" where
  "sample_scheduler = (\<lparr>sd_running = False, sd_cursor = 5\<rparr>, 0)"

theorem tick_limits_witness:
  "tr_collected (fst (fst (Tick sample_io 100 sample_scheduler))) \<le> 4
   \<and> sd_cursor (fst (snd (Tick sample_io 100 sample_scheduler))) = 9"
proof -
  obtain r x sd' sg' where t: "Tick sample_io 100 sample_scheduler = ((r, x), sd', sg')"
    by (metis surj_pair)
  have "sd_cursor (fst (snd (Tick sample_io 100 sample_scheduler))) = 9" by code_simp
  then show ?thesis
    using tick_limits [OF t [unfolded sample_scheduler_def]] t by (simp add: sample_scheduler_def)
qed

text \<open>With the cursor at the sixth position, the profile \<open>d\<close> is collected by the ticks.\<close>

theorem rotation_reaches_every_target_witness:
  "''d'' \<in> set (snd (snd (tick_run (noting sample_io) (\<lambda>k. 100) 6 (\<lparr>sd_running = False, sd_cursor = 5\<rparr>, 0, []))))"
proof -
  let ?run = "\<lambda>k. tick_run (noting sample_io) (\<lambda>k. 100) k (\<lparr>sd_running = False, sd_cursor = 5\<rparr>, 0, [])"
  let ?names = "[''a'', ''b'', ''c'', ''d'', ''e'', ''f'']"
  have all: "list_all (\<lambda>k. snd (fst (Tick (noting sample_io) 100 (?run k))) = None
      \<and> \<not> tr_coalesced (fst (fst (Tick (noting sample_io) 100 (?run k))))) [0, 1, 2, 3, 4, 5]"
    by code_simp
  have targets: "map sample_target [''f'', ''e'', ''d'', ''c'', ''b'', ''a''] = ts" "s = DefaultCollectionSettings"
    if "tick_reads sample_io g = Some (s, ts)" for g s ts
    using that by (simp_all add: tick_reads_def sample_io_def)
  have sorted: "map alias_of (tick_targets (map sample_target [''f'', ''e'', ''d'', ''c'', ''b'', ''a''])) = ?names"
    by code_simp
  have due: "list_all (\<lambda>t. fst (nextScheduledAttempt t DefaultCollectionSettings 100) \<le> 100)
      (map sample_target [''f'', ''e'', ''d'', ''c'', ''b'', ''a''])" by code_simp
  have "''d'' \<in> set (snd (snd (?run (length ?names))))"
  proof (rule rotation_reaches_every_target)
    fix k :: nat
    assume "k < length ?names"
    then have "k \<in> set [0, 1, 2, 3, 4, 5]" by auto
    then show "snd (fst (Tick (noting sample_io) 100 (?run k))) = None
        \<and> \<not> tr_coalesced (fst (fst (Tick (noting sample_io) 100 (?run k))))"
      using all unfolding list_all_iff by blast
  next
    fix k s ts assume "tick_reads sample_io (fst (snd (?run k))) = Some (s, ts)"
    from targets(1) [OF this] sorted show "map alias_of (tick_targets ts) = ?names" by simp
  next
    fix k s ts t assume "tick_reads sample_io (fst (snd (?run k))) = Some (s, ts)" "t \<in> set ts"
    then show "fst (nextScheduledAttempt t s 100) \<le> 100" using targets [of _ s ts] due unfolding list_all_iff by blast
  qed simp_all
  moreover have "length ?names = 6" by simp
  ultimately show ?thesis by (simp only:)
qed

theorem provider_minimum_is_kept_witness:
  "\<exists>st n. collect sample_io DefaultCollectionSettings 100 (sample_target ''b'') TriggerPeriodicIdle 0 = ((True, st), n)
    \<and> 100 + ProviderSafeMinimum \<le> ss_next st"
proof -
  let ?c = "collect sample_io DefaultCollectionSettings 100 (sample_target ''b'') TriggerPeriodicIdle 0"
  have "fst (fst ?c)" by code_simp
  then obtain st n where c: "?c = ((True, st), n)" by (metis prod.collapse)
  have "ValidateCollectionSettings DefaultCollectionSettings" by code_simp
  moreover have "cs_minimum DefaultCollectionSettings \<noteq> 0" by code_simp
  moreover have "\<And>d sg. min_duration < fst (io_jitter sample_io d sg) \<and> fst (io_jitter sample_io d sg) \<le> max_duration"
    by (simp add: sample_io_def min_duration_def max_duration_def)
  moreover have "paced DefaultCollectionSettings (sample_target ''b'')"
    by (simp add: paced_def sample_target_def)
  ultimately have "case fst (io_refresh sample_io (tg_alias (st_profile (sample_target ''b''))) TriggerPeriodicIdle 0) of
      Inl x \<Rightarrow> 100 + ProviderSafeMinimum \<le> ss_next st | Inr sn \<Rightarrow> True"
    using provider_minimum_is_kept [OF _ _ _ _ c] by (auto split: sum.splits)
  then show ?thesis using c by (simp add: sample_io_def sample_target_def)
qed

end
