(* ===== verification/Usage_Properties.thy ===== *)
theory Usage_Properties
  imports Usage_Model "HOL-Library.Sublist"
begin

text \<open>
  Properties of usage snapshots: freshness, what finalizing establishes and that it is idempotent, and
  how the evidence of several profiles is combined.
\<close>

section \<open>Freshness\<close>

lemma freshness_rule:
  "FreshnessAt captured now = (if now < captured then None
   else Some (if now - captured \<le> 10 * Minute then FreshnessFresh else FreshnessStale,
     min max_duration (now - captured) div Second))"
proof (cases "now < captured")
  case False
  then have "time_Sub now captured = min max_duration (now - captured)"
    by (auto simp: time_Sub_def min_duration_def max_duration_def)
  then show ?thesis
    using False
    by (auto simp: FreshnessAt_def Let_def freshnessLimit_def quot_nonneg Second_def Minute_def max_duration_def
        min_def)
qed (simp add: FreshnessAt_def time_Sub_neg Let_def)

section \<open>Projection of the quota windows\<close>

text \<open>Evidence of a provider's quota window.\<close>

definition quota_evidence :: "observation \<Rightarrow> bool" where
  "quota_evidence ob \<longleftrightarrow> mt_scope (ob_metric ob) = ''provider_quota_window'' \<and> ob_provenance ob = ProvenanceProvider
     \<and> ob_start ob \<noteq> None \<and> ob_end ob \<noteq> None"

lemma selected_from:
  assumes "foldl (select_window now) sel obs k = Some w"
  shows "sel k = Some w \<or>
    (\<exists>ob\<in>set obs. quota_evidence ob \<and> key_of ob = k \<and> ob_start ob = Some (sw_start w) \<and> ob_end ob = Some (sw_end w))"
  using assms
proof (induction obs arbitrary: sel)
  case (Cons ob obs)
  have "select_window now sel ob k = Some w \<Longrightarrow> sel k = Some w \<or>
      (quota_evidence ob \<and> key_of ob = k \<and> ob_start ob = Some (sw_start w) \<and> ob_end ob = Some (sw_end w))"
    by (auto simp: select_window_def quota_evidence_def Let_def split: if_splits option.splits)
  with Cons show ?case by fastforce
qed simp

lemma selected_from_all:
  "selected_windows now obs k = Some w \<Longrightarrow>
    \<exists>ob\<in>set obs. quota_evidence ob \<and> key_of ob = k \<and> ob_start ob = Some (sw_start w) \<and> ob_end ob = Some (sw_end w)"
  unfolding selected_windows_def by (drule selected_from) auto

text \<open>The window of an observation contains the instant; a selected window is such a one if any is.\<close>

definition runs_at :: "time \<Rightarrow> observation \<Rightarrow> bool" where
  "runs_at now ob \<longleftrightarrow> (\<exists>s e. ob_start ob = Some s \<and> ob_end ob = Some e \<and> s \<le> now \<and> now < e)"

lemma select_window_active:
  assumes "\<And>w. sel k = Some w \<Longrightarrow> sw_active w \<longleftrightarrow> sw_start w \<le> now \<and> now < sw_end w"
    and "select_window now sel ob k = Some w"
  shows "sw_active w \<longleftrightarrow> sw_start w \<le> now \<and> now < sw_end w"
    and "quota_evidence ob \<Longrightarrow> key_of ob = k \<Longrightarrow> runs_at now ob \<Longrightarrow> sw_active w"
    and "sel k = Some u \<Longrightarrow> sw_active u \<Longrightarrow> sw_active w"
  using assms
  by (auto simp: select_window_def quota_evidence_def runs_at_def Let_def split: if_splits option.splits)

lemma selected_active:
  assumes "foldl (select_window now) sel obs k = Some w"
    and "\<And>w. sel k = Some w \<Longrightarrow> sw_active w \<longleftrightarrow> sw_start w \<le> now \<and> now < sw_end w"
  shows "(sw_active w \<longleftrightarrow> sw_start w \<le> now \<and> now < sw_end w)
    \<and> ((\<exists>ob\<in>set obs. quota_evidence ob \<and> key_of ob = k \<and> runs_at now ob) \<or> (\<exists>u. sel k = Some u \<and> sw_active u) \<longrightarrow> sw_active w)"
  using assms
proof (induction obs arbitrary: sel)
  case (Cons ob obs)
  let ?sel = "select_window now sel ob"
  have ok: "sw_active v \<longleftrightarrow> sw_start v \<le> now \<and> now < sw_end v" if "?sel k = Some v" for v
    using select_window_active(1) [OF Cons.prems(2) that] .
  have ih: "(sw_active w \<longleftrightarrow> sw_start w \<le> now \<and> now < sw_end w)
    \<and> ((\<exists>ob\<in>set obs. quota_evidence ob \<and> key_of ob = k \<and> runs_at now ob) \<or> (\<exists>u. ?sel k = Some u \<and> sw_active u) \<longrightarrow> sw_active w)"
  proof (rule Cons.IH)
    show "foldl (select_window now) ?sel obs k = Some w" using Cons.prems(1) by simp
  qed (rule ok)
  have "\<exists>u. ?sel k = Some u \<and> sw_active u"
    if "quota_evidence ob \<and> key_of ob = k \<and> runs_at now ob \<or> (\<exists>u. sel k = Some u \<and> sw_active u)"
  proof (cases "?sel k")
    case None
    then show ?thesis using that by (auto simp: select_window_def quota_evidence_def Let_def split: if_splits option.splits)
  next
    case (Some v)
    then show ?thesis using select_window_active(2,3) [OF Cons.prems(2) Some] that by blast
  qed
  with ih show ?case by (intro conjI impI) (blast, metis list.set_intros(1) set_ConsD)
qed auto

lemma selected_runs:
  assumes "selected_windows now obs k = Some w" "ob \<in> set obs" "quota_evidence ob" "key_of ob = k" "runs_at now ob"
  shows "sw_start w \<le> now \<and> now < sw_end w"
  using selected_active [OF assms(1) [unfolded selected_windows_def]] assms(2-5) by blast

lemma select_window_some:
  "select_window now sel ob k = None \<longleftrightarrow> sel k = None \<and> \<not> (quota_evidence ob \<and> key_of ob = k)"
  by (auto simp: select_window_def quota_evidence_def Let_def split: option.splits)

lemma selected_none:
  "foldl (select_window now) sel obs k = None \<longleftrightarrow>
    sel k = None \<and> (\<forall>ob\<in>set obs. \<not> (quota_evidence ob \<and> key_of ob = k))"
proof (induction obs arbitrary: sel)
  case (Cons ob obs)
  then show ?case by (auto simp: select_window_some)
qed simp

lemma selected_None:
  "selected_windows now obs k = None \<longleftrightarrow> (\<forall>ob\<in>set obs. \<not> (quota_evidence ob \<and> key_of ob = k))"
  by (simp add: selected_windows_def selected_none)

lemma in_projection:
  "ob \<in> set (projectCurrentQuotaWindows obs now) \<longleftrightarrow> ob \<in> set obs \<and>
    (case selected_windows now obs (key_of ob) of None \<Rightarrow> True
     | Some w \<Rightarrow> ob_start ob = Some (sw_start w) \<and> ob_end ob = Some (sw_end w))"
  by (simp add: projectCurrentQuotaWindows_def Let_def)

lemma projection_one_window:
  assumes "ob \<in> set (projectCurrentQuotaWindows obs now)" "ob' \<in> set (projectCurrentQuotaWindows obs now)"
    and "quota_evidence ob" "key_of ob' = key_of ob"
  shows "ob_start ob' = ob_start ob \<and> ob_end ob' = ob_end ob"
proof -
  have "selected_windows now obs (key_of ob) \<noteq> None"
    using assms(1,3) by (auto simp: in_projection selected_None)
  then show ?thesis using assms(1,2,4) by (auto simp: in_projection)
qed

lemma projection_idem: "projectCurrentQuotaWindows (projectCurrentQuotaWindows obs now) now
   = projectCurrentQuotaWindows obs now"
proof -
  let ?ps = "projectCurrentQuotaWindows obs now"
  have "case selected_windows now ?ps (key_of ob) of None \<Rightarrow> True
      | Some w \<Rightarrow> ob_start ob = Some (sw_start w) \<and> ob_end ob = Some (sw_end w)" if ob: "ob \<in> set ?ps" for ob
  proof (cases "selected_windows now ?ps (key_of ob)")
    case (Some w)
    from selected_from_all [OF Some] obtain p where p: "p \<in> set ?ps" "key_of p = key_of ob"
      "ob_start p = Some (sw_start w)" "ob_end p = Some (sw_end w)" by blast
    from Some obtain q where "q \<in> set ?ps" "quota_evidence q" "key_of q = key_of ob"
      using selected_None [of now ?ps "key_of ob"] by auto
    from projection_one_window [OF this(1) p(1) this(2)] projection_one_window [OF this(1) ob this(2)] this(3) p Some
    show ?thesis by simp
  qed simp
  then show ?thesis
    by (subst projectCurrentQuotaWindows_def) (simp add: Let_def filter_id_conv)
qed

section \<open>Readings\<close>

text \<open>What finalizing leaves of an observation: all but its age, freshness, source, version, time zone and state.\<close>

definition reading :: "observation \<Rightarrow> observation" where
  "reading ob = (default_captured ob)\<lparr>ob_age := 0, ob_freshness := [], ob_source := [], ob_version := [],
     ob_timezone := [], ob_availability := []\<rparr>"

lemma default_fields [simp]: "ob_metric (default_captured ob) = ob_metric ob" "ob_value (default_captured ob) = ob_value ob"
  "ob_start (default_captured ob) = ob_start ob" "ob_end (default_captured ob) = ob_end ob"
  "ob_provenance (default_captured ob) = ob_provenance ob"
  by (simp_all add: default_captured_def)

lemma reading_fields:
  assumes "reading p = reading q"
  shows "ob_metric p = ob_metric q" "ob_start p = ob_start q" "ob_end p = ob_end q" "ob_provenance p = ob_provenance q"
  using assms [THEN arg_cong, of ob_metric] assms [THEN arg_cong, of ob_start] assms [THEN arg_cong, of ob_end]
    assms [THEN arg_cong, of ob_provenance]
  by (simp_all add: reading_def)

lemma reading_quota: "reading p = reading q \<Longrightarrow> quota_evidence p = quota_evidence q \<and> runs_at now p = runs_at now q"
  using reading_fields [of p q] by (simp add: quota_evidence_def runs_at_def)

section \<open>Finalizing\<close>

lemma stamp_all_ok:
  "stamp_all src ver now obs = (obs', True) \<Longrightarrow>
    list_all2 (\<lambda>ob ob'. stamp src ver now (default_captured ob) = Some ob') obs obs'"
  by (induction obs arbitrary: obs') (auto split: option.splits prod.splits)

lemma stamp_Some:
  "stamp src ver now ob = Some ob' \<longleftrightarrow> ob_captured ob \<le> now
     \<and> \<not> (ob_provenance ob = ProvenanceEstimated \<and> ob_assumptions ob = [] \<and> ob_uncertainty ob = [])
     \<and> ob' = ob\<lparr>ob_age := min max_duration (now - ob_captured ob) div Second,
          ob_freshness := (if now - ob_captured ob \<le> 10 * Minute then FreshnessFresh else FreshnessStale),
          ob_source := (if ob_source ob = [] then src else ob_source ob),
          ob_version := (if ob_version ob = [] then ver else ob_version ob),
          ob_timezone := (if ob_timezone ob = [] \<and> (ob_start ob \<noteq> None \<or> ob_end ob \<noteq> None) then ''UTC''
                          else ob_timezone ob)\<rparr>"
  unfolding stamp_def freshness_rule by (cases "now < ob_captured ob") (simp_all, blast)

lemma stamp_fields:
  assumes "stamp src ver now ob = Some ob'"
  shows "ob_captured ob' = ob_captured ob" "ob_observed ob' = ob_observed ob" "ob_captured ob \<le> now"
    "ob_age ob' = min max_duration (now - ob_captured ob) div Second"
    "ob_freshness ob' = FreshnessFresh \<longleftrightarrow> now - ob_captured ob \<le> 10 * Minute"
    "\<not> (ob_provenance ob' = ProvenanceEstimated \<and> ob_assumptions ob' = [] \<and> ob_uncertainty ob' = [])"
  using assms by (simp_all add: stamp_Some)

lemma stamp_again:
  assumes "stamp src ver now (default_captured ob) = Some ob'"
  shows "default_captured ob' = ob'" "stamp src ver now ob' = Some ob'"
proof -
  have "default_captured (default_captured ob) = default_captured ob"
    by (simp add: default_captured_def)
  then show "default_captured ob' = ob'"
    using stamp_fields(1,2) [OF assms] by (simp add: default_captured_def split: if_splits)
  show "stamp src ver now ob' = Some ob'"
    using assms by (simp add: stamp_Some)
qed

lemma default_set [simp]: "default_captured (ob\<lparr>ob_availability := s\<rparr>) = (default_captured ob)\<lparr>ob_availability := s\<rparr>"
  by (simp add: default_captured_def)

lemma stamp_set:
  "stamp src ver now ob = Some p \<Longrightarrow> stamp src ver now (ob\<lparr>ob_availability := s\<rparr>) = Some (p\<lparr>ob_availability := s\<rparr>)"
  by (simp add: stamp_Some)

definition stamped :: "string \<Rightarrow> string \<Rightarrow> time \<Rightarrow> observation \<Rightarrow> bool" where
  "stamped src ver now ob \<longleftrightarrow> default_captured ob = ob \<and> stamp src ver now ob = Some ob"

lemma take_state_cases: "\<exists>s. take_state as ob = ob\<lparr>ob_availability := s\<rparr>"
  by (auto simp: take_state_def split: option.split intro: exI [of _ "ob_availability ob"])

lemma stamped_take_state: "stamped src ver now ob \<Longrightarrow> stamped src ver now (take_state as ob)"
proof -
  assume s: "stamped src ver now ob"
  obtain s where "take_state as ob = ob\<lparr>ob_availability := s\<rparr>" using take_state_cases by blast
  moreover from s have "default_captured ob = ob" "stamp src ver now ob = Some ob" by (simp_all add: stamped_def)
  ultimately show ?thesis using stamp_set [of src ver now ob ob s] by (simp add: stamped_def)
qed

lemma stamp_all_stamped:
  "stamp_all src ver now obs = (obs', True) \<Longrightarrow> ob \<in> set obs' \<Longrightarrow> stamped src ver now ob"
proof (induction obs arbitrary: obs')
  case (Cons p obs)
  from Cons.prems(1) obtain p' obs1 where "stamp src ver now (default_captured p) = Some p'"
    "stamp_all src ver now obs = (obs1, True)" "obs' = p' # obs1"
    by (cases "stamp src ver now (default_captured p)"; cases "stamp_all src ver now obs") simp_all
  moreover from stamp_again [OF this(1)] have "stamped src ver now p'" unfolding stamped_def by blast
  ultimately show ?case using Cons.IH Cons.prems(2) by auto
qed simp

lemma stamp_all_id: "list_all (stamped src ver now) obs \<Longrightarrow> stamp_all src ver now obs = (obs, True)"
  by (induction obs) (auto simp: stamped_def)

lemma take_state_fields [simp]:
  "ob_metric (take_state as ob) = ob_metric ob" "ob_value (take_state as ob) = ob_value ob"
  "ob_freshness (take_state as ob) = ob_freshness ob" "ob_captured (take_state as ob) = ob_captured ob"
  "ob_start (take_state as ob) = ob_start ob" "ob_end (take_state as ob) = ob_end ob"
  "ob_provenance (take_state as ob) = ob_provenance ob" "ob_assumptions (take_state as ob) = ob_assumptions ob"
  "ob_uncertainty (take_state as ob) = ob_uncertainty ob"
  by (auto simp: take_state_def split: option.split)

lemma select_window_take_state [simp]:
  "select_window now sel (take_state as ob) = select_window now sel ob"
  by (simp add: select_window_def Let_def cong: option.case_cong if_cong)

lemma project_take_state:
  "projectCurrentQuotaWindows (map (take_state as) obs) now = map (take_state as) (projectCurrentQuotaWindows obs now)"
proof -
  have "selected_windows now (map (take_state as) obs) = selected_windows now obs"
    by (simp add: selected_windows_def foldl_map)
  then show ?thesis by (simp add: projectCurrentQuotaWindows_def Let_def filter_map comp_def cong: option.case_cong)
qed

lemma of_key_take_state: "of_key k (map (take_state as) obs) = map (take_state as) (of_key k obs)"
  by (simp add: of_key_def filter_map comp_def)

lemma judge_take_state [simp]: "judge (map (take_state as) obs) a = judge obs a"
proof -
  have "contradictory_key k (map (take_state as) obs) = contradictory_key k obs" for k
    by (cases "of_key k obs") (simp_all add: contradictory_key_def of_key_take_state list_ex_iff)
  moreover have "fresh_key k (map (take_state as) obs) = fresh_key k obs" for k
    by (simp add: fresh_key_def of_key_take_state list_ex_iff)
  ultimately show ?thesis by (simp add: judge_def of_key_take_state)
qed

lemma judge_last_take_state [simp]: "judge_last (map (take_state as) obs) bs = judge_last obs bs"
  by (induction bs) simp_all

lemma judge_key [simp]: "av_key (judge obs a) = av_key a"
  by (simp add: judge_def)

lemma judge_last_keys: "map av_key (judge_last obs as) = map av_key as"
  by (induction as) auto

lemma judge_last_key_set: "av_key ` set (judge_last obs as) = av_key ` set as"
  using judge_last_keys [of obs as] by (metis list.set_map)

lemma judge_judge [simp]: "judge obs (judge obs a) = judge obs a"
  by (simp add: judge_def)

lemma judge_last_idem: "judge_last obs (judge_last obs as) = judge_last obs as"
  by (induction as) (simp_all add: judge_last_key_set)

lemma give_reason_idem [simp]: "give_reason (give_reason a) = give_reason a"
  by (simp add: give_reason_def)

lemma give_reason_judge: "give_reason (judge obs (give_reason a)) = judge obs (give_reason a)"
proof -
  have "judge obs b = b \<or> av_reason (judge obs b) \<noteq> []" for b by (simp add: judge_def)
  moreover have "av_reason b \<noteq> [] \<Longrightarrow> give_reason b = b" for b by (simp add: give_reason_def)
  ultimately show ?thesis by (metis give_reason_idem)
qed

lemma give_reason_judge_last: "map give_reason (judge_last obs (map give_reason as)) = judge_last obs (map give_reason as)"
  by (induction as) (simp_all add: give_reason_judge)

lemma take_state_again: "take_state as (take_state as ob) = take_state as ob"
  by (cases "state_of as (key_of ob)") (simp_all add: take_state_def)

lemma finalize_ok:
  assumes "finalizeSnapshot sn now = (sn', True)"
  obtains obs as where "list_all (stamped (sn_source sn) (sn_version sn) now) obs"
    "projectCurrentQuotaWindows obs now = obs" "as = judge_last obs (map give_reason (sn_availability sn))"
    "sn' = sn\<lparr>sn_availability := as, sn_observations := map (take_state as) obs, sn_status := snapshotStatus as\<rparr>"
proof -
  obtain obs0 where s: "stamp_all (sn_source sn) (sn_version sn) now (sn_observations sn) = (obs0, True)"
    using assms by (auto simp: finalizeSnapshot_def Let_def split: prod.splits bool.splits)
  let ?obs = "projectCurrentQuotaWindows obs0 now"
  have "list_all (stamped (sn_source sn) (sn_version sn) now) ?obs"
    using stamp_all_stamped [OF s] by (auto simp: list_all_iff in_projection)
  then show thesis
    using assms s that [OF _ projection_idem refl, of obs0] by (simp add: finalizeSnapshot_def Let_def)
qed

text \<open>Finalizing is idempotent: a finalized snapshot, finalized again at the same instant, stays as it is.
  So it does not matter that a snapshot is finalized when it is collected and again when it is read.\<close>

theorem finalize_is_idempotent:
  assumes "finalizeSnapshot sn now = (sn', True)"
  shows "finalizeSnapshot sn' now = (sn', True)"
  using assms
proof (cases rule: finalize_ok)
  case (1 obs as)
  have "list_all (stamped (sn_source sn) (sn_version sn) now) (map (take_state as) obs)"
    using 1(1) by (auto simp: list_all_iff stamped_take_state)
  then show ?thesis
    using 1(2,3) give_reason_judge_last [of obs "sn_availability sn"]
    by (simp add: finalizeSnapshot_def Let_def 1(4) stamp_all_id project_take_state judge_last_idem
        take_state_again comp_def)
qed

lemma find_judge_last:
  "find (\<lambda>a. av_key a = k) (rev (judge_last obs as)) = map_option (judge obs) (find (\<lambda>a. av_key a = k) (rev as))"
proof (induction as)
  case (Cons a as)
  show ?case
  proof (cases "find (\<lambda>a. av_key a = k) (rev as)")
    case None
    then have "k \<notin> av_key ` set as" by (auto simp: find_None)
    then show ?thesis using Cons None by (auto simp: find_append)
  next
    case (Some b)
    then show ?thesis using Cons by (simp add: find_append)
  qed
qed simp

lemma stamp_reading: "stamp src ver now (default_captured ob) = Some p \<Longrightarrow> reading p = reading ob"
  using stamp_again(1) [of src ver now ob p] by (simp add: reading_def stamp_Some)

lemma stamp_all_reading: "stamp_all src ver now obs = (obs', True) \<Longrightarrow> map reading obs' = map reading obs"
  by (induction obs arbitrary: obs') (auto split: option.splits prod.splits simp: stamp_reading)

lemma take_state_reading [simp]: "reading (take_state as ob) = reading ob"
  using take_state_cases [of as ob] by (auto simp: reading_def default_captured_def)

lemma finalize_readings:
  assumes "finalizeSnapshot sn now = (sn', True)"
  shows "subseq (map reading (sn_observations sn')) (map reading (sn_observations sn))"
    and "\<forall>ob\<in>set (sn_observations sn). reading ob \<notin> reading ` set (sn_observations sn') \<longrightarrow>
      (\<exists>p\<in>set (sn_observations sn'). quota_evidence p \<and> key_of p = key_of ob \<and> (ob_start p, ob_end p) \<noteq> (ob_start ob, ob_end ob))"
    and "\<forall>ob\<in>set (sn_observations sn). \<forall>p\<in>set (sn_observations sn').
      quota_evidence ob \<and> runs_at now ob \<and> key_of p = key_of ob \<longrightarrow> runs_at now p"
proof -
  obtain obs0 where s: "stamp_all (sn_source sn) (sn_version sn) now (sn_observations sn) = (obs0, True)"
    using assms by (auto simp: finalizeSnapshot_def Let_def split: prod.splits bool.splits)
  define ps where "ps = projectCurrentQuotaWindows obs0 now"
  obtain as where sn': "sn_observations sn' = map (take_state as) ps"
    using assms s that [of "judge_last ps (map give_reason (sn_availability sn))"]
    by (auto simp: finalizeSnapshot_def Let_def ps_def)
  note r = stamp_all_reading [OF s]
  have readings: "map reading (sn_observations sn') = map reading ps" by (simp add: sn' comp_def)
  have "subseq ps obs0" by (simp add: ps_def projectCurrentQuotaWindows_def Let_def)
  then show "subseq (map reading (sn_observations sn')) (map reading (sn_observations sn))"
    unfolding readings r [symmetric] by (rule subseq_map)
  have origin: "\<exists>q\<in>set obs0. reading q = reading ob" if "ob \<in> set (sn_observations sn)" for ob
    using arg_cong [OF r, of set] that by (auto simp: image_iff) (metis image_iff)
  have forth: "\<exists>p\<in>set (sn_observations sn'). reading p = reading q" if "q \<in> set ps" for q
    using that by (auto simp: sn')
  have forms: "\<exists>q\<in>set ps. reading p = reading q" if "p \<in> set (sn_observations sn')" for p
    using that by (auto simp: sn')
  show "\<forall>ob\<in>set (sn_observations sn). reading ob \<notin> reading ` set (sn_observations sn') \<longrightarrow>
      (\<exists>p\<in>set (sn_observations sn'). quota_evidence p \<and> key_of p = key_of ob \<and> (ob_start p, ob_end p) \<noteq> (ob_start ob, ob_end ob))"
  proof (intro ballI impI)
    fix ob assume "ob \<in> set (sn_observations sn)" and gone: "reading ob \<notin> reading ` set (sn_observations sn')"
    then obtain q where q: "q \<in> set obs0" "reading q = reading ob" using origin by blast
    have "q \<notin> set ps" using forth [of q] gone q(2) by (metis imageI)
    then obtain w where w: "selected_windows now obs0 (key_of q) = Some w"
      "(ob_start q, ob_end q) \<noteq> (Some (sw_start w), Some (sw_end w))"
      using q(1) by (auto simp: ps_def in_projection split: option.splits)
    obtain p where p: "p \<in> set obs0" "quota_evidence p" "key_of p = key_of q" "ob_start p = Some (sw_start w)"
      "ob_end p = Some (sw_end w)" using selected_from_all [OF w(1)] by blast
    then have "p \<in> set ps" using w(1) by (simp add: ps_def in_projection)
    then obtain p' where p': "p' \<in> set (sn_observations sn')" "reading p' = reading p" using forth by blast
    have "quota_evidence p'" "key_of p' = key_of ob" "(ob_start p', ob_end p') \<noteq> (ob_start ob, ob_end ob)"
      using p w(2) reading_fields [OF p'(2)] reading_fields [OF q(2)] reading_quota [OF p'(2)] by auto
    with p'(1) show "\<exists>p\<in>set (sn_observations sn'). quota_evidence p \<and> key_of p = key_of ob
        \<and> (ob_start p, ob_end p) \<noteq> (ob_start ob, ob_end ob)" by blast
  qed
  show "\<forall>ob\<in>set (sn_observations sn). \<forall>p\<in>set (sn_observations sn').
      quota_evidence ob \<and> runs_at now ob \<and> key_of p = key_of ob \<longrightarrow> runs_at now p"
  proof (intro ballI impI)
    fix ob p assume ob: "ob \<in> set (sn_observations sn)" and p: "p \<in> set (sn_observations sn')"
      and run: "quota_evidence ob \<and> runs_at now ob \<and> key_of p = key_of ob"
    obtain q where q: "q \<in> set obs0" "reading q = reading ob" using origin [OF ob] by blast
    obtain u where u: "u \<in> set ps" "reading p = reading u" using forms [OF p] by blast
    have qq: "quota_evidence q" "runs_at now q" "key_of u = key_of q"
      using run reading_fields [OF q(2)] reading_quota [OF q(2), of now] reading_fields [OF u(2)] by simp_all
    then obtain w where w: "selected_windows now obs0 (key_of q) = Some w"
      using selected_None [of now obs0 "key_of q"] q(1) by (cases "selected_windows now obs0 (key_of q)") auto
    have "ob_start u = Some (sw_start w)" "ob_end u = Some (sw_end w)"
      using u(1) w qq(3) by (simp_all add: ps_def in_projection)
    then have "runs_at now u" using selected_runs [OF w q(1) qq(1) refl qq(2)] by (simp add: runs_at_def)
    then show "runs_at now p" using reading_quota [OF u(2), of now] by simp
  qed
qed

text \<open>The status that a list of states gives.\<close>

lemma status_loop_cases:
  "status_loop s as = (if \<exists>a\<in>set as. av_state a = AvailabilityContradictory then AvailabilityContradictory
     else if \<forall>a\<in>set as. av_state a = s then s else AvailabilityPartial)"
  by (induction as arbitrary: s) auto

lemma snapshot_status_cases:
  "snapshotStatus as = (if as = [] then AvailabilityUnsupported
     else if \<exists>a\<in>set as. av_state a = AvailabilityContradictory then AvailabilityContradictory
     else if \<forall>a\<in>set as. \<forall>b\<in>set as. av_state a = av_state b then av_state (hd as) else AvailabilityPartial)"
proof (cases as)
  case (Cons a bs)
  have same: "(\<forall>x\<in>set as. av_state x = av_state a) \<longleftrightarrow> (\<forall>x\<in>set as. \<forall>y\<in>set as. av_state x = av_state y)"
    using Cons by (metis list.set_intros(1))
  have "snapshotStatus as = status_loop (av_state a) as" "as \<noteq> []" "hd as = a" by (simp_all add: Cons snapshotStatus_def)
  then show ?thesis by (simp only: status_loop_cases same if_False)
qed (simp add: snapshotStatus_def)

lemma take_state_availability:
  "ob_availability (take_state as ob) = AvailabilityContradictory \<or>
   state_of as (key_of ob) \<in> {None, Some (ob_availability (take_state as ob))}"
  by (auto simp: take_state_def split: option.splits)

lemma values_agree:
  "\<not> contradictory_key k obs \<Longrightarrow> q \<in> set (of_key k obs) \<Longrightarrow> ob_value q = ob_value (hd (of_key k obs))"
  by (cases "of_key k obs") (auto simp: contradictory_key_def list_ex_iff feq_def)

lemma finalized_observations:
  assumes "finalizeSnapshot sn now = (sn', True)"
  shows "(\<forall>ob\<in>set (sn_observations sn'). ob_captured ob \<le> now
      \<and> (ob_freshness ob = FreshnessFresh \<longleftrightarrow> now - ob_captured ob \<le> 10 * Minute)
      \<and> ob_age ob = min max_duration (now - ob_captured ob) div Second
      \<and> \<not> (ob_provenance ob = ProvenanceEstimated \<and> ob_assumptions ob = [] \<and> ob_uncertainty ob = []))
    \<and> (\<forall>ob\<in>set (sn_observations sn'). \<forall>p\<in>set (sn_observations sn'). quota_evidence ob \<and> key_of p = key_of ob \<longrightarrow>
         ob_start p = ob_start ob \<and> ob_end p = ob_end ob)
    \<and> (\<forall>k. state_of (sn_availability sn') k = Some AvailabilityAvailable \<and> of_key k (sn_observations sn') \<noteq> [] \<longrightarrow>
         fresh_key k (sn_observations sn')
         \<and> (\<exists>v. \<forall>ob\<in>set (of_key k (sn_observations sn')). ob_value ob = v))
    \<and> (\<forall>ob\<in>set (sn_observations sn'). ob_availability ob = AvailabilityContradictory
         \<or> state_of (sn_availability sn') (key_of ob) \<in> {None, Some (ob_availability ob)})"
  using assms
proof (cases rule: finalize_ok)
  case (1 obs as)
  let ?obs = "map (take_state as) obs"
  have st: "stamped (sn_source sn) (sn_version sn) now ob" if "ob \<in> set ?obs" for ob
    using that 1(1) by (auto simp: list_all_iff stamped_take_state)
  have "ob_captured ob \<le> now \<and> (ob_freshness ob = FreshnessFresh \<longleftrightarrow> now - ob_captured ob \<le> 10 * Minute)
      \<and> ob_age ob = min max_duration (now - ob_captured ob) div Second
      \<and> \<not> (ob_provenance ob = ProvenanceEstimated \<and> ob_assumptions ob = [] \<and> ob_uncertainty ob = [])"
    if "ob \<in> set ?obs" for ob
    using st [OF that] stamp_fields [of "sn_source sn" "sn_version sn" now ob ob] unfolding stamped_def by blast
  moreover have "ob_start p = ob_start ob \<and> ob_end p = ob_end ob"
    if "ob \<in> set ?obs" "p \<in> set ?obs" "quota_evidence ob" "key_of p = key_of ob" for ob p
    using projection_one_window [of ob ?obs now p] that 1(2) by (simp add: project_take_state)
  moreover have "fresh_key k ?obs \<and> (\<exists>v. \<forall>ob\<in>set (of_key k ?obs). ob_value ob = v)"
    if k: "state_of as k = Some AvailabilityAvailable" "of_key k ?obs \<noteq> []" for k
  proof -
    obtain b where b: "av_key b = k" "av_state (judge ?obs b) = AvailabilityAvailable"
      using k(1) unfolding state_of_def 1(3) find_judge_last judge_take_state
      by (auto dest!: find_SomeD)
    then have f: "fresh_key k ?obs" "\<not> contradictory_key k ?obs"
      using k(2) by (simp_all add: judge_def split: if_splits)
    then have "\<forall>q\<in>set (of_key k ?obs). ob_value q = ob_value (hd (of_key k ?obs))"
      using values_agree by blast
    then show ?thesis using f(1) by blast
  qed
  moreover have "ob_availability ob = AvailabilityContradictory \<or> state_of as (key_of ob) \<in> {None, Some (ob_availability ob)}"
    if ob: "ob \<in> set ?obs" for ob
  proof -
    obtain q where "ob = take_state as q" using ob by auto
    then show ?thesis using take_state_availability [of as q] by simp
  qed
  moreover have f: "sn_observations sn' = ?obs" "sn_availability sn' = as" by (simp_all add: 1(4))
  ultimately show ?thesis unfolding f by blast
qed

lemma finalized_items:
  assumes "finalizeSnapshot sn now = (sn', True)"
  shows "map av_key (sn_availability sn') = map av_key (sn_availability sn)"
    and "sn_status sn' = snapshotStatus (sn_availability sn')"
  using assms by (cases rule: finalize_ok, simp add: judge_last_keys comp_def give_reason_def cong: if_cong)+


section \<open>Combining\<close>

text \<open>All additive evidence, in the order in which it is seen.\<close>

definition all_evidence :: "metric list \<Rightarrow> snapshot list \<Rightarrow> evidence list" where
  "all_evidence metrics sns =
     concat (map (\<lambda>sn. map (evidence_of sn) (filter (is_additive metrics) (sn_observations sn))) sns)"

definition conflict :: "evidence \<Rightarrow> evidence \<Rightarrow> bool" where
  "conflict p e \<longleftrightarrow> same_window p e \<and> \<not> feq (ob_value (ev_ob p)) (ob_value (ev_ob e))"

definition ev_key :: "evidence \<Rightarrow> string" where
  "ev_key e = key_of (ev_ob e)"

definition conflicting_keys :: "evidence list \<Rightarrow> string set" where
  "conflicting_keys es = {k. \<exists>us e vs p. es = us @ e # vs \<and> p \<in> set us \<and> conflict p e \<and> ev_key e = k}"

lemma conflicting_keys_Nil [simp]: "conflicting_keys [] = {}"
  by (simp add: conflicting_keys_def)

lemma conflicting_keys_snoc:
  "conflicting_keys (es @ [x]) = conflicting_keys es \<union> (if \<exists>p\<in>set es. conflict p x then {ev_key x} else {})"
proof (intro set_eqI iffI)
  fix k assume "k \<in> conflicting_keys (es @ [x])"
  then obtain us e vs p where s: "es @ [x] = us @ e # vs" "p \<in> set us" "conflict p e" "ev_key e = k"
    unfolding conflicting_keys_def by blast
  show "k \<in> conflicting_keys es \<union> (if \<exists>p\<in>set es. conflict p x then {ev_key x} else {})"
  proof (cases vs rule: rev_cases)
    case Nil then show ?thesis using s by auto
  next
    case (snoc ws y)
    then have "es = us @ e # ws" using s(1) by (metis append_Cons append_assoc butlast_snoc)
    then show ?thesis using s(2-4) unfolding conflicting_keys_def by blast
  qed
next
  fix k assume "k \<in> conflicting_keys es \<union> (if \<exists>p\<in>set es. conflict p x then {ev_key x} else {})"
  then consider us e vs p where "es = us @ e # vs" "p \<in> set us" "conflict p e" "ev_key e = k"
    | p where "p \<in> set es" "conflict p x" "k = ev_key x"
    unfolding conflicting_keys_def by (auto split: if_splits)
  then show "k \<in> conflicting_keys (es @ [x])"
  proof cases
    case 1
    then have "es @ [x] = us @ e # (vs @ [x])" by simp
    with 1 show ?thesis unfolding conflicting_keys_def by blast
  next
    case 2
    have "es @ [x] = es @ x # []" by simp
    with 2 show ?thesis unfolding conflicting_keys_def by blast
  qed
qed

text \<open>The evidence that overlaps nothing that came before it: what is counted.\<close>

definition counted :: "evidence list \<Rightarrow> evidence list" where
  "counted es = map ((!) es) (filter (\<lambda>i. \<forall>j<i. \<not> same_window (es ! j) (es ! i)) [0..<length es])"

lemma counted_Nil [simp]: "counted [] = []"
  by (simp add: counted_def)

lemma counted_snoc: "counted (es @ [x]) = counted es @ (if \<exists>p\<in>set es. same_window p x then [] else [x])"
proof -
  have "map ((!) (es @ [x])) (filter (\<lambda>i. \<forall>j<i. \<not> same_window ((es @ [x]) ! j) ((es @ [x]) ! i)) [0..<length es]) = counted es"
    unfolding counted_def by (auto simp: nth_append intro!: map_cong filter_cong)
  moreover have "(\<forall>j<length es. \<not> same_window ((es @ [x]) ! j) x) \<longleftrightarrow> \<not> (\<exists>p\<in>set es. same_window p x)"
    by (auto simp: nth_append) (metis in_set_conv_nth)
  ultimately show ?thesis by (simp add: counted_def)
qed

text \<open>\<open>combined es st\<close>: \<open>st\<close> is the state after the evidence \<open>es\<close>.\<close>

definition combined :: "evidence list \<Rightarrow> combine_state \<Rightarrow> bool" where
  "combined es st \<longleftrightarrow> cb_seen st = es \<and> cb_grouped st = counted es \<and> set (cb_grouped st) \<subseteq> set es
     \<and> sorted_wrt (\<lambda>p q. \<not> same_window p q) (cb_grouped st)
     \<and> ev_key ` set (cb_grouped st) = ev_key ` set es \<and> set (cb_ambiguous st) = conflicting_keys es"

lemma combined_step:
  assumes "combined es st" "is_additive metrics ob"
  shows "combined (es @ [evidence_of sn ob]) (combine_one metrics sn st ob)"
proof -
  let ?e = "evidence_of sn ob"
  have key: "ev_key p = ev_key ?e" if "same_window p ?e" for p
    using that by (simp add: same_window_def ev_key_def)
  have amb: "list_ex (\<lambda>p. \<not> feq (ob_value (ev_ob p)) (ob_value ob)) (filter (\<lambda>p. same_window p ?e) es)
      \<longleftrightarrow> (\<exists>p\<in>set es. conflict p ?e)"
    by (auto simp: list_ex_iff conflict_def evidence_of_def)
  have k: "key_of ob = ev_key ?e" by (simp add: ev_key_def evidence_of_def)
  show ?thesis
  proof (cases "\<exists>p\<in>set es. same_window p ?e")
    case True
    then obtain p where "p \<in> set es" "ev_key ?e = ev_key p" using key by metis
    then have "ev_key ?e \<in> ev_key ` set es" by simp
    then show ?thesis
      using assms True amb unfolding combined_def combine_one_def k
      by (auto simp: Let_def conflicting_keys_snoc counted_snoc filter_empty_conv insert_absorb)
  next
    case False
    then have "\<not> (\<exists>p\<in>set es. conflict p ?e)" by (auto simp: conflict_def)
    then show ?thesis
      using assms False amb unfolding combined_def combine_one_def k
      by (auto simp: Let_def conflicting_keys_snoc counted_snoc filter_empty_conv sorted_wrt_append)
  qed
qed

lemma combined_snapshot:
  "combined es st \<Longrightarrow>
    combined (es @ map (evidence_of sn) (filter (is_additive metrics) obs)) (foldl (combine_one metrics sn) st obs)"
proof (induction obs arbitrary: es st)
  case (Cons ob obs)
  show ?case
  proof (cases "is_additive metrics ob")
    case True
    with Cons.IH [OF combined_step [OF Cons.prems True, of sn]] show ?thesis by simp
  next
    case False
    then have "combine_one metrics sn st ob = st" by (simp add: combine_one_def)
    with Cons False show ?thesis by simp
  qed
qed simp

lemma combine_all_combined: "combined (all_evidence metrics sns) (combine_all metrics sns)"
proof -
  have "combined (es @ all_evidence metrics sns) (foldl (combine_snapshot metrics) st sns)" if "combined es st" for es st
    using that
  proof (induction sns arbitrary: es st)
    case (Cons sn sns)
    then show ?case
      using Cons.IH [OF combined_snapshot [OF Cons.prems, of sn metrics "sn_observations sn"]]
      by (simp add: all_evidence_def combine_snapshot_def)
  qed (simp add: all_evidence_def)
  moreover have "combined [] \<lparr>cb_seen = [], cb_grouped = [], cb_ambiguous = []\<rparr>" by (simp add: combined_def)
  ultimately show ?thesis unfolding combine_all_def by (metis append_Nil)
qed

lemma all_evidence_additive:
  "e \<in> set (all_evidence metrics sns) \<Longrightarrow>
    is_additive metrics (ev_ob e) \<and> (\<exists>sn\<in>set sns. ev_ob e \<in> set (sn_observations sn))"
  by (auto simp: all_evidence_def evidence_of_def)

lemma additive_metric: "is_additive metrics ob \<Longrightarrow> lookup_metric metrics (key_of ob) = Some (ob_metric ob)"
  by (auto simp: is_additive_def split: option.splits)

lemma aggregate_profiles: "length (remdups (map f xs)) = card (f ` set xs)"
  by (metis length_remdups_card_conv list.set_map)

text \<open>C32: The combined view accounts for every metric that has additive evidence, exactly once: it is ambiguous
  when two pieces of evidence for overlapping windows of one identity disagree, and an aggregate otherwise. An
  aggregate sums, in order, exactly the additive observations of its metric that overlap no earlier one of the
  same identity, whether that one was counted or itself dropped; so no two summed ones overlap, and it counts
  the profiles these are from.\<close>

theorem combined_view_counts_evidence_once:
  fixes fadd sns n metrics
  defines "v \<equiv> combineWithRegistry fadd sns n metrics" and "es \<equiv> all_evidence metrics sns"
  shows "set (da_ambiguous v) = conflicting_keys es
    \<and> (\<lambda>g. mt_key (ag_metric g)) ` set (da_aggregates v) = ev_key ` set es - conflicting_keys es
    \<and> list_all (\<lambda>g. \<exists>gs. gs = filter (\<lambda>e. ev_key e = mt_key (ag_metric g)) (counted es) \<and> gs \<noteq> []
         \<and> set gs \<subseteq> {e \<in> set es. ev_key e = mt_key (ag_metric g)}
         \<and> sorted_wrt (\<lambda>p q. \<not> same_window p q) gs
         \<and> ag_value g = foldl (\<lambda>x e. fadd x (ob_value (ev_ob e))) (Fin 0) gs
         \<and> ag_profiles g = card (ev_profile ` set gs)) (da_aggregates v)"
proof -
  let ?st = "combine_all metrics sns"
  have c: "combined es ?st" unfolding es_def by (rule combine_all_combined)
  have grouped: "cb_grouped ?st = counted es" "set (cb_grouped ?st) \<subseteq> set es"
    "sorted_wrt (\<lambda>p q. \<not> same_window p q) (cb_grouped ?st)" "ev_key ` set (cb_grouped ?st) = ev_key ` set es"
    and amb: "set (cb_ambiguous ?st) = conflicting_keys es"
    using c unfolding combined_def by blast+
  have keys: "set (group_keys ?st) = ev_key ` set es"
    using grouped(4) unfolding group_keys_def ev_key_def by simp
  have sub: "conflicting_keys es \<subseteq> ev_key ` set es" by (auto simp: conflicting_keys_def)
  have key: "mt_key (ag_metric (aggregate_of fadd metrics ?st k)) = k" if "k \<in> ev_key ` set es" for k
    using that all_evidence_additive [of _ metrics sns] additive_metric [of metrics]
    by (force simp: aggregate_of_def ev_key_def es_def)
  have part1: "set (da_ambiguous v) = conflicting_keys es"
    using keys amb sub by (auto simp: v_def combineWithRegistry_def Let_def)
  have part2: "(\<lambda>g. mt_key (ag_metric g)) ` set (da_aggregates v) = ev_key ` set es - conflicting_keys es"
    using keys amb key by (force simp: v_def combineWithRegistry_def Let_def image_image)
  have part3: "\<exists>gs. gs = filter (\<lambda>e. ev_key e = mt_key (ag_metric g)) (counted es) \<and> gs \<noteq> []
         \<and> set gs \<subseteq> {e \<in> set es. ev_key e = mt_key (ag_metric g)}
         \<and> sorted_wrt (\<lambda>p q. \<not> same_window p q) gs
         \<and> ag_value g = foldl (\<lambda>x e. fadd x (ob_value (ev_ob e))) (Fin 0) gs
         \<and> ag_profiles g = card (ev_profile ` set gs)" if g: "g \<in> set (da_aggregates v)" for g
  proof -
    obtain k where k: "k \<in> ev_key ` set es" "g = aggregate_of fadd metrics ?st k"
      using g keys by (auto simp: v_def combineWithRegistry_def Let_def)
    have "k \<in> ev_key ` set (cb_grouped ?st)" using grouped(4) k(1) by blast
    then have "group_of ?st k \<noteq> []" by (auto simp: group_of_def ev_key_def filter_empty_conv)
    moreover have "group_of ?st k = filter (\<lambda>e. ev_key e = mt_key (ag_metric g)) (counted es)"
      using grouped(1) key [OF k(1)] k(2) by (simp add: group_of_def ev_key_def)
    moreover have "set (group_of ?st k) \<subseteq> {e \<in> set es. ev_key e = mt_key (ag_metric g)}"
      using grouped(2) key [OF k(1)] k(2) by (auto simp: group_of_def ev_key_def)
    moreover have "sorted_wrt (\<lambda>p q. \<not> same_window p q) (group_of ?st k)"
      using grouped(3) by (simp add: group_of_def sorted_wrt_filter)
    moreover have "ag_value g = foldl (\<lambda>x e. fadd x (ob_value (ev_ob e))) (Fin 0) (group_of ?st k)"
      "ag_profiles g = card (ev_profile ` set (group_of ?st k))"
      by (simp_all add: k(2) aggregate_of_def aggregate_profiles)
    ultimately show ?thesis by blast
  qed
  show ?thesis using part1 part2 part3 by (simp add: list_all_iff)
qed

text \<open>A snapshot with three equal counts of tokens, for windows of which the first overlaps the second and the
  second the third.\<close>

definition sample_count :: "time \<Rightarrow> time \<Rightarrow> observation" where
  "sample_count s e = \<lparr>ob_id = [], ob_metric = Registry ! 2, ob_value = Fin 5, ob_observed = e, ob_captured = e,
     ob_age = 0, ob_start = Some s, ob_end = Some e, ob_timezone = ''UTC'', ob_source = ''local_metadata'',
     ob_version = ''1'', ob_provenance = ProvenanceLocal, ob_freshness = FreshnessFresh,
     ob_availability = AvailabilityAvailable, ob_assumptions = [], ob_uncertainty = []\<rparr>"

definition sample_snapshot :: snapshot where
  "sample_snapshot = no_snapshot\<lparr>sn_profile := ''p1'', sn_captured := 20,
     sn_observations := [sample_count 0 10, sample_count 5 15, sample_count 12 20],
     sn_availability := [\<lparr>av_id = [], av_key = ''codex.local.tokens_used'', av_state = AvailabilityAvailable,
        av_reason = [], av_checked = 20, av_provenance = ProvenanceLocal\<rparr>]\<rparr>"

text \<open>Evidence is compared with all that was seen, also with what was itself dropped as a duplicate. So a
  window that overlaps no counted window can be dropped: of three equal counts for the windows 0--10,
  5--15 and 12--20 only the first is summed, and the metric is not reported as ambiguous.\<close>

theorem overlap_with_dropped_evidence_drops:
  "\<exists>sns e. e \<in> set (all_evidence Registry sns) \<and> e \<notin> set (cb_grouped (combine_all Registry sns))
    \<and> list_all (\<lambda>p. \<not> same_window p e) (cb_grouped (combine_all Registry sns))
    \<and> cb_ambiguous (combine_all Registry sns) = []"
proof -
  let ?e = "evidence_of sample_snapshot (sample_count 12 20)"
  have "?e \<in> set (all_evidence Registry [sample_snapshot])"
    "?e \<notin> set (cb_grouped (combine_all Registry [sample_snapshot]))"
    "list_all (\<lambda>p. \<not> same_window p ?e) (cb_grouped (combine_all Registry [sample_snapshot]))"
    "cb_ambiguous (combine_all Registry [sample_snapshot]) = []"
    by code_simp+
  then show ?thesis by blast
qed


theorem finalize_is_idempotent_witness:
  "finalizeSnapshot (fst (finalizeSnapshot sample_snapshot 30)) 30 = (fst (finalizeSnapshot sample_snapshot 30), True)"
proof -
  have "snd (finalizeSnapshot sample_snapshot 30)" by code_simp
  then show ?thesis
    using finalize_is_idempotent [of sample_snapshot 30 "fst (finalizeSnapshot sample_snapshot 30)"]
    by (metis prod.collapse)
qed

end
