(* ===== verification/Go_Time.thy ===== *)
theory Go_Time
  imports Store_State
begin

text \<open>
  Instants as texts: \<open>formatStoredTime\<close> of \<^verbatim>\<open>internal/store/secure.go\<close> (RFC 3339 in UTC with the fraction's
  trailing zeros dropped, years 0 to 9999) and the order \<open>rtrim(column, 'Z')\<close> gives such texts in SQL.
\<close>

section \<open>Calendar\<close>

definition leap_year :: "int \<Rightarrow> bool" where
  "leap_year y \<longleftrightarrow> y mod 4 = 0 \<and> (y mod 100 \<noteq> 0 \<or> y mod 400 = 0)"

definition month_lengths :: "int \<Rightarrow> int list" where
  "month_lengths y = [31, if leap_year y then 29 else 28, 31, 30, 31, 30, 31, 31, 30, 31, 30, 31]"

fun month_day :: "int list \<Rightarrow> int \<Rightarrow> int \<Rightarrow> int \<times> int" where
  "month_day [] m d = (m, d + 1)"
| "month_day (l # ls) m d = (if d < l then (m, d + 1) else month_day ls (m + 1) (d - l))"

text \<open>Year, month and day of the day with number \<open>d\<close>, counted from 1 January of the year 1.\<close>

definition civil :: "int \<Rightarrow> int \<times> int \<times> int" where
  "civil d =
     (let r = d mod 146097; n100 = min 3 (r div 36524); r2 = r - n100 * 36524;
          r3 = r2 mod 1461; n1 = min 3 (r3 div 365);
          y = 400 * (d div 146097) + 100 * n100 + 4 * (r2 div 1461) + n1 + 1
      in (y, month_day (month_lengths y) 1 (r3 - n1 * 365)))"

section \<open>Texts\<close>

text \<open>The \<open>k\<close> last decimal digits of a number, most significant first.\<close>

fun digits :: "nat \<Rightarrow> int \<Rightarrow> nat list" where
  "digits 0 n = []"
| "digits (Suc k) n = nat (n div 10 ^ k mod 10) # digits k n"

definition padded :: "nat \<Rightarrow> int \<Rightarrow> string" where
  "padded k i = map (\<lambda>d. char_of (48 + d)) (digits k i)"

definition strip_zeros :: "nat list \<Rightarrow> nat list" where
  "strip_zeros ds = rev (dropWhile (\<lambda>d. d = 0) (rev ds))"

definition fraction :: "int \<Rightarrow> nat list" where
  "fraction ns =
     (let ds = strip_zeros (digits 9 ns) in if ds = [] then [] else 46 # map (\<lambda>d. 48 + d) ds)"

definition formatStoredTime :: "time \<Rightarrow> string" where
  "formatStoredTime t =
     (let s = t div Second; sod = s mod 86400 in
      case civil (s div 86400) of (y, m, d) \<Rightarrow>
        padded 4 y @ ''-'' @ padded 2 m @ ''-'' @ padded 2 d @ ''T'' @ padded 2 (sod div 3600) @ '':''
          @ padded 2 (sod div 60 mod 60) @ '':'' @ padded 2 (sod mod 60)
          @ map char_of (fraction (t mod Second)) @ ''Z'')"

lemma formatStoredTime_examples:
  "formatStoredTime 0 = ''0001-01-01T00:00:00Z''"
  "formatStoredTime (63082281600 * Second) = ''2000-01-01T00:00:00Z''"
  "formatStoredTime (63844761599 * Second + 120000000) = ''2024-02-28T23:59:59.12Z''"
  "formatStoredTime (63844761600 * Second + 5) = ''2024-02-29T00:00:00.000000005Z''"
  by (code_simp)+

section \<open>The order of the trimmed texts\<close>

text \<open>Up to the second the texts are of fixed width, so the seconds are compared first, then the fractions.\<close>

definition trimmed_less :: "time \<Rightarrow> time \<Rightarrow> bool" where
  "trimmed_less t u \<longleftrightarrow>
     t div Second < u div Second
     \<or> (t div Second = u div Second \<and> byte_less (fraction (t mod Second)) (fraction (u mod Second)))"

lemma strip_zeros_Cons:
  "strip_zeros (x # xs) = (if strip_zeros xs = [] \<and> x = 0 then [] else x # strip_zeros xs)"
  by (simp add: strip_zeros_def dropWhile_append)

lemma strip_zeros_Nil: "strip_zeros xs = [] \<Longrightarrow> byte_less xs ys \<longleftrightarrow> strip_zeros ys \<noteq> []"
  if "length xs = length ys"
  using that
  by (induction xs ys rule: list_induct2) (auto simp: strip_zeros_Cons strip_zeros_def split: if_splits)

lemma strip_zeros_byte_less:
  "length xs = length ys \<Longrightarrow> byte_less (strip_zeros xs) (strip_zeros ys) = byte_less xs ys"
proof (induction xs ys rule: list_induct2)
  case (Cons x xs y ys)
  then show ?case
    using strip_zeros_Nil [OF Cons.hyps] strip_zeros_Nil [OF Cons.hyps [symmetric]]
    by (auto simp: strip_zeros_Cons neq_Nil_conv)
qed (simp add: strip_zeros_def)

lemma byte_less_shift [simp]: "byte_less (map (\<lambda>d. k + d) xs) (map (\<lambda>d. k + d) ys) = byte_less xs ys"
  by (induction xs ys rule: byte_less.induct) auto

lemma length_digits [simp]: "length (digits k n) = k"
  by (induction k) auto

lemma digits_mod: "k \<le> m \<Longrightarrow> digits k (n mod 10 ^ m) = digits k n"
proof (induction k)
  case (Suc k)
  then obtain j where m: "m = k + Suc j" by (auto simp: le_iff_add)
  have "n mod 10 ^ m = 10 ^ k * (n div 10 ^ k mod 10 ^ Suc j) + n mod 10 ^ k"
    unfolding m power_add by (rule zmod_zmult2_eq) simp
  then have "n mod 10 ^ m div 10 ^ k = n div 10 ^ k mod 10 ^ Suc j"
    by (simp del: power_Suc)
  moreover have "n div 10 ^ k mod 10 ^ Suc j mod 10 = n div 10 ^ k mod 10"
    by (rule mod_mod_cancel) simp
  ultimately show ?case using Suc by simp
qed simp

lemma div_less_factor:
  fixes i b :: int assumes "i < c * b" "0 < b" shows "i div b < c"
proof (rule ccontr)
  assume "\<not> i div b < c"
  then have "c * b \<le> i div b * b" using assms by (intro mult_right_mono) auto
  then show False using assms div_mult_mod_eq [of i b] pos_mod_sign [of b i] by linarith
qed

lemma less_div_mod: "n < m \<longleftrightarrow> n div b < m div b \<or> n div b = m div b \<and> n mod b < m mod b"
  if "0 < b" for n m b :: int
  using that by (smt (verit) div_mult_mod_eq zdiv_mono1)

lemma digits_less:
  "0 \<le> n \<Longrightarrow> 0 \<le> m \<Longrightarrow> n < 10 ^ k \<Longrightarrow> m < 10 ^ k \<Longrightarrow> byte_less (digits k n) (digits k m) \<longleftrightarrow> n < m"
proof (induction k arbitrary: n m)
  case (Suc k)
  let ?b = "(10::int) ^ k"
  have b: "0 < ?b" by simp
  have top: "i div ?b mod 10 = i div ?b" "0 \<le> i div ?b" if "0 \<le> i" "i < 10 ^ Suc k" for i
    using that div_less_factor [of i 10 ?b] b by (auto simp: pos_imp_zdiv_nonneg_iff)
  have "byte_less (digits k n) (digits k m) \<longleftrightarrow> n mod ?b < m mod ?b"
    using Suc.IH [of "n mod ?b" "m mod ?b"] b by (simp add: digits_mod)
  then show ?case
    unfolding less_div_mod [OF b, of n m] using top [of n] top [of m] Suc.prems by (auto simp: eq_nat_nat_iff)
qed simp

lemma fraction_less: "0 \<le> n \<Longrightarrow> 0 \<le> m \<Longrightarrow> n < Second \<Longrightarrow> m < Second \<Longrightarrow> byte_less (fraction n) (fraction m) \<longleftrightarrow> n < m"
proof -
  assume *: "0 \<le> n" "0 \<le> m" "n < Second" "m < Second"
  have "byte_less (fraction n) (fraction m) \<longleftrightarrow> byte_less (strip_zeros (digits 9 n)) (strip_zeros (digits 9 m))"
    by (cases "strip_zeros (digits 9 n)"; cases "strip_zeros (digits 9 m)"; simp add: fraction_def)
  also have "\<dots> \<longleftrightarrow> byte_less (digits 9 n) (digits 9 m)" by (rule strip_zeros_byte_less) simp
  also have "\<dots> \<longleftrightarrow> n < m" using * by (intro digits_less) (simp_all add: Second_def)
  finally show ?thesis .
qed

text \<open>The trimmed texts are ordered like the instants, unlike the untrimmed ones (\<open>stored_less\<close>).\<close>

lemma trimmed_less_iff [simp]: "trimmed_less t u \<longleftrightarrow> t < u"
proof -
  have s: "0 < Second" by (simp add: Second_def)
  show ?thesis
    unfolding trimmed_less_def less_div_mod [OF s, of t u] using s by (simp add: fraction_less)
qed

end
