(* ===== verification/Alert_Rules.thy ===== *)
theory Alert_Rules
  imports Scheduler Go_Time
begin

text \<open>
  The alert conditions: \<^verbatim>\<open>internal/alerts/alerts.go\<close>. \<open>fsub\<close> is the float64 subtraction; only its results
  are compared.
\<close>

section \<open>Names\<close>

abbreviation "CategoryCapacity \<equiv> ''capacity''"
abbreviation "CategoryReauthentication \<equiv> ''reauthentication''"
abbreviation "CategoryStaleData \<equiv> ''stale_data''"
abbreviation "CategoryCollectionFailure \<equiv> ''collection_failure''"
abbreviation "CategoryCompatibility \<equiv> ''compatibility''"
abbreviation "KindCapacityWarning \<equiv> ''capacity_warning''"
abbreviation "KindCapacityCritical \<equiv> ''capacity_critical''"
abbreviation "KindCapacityExhausted \<equiv> ''capacity_exhausted''"
abbreviation "KindResetApproaching \<equiv> ''reset_approaching''"
abbreviation "KindCreditExpiryApproaching \<equiv> ''credit_expiry_approaching''"
abbreviation "KindReauthentication \<equiv> ''reauthentication_required''"
abbreviation "KindStaleEvidence \<equiv> ''stale_evidence''"
abbreviation "KindRepeatedCollectionFailure \<equiv> ''repeated_collection_failure''"
abbreviation "KindCompatibilityChanged \<equiv> ''compatibility_changed''"
abbreviation "SeverityInfo \<equiv> ''info''"
abbreviation "SeverityWarning \<equiv> ''warning''"
abbreviation "SeverityError \<equiv> ''error''"

definition DefaultWarningPercent :: float64 where "DefaultWarningPercent = Fin 20"
definition DefaultCriticalPercent :: float64 where "DefaultCriticalPercent = Fin 10"
definition StaleAfter :: duration where "StaleAfter = 10 * Minute"
definition RepeatedFailureCount :: int where "RepeatedFailureCount = 3"
definition HistoryLimit :: nat where "HistoryLimit = 200"

section \<open>Thresholds, evidence and conditions\<close>

record threshold =
  th_profile :: string
  th_metric :: string
  th_warning :: float64
  th_critical :: float64

definition Valid :: "threshold \<Rightarrow> bool" where
  "Valid th \<longleftrightarrow>
     \<not> (th_profile th = [] \<or> fle (th_warning th) (th_critical th) \<or> flt (th_critical th) (Fin 0)
        \<or> flt (Fin 100) (th_warning th))
     \<and> (th_metric th = ''codex.primary.used_percent'' \<or> th_metric th = ''codex.secondary.used_percent'')"

record alert_evidence =
  ae_profile :: string
  ae_alias :: string
  ae_status :: status
  ae_snapshot :: snapshot
  ae_previous :: string
  ae_failures :: int
  ae_credit :: "time option"

record condition =
  co_key :: string
  co_profile :: string
  co_alias :: string
  co_category :: string
  co_kind :: string
  co_severity :: string
  co_title :: string
  co_guidance :: string
  co_metric :: string
  co_start :: "time option"
  co_end :: "time option"
  co_remaining :: "float64 option"
  co_source :: string
  co_version :: string
  co_provenance :: string
  co_scope :: string
  co_freshness :: string
  co_reason :: string
  co_captured :: time
  co_observed :: time

definition thresholdFor :: "string \<Rightarrow> string \<Rightarrow> threshold list \<Rightarrow> threshold" where
  "thresholdFor p k ths =
     (case find (\<lambda>th. th_profile th = p \<and> th_metric th = k \<and> Valid th) ths of
        Some th \<Rightarrow> th
      | None \<Rightarrow> \<lparr>th_profile = p, th_metric = k, th_warning = DefaultWarningPercent,
                 th_critical = DefaultCriticalPercent\<rparr>)"

definition availabilityReason :: "availability list \<Rightarrow> string \<Rightarrow> string" where
  "availabilityReason as k = (case find (\<lambda>a. av_key a = k) as of Some a \<Rightarrow> av_reason a | None \<Rightarrow> [])"

definition conditionKey :: "string \<Rightarrow> string \<Rightarrow> string \<Rightarrow> time option \<Rightarrow> time option \<Rightarrow> string" where
  "conditionKey p kind k s e =
     (let text = (\<lambda>v. case v of None \<Rightarrow> [] | Some t \<Rightarrow> formatStoredTime t)
      in strings_Join [p, kind, k, text s, text e] ''|'')"

definition appendCondition :: "condition list \<Rightarrow> condition \<Rightarrow> condition list" where
  "appendCondition cs c = (if list_ex (\<lambda>d. co_key d = co_key c) cs then cs else cs @ [c])"

definition operational_reason :: "string \<Rightarrow> string" where
  "operational_reason kind =
     (if kind = KindReauthentication then ReasonReauthentication
      else if kind = KindStaleEvidence then ReasonStale
      else if kind = KindRepeatedCollectionFailure then ReasonCollectionFailed
      else if kind = KindCompatibilityChanged then ''source_version_changed'' else [])"

definition operationalCondition ::
  "alert_evidence \<Rightarrow> string \<Rightarrow> string \<Rightarrow> string \<Rightarrow> string \<Rightarrow> string \<Rightarrow> time \<Rightarrow> condition" where
  "operationalCondition ev category kind severity title guidance now =
     (let sn = ae_snapshot ev in
      \<lparr>co_key = conditionKey (ae_profile ev) kind [] None None, co_profile = ae_profile ev,
       co_alias = ae_alias ev, co_category = category, co_kind = kind, co_severity = severity,
       co_title = title, co_guidance = guidance, co_metric = [], co_start = None, co_end = None,
       co_remaining = None, co_source = sn_source sn, co_version = sn_version sn, co_provenance = [],
       co_scope = [], co_freshness = [], co_reason = operational_reason kind, co_captured = sn_captured sn,
       co_observed = (if IsZero (sn_captured sn) then now else sn_captured sn)\<rparr>)"

section \<open>Evaluation\<close>

text \<open>The guard of line 107: evidence that bears a capacity or reset condition.\<close>

definition is_current :: "alert_evidence \<Rightarrow> time \<Rightarrow> observation \<Rightarrow> bool" where
  "is_current ev now ob \<longleftrightarrow>
     mt_kind (ob_metric ob) = ''percentage'' \<and> mt_unit (ob_metric ob) = ''percent''
     \<and> ob_provenance ob = ProvenanceProvider \<and> ob_availability ob = AvailabilityAvailable
     \<and> state_of (sn_availability (ae_snapshot ev)) (key_of ob) = Some AvailabilityAvailable
     \<and> \<not> flt (ob_value ob) (Fin 0) \<and> \<not> flt (Fin 100) (ob_value ob)
     \<and> (case (ob_start ob, ob_end ob) of (Some s, Some e) \<Rightarrow> s < e \<and> \<not> now < s \<and> now < e | _ \<Rightarrow> False)"

definition capacity_kind :: "threshold \<Rightarrow> float64 \<Rightarrow> (string \<times> string \<times> string) option" where
  "capacity_kind th remaining =
     (if fle remaining (Fin 0) then Some (KindCapacityExhausted, SeverityError, ''Capacity exhausted'')
      else if fle remaining (th_critical th)
      then Some (KindCapacityCritical, SeverityError, ''Capacity at critical threshold'')
      else if fle remaining (th_warning th)
      then Some (KindCapacityWarning, SeverityWarning, ''Capacity at warning threshold'')
      else None)"

text \<open>What the conditions of an observation share.\<close>

definition window_condition ::
  "alert_evidence \<Rightarrow> observation \<Rightarrow> string \<Rightarrow> string \<Rightarrow> string \<Rightarrow> string \<Rightarrow> float64 option \<Rightarrow> condition" where
  "window_condition ev ob kind severity title guidance remaining =
     \<lparr>co_key = conditionKey (ae_profile ev) kind (key_of ob) (ob_start ob) (ob_end ob),
      co_profile = ae_profile ev, co_alias = ae_alias ev, co_category = CategoryCapacity, co_kind = kind,
      co_severity = severity, co_title = title, co_guidance = guidance, co_metric = key_of ob,
      co_start = ob_start ob, co_end = ob_end ob, co_remaining = remaining, co_source = ob_source ob,
      co_version = ob_version ob, co_provenance = ob_provenance ob, co_scope = mt_scope (ob_metric ob),
      co_freshness = ob_freshness ob,
      co_reason = availabilityReason (sn_availability (ae_snapshot ev)) (key_of ob),
      co_captured = ob_captured ob, co_observed = ob_observed ob\<rparr>"

definition capacity_condition ::
  "(float64 \<Rightarrow> float64 \<Rightarrow> float64) \<Rightarrow> alert_evidence \<Rightarrow> threshold list \<Rightarrow> observation \<Rightarrow> condition list" where
  "capacity_condition fsub ev ths ob =
     (let remaining = fsub (Fin 100) (ob_value ob) in
      case capacity_kind (thresholdFor (ae_profile ev) (key_of ob) ths) remaining of
        None \<Rightarrow> []
      | Some (kind, severity, title) \<Rightarrow>
          [window_condition ev ob kind severity title
             ''Review the reset time and choose an eligible Identity Profile before continuing.'' (Some remaining)])"

definition reset_condition :: "alert_evidence \<Rightarrow> time \<Rightarrow> observation \<Rightarrow> condition list" where
  "reset_condition ev now ob =
     (case ob_end ob of None \<Rightarrow> []
      | Some e \<Rightarrow>
          if 0 < time_Sub e now \<and> time_Sub e now \<le> ResetApproachingLead
          then [window_condition ev ob KindResetApproaching SeverityInfo ''Capacity window resets soon''
                  ''Refresh after the reported reset to confirm credited capacity.'' None]
          else [])"

definition observation_conditions ::
  "(float64 \<Rightarrow> float64 \<Rightarrow> float64) \<Rightarrow> alert_evidence \<Rightarrow> threshold list \<Rightarrow> time \<Rightarrow> observation \<Rightarrow> condition list" where
  "observation_conditions fsub ev ths now ob =
     (if is_current ev now ob then capacity_condition fsub ev ths ob @ reset_condition ev now ob else [])"

definition reauthentication_condition :: "alert_evidence \<Rightarrow> time \<Rightarrow> condition" where
  "reauthentication_condition ev now =
     operationalCondition ev CategoryReauthentication KindReauthentication SeverityError
       ''Reauthentication required'' ''Reauthenticate this Identity Profile with installed Codex, then refresh.'' now"

definition credit_condition :: "alert_evidence \<Rightarrow> time \<Rightarrow> condition list" where
  "credit_condition ev now =
     (case ae_credit ev of None \<Rightarrow> []
      | Some e \<Rightarrow>
          if 0 < time_Sub e now \<and> time_Sub e now \<le> ResetApproachingLead then
            (let sn = ae_snapshot ev in
             [\<lparr>co_key = conditionKey (ae_profile ev) KindCreditExpiryApproaching ''credits'' None (Some e),
               co_profile = ae_profile ev, co_alias = ae_alias ev, co_category = CategoryCapacity,
               co_kind = KindCreditExpiryApproaching, co_severity = SeverityWarning,
               co_title = ''Reset credit expires soon'',
               co_guidance = ''Use supported reset credit before its provider-reported expiry.'',
               co_metric = [], co_start = None, co_end = Some e, co_remaining = None,
               co_source = sn_source sn, co_version = sn_version sn, co_provenance = ProvenanceProvider,
               co_scope = [], co_freshness = [], co_reason = [], co_captured = sn_captured sn,
               co_observed = sn_captured sn\<rparr>])
          else [])"

definition reauthentication_conditions :: "alert_evidence \<Rightarrow> time \<Rightarrow> condition list" where
  "reauthentication_conditions ev now =
     (let cs = foldl (\<lambda>cs a. if av_state a = AvailabilityReauthenticationRequired
                             then appendCondition cs (reauthentication_condition ev now) else cs)
                 [] (sn_availability (ae_snapshot ev))
      in if ae_status ev = StatusNeedsReauthentication
         then appendCondition cs (reauthentication_condition ev now) else cs)"

text \<open>Lines 150--158.\<close>

definition operational_conditions :: "alert_evidence \<Rightarrow> time \<Rightarrow> condition list \<Rightarrow> condition list" where
  "operational_conditions ev now cs0 =
     (let sn = ae_snapshot ev;
          cs1 = (if \<not> IsZero (sn_captured sn) \<and> time_Sub now (sn_captured sn) > StaleAfter
                 then appendCondition cs0 (operationalCondition ev CategoryStaleData KindStaleEvidence
                   SeverityWarning ''Usage evidence is stale''
                   ''Refresh this Identity Profile before relying on its capacity.'' now)
                 else cs0);
          cs2 = (if ae_failures ev \<ge> RepeatedFailureCount
                 then appendCondition cs1 (operationalCondition ev CategoryCollectionFailure
                   KindRepeatedCollectionFailure SeverityError ''Collection has failed repeatedly''
                   ''Check Codex availability and authentication, then retry refresh.'' now)
                 else cs1)
      in if ae_previous ev \<noteq> [] \<and> sn_version sn \<noteq> [] \<and> ae_previous ev \<noteq> sn_version sn
         then appendCondition cs2 (operationalCondition ev CategoryCompatibility KindCompatibilityChanged
           SeverityWarning ''Provider compatibility changed''
           ''Review the new source version and refresh before relying on capacity guidance.'' now)
         else cs2)"

definition Evaluate ::
  "(float64 \<Rightarrow> float64 \<Rightarrow> float64) \<Rightarrow> alert_evidence \<Rightarrow> threshold list \<Rightarrow> time \<Rightarrow> condition list" where
  "Evaluate fsub ev ths now =
     sort_by (\<lambda>a b. string_less (co_key a) (co_key b))
       (operational_conditions ev now
          (reauthentication_conditions ev now
           @ concat (map (observation_conditions fsub ev ths now) (sn_observations (ae_snapshot ev)))
           @ credit_condition ev now))"

end
