(* ===== verification/Alert_Store.thy ===== *)
theory Alert_Store
  imports Alert_Rules
begin

text \<open>
  The alert tables: \<^verbatim>\<open>internal/store/alerts.go\<close>. A row keeps the columns a condition gives as that condition, with
  the profile's alias empty (it is joined when alerts are listed), \<open>''\<close> for a \<open>NULL\<close> profile and the zero time
  for \<open>NULL\<close> evidence; the delivery columns are those of the migration \<open>native-alert-delivery\<close>.
  Identifiers are drawn by \<open>ids\<close>, one per condition.
\<close>

section \<open>Tables\<close>

datatype alert_state = StateOpen | StateAcknowledged | StateResolved

datatype delivery_state =
    DeliveryPending | DeliveryAttempting | DeliveryDelivered | DeliveryFailed | DeliveryUnavailable

definition DeliveryMaxAttempts :: int where "DeliveryMaxAttempts = 3"

record alert_row =
  ar_id :: string
  ar_condition :: condition
  ar_state :: alert_state
  ar_first :: time
  ar_last :: time
  ar_acknowledged :: "time option"
  ar_resolved :: "time option"
  ar_count :: int
  ar_delivery :: delivery_state
  ar_attempts :: int
  ar_attempted :: "time option"
  ar_next :: "time option"
  ar_delivered :: "time option"
  ar_error :: string

record preference =
  np_detail :: bool
  np_updated :: time

text \<open>\<open>preferences\<close> are the notification columns of the single settings row.\<close>

record alert_db =
  alert_rows :: "alert_row list"
  thresholds :: "threshold list"
  preferences :: "preference option"

interpretation alert_table: keyed_table ar_id .

definition alert_invalid :: err where
  "alert_invalid = New UsageRequestInvalid (plain ErrAlertInvalid)"

definition alert_write_failed :: err where
  "alert_write_failed = coded StoreWriteFailed (Some (plain Opaque))"

definition alert_read_failed :: err where
  "alert_read_failed = coded StoreReadFailed (Some (plain Opaque))"

section \<open>Thresholds\<close>

definition threshold_before :: "threshold \<Rightarrow> threshold \<Rightarrow> bool" where
  "threshold_before a b =
     (string_less (th_profile a) (th_profile b)
      \<or> (th_profile a = th_profile b \<and> string_less (th_metric a) (th_metric b)))"

definition AlertThresholds :: "env \<Rightarrow> alert_db \<Rightarrow> err + threshold list" where
  "AlertThresholds e d =
     (if db_fails e (Query 1) then Inl alert_read_failed else Inr (sort_by threshold_before (thresholds d)))"

text \<open>The checks of the table; SQLite keeps a NaN as \<open>NULL\<close>, which the columns refuse.\<close>

definition threshold_row_ok :: "threshold \<Rightarrow> bool" where
  "threshold_row_ok th \<longleftrightarrow>
     (th_metric th = ''codex.primary.used_percent'' \<or> th_metric th = ''codex.secondary.used_percent'')
     \<and> flt (Fin 0) (th_warning th) \<and> fle (th_warning th) (Fin 100)
     \<and> fle (Fin 0) (th_critical th) \<and> flt (th_critical th) (th_warning th)"

definition SetAlertThreshold :: "env \<Rightarrow> threshold \<Rightarrow> time \<Rightarrow> alert_db \<Rightarrow> err option \<times> alert_db" where
  "SetAlertThreshold e th now d =
     (if IsZero now then (Some alert_invalid, d)
      else if db_fails e (Exec 1) \<or> \<not> threshold_row_ok th then (Some alert_write_failed, d)
      else (None, d\<lparr>thresholds :=
        (if exists_where (\<lambda>r. th_profile r = th_profile th \<and> th_metric r = th_metric th) (thresholds d)
         then upd_where (\<lambda>r. th_profile r = th_profile th \<and> th_metric r = th_metric th) (\<lambda>r. th) (thresholds d)
         else thresholds d @ [th])\<rparr>))"

section \<open>Synchronising\<close>

definition stored_condition :: "condition \<Rightarrow> condition" where
  "stored_condition c =
     c\<lparr>co_alias := [], co_remaining := (if co_remaining c = Some NaN then None else co_remaining c)\<rparr>"

definition remaining_ok :: "condition \<Rightarrow> bool" where
  "remaining_ok c = (case co_remaining c of None \<Rightarrow> True
     | Some v \<Rightarrow> v = NaN \<or> (fle (Fin 0) v \<and> fle v (Fin 100)))"

definition opened_row :: "string \<Rightarrow> condition \<Rightarrow> time \<Rightarrow> alert_row" where
  "opened_row i c now =
     \<lparr>ar_id = i, ar_condition = stored_condition c, ar_state = StateOpen, ar_first = now, ar_last = now,
      ar_acknowledged = None, ar_resolved = None, ar_count = 1, ar_delivery = DeliveryPending, ar_attempts = 0,
      ar_attempted = None, ar_next = None, ar_delivered = None, ar_error = []\<rparr>"

text \<open>A resolved alert starts over as an open one, its delivery too.\<close>

definition reopen :: "alert_row \<Rightarrow> alert_row" where
  "reopen r =
     (if ar_state r = StateResolved
      then r\<lparr>ar_state := StateOpen, ar_acknowledged := None, ar_resolved := None, ar_delivery := DeliveryPending,
             ar_attempts := 0, ar_attempted := None, ar_next := None, ar_delivered := None, ar_error := []\<rparr>
      else r\<lparr>ar_resolved := None\<rparr>)"

text \<open>The profile of the row is not among the updated columns.\<close>

definition refreshed_row :: "condition \<Rightarrow> time \<Rightarrow> alert_row \<Rightarrow> alert_row" where
  "refreshed_row c now r =
     (let fresh_evidence = (ar_state r = StateResolved \<or> co_captured (ar_condition r) \<noteq> co_captured c)
      in (reopen r)\<lparr>ar_condition := (stored_condition c)\<lparr>co_profile := co_profile (ar_condition r)\<rparr>,
                    ar_last := (if fresh_evidence then now else ar_last r),
                    ar_count := ar_count r + of_bool fresh_evidence\<rparr>)"

text \<open>One condition, the \<open>i\<close>-th.\<close>

definition sync_one ::
  "env \<Rightarrow> (nat \<Rightarrow> string option) \<Rightarrow> time \<Rightarrow> nat \<Rightarrow> condition \<Rightarrow> alert_row list \<Rightarrow> err + alert_row list" where
  "sync_one e ids now i c rows =
     (if db_fails e (Query i) then Inl alert_write_failed
      else case find (\<lambda>r. co_key (ar_condition r) = co_key c) rows of
        None \<Rightarrow>
          (case ids i of
             None \<Rightarrow> Inl alert_write_failed
           | Some a \<Rightarrow>
               if db_fails e (Exec i) \<or> exists_where (\<lambda>r. ar_id r = a) rows \<or> \<not> remaining_ok c
               then Inl alert_write_failed else Inr (rows @ [opened_row a c now]))
      | Some r \<Rightarrow>
          if db_fails e (Exec i) \<or> \<not> remaining_ok c then Inl alert_write_failed
          else Inr (upd_where (\<lambda>s. ar_id s = ar_id r) (refreshed_row c now) rows))"

fun sync_conditions ::
  "env \<Rightarrow> (nat \<Rightarrow> string option) \<Rightarrow> time \<Rightarrow> nat \<Rightarrow> condition list \<Rightarrow> alert_row list \<Rightarrow> err + alert_row list" where
  "sync_conditions e ids now i [] rows = Inr rows"
| "sync_conditions e ids now i (c # cs) rows =
     (case sync_one e ids now i c rows of
        Inl x \<Rightarrow> Inl x
      | Inr rows' \<Rightarrow> sync_conditions e ids now (Suc i) cs rows')"

text \<open>The unresolved alerts of the profile (of all profiles for \<open>''\<close>) whose condition is gone.\<close>

definition is_absent :: "string \<Rightarrow> condition list \<Rightarrow> alert_row \<Rightarrow> bool" where
  "is_absent p cs r \<longleftrightarrow>
     (ar_state r = StateOpen \<or> ar_state r = StateAcknowledged)
     \<and> (p \<noteq> [] \<longrightarrow> co_profile (ar_condition r) = p)
     \<and> co_key (ar_condition r) \<notin> co_key ` set cs"

definition resolve_row :: "time \<Rightarrow> alert_row \<Rightarrow> alert_row" where
  "resolve_row now r = r\<lparr>ar_state := StateResolved, ar_resolved := Some now\<rparr>"

text \<open>\<open>ORDER BY rtrim(last_seen_at, 'Z') DESC, alert_id DESC\<close> for the resolved alerts.\<close>

definition later_seen :: "alert_row \<Rightarrow> alert_row \<Rightarrow> bool" where
  "later_seen a b = (trimmed_less (ar_last b) (ar_last a)
     \<or> (\<not> trimmed_less (ar_last a) (ar_last b) \<and> string_less (ar_id b) (ar_id a)))"

definition resolved_history :: "alert_row list \<Rightarrow> alert_row list" where
  "resolved_history rows = sort_by later_seen (filter (\<lambda>r. ar_state r = StateResolved) rows)"

definition trim_history :: "nat \<Rightarrow> alert_row list \<Rightarrow> alert_row list" where
  "trim_history limit rows =
     (let old = ar_id ` set (drop limit (resolved_history rows))
      in del_where (\<lambda>r. ar_state r = StateResolved \<and> ar_id r \<in> old) rows)"

definition sync_body ::
  "env \<Rightarrow> (nat \<Rightarrow> string option) \<Rightarrow> string \<Rightarrow> condition list \<Rightarrow> time \<Rightarrow> nat \<Rightarrow> alert_row list \<Rightarrow> err + alert_row list" where
  "sync_body e ids p cs now limit rows =
     (case sync_conditions e ids now 1 cs rows of
        Inl x \<Rightarrow> Inl x
      | Inr rows1 \<Rightarrow>
          if db_fails e (Query (Suc (length cs))) then Inl alert_write_failed
          else
            let absent = length (filter (is_absent p cs) rows1)
            in if list_ex (\<lambda>i. db_fails e (Exec (Suc (length cs) + i))) [0 ..< Suc absent] \<or> db_fails e Commit
               then Inl alert_write_failed
               else Inr (trim_history limit (upd_where (is_absent p cs) (resolve_row now) rows1)))"

definition SyncAlerts ::
  "env \<Rightarrow> (nat \<Rightarrow> string option) \<Rightarrow> string \<Rightarrow> condition list \<Rightarrow> time \<Rightarrow> nat \<Rightarrow> alert_db \<Rightarrow> err option \<times> alert_db" where
  "SyncAlerts e ids p cs now limit d =
     (if IsZero now \<or> limit < 1 then (Some alert_invalid, d)
      else if db_fails e BeginTx then (Some alert_write_failed, d)
      else case sync_body e ids p cs now limit (alert_rows d) of
        Inl x \<Rightarrow> (Some x, d)
      | Inr rows \<Rightarrow> (None, d\<lparr>alert_rows := rows\<rparr>))"

section \<open>Acknowledging and delivering\<close>

definition AcknowledgeAlert :: "env \<Rightarrow> string \<Rightarrow> time \<Rightarrow> alert_db \<Rightarrow> err option \<times> alert_db" where
  "AcknowledgeAlert e a now d =
     (if a = [] \<or> IsZero now then (Some alert_invalid, d)
      else if db_fails e (Exec 1) then (Some alert_write_failed, d)
      else
        let hit = (\<lambda>r. ar_id r = a \<and> ar_state r = StateOpen);
            d' = d\<lparr>alert_rows := upd_where hit (\<lambda>r. r\<lparr>ar_state := StateAcknowledged, ar_acknowledged := Some now\<rparr>)
                     (alert_rows d)\<rparr>
        in if count_where hit (alert_rows d) \<noteq> 1 then (Some alert_invalid, d') else (None, d'))"

definition claimable :: "string \<Rightarrow> time \<Rightarrow> alert_row \<Rightarrow> bool" where
  "claimable a now r \<longleftrightarrow>
     ar_id r = a \<and> ar_state r = StateOpen
     \<and> (ar_delivery r = DeliveryPending \<or> ar_delivery r = DeliveryFailed \<or> ar_delivery r = DeliveryUnavailable)
     \<and> ar_attempts r < DeliveryMaxAttempts
     \<and> (case ar_next r of None \<Rightarrow> True | Some t \<Rightarrow> \<not> trimmed_less now t)"

definition claim_row :: "time \<Rightarrow> alert_row \<Rightarrow> alert_row" where
  "claim_row now r = r\<lparr>ar_delivery := DeliveryAttempting, ar_attempts := ar_attempts r + 1,
     ar_attempted := Some now, ar_next := None, ar_error := []\<rparr>"

definition ClaimAlertDelivery :: "env \<Rightarrow> string \<Rightarrow> time \<Rightarrow> alert_db \<Rightarrow> (err + bool) \<times> alert_db" where
  "ClaimAlertDelivery e a now d =
     (if a = [] \<or> IsZero now then (Inl alert_invalid, d)
      else if db_fails e (Exec 1) then (Inl alert_write_failed, d)
      else (Inr (count_where (claimable a now) (alert_rows d) = 1),
            d\<lparr>alert_rows := upd_where (claimable a now) (claim_row now) (alert_rows d)\<rparr>))"

record delivery_outcome =
  do_state :: delivery_state
  do_attempts :: int
  do_attempted :: time
  do_next :: "time option"
  do_delivered :: "time option"
  do_error :: string

definition valid_outcome :: "delivery_outcome \<Rightarrow> bool" where
  "valid_outcome out \<longleftrightarrow>
     \<not> (IsZero (do_attempted out) \<or> do_attempts out < 0 \<or> do_attempts out > DeliveryMaxAttempts
        \<or> (do_state out \<noteq> DeliveryDelivered \<and> do_state out \<noteq> DeliveryFailed \<and> do_state out \<noteq> DeliveryUnavailable))"

definition recordable :: "string \<Rightarrow> delivery_outcome \<Rightarrow> alert_row \<Rightarrow> bool" where
  "recordable a out r \<longleftrightarrow>
     ar_id r = a \<and> ar_state r = StateOpen
     \<and> (if do_state out = DeliveryUnavailable
        then ar_delivery r = DeliveryPending \<or> ar_delivery r = DeliveryFailed \<or> ar_delivery r = DeliveryUnavailable
        else ar_delivery r = DeliveryAttempting \<and> ar_attempts r = do_attempts out)"

definition record_row :: "delivery_outcome \<Rightarrow> alert_row \<Rightarrow> alert_row" where
  "record_row out r = r\<lparr>ar_delivery := do_state out, ar_attempts := do_attempts out,
     ar_attempted := Some (do_attempted out), ar_next := do_next out, ar_delivered := do_delivered out,
     ar_error := do_error out\<rparr>"

definition RecordAlertDelivery :: "env \<Rightarrow> string \<Rightarrow> delivery_outcome \<Rightarrow> alert_db \<Rightarrow> err option \<times> alert_db" where
  "RecordAlertDelivery e a out d =
     (if a = [] \<or> \<not> valid_outcome out then (Some alert_invalid, d)
      else if db_fails e (Exec 1) then (Some alert_write_failed, d)
      else
        let d' = d\<lparr>alert_rows := upd_where (recordable a out) (record_row out) (alert_rows d)\<rparr>
        in if count_where (recordable a out) (alert_rows d) \<noteq> 1 then (Some alert_invalid, d') else (None, d'))"

section \<open>Listing\<close>

definition alert_rank :: "alert_row \<Rightarrow> nat" where
  "alert_rank r = (case ar_state r of StateOpen \<Rightarrow> 0 | StateAcknowledged \<Rightarrow> 1 | StateResolved \<Rightarrow> 2)"

definition listed_before :: "alert_row \<Rightarrow> alert_row \<Rightarrow> bool" where
  "listed_before a b = (alert_rank a < alert_rank b \<or> (alert_rank a = alert_rank b \<and> later_seen a b))"

text \<open>\<open>LEFT JOIN cli_aliases\<close>: a record is a row with the joined alias.\<close>

definition with_alias :: "alias_row list \<Rightarrow> alert_row \<Rightarrow> alert_row list" where
  "with_alias als r =
     (case filter (\<lambda>al. co_profile (ar_condition r) \<noteq> [] \<and> al_profile al = co_profile (ar_condition r)) als of
        [] \<Rightarrow> [r]
      | hits \<Rightarrow> map (\<lambda>al. r\<lparr>ar_condition := (ar_condition r)\<lparr>co_alias := al_alias al\<rparr>\<rparr>) hits)"

definition times_parse :: "alert_row \<Rightarrow> bool" where
  "times_parse r \<longleftrightarrow>
     (let c = ar_condition r; ok = (\<lambda>t. parseStoredTime t \<noteq> None);
          opt = (\<lambda>v. case v of None \<Rightarrow> True | Some t \<Rightarrow> parseStoredTime t \<noteq> None)
      in ok (ar_first r) \<and> ok (ar_last r) \<and> ok (co_captured c) \<and> ok (co_observed c) \<and> opt (co_start c)
         \<and> opt (co_end c) \<and> opt (ar_acknowledged r) \<and> opt (ar_resolved r) \<and> opt (ar_attempted r)
         \<and> opt (ar_next r) \<and> opt (ar_delivered r))"

definition ListAlerts :: "env \<Rightarrow> alias_row list \<Rightarrow> nat \<Rightarrow> alert_db \<Rightarrow> err + alert_row list" where
  "ListAlerts e als limit d =
     (if limit < 1 then Inl alert_invalid
      else if db_fails e (Query 1) then Inl alert_read_failed
      else
        let shown = ar_id ` set (take limit (resolved_history (alert_rows d)));
            rows = filter (\<lambda>r. ar_state r \<noteq> StateResolved \<or> ar_id r \<in> shown) (alert_rows d)
        in if list_all times_parse rows then Inr (sort_by listed_before (concat (map (with_alias als) rows)))
           else Inl alert_read_failed)"

section \<open>Preferences\<close>

definition NotificationPreference :: "env \<Rightarrow> alert_db \<Rightarrow> err + preference" where
  "NotificationPreference e d =
     (if db_fails e (Query 1) then Inl alert_read_failed
      else case preferences d of
        None \<Rightarrow> Inr \<lparr>np_detail = False, np_updated = 0\<rparr>
      | Some p \<Rightarrow> if parseStoredTime (np_updated p) = None then Inl alert_read_failed else Inr p)"

definition SetNotificationDetail ::
  "env \<Rightarrow> bool \<Rightarrow> time \<Rightarrow> alert_db \<Rightarrow> (err + preference) \<times> alert_db" where
  "SetNotificationDetail e enabled now d =
     (if IsZero now then (Inl alert_invalid, d)
      else if db_fails e (Exec 1) then (Inl alert_write_failed, d)
      else let p = \<lparr>np_detail = enabled, np_updated = now\<rparr> in (Inr p, d\<lparr>preferences := Some p\<rparr>))"

end
