(* ===== verification/Alert_Invariants.thy ===== *)
theory Alert_Invariants
  imports Alert_Store
begin

text \<open>
  What the operations on alerts preserve: unique identifiers and condition keys, columns that fit the state,
  the life of one alert (its state, its delivery and its attempts) through a synchronisation, and the order of the list.
\<close>

abbreviation row_key :: "alert_row \<Rightarrow> string" where
  "row_key r \<equiv> co_key (ar_condition r)"

section \<open>Well-formed alerts\<close>

definition alert_ok :: "alert_row \<Rightarrow> bool" where
  "alert_ok r \<longleftrightarrow>
     0 \<le> ar_attempts r \<and> ar_attempts r \<le> DeliveryMaxAttempts \<and> 1 \<le> ar_count r
     \<and> (ar_resolved r \<noteq> None \<longleftrightarrow> ar_state r = StateResolved)
     \<and> (ar_state r = StateOpen \<longrightarrow> ar_acknowledged r = None)
     \<and> (ar_state r = StateAcknowledged \<longrightarrow> ar_acknowledged r \<noteq> None)
     \<and> (ar_delivery r = DeliveryPending \<longrightarrow> ar_attempts r = 0)
     \<and> (ar_delivery r = DeliveryAttempting \<longrightarrow> 1 \<le> ar_attempts r \<and> ar_next r = None)"

definition rows_ok :: "alert_row list \<Rightarrow> bool" where
  "rows_ok rows \<longleftrightarrow> distinct (map ar_id rows) \<and> distinct (map row_key rows) \<and> list_all alert_ok rows"

section \<open>The life of an alert\<close>

type_synonym life = "alert_state \<times> delivery_state \<times> int"

definition life :: "alert_row \<Rightarrow> life" where
  "life r = (ar_state r, ar_delivery r, ar_attempts r)"

abbreviation new_life :: life where
  "new_life \<equiv> (StateOpen, DeliveryPending, 0)"

text \<open>Synchronising with conditions of the keys \<open>K\<close>: every alert keeps its place, and its life unless it is a
  resolved one with a key of \<open>K\<close>, which starts a new one; alerts for further keys come behind.\<close>

definition refreshed_as :: "string set \<Rightarrow> alert_row \<Rightarrow> alert_row \<Rightarrow> bool" where
  "refreshed_as K r r' \<longleftrightarrow>
     ar_id r' = ar_id r \<and> row_key r' = row_key r \<and> co_profile (ar_condition r') = co_profile (ar_condition r)
     \<and> life r' = (if row_key r \<in> K \<and> ar_state r = StateResolved then new_life else life r)"

definition refreshes :: "string set \<Rightarrow> alert_row list \<Rightarrow> alert_row list \<Rightarrow> bool" where
  "refreshes K rows rows' \<longleftrightarrow>
     (\<exists>f extra. rows' = map f rows @ extra \<and> (\<forall>r\<in>set rows. refreshed_as K r (f r))
        \<and> (\<forall>r\<in>set extra. life r = new_life \<and> row_key r \<in> K))"

lemma refreshesI:
  "rows' = map f rows @ extra \<Longrightarrow> (\<And>r. r \<in> set rows \<Longrightarrow> refreshed_as K r (f r)) \<Longrightarrow>
   (\<And>r. r \<in> set extra \<Longrightarrow> life r = new_life \<and> row_key r \<in> K) \<Longrightarrow> refreshes K rows rows'"
  unfolding refreshes_def by blast

lemma refreshes_refl [simp]: "refreshes {} rows rows"
  by (rule refreshesI [of _ id _ "[]"]) (auto simp: refreshed_as_def)

lemma refreshed_as_trans:
  "refreshed_as K r s \<Longrightarrow> refreshed_as L s t \<Longrightarrow> refreshed_as (K \<union> L) r t"
  by (auto simp: refreshed_as_def life_def split: if_splits)

lemma refreshed_as_new: "refreshed_as L r s \<Longrightarrow> life r = new_life \<Longrightarrow> life s = new_life"
  by (auto simp: refreshed_as_def life_def)

lemma refreshes_trans:
  assumes "refreshes K a b" and "refreshes L b c" shows "refreshes (K \<union> L) a c"
proof -
  obtain f xs where b: "b = map f a @ xs" "\<forall>r\<in>set a. refreshed_as K r (f r)"
    "\<forall>r\<in>set xs. life r = new_life \<and> row_key r \<in> K"
    using assms(1) unfolding refreshes_def by blast
  obtain g ys where c: "c = map g b @ ys" "\<forall>r\<in>set b. refreshed_as L r (g r)"
    "\<forall>r\<in>set ys. life r = new_life \<and> row_key r \<in> L"
    using assms(2) unfolding refreshes_def by blast
  show ?thesis
  proof (rule refreshesI [of _ "g \<circ> f" _ "map g xs @ ys"])
    show "c = map (g \<circ> f) a @ map g xs @ ys" by (simp add: b(1) c(1))
  next
    fix r assume "r \<in> set a"
    then show "refreshed_as (K \<union> L) r ((g \<circ> f) r)" using b c(2) by (auto intro: refreshed_as_trans)
  next
    fix r assume "r \<in> set (map g xs @ ys)"
    then consider s where "s \<in> set xs" "r = g s" | "r \<in> set ys" by auto
    then show "life r = new_life \<and> row_key r \<in> K \<union> L"
    proof cases
      case 1
      then have "refreshed_as L s r" "life s = new_life" "row_key s \<in> K" using b c(2) by auto
      then have "row_key r = row_key s" "life r = new_life"
        using refreshed_as_new [of L s r] by (simp_all only: refreshed_as_def)
      with \<open>row_key s \<in> K\<close> show ?thesis by simp
    qed (use c(3) in auto)
  qed
qed

lemma refreshes_upd:
  assumes "\<And>r. r \<in> set rows \<Longrightarrow> p r \<Longrightarrow> refreshed_as K r (g r)"
    and "\<And>r. r \<in> set rows \<Longrightarrow> \<not> p r \<Longrightarrow> row_key r \<notin> K"
  shows "refreshes K rows (upd_where p g rows)"
proof (rule refreshesI [of _ "\<lambda>r. if p r then g r else r" _ "[]"])
  fix r assume r: "r \<in> set rows"
  show "refreshed_as K r (if p r then g r else r)"
  proof (cases "p r")
    case False
    then have "row_key r \<notin> K" using assms(2) r by blast
    then show ?thesis using False by (simp add: refreshed_as_def)
  qed (simp add: assms(1) r)
qed (simp_all add: upd_where_def)

lemma refreshes_insert:
  assumes "life r = new_life" "row_key r = k" "\<And>s. s \<in> set rows \<Longrightarrow> row_key s \<noteq> k"
  shows "refreshes {k} rows (rows @ [r])"
proof (rule refreshesI [of _ id _ "[r]"])
  fix s assume s: "s \<in> set rows"
  then show "refreshed_as {k} s (id s)" using assms(3) [OF s] by (simp add: refreshed_as_def)
qed (use assms(1,2) in auto)

section \<open>Updates of well-formed tables\<close>

lemma rows_ok_upd:
  assumes "rows_ok rows"
    and "\<And>r. r \<in> set rows \<Longrightarrow> p r \<Longrightarrow> alert_ok r \<Longrightarrow> ar_id (g r) = ar_id r \<and> row_key (g r) = row_key r \<and> alert_ok (g r)"
  shows "rows_ok (upd_where p g rows)"
proof -
  have "map ar_id (upd_where p g rows) = map ar_id rows" "map row_key (upd_where p g rows) = map row_key rows"
    "list_all alert_ok (upd_where p g rows)"
    using assms by (auto simp: upd_where_def rows_ok_def list_all_iff)
  then show ?thesis using assms(1) by (simp add: rows_ok_def)
qed

lemma rows_ok_filter: "rows_ok rows \<Longrightarrow> rows_ok (filter P rows)"
  by (auto simp: rows_ok_def distinct_map_filter list_all_iff)

lemma rows_ok_insert:
  "rows_ok rows \<Longrightarrow> ar_id r \<notin> ar_id ` set rows \<Longrightarrow> row_key r \<notin> row_key ` set rows \<Longrightarrow> alert_ok r \<Longrightarrow> rows_ok (rows @ [r])"
  by (auto simp: rows_ok_def)

lemma rows_okD: "rows_ok rows \<Longrightarrow> r \<in> set rows \<Longrightarrow> alert_ok r"
  by (simp add: rows_ok_def list_all_iff)

lemma rows_ok_same:
  assumes "rows_ok rows" "r \<in> set rows" "s \<in> set rows"
  shows "ar_id r = ar_id s \<Longrightarrow> r = s" "row_key r = row_key s \<Longrightarrow> r = s"
  using assms by (auto simp: rows_ok_def distinct_map inj_on_def)

section \<open>The single updates\<close>

lemmas life_defs = life_def alert_ok_def DeliveryMaxAttempts_def

lemma opened_ok: "alert_ok (opened_row i c now)" "life (opened_row i c now) = (StateOpen, DeliveryPending, 0)"
    "row_key (opened_row i c now) = co_key c" "ar_id (opened_row i c now) = i" "ar_state (opened_row i c now) = StateOpen"
  by (simp_all add: opened_row_def stored_condition_def life_defs)

lemma refreshed_same: "ar_id (refreshed_row c now r) = ar_id r" "row_key (refreshed_row c now r) = co_key c"
  by (simp_all add: refreshed_row_def reopen_def stored_condition_def Let_def)

lemma refreshed_life:
  "life (refreshed_row c now r) = (if ar_state r = StateResolved then (StateOpen, DeliveryPending, 0) else life r)"
  by (simp add: refreshed_row_def reopen_def life_def Let_def)

lemma refreshed_profile: "co_profile (ar_condition (refreshed_row c now r)) = co_profile (ar_condition r)"
  by (simp add: refreshed_row_def Let_def)

lemma refreshed_row_as: "row_key r = co_key c \<Longrightarrow> refreshed_as {co_key c} r (refreshed_row c now r)"
  by (simp add: refreshed_as_def refreshed_same refreshed_profile refreshed_life)

lemma refreshed_ok: "alert_ok r \<Longrightarrow> alert_ok (refreshed_row c now r)"
  by (cases "ar_state r") (auto simp: refreshed_row_def reopen_def life_defs Let_def)

lemma resolve_row_facts: "ar_id (resolve_row now r) = ar_id r" "row_key (resolve_row now r) = row_key r"
    "alert_ok r \<Longrightarrow> alert_ok (resolve_row now r)"
    "life (resolve_row now r) = (StateResolved, ar_delivery r, ar_attempts r)"
  by (auto simp: resolve_row_def life_defs)

lemma claim_row_facts:
  assumes "claimable a now r" "alert_ok r"
  shows "ar_id (claim_row now r) = ar_id r" "row_key (claim_row now r) = row_key r"
    "alert_ok (claim_row now r)" "life (claim_row now r) = (StateOpen, DeliveryAttempting, ar_attempts r + 1)"
  using assms by (auto simp: claim_row_def claimable_def life_defs)

lemma record_row_facts:
  assumes "recordable a out r" "valid_outcome out" "alert_ok r"
  shows "ar_id (record_row out r) = ar_id r" "row_key (record_row out r) = row_key r"
    "alert_ok (record_row out r)" "life (record_row out r) = (StateOpen, do_state out, do_attempts out)"
  using assms
  by (auto simp: record_row_def recordable_def valid_outcome_def life_defs split: if_splits)

section \<open>Synchronising\<close>

lemma sync_one_ok:
  assumes "sync_one e ids now i c rows = Inr rows'" and ok: "rows_ok rows"
  shows "rows_ok rows'" "refreshes {co_key c} rows rows'" "row_key ` set rows' = insert (co_key c) (row_key ` set rows)"
    "\<And>r'. r' \<in> set rows' \<Longrightarrow> row_key r' = co_key c \<Longrightarrow> ar_state r' \<noteq> StateResolved"
    "\<And>r'. row_key r' \<noteq> co_key c \<Longrightarrow> r' \<in> set rows' \<longleftrightarrow> r' \<in> set rows"
proof -
  have "rows_ok rows' \<and> refreshes {co_key c} rows rows' \<and> row_key ` set rows' = insert (co_key c) (row_key ` set rows)
    \<and> (\<forall>r'\<in>set rows'. row_key r' = co_key c \<longrightarrow> ar_state r' \<noteq> StateResolved)
    \<and> (\<forall>r'. row_key r' \<noteq> co_key c \<longrightarrow> (r' \<in> set rows' \<longleftrightarrow> r' \<in> set rows))"
  proof (cases "find (\<lambda>r. row_key r = co_key c) rows")
    case None
    then obtain a where a: "rows' = rows @ [opened_row a c now]" "ar_id ` {} = {}" "\<not> exists_where (\<lambda>r. ar_id r = a) rows"
      using assms(1) by (auto simp: sync_one_def split: if_splits option.splits)
    have new: "\<forall>r\<in>set rows. row_key r \<noteq> co_key c" using None by (simp add: find_None)
    have "rows_ok rows'"
      unfolding a(1) by (rule rows_ok_insert) (use ok a(3) new in \<open>auto simp: opened_ok\<close>)
    moreover have "refreshes {co_key c} rows rows'"
      unfolding a(1) by (rule refreshes_insert) (use new in \<open>auto simp: opened_ok\<close>)
    ultimately show ?thesis using new by (auto simp: a(1) opened_ok)
  next
    case (Some r)
    then have r: "r \<in> set rows" "row_key r = co_key c" by (auto dest: find_SomeD)
    have rows': "rows' = upd_where (\<lambda>s. ar_id s = ar_id r) (refreshed_row c now) rows"
      using assms(1) Some by (auto simp: sync_one_def split: if_splits)
    have same: "s = r" if "s \<in> set rows" "ar_id s = ar_id r" for s using rows_ok_same(1) [OF ok that(1) r(1) that(2)] .
    have set': "set rows' = insert (refreshed_row c now r) (set rows - {r})"
      unfolding rows' by (rule set_upd_one) (use r same in auto)
    have "ar_id (refreshed_row c now s) = ar_id s \<and> row_key (refreshed_row c now s) = row_key s"
      if "s \<in> set rows" "ar_id s = ar_id r" for s
      unfolding same [OF that] by (simp add: refreshed_same r(2))
    note keeps = this
    have ok': "rows_ok rows'" unfolding rows'
      by (rule rows_ok_upd [OF ok]) (simp add: keeps refreshed_ok)
    have lives: "refreshes {co_key c} rows rows'" unfolding rows'
    proof (rule refreshes_upd)
      fix s assume "s \<in> set rows" "ar_id s = ar_id r"
      then show "refreshed_as {co_key c} s (refreshed_row c now s)" using same r(2) by (metis refreshed_row_as)
    next
      fix s assume "s \<in> set rows" "ar_id s \<noteq> ar_id r"
      then show "row_key s \<notin> {co_key c}" using rows_ok_same(2) [OF ok _ r(1)] r(2) by auto
    qed
    have keys: "row_key ` set rows' = insert (co_key c) (row_key ` set rows)"
      unfolding set' using r by (auto simp: refreshed_same)
    have state: "ar_state (refreshed_row c now r) \<noteq> StateResolved"
      using refreshed_life [of c now r] by (auto simp: life_def split: if_splits)
    have key: "s = r" if "s \<in> set rows" "row_key s = co_key c" for s
      using rows_ok_same(2) [OF ok that(1) r(1)] that(2) r(2) by simp
    have open': "ar_state s \<noteq> StateResolved" if "s \<in> set rows'" "row_key s = co_key c" for s
      using that key [of s] state unfolding set' by auto
    have others: "s \<in> set rows' \<longleftrightarrow> s \<in> set rows" if "row_key s \<noteq> co_key c" for s
      using that r(2) refreshed_same(2) [of c now r] unfolding set' by auto
    show ?thesis by (intro conjI ok' lives keys ballI allI impI open' others)
  qed
  then show "rows_ok rows'" "refreshes {co_key c} rows rows'" "row_key ` set rows' = insert (co_key c) (row_key ` set rows)"
    "\<And>r'. r' \<in> set rows' \<Longrightarrow> row_key r' = co_key c \<Longrightarrow> ar_state r' \<noteq> StateResolved"
    "\<And>r'. row_key r' \<noteq> co_key c \<Longrightarrow> r' \<in> set rows' \<longleftrightarrow> r' \<in> set rows"
    by blast+
qed

lemma sync_conditions_ok:
  assumes "sync_conditions e ids now i cs rows = Inr rows'" and "rows_ok rows"
  shows "rows_ok rows' \<and> refreshes (co_key ` set cs) rows rows' \<and> row_key ` set rows' = co_key ` set cs \<union> row_key ` set rows
    \<and> (\<forall>r'\<in>set rows'. row_key r' \<in> co_key ` set cs \<longrightarrow> ar_state r' \<noteq> StateResolved)
    \<and> (\<forall>r'. row_key r' \<notin> co_key ` set cs \<longrightarrow> (r' \<in> set rows' \<longleftrightarrow> r' \<in> set rows))"
  using assms
proof (induction cs arbitrary: i rows)
  case (Cons c cs)
  then obtain rows1 where 1: "sync_one e ids now i c rows = Inr rows1"
    and 2: "sync_conditions e ids now (Suc i) cs rows1 = Inr rows'"
    by (auto split: sum.splits)
  note one = sync_one_ok [OF 1 Cons.prems(2)]
  note rest = Cons.IH [OF 2 one(1)]
  have "refreshes (co_key ` set (c # cs)) rows rows'"
    using refreshes_trans [OF one(2), of "co_key ` set cs" rows'] rest by simp
  moreover have "ar_state r' \<noteq> StateResolved" if "r' \<in> set rows'" "row_key r' \<in> co_key ` set (c # cs)" for r'
    using that rest one(4) [of r'] by (cases "row_key r' \<in> co_key ` set cs") auto
  moreover have "r' \<in> set rows' \<longleftrightarrow> r' \<in> set rows" if "row_key r' \<notin> co_key ` set (c # cs)" for r'
    using that rest one(5) [of r'] by auto
  ultimately show ?case using rest one(3) by auto
qed simp

text \<open>An unresolved alert is refreshed without touching its delivery.\<close>

lemma sync_one_unresolved:
  assumes "sync_one e ids now i c rows = Inr rows'" "r \<in> set rows" "ar_state r \<noteq> StateResolved"
  shows "\<exists>r'\<in>set rows'. ar_id r' = ar_id r \<and> life r' = life r"
proof (cases "find (\<lambda>r. row_key r = co_key c) rows")
  case None
  with assms show ?thesis by (auto simp: sync_one_def split: if_splits option.splits)
next
  case (Some s)
  then have rows': "rows' = upd_where (\<lambda>t. ar_id t = ar_id s) (refreshed_row c now) rows"
    using assms(1) by (auto simp: sync_one_def split: if_splits)
  show ?thesis
  proof (cases "ar_id r = ar_id s")
    case True
    then have "refreshed_row c now r \<in> set rows'" using assms(2) unfolding rows' in_upd_where by auto
    then show ?thesis using assms(3) refreshed_same(1) [of c now r] refreshed_life [of c now r] by auto
  next
    case False
    then have "r \<in> set rows'" using assms(2) unfolding rows' in_upd_where by auto
    then show ?thesis by auto
  qed
qed

lemma sync_conditions_unresolved:
  assumes "sync_conditions e ids now i cs rows = Inr rows'" "r \<in> set rows" "ar_state r \<noteq> StateResolved"
  shows "\<exists>r'\<in>set rows'. ar_id r' = ar_id r \<and> life r' = life r"
  using assms
proof (induction cs arbitrary: i rows r)
  case (Cons c cs)
  then obtain rows1 where 1: "sync_one e ids now i c rows = Inr rows1"
    and 2: "sync_conditions e ids now (Suc i) cs rows1 = Inr rows'"
    by (auto split: sum.splits)
  obtain s where s: "s \<in> set rows1" "ar_id s = ar_id r" "life s = life r"
    using sync_one_unresolved [OF 1 Cons.prems(2,3)] by blast
  then have "ar_state s \<noteq> StateResolved" using Cons.prems(3) by (simp add: life_def)
  with Cons.IH [OF 2 s(1)] s show ?case by simp
qed auto

text \<open>Trimming keeps the unresolved alerts and the latest of the resolved ones.\<close>

lemma trim_history_filter: "\<exists>P. trim_history limit rows = filter P rows \<and> (\<forall>r. ar_state r \<noteq> StateResolved \<longrightarrow> P r)"
  by (rule exI [of _ "\<lambda>r. \<not> (ar_state r = StateResolved \<and> ar_id r \<in> ar_id ` set (drop limit (resolved_history rows)))"])
     (simp add: trim_history_def del_where_def Let_def)

lemma trim_history_bound:
  assumes "distinct (map ar_id rows)"
  shows "length (filter (\<lambda>r. ar_state r = StateResolved) (trim_history limit rows)) \<le> limit"
proof -
  let ?res = "resolved_history rows"
  let ?kept = "filter (\<lambda>r. ar_state r = StateResolved) (trim_history limit rows)"
  have m: "mset ?res = mset (filter (\<lambda>r. ar_state r = StateResolved) rows)" by (simp add: resolved_history_def)
  have "ar_id ` set ?kept \<subseteq> ar_id ` set (take limit ?res)"
  proof
    fix a assume "a \<in> ar_id ` set ?kept"
    then obtain r where r: "r \<in> set rows" "ar_state r = StateResolved" "ar_id r = a"
        "ar_id r \<notin> ar_id ` set (drop limit ?res)"
      by (auto simp: trim_history_def Let_def)
    then have "r \<in> set ?res" by (simp add: resolved_history_def)
    then have "r \<in> set (take limit ?res) \<union> set (drop limit ?res)" by (metis append_take_drop_id set_append)
    with r show "a \<in> ar_id ` set (take limit ?res)" by auto
  qed
  then have "card (ar_id ` set ?kept) \<le> card (ar_id ` set (take limit ?res))" by (intro card_mono) auto
  also have "\<dots> \<le> limit" by (metis card_image_le card_length finite_set le_trans length_take min.cobounded2)
  finally have "card (ar_id ` set ?kept) \<le> limit" .
  moreover have "distinct (map ar_id ?kept)"
    using assms by (simp add: trim_history_def del_where_def Let_def distinct_map_filter)
  then have "length ?kept = card (ar_id ` set ?kept)" by (metis distinct_card length_map set_map)
  ultimately show ?thesis by simp
qed

section \<open>The order of the list\<close>

text \<open>Open alerts come first, then the acknowledged, then the resolved ones.\<close>

fun state_rank :: "alert_state \<Rightarrow> nat" where
  "state_rank StateOpen = 0"
| "state_rank StateAcknowledged = 1"
| "state_rank StateResolved = 2"

lemma state_rank_inj: "state_rank s = state_rank t \<Longrightarrow> s = t"
  by (cases s; cases t) simp_all

instantiation alert_state :: linorder
begin

definition less_eq_alert_state :: "alert_state \<Rightarrow> alert_state \<Rightarrow> bool" where
  "less_eq_alert_state s t \<longleftrightarrow> state_rank s \<le> state_rank t"

definition less_alert_state :: "alert_state \<Rightarrow> alert_state \<Rightarrow> bool" where
  "less_alert_state s t \<longleftrightarrow> state_rank s < state_rank t"

instance
  by standard (auto simp: less_eq_alert_state_def less_alert_state_def intro: state_rank_inj)

end

lemma alert_rank_state: "alert_rank r = state_rank (ar_state r)"
  by (cases "ar_state r") (simp_all add: alert_rank_def)

lemma listed_before_iff:
  "listed_before a b \<longleftrightarrow> ar_state a < ar_state b \<or> (ar_state a = ar_state b
     \<and> (ar_last b < ar_last a \<or> (ar_last a = ar_last b \<and> string_less (ar_id b) (ar_id a))))"
  using state_rank_inj [of "ar_state a" "ar_state b"]
  by (auto simp: listed_before_def later_seen_def alert_rank_state less_alert_state_def)

lemma not_listed_before:
  "\<not> listed_before a b \<longleftrightarrow> ar_state b < ar_state a \<or> (ar_state a = ar_state b
     \<and> (ar_last a < ar_last b \<or> (ar_last a = ar_last b \<and> \<not> string_less (ar_id b) (ar_id a))))"
  unfolding listed_before_iff by (cases "ar_state a" "ar_state b" rule: linorder_cases) auto

lemma string_le_trans: "\<not> string_less s t \<Longrightarrow> \<not> string_less t u \<Longrightarrow> \<not> string_less s u"
  using string_less_total string_less_trans by metis

lemma listed_rows_sorted: "sorted (map ar_state (sort_by listed_before rows))"
proof -
  have "\<not> listed_before a c" if "\<not> listed_before a b" "\<not> listed_before b c" for a b c
    using that string_le_trans [of "ar_id c" "ar_id b" "ar_id a"] unfolding not_listed_before
    by (elim disjE conjE) (auto dest: less_trans)
  moreover have "\<not> listed_before b a" if "listed_before a b" for a b
    using that string_less_asym unfolding listed_before_iff by auto
  ultimately have "sorted_wrt (\<lambda>a b. \<not> listed_before b a) (sort_by listed_before rows)"
    using sorted_sort_by [of listed_before] by blast
  then show ?thesis
    unfolding sorted_map by (rule sorted_wrt_mono_rel [rotated]) (auto simp: listed_before_iff)
qed

lemma listed_alerts_sorted: "ListAlerts e als limit d = Inr rs \<Longrightarrow> sorted (map ar_state rs)"
  by (auto simp: ListAlerts_def Let_def listed_rows_sorted split: if_splits)

end
