(* ===== verification/Alert_Service.thy ===== *)
theory Alert_Service
  imports Alert_Store
begin

text \<open>
  The alert service: \<^verbatim>\<open>internal/alerts/service.go\<close>, over a repository and a notification adapter that act on
  a state \<open>'s\<close>. \<open>ad_expired\<close> is the test of the remaining delivery budget against the wall clock;
  \<open>percent_text\<close> is \<open>fmt.Sprintf("%.1f%% remaining", v)\<close>.
\<close>

section \<open>Collaborators\<close>

record notification =
  no_title :: string
  no_body :: string

record adapter_health =
  ah_available :: bool
  ah_mechanism :: string
  ah_detail :: string

record 's adapter =
  ad_health :: "'s \<Rightarrow> adapter_health \<times> 's"
  ad_deliver :: "notification \<Rightarrow> 's \<Rightarrow> err option \<times> 's"
  ad_expired :: "'s \<Rightarrow> bool \<times> 's"

record 's alert_repository =
  rp_evidence :: "string \<Rightarrow> 's \<Rightarrow> (err + alert_evidence list) \<times> 's"
  rp_thresholds :: "'s \<Rightarrow> (err + threshold list) \<times> 's"
  rp_sync :: "string \<Rightarrow> condition list \<Rightarrow> time \<Rightarrow> nat \<Rightarrow> 's \<Rightarrow> err option \<times> 's"
  rp_list :: "nat \<Rightarrow> 's \<Rightarrow> (err + alert_row list) \<times> 's"
  rp_acknowledge :: "string \<Rightarrow> time \<Rightarrow> 's \<Rightarrow> err option \<times> 's"
  rp_set_threshold :: "threshold \<Rightarrow> time \<Rightarrow> 's \<Rightarrow> err option \<times> 's"
  rp_preference :: "'s \<Rightarrow> (err + preference) \<times> 's"
  rp_set_detail :: "bool \<Rightarrow> time \<Rightarrow> 's \<Rightarrow> (err + preference) \<times> 's"
  rp_claim :: "string \<Rightarrow> time \<Rightarrow> 's \<Rightarrow> (err + bool) \<times> 's"
  rp_record :: "string \<Rightarrow> delivery_outcome \<Rightarrow> 's \<Rightarrow> err option \<times> 's"

text \<open>The adapter is absent unless native delivery is enrolled; \<open>NewService\<close> refuses to enable it without one.\<close>

record 's alert_service =
  as_repository :: "'s alert_repository"
  as_adapter :: "'s adapter option"
  as_subtract :: "float64 \<Rightarrow> float64 \<Rightarrow> float64"
  as_percent :: "float64 \<Rightarrow> string"

definition DeliveryLimit :: nat where "DeliveryLimit = 16"

section \<open>Delivery\<close>

definition deliveryDue :: "alert_row \<Rightarrow> time \<Rightarrow> bool" where
  "deliveryDue r now \<longleftrightarrow>
     ar_delivery r \<noteq> DeliveryDelivered \<and> ar_delivery r \<noteq> DeliveryAttempting
     \<and> (case ar_next r of None \<Rightarrow> True | Some t \<Rightarrow> \<not> now < t)"

definition deliveryBackoff :: "int \<Rightarrow> duration" where
  "deliveryBackoff attempts = (if attempts \<le> 1 then Minute else 5 * Minute)"

definition middle_dot :: string where "middle_dot = '' '' @ [char_of (194::nat), char_of (183::nat)] @ '' ''"

definition notificationFor :: "(float64 \<Rightarrow> string) \<Rightarrow> alert_row \<Rightarrow> bool \<Rightarrow> notification" where
  "notificationFor percent r detailed =
     (if \<not> detailed
      then \<lparr>no_title = ''CodexFolio operational alert'', no_body = ''Open CodexFolio to review an operational alert.''\<rparr>
      else
        let c = ar_condition r;
            parts = (if co_alias c \<noteq> [] then [co_alias c] else [])
              @ (case co_remaining c of None \<Rightarrow> [] | Some v \<Rightarrow> [percent v])
              @ (if TrimSpace (co_guidance c) \<noteq> [] then [TrimSpace (co_guidance c)] else []);
            joined = strings_Join parts middle_dot;
            body = (if joined = [] then ''Open CodexFolio for details.'' else joined)
        in \<lparr>no_title = co_title c,
            no_body = (if rune_count body > 240 then rune_prefix 237 body @ ''...'' else body)\<rparr>)"

definition failed_outcome :: "int \<Rightarrow> time \<Rightarrow> delivery_outcome" where
  "failed_outcome attempts now =
     \<lparr>do_state = DeliveryFailed, do_attempts = attempts, do_attempted = now,
      do_next = (if attempts < DeliveryMaxAttempts then Some (now + deliveryBackoff attempts) else None),
      do_delivered = None, do_error = AlertNotificationFailed\<rparr>"

definition delivered_outcome :: "int \<Rightarrow> time \<Rightarrow> delivery_outcome" where
  "delivered_outcome attempts now =
     \<lparr>do_state = DeliveryDelivered, do_attempts = attempts, do_attempted = now, do_next = None,
      do_delivered = Some now, do_error = []\<rparr>"

definition unavailable_outcome :: "alert_row \<Rightarrow> time \<Rightarrow> delivery_outcome" where
  "unavailable_outcome r now =
     \<lparr>do_state = DeliveryUnavailable, do_attempts = ar_attempts r, do_attempted = now,
      do_next = Some (now + 30 * Minute), do_delivered = None, do_error = AlertNotificationFailed\<rparr>"

text \<open>Lines 497--523 for one record: whether it counts as processed. The error of recording is dropped.\<close>

definition deliver_one ::
  "'s alert_service \<Rightarrow> 's adapter \<Rightarrow> bool \<Rightarrow> bool \<Rightarrow> time \<Rightarrow> alert_row \<Rightarrow> 's \<Rightarrow> bool \<times> 's" where
  "deliver_one sv ad available detailed now r s =
     (let rp = as_repository sv in
      if \<not> available then
        (case rp_record rp (ar_id r) (unavailable_outcome r now) s of (x, s1) \<Rightarrow> (True, s1))
      else case rp_claim rp (ar_id r) now s of
        (Inl x, s1) \<Rightarrow> (False, s1)
      | (Inr False, s1) \<Rightarrow> (False, s1)
      | (Inr True, s1) \<Rightarrow>
          (case ad_deliver ad (notificationFor (as_percent sv) r detailed) s1 of
             (x, s2) \<Rightarrow>
               let attempts = ar_attempts r + 1;
                   out = (if x = None then delivered_outcome attempts now else failed_outcome attempts now)
               in (case rp_record rp (ar_id r) out s2 of (y, s3) \<Rightarrow> (True, s3))))"

definition skipped :: "time \<Rightarrow> nat \<Rightarrow> alert_row \<Rightarrow> bool" where
  "skipped now processed r \<longleftrightarrow>
     processed \<ge> DeliveryLimit \<or> ar_state r \<noteq> StateOpen \<or> ar_attempts r \<ge> DeliveryMaxAttempts \<or> \<not> deliveryDue r now"

fun deliver_loop ::
  "'s alert_service \<Rightarrow> 's adapter \<Rightarrow> bool \<Rightarrow> bool \<Rightarrow> time \<Rightarrow> nat \<Rightarrow> alert_row list \<Rightarrow> 's \<Rightarrow> nat \<times> 's" where
  "deliver_loop sv ad available detailed now processed [] s = (processed, s)"
| "deliver_loop sv ad available detailed now processed (r # rs) s =
     (if skipped now processed r then deliver_loop sv ad available detailed now processed rs s
      else case ad_expired ad s of
        (True, s1) \<Rightarrow> (processed, s1)
      | (False, s1) \<Rightarrow>
          (case deliver_one sv ad available detailed now r s1 of
             (counted, s2) \<Rightarrow>
               deliver_loop sv ad available detailed now (processed + of_bool counted) rs s2))"

definition deliver :: "'s alert_service \<Rightarrow> alert_row list \<Rightarrow> time \<Rightarrow> 's \<Rightarrow> 's" where
  "deliver sv rs now s =
     (case as_adapter sv of None \<Rightarrow> s
      | Some ad \<Rightarrow>
          (case rp_preference (as_repository sv) s of
             (Inl x, s1) \<Rightarrow> s1
           | (Inr p, s1) \<Rightarrow>
               (case ad_health ad s1 of
                  (h, s2) \<Rightarrow> snd (deliver_loop sv ad (ah_available h) (np_detail p) now 0 rs s2))))"

section \<open>Operations\<close>

definition evaluate_alerts :: "'s alert_service \<Rightarrow> string \<Rightarrow> time \<Rightarrow> 's \<Rightarrow> (err + alert_row list) \<times> 's" where
  "evaluate_alerts sv p now s =
     (let rp = as_repository sv in
      case rp_evidence rp p s of
        (Inl x, s1) \<Rightarrow> (Inl x, s1)
      | (Inr evs, s1) \<Rightarrow>
          (case rp_thresholds rp s1 of
             (Inl x, s2) \<Rightarrow> (Inl x, s2)
           | (Inr ths, s2) \<Rightarrow>
               let cs = concat (map (\<lambda>ev. Evaluate (as_subtract sv) ev ths now) evs) in
               (case rp_sync rp p cs now HistoryLimit s2 of
                  (Some x, s3) \<Rightarrow> (Inl x, s3)
                | (None, s3) \<Rightarrow>
                    (case rp_list rp HistoryLimit s3 of
                       (Inl x, s4) \<Rightarrow> (Inl x, s4)
                     | (Inr rs, s4) \<Rightarrow> rp_list rp HistoryLimit (deliver sv rs now s4)))))"

definition Acknowledge :: "'s alert_service \<Rightarrow> string \<Rightarrow> time \<Rightarrow> 's \<Rightarrow> (err + alert_row list) \<times> 's" where
  "Acknowledge sv a now s =
     (if a = [] then (Inl (plain ErrAlertInvalid), s)
      else case rp_acknowledge (as_repository sv) a now s of
        (Some x, s1) \<Rightarrow> (Inl x, s1)
      | (None, s1) \<Rightarrow> rp_list (as_repository sv) HistoryLimit s1)"

definition SetThreshold ::
  "'s alert_service \<Rightarrow> threshold \<Rightarrow> time \<Rightarrow> 's \<Rightarrow> (err + threshold list) \<times> 's" where
  "SetThreshold sv th now s =
     (if \<not> Valid th then (Inl (plain ErrAlertInvalid), s)
      else case rp_set_threshold (as_repository sv) th now s of
        (Some x, s1) \<Rightarrow> (Inl x, s1)
      | (None, s1) \<Rightarrow> rp_thresholds (as_repository sv) s1)"

record delivery_health =
  dh_dashboard :: string
  dh_native :: string
  dh_mechanism :: string
  dh_detail :: string
  dh_detailed :: bool

definition troubled :: "alert_row \<Rightarrow> bool" where
  "troubled r \<longleftrightarrow> ar_state r \<noteq> StateResolved
     \<and> (ar_delivery r = DeliveryFailed \<or> ar_delivery r = DeliveryAttempting)"

definition Delivery_Health :: "'s alert_service \<Rightarrow> 's \<Rightarrow> (err + delivery_health) \<times> 's" where
  "Delivery_Health sv s =
     (let rp = as_repository sv in
      case rp_preference rp s of
        (Inl x, s1) \<Rightarrow> (Inl x, s1)
      | (Inr p, s1) \<Rightarrow>
          let health = \<lparr>dh_dashboard = ''available'', dh_native = ''not_enrolled'', dh_mechanism = [],
             dh_detail = ''Alerts remain available in CodexFolio. Native delivery requires explicit service enrollment.'',
             dh_detailed = np_detail p\<rparr>
          in (case as_adapter sv of
                None \<Rightarrow> (Inr health, s1)
              | Some ad \<Rightarrow>
                  (case ad_health ad s1 of
                     (h, s2) \<Rightarrow>
                       let known = health\<lparr>dh_mechanism := ah_mechanism h, dh_detail := ah_detail h\<rparr> in
                       if \<not> ah_available h then (Inr (known\<lparr>dh_native := ''unavailable''\<rparr>), s2)
                       else (case rp_list rp HistoryLimit s2 of
                          (Inl x, s3) \<Rightarrow> (Inl x, s3)
                        | (Inr rs, s3) \<Rightarrow>
                            if list_ex troubled rs
                            then (Inr (known\<lparr>dh_native := ''failed'',
                              dh_detail := ''Native notification delivery failed. Alerts remain available here and delivery retries stay bounded.''\<rparr>), s3)
                            else (Inr (known\<lparr>dh_native := ''available''\<rparr>), s3)))))"

end
