(* ===== verification/Alert_Properties.thy ===== *)
theory Alert_Properties
  imports Alert_Invariants Alert_Service Sample_Env
begin

text \<open>
  Properties of the alerts: which conditions the rules report, what synchronising leaves in the tables, and
  how often an alert is claimed for delivery.
\<close>

section \<open>Calls on the alert tables\<close>

datatype alert_operation =
    CallSync env "nat \<Rightarrow> string option" string "condition list" time nat
  | CallAcknowledge env string time
  | CallClaim env string time
  | CallRecord env string delivery_outcome

fun alert_call :: "alert_operation \<Rightarrow> alert_db \<Rightarrow> alert_db" where
  "alert_call (CallSync e ids p cs now limit) d = snd (SyncAlerts e ids p cs now limit d)"
| "alert_call (CallAcknowledge e a now) d = snd (AcknowledgeAlert e a now d)"
| "alert_call (CallClaim e a now) d = snd (ClaimAlertDelivery e a now d)"
| "alert_call (CallRecord e a out) d = snd (RecordAlertDelivery e a out d)"

definition alert_calls :: "alert_operation list \<Rightarrow> alert_db \<Rightarrow> alert_db" where
  "alert_calls xs d = foldl (\<lambda>d x. alert_call x d) d xs"

definition no_alerts :: alert_db where
  "no_alerts = \<lparr>alert_rows = [], thresholds = [], preferences = None\<rparr>"

definition alert_of :: "string \<Rightarrow> alert_db \<Rightarrow> alert_row option" where
  "alert_of a d = alert_table.lookup a (alert_rows d)"

lemma alert_lookup:
  "rows_ok rows \<Longrightarrow> alert_table.lookup a rows = Some r \<longleftrightarrow> r \<in> set rows \<and> ar_id r = a"
  using alert_table.lookup_SomeI [of rows r] alert_table.lookup_SomeD [of a rows r]
  by (auto simp: rows_ok_def alert_table.wf_def)

lemma alert_of_Some: "rows_ok (alert_rows d) \<Longrightarrow> alert_of a d = Some r \<longleftrightarrow> r \<in> set (alert_rows d) \<and> ar_id r = a"
  by (simp add: alert_of_def alert_lookup)

lemma alert_of_None: "alert_of a d = None \<longleftrightarrow> a \<notin> ar_id ` set (alert_rows d)"
  by (simp add: alert_of_def alert_table.lookup_None)

section \<open>The life of an alert\<close>

text \<open>A call that reports success, and the alerts it is about: the one it names, or for a synchronisation the
  resolved ones whose condition is back and the others of the profile whose condition is gone.\<close>

fun succeeds :: "alert_operation \<Rightarrow> alert_db \<Rightarrow> bool" where
  "succeeds (CallSync e ids p cs now limit) d = (fst (SyncAlerts e ids p cs now limit d) = None)"
| "succeeds (CallAcknowledge e a now) d = (fst (AcknowledgeAlert e a now d) = None)"
| "succeeds (CallClaim e a now) d = (fst (ClaimAlertDelivery e a now d) = Inr True)"
| "succeeds (CallRecord e a out) d = (fst (RecordAlertDelivery e a out d) = None)"

fun concerns :: "alert_operation \<Rightarrow> alert_row \<Rightarrow> bool" where
  "concerns (CallSync e ids p cs now limit) r =
     (if ar_state r = StateResolved then row_key r \<in> co_key ` set cs
      else row_key r \<notin> co_key ` set cs \<and> (p = [] \<or> co_profile (ar_condition r) = p))"
| "concerns (CallAcknowledge e a now) r = (ar_id r = a)"
| "concerns (CallClaim e a now) r = (ar_id r = a)"
| "concerns (CallRecord e a out) r = (ar_id r = a)"

text \<open>The one step a call may take on an alert: from a row to its next state, delivery and attempts.\<close>

inductive moves :: "alert_operation \<Rightarrow> alert_row \<Rightarrow> life \<Rightarrow> bool" where
  acknowledged: "ar_state r = StateOpen \<Longrightarrow>
    moves (CallAcknowledge e (ar_id r) now) r (StateAcknowledged, ar_delivery r, ar_attempts r)"
| resolved: "ar_state r \<noteq> StateResolved \<Longrightarrow> row_key r \<notin> co_key ` set cs \<Longrightarrow>
    moves (CallSync e ids p cs now limit) r (StateResolved, ar_delivery r, ar_attempts r)"
| reopened: "ar_state r = StateResolved \<Longrightarrow> row_key r \<in> co_key ` set cs \<Longrightarrow>
    moves (CallSync e ids p cs now limit) r (StateOpen, DeliveryPending, 0)"
| claimed: "ar_state r = StateOpen \<Longrightarrow> ar_delivery r \<noteq> DeliveryAttempting \<Longrightarrow> ar_delivery r \<noteq> DeliveryDelivered \<Longrightarrow>
    ar_attempts r < DeliveryMaxAttempts \<Longrightarrow> ar_next r = None \<or> \<not> trimmed_less now (the (ar_next r)) \<Longrightarrow>
    moves (CallClaim e (ar_id r) now) r (StateOpen, DeliveryAttempting, ar_attempts r + 1)"
| recorded: "ar_state r = StateOpen \<Longrightarrow> ar_delivery r = DeliveryAttempting \<Longrightarrow> do_attempts out = ar_attempts r \<Longrightarrow>
    do_state out = DeliveryDelivered \<or> do_state out = DeliveryFailed \<Longrightarrow>
    moves (CallRecord e (ar_id r) out) r (StateOpen, do_state out, ar_attempts r)"
| postponed: "ar_state r = StateOpen \<Longrightarrow> ar_delivery r \<noteq> DeliveryAttempting \<Longrightarrow> ar_delivery r \<noteq> DeliveryDelivered \<Longrightarrow>
    do_state out = DeliveryUnavailable \<Longrightarrow> 0 \<le> do_attempts out \<Longrightarrow> do_attempts out \<le> DeliveryMaxAttempts \<Longrightarrow>
    moves (CallRecord e (ar_id r) out) r (StateOpen, DeliveryUnavailable, do_attempts out)"

inductive_simps moves_simps:
  "moves (CallSync e ids p cs now limit) r l" "moves (CallAcknowledge e a now) r l" "moves (CallClaim e a now) r l"

text \<open>In particular a delivered alert is not claimed again, and no alert beyond its attempts.\<close>

lemma claimed_is_due:
  "moves (CallClaim e a now) r l \<Longrightarrow> ar_delivery r \<noteq> DeliveryDelivered \<and> ar_attempts r < DeliveryMaxAttempts"
  by (simp add: moves_simps)

text \<open>An alert a call opens.\<close>

fun opens :: "alert_operation \<Rightarrow> alert_row \<Rightarrow> bool" where
  "opens (CallSync e ids p cs now limit) r = (row_key r \<in> co_key ` set cs \<and> life r = (StateOpen, DeliveryPending, 0))"
| "opens _ r = False"

fun_cases opensE: "opens x r"

text \<open>An alert of the table after a call, given the table before and whether the call succeeds.\<close>

definition lives_on :: "bool \<Rightarrow> alert_operation \<Rightarrow> alert_row list \<Rightarrow> alert_row \<Rightarrow> bool" where
  "lives_on s x rows r' \<longleftrightarrow>
     (case alert_table.lookup (ar_id r') rows of
        None \<Rightarrow> s \<and> opens x r'
      | Some r \<Rightarrow> row_key r' = row_key r
          \<and> (if s \<and> concerns x r then moves x r (life r') else life r' = life r))"

lemma lives_onI:
  "rows_ok rows \<Longrightarrow> r \<in> set rows \<Longrightarrow> ar_id r' = ar_id r \<Longrightarrow> row_key r' = row_key r \<Longrightarrow>
   (if s \<and> concerns x r then moves x r (life r') else life r' = life r) \<Longrightarrow> lives_on s x rows r'"
  using alert_lookup [of rows "ar_id r" r] by (simp add: lives_on_def)

lemma sync_step:
  assumes "sync_body e ids p cs now limit rows = Inr rows'" and "rows_ok rows"
  obtains rows1 rows2 where "sync_conditions e ids now 1 cs rows = Inr rows1"
    and "rows2 = upd_where (is_absent p cs) (resolve_row now) rows1" and "rows' = trim_history limit rows2"
    and "rows_ok rows2"
proof -
  obtain rows1 where 1: "sync_conditions e ids now 1 cs rows = Inr rows1"
    and r': "rows' = trim_history limit (upd_where (is_absent p cs) (resolve_row now) rows1)"
    using assms(1) by (auto simp: sync_body_def Let_def split: sum.splits if_splits)
  note s = sync_conditions_ok [OF 1 assms(2)]
  have "rows_ok (upd_where (is_absent p cs) (resolve_row now) rows1)"
    by (rule rows_ok_upd) (simp_all add: s resolve_row_facts)
  then show ?thesis using that [OF 1 refl r'] by simp
qed

lemma refreshed_lives_on:
  assumes ok: "rows_ok rows" and r: "r \<in> set rows" and s: "refreshed_as (co_key ` set cs) r s"
    and r': "r' = (if is_absent p cs s then resolve_row now s else s)"
  shows "lives_on True (CallSync e ids p cs now limit) rows r'"
proof (rule lives_onI [OF ok r])
  show "ar_id r' = ar_id r" "row_key r' = row_key r"
    using s r' by (auto simp: refreshed_as_def resolve_row_facts)
  have s': "row_key s = row_key r" "co_profile (ar_condition s) = co_profile (ar_condition r)"
    using s by (simp_all add: refreshed_as_def)
  show "if True \<and> concerns (CallSync e ids p cs now limit) r
      then moves (CallSync e ids p cs now limit) r (life r') else life r' = life r"
  proof (cases "row_key r \<in> co_key ` set cs")
    case True
    then have "r' = s" using r' s' by (simp add: is_absent_def)
    then show ?thesis using s True by (auto simp: refreshed_as_def intro: moves.reopened)
  next
    case False
    then have "life s = life r" using s by (simp add: refreshed_as_def)
    then show ?thesis
      using False r' s' by (cases "ar_state r") (auto simp: is_absent_def life_def resolve_row_def intro: moves.resolved)
  qed
qed

lemma sync_lives_on:
  assumes "sync_body e ids p cs now limit rows = Inr rows'" and ok: "rows_ok rows" and "r' \<in> set rows'"
  shows "lives_on True (CallSync e ids p cs now limit) rows r'"
proof -
  obtain rows1 rows2 where 1: "sync_conditions e ids now 1 cs rows = Inr rows1"
    and 2: "rows2 = upd_where (is_absent p cs) (resolve_row now) rows1" and 3: "rows' = trim_history limit rows2"
    by (rule sync_step [OF assms(1,2)])
  note c = sync_conditions_ok [OF 1 ok]
  have "r' \<in> set rows2" using assms(3) 3 by (auto simp: trim_history_def Let_def)
  then obtain s where s: "s \<in> set rows1" "r' = (if is_absent p cs s then resolve_row now s else s)"
    unfolding 2 in_upd_where by blast
  obtain f extra where f: "rows1 = map f rows @ extra" "\<forall>r\<in>set rows. refreshed_as (co_key ` set cs) r (f r)"
    "\<forall>r\<in>set extra. life r = new_life \<and> row_key r \<in> co_key ` set cs"
    using c unfolding refreshes_def by blast
  show ?thesis
  proof (cases "s \<in> set extra")
    case True
    then have "r' = s" using s(2) f(3) by (simp add: is_absent_def)
    have "map ar_id (map f rows) = map ar_id rows" using f(2) by (simp add: refreshed_as_def)
    moreover have "distinct (map ar_id rows1)" using c by (simp only: rows_ok_def)
    ultimately have "distinct (map ar_id rows @ map ar_id extra)" using f(1) by (metis map_append)
    then have "ar_id r' \<notin> ar_id ` set rows" using True unfolding \<open>r' = s\<close> by auto
    then have "alert_table.lookup (ar_id r') rows = None" by (simp add: alert_table.lookup_None)
    then show ?thesis using True f(3) \<open>r' = s\<close> by (simp add: lives_on_def)
  next
    case False
    then obtain r where "r \<in> set rows" "s = f r" using s(1) f(1) by auto
    then show ?thesis using refreshed_lives_on [OF ok, of r cs s r'] f(2) s(2) by simp
  qed
qed

lemma SyncAlerts_cases:
  assumes "SyncAlerts e ids p cs now limit d = (x, d')"
  obtains "d' = d" "x \<noteq> None"
  | rows' where "x = None" "d' = d\<lparr>alert_rows := rows'\<rparr>" "1 \<le> limit" "\<not> IsZero now"
      "sync_body e ids p cs now limit (alert_rows d) = Inr rows'"
  using assms by (auto simp: SyncAlerts_def split: sum.splits if_splits)

text \<open>The calls on one alert update at most its row.\<close>

lemma updated_rows:
  assumes ok: "rows_ok rows" and rows': "rows' = (if c then upd_where p g rows else rows)"
    and named: "\<And>r. p r \<Longrightarrow> ar_id r = a" and s: "s \<longleftrightarrow> c \<and> count_where p rows = 1"
    and about: "\<And>r. concerns x r \<longleftrightarrow> ar_id r = a"
    and step: "\<And>r. c \<Longrightarrow> r \<in> set rows \<Longrightarrow> p r \<Longrightarrow> alert_ok r \<Longrightarrow>
       ar_id (g r) = ar_id r \<and> row_key (g r) = row_key r \<and> alert_ok (g r) \<and> moves x r (life (g r))"
  shows "rows_ok rows' \<and> (\<forall>r'\<in>set rows'. lives_on s x rows r')"
proof (intro conjI ballI)
  show "rows_ok rows'" using rows' rows_ok_upd [OF ok, of p g] ok step by auto
  have "count_where (\<lambda>r. ar_id r = a \<and> p r) rows \<le> 1"
    using alert_table.count_key [of rows a p] ok by (simp add: rows_ok_def alert_table.wf_def)
  moreover have "(\<lambda>r. ar_id r = a \<and> p r) = p" using named by auto
  ultimately have count: "count_where p rows = 1 \<longleftrightarrow> (\<exists>r\<in>set rows. p r)"
    using count_where_0 [of p rows] by auto
  fix r' assume "r' \<in> set rows'"
  then obtain r where r: "r \<in> set rows" "r' = (if c \<and> p r then g r else r)"
    unfolding rows' by (auto simp: in_upd_where split: if_splits)
  note good = rows_okD [OF ok r(1)]
  show "lives_on s x rows r'"
  proof (rule lives_onI [OF ok r(1)])
    show "ar_id r' = ar_id r" "row_key r' = row_key r" using r step [OF _ r(1) _ good] by auto
    have "p r" if "s" "ar_id r = a"
      using that s count named rows_ok_same(1) [OF ok _ r(1)] by metis
    then show "if s \<and> concerns x r then moves x r (life r') else life r' = life r"
      using r step [OF _ r(1) _ good] s count about named by auto
  qed
qed

lemma acknowledged_row:
  "ar_state r = StateOpen \<Longrightarrow> alert_ok r \<Longrightarrow>
   alert_ok (r\<lparr>ar_state := StateAcknowledged, ar_acknowledged := Some now\<rparr>)
   \<and> life (r\<lparr>ar_state := StateAcknowledged, ar_acknowledged := Some now\<rparr>) = (StateAcknowledged, ar_delivery r, ar_attempts r)"
  by (auto simp: life_defs)

lemma claim_moves: "claimable a now r \<Longrightarrow> alert_ok r \<Longrightarrow> moves (CallClaim e a now) r (life (claim_row now r))"
  using claim_row_facts(4) [of a now r] moves.claimed [of r now e]
  by (auto simp: claimable_def split: option.splits)

lemma record_moves:
  assumes "recordable a out r" "valid_outcome out" "alert_ok r"
  shows "moves (CallRecord e a out) r (life (record_row out r))"
proof (cases "do_state out = DeliveryUnavailable")
  case True
  then show ?thesis
    using record_row_facts(4) [OF assms] moves.postponed [of r out e] assms by (auto simp: recordable_def valid_outcome_def)
next
  case False
  then show ?thesis
    using record_row_facts(4) [OF assms] moves.recorded [of r out e] assms by (auto simp: recordable_def valid_outcome_def)
qed

lemma alert_call_ok:
  assumes "rows_ok (alert_rows d)"
  shows "rows_ok (alert_rows (alert_call x d))
    \<and> (\<forall>r'\<in>set (alert_rows (alert_call x d)). lives_on (succeeds x d) x (alert_rows d) r')"
proof (cases x)
  case (CallSync e ids p cs now limit)
  obtain y d' where y: "SyncAlerts e ids p cs now limit d = (y, d')" by (metis surj_pair)
  show ?thesis
  proof (rule SyncAlerts_cases [OF y])
    assume "d' = d" "y \<noteq> None"
    then show ?thesis using assms lives_onI [OF assms] by (auto simp: CallSync y)
  next
    fix rows' assume d': "y = None" "d' = d\<lparr>alert_rows := rows'\<rparr>"
      and body: "sync_body e ids p cs now limit (alert_rows d) = Inr rows'"
    obtain rows2 where "rows_ok rows2" "rows' = trim_history limit rows2" by (rule sync_step [OF body assms])
    with trim_history_filter [of limit rows2] have "rows_ok rows'" by (auto intro: rows_ok_filter)
    then show ?thesis using sync_lives_on [OF body assms] d' by (simp add: CallSync y)
  qed
next
  case (CallAcknowledge e a now)
  show ?thesis
    by (rule updated_rows [OF assms, where p = "\<lambda>r. ar_id r = a \<and> ar_state r = StateOpen" and a = a
          and c = "\<not> (a = [] \<or> IsZero now \<or> db_fails e (Exec 1))"
          and g = "\<lambda>r. r\<lparr>ar_state := StateAcknowledged, ar_acknowledged := Some now\<rparr>"])
       (auto simp: CallAcknowledge AcknowledgeAlert_def Let_def acknowledged_row intro: moves.acknowledged)
next
  case (CallClaim e a now)
  show ?thesis
    by (rule updated_rows [OF assms, where p = "claimable a now" and g = "claim_row now" and a = a
          and c = "\<not> (a = [] \<or> IsZero now \<or> db_fails e (Exec 1))"])
       (auto simp: CallClaim ClaimAlertDelivery_def claim_row_facts(1-3) claim_moves, simp add: claimable_def)
next
  case (CallRecord e a out)
  show ?thesis
    by (rule updated_rows [OF assms, where p = "recordable a out" and g = "record_row out" and a = a
          and c = "\<not> (a = [] \<or> \<not> valid_outcome out \<or> db_fails e (Exec 1))"])
       (auto simp: CallRecord RecordAlertDelivery_def Let_def record_row_facts(1-3) record_moves, simp add: recordable_def)
qed

lemma alert_calls_ok: "rows_ok (alert_rows d) \<Longrightarrow> rows_ok (alert_rows (alert_calls xs d))"
  by (induction xs arbitrary: d) (auto simp: alert_calls_def alert_call_ok)

section \<open>Well-formed tables and the life of an alert\<close>

lemma no_alerts_ok [simp]: "rows_ok (alert_rows no_alerts)"
  by (simp add: no_alerts_def rows_ok_def)

text \<open>C35: Whatever calls are made on the alert tables, identifiers and condition keys stay unique and every row's
  columns fit its state: at most three delivery attempts, none while pending, a resolution time exactly when
  resolved, an acknowledgement exactly when acknowledged or later.\<close>

theorem alerts_well_formed:
  "distinct (map ar_id (alert_rows (alert_calls xs no_alerts)))
   \<and> distinct (map row_key (alert_rows (alert_calls xs no_alerts)))
   \<and> list_all alert_ok (alert_rows (alert_calls xs no_alerts))"
  using alert_calls_ok [OF no_alerts_ok, of xs] unfolding rows_ok_def .


section \<open>Synchronising\<close>

definition unresolved :: "alert_row list \<Rightarrow> alert_row set" where
  "unresolved rows = {r \<in> set rows. ar_state r \<noteq> StateResolved}"

lemma unresolved_trim: "unresolved (trim_history limit rows) = unresolved rows"
proof -
  obtain P where "trim_history limit rows = filter P rows" "\<forall>r. ar_state r \<noteq> StateResolved \<longrightarrow> P r"
    using trim_history_filter by blast
  then show ?thesis by (auto simp: unresolved_def)
qed

lemma unresolved_resolve:
  "unresolved (upd_where (is_absent p cs) (resolve_row now) rows) = {r \<in> unresolved rows. \<not> is_absent p cs r}"
  by (auto simp: unresolved_def in_upd_where resolve_row_def dest: arg_cong [where f = ar_state])

lemma absent_iff: "ar_state r \<noteq> StateResolved \<Longrightarrow> is_absent p cs r \<longleftrightarrow>
    \<not> ((p \<noteq> [] \<and> co_profile (ar_condition r) \<noteq> p) \<or> row_key r \<in> co_key ` set cs)"
  by (cases "ar_state r") (auto simp: is_absent_def)

lemma sync_effect:
  assumes "SyncAlerts e ids p cs now limit (alert_calls xs no_alerts) = (None, d')"
  shows "row_key ` unresolved (alert_rows d') = co_key ` set cs
      \<union> row_key ` {r \<in> unresolved (alert_rows (alert_calls xs no_alerts)). p \<noteq> [] \<and> co_profile (ar_condition r) \<noteq> p}"
    and "length (filter (\<lambda>r. ar_state r = StateResolved) (alert_rows d')) \<le> limit"
proof -
  let ?rows = "alert_rows (alert_calls xs no_alerts)"
  have ok: "rows_ok ?rows" by (rule alert_calls_ok) simp
  obtain rows' where d': "alert_rows d' = rows'" and body: "sync_body e ids p cs now limit ?rows = Inr rows'"
    using SyncAlerts_cases [OF assms] by (metis alert_db.select_convs(1) alert_db.surjective alert_db.update_convs(1))
  obtain rows1 rows2 where s: "sync_conditions e ids now 1 cs ?rows = Inr rows1"
    "rows2 = upd_where (is_absent p cs) (resolve_row now) rows1" "rows' = trim_history limit rows2" "rows_ok rows2"
    by (rule sync_step [OF body ok])
  note c = sync_conditions_ok [OF s(1) ok]
  have "unresolved rows' = {r \<in> unresolved rows1. \<not> is_absent p cs r}"
    unfolding s(3) unresolved_trim s(2) unresolved_resolve ..
  also have "\<dots> = {r \<in> set rows1. row_key r \<in> co_key ` set cs}
      \<union> {r \<in> unresolved ?rows. row_key r \<notin> co_key ` set cs \<and> p \<noteq> [] \<and> co_profile (ar_condition r) \<noteq> p}"
    using c by (auto simp: unresolved_def absent_iff)
  finally have u: "unresolved rows' = \<dots>" .
  have "row_key ` {r \<in> set rows1. row_key r \<in> co_key ` set cs} = row_key ` set rows1 \<inter> co_key ` set cs"
    by auto
  also have "\<dots> = co_key ` set cs" using c by auto
  finally have "row_key ` {r \<in> set rows1. row_key r \<in> co_key ` set cs} = co_key ` set cs" .
  then show "row_key ` unresolved (alert_rows d') = co_key ` set cs
      \<union> row_key ` {r \<in> unresolved ?rows. p \<noteq> [] \<and> co_profile (ar_condition r) \<noteq> p}"
    unfolding d' u image_Un by auto
  show "length (filter (\<lambda>r. ar_state r = StateResolved) (alert_rows d')) \<le> limit"
    unfolding d' s(3) by (rule trim_history_bound) (use s(4) in \<open>simp add: rows_ok_def\<close>)
qed

text \<open>C37: After a successful synchronisation for a profile, or for all of them, the unresolved alerts are those of
  the given conditions and, for one profile, those the other profiles had; at most the given number of
  resolved alerts is kept.\<close>

theorem sync_tracks_the_conditions:
  assumes "SyncAlerts e ids p cs now limit (alert_calls xs no_alerts) = (None, d')"
  shows "row_key ` unresolved (alert_rows d') = co_key ` set cs
      \<union> row_key ` {r \<in> unresolved (alert_rows (alert_calls xs no_alerts)). p \<noteq> [] \<and> co_profile (ar_condition r) \<noteq> p}
    \<and> length (filter (\<lambda>r. ar_state r = StateResolved) (alert_rows d')) \<le> limit"
  using sync_effect [OF assms] ..

section \<open>Claims\<close>

text \<open>How often an alert is claimed in a sequence of calls.\<close>

fun claims :: "string \<Rightarrow> alert_operation list \<Rightarrow> alert_db \<Rightarrow> nat" where
  "claims a [] d = 0"
| "claims a (x # xs) d =
     (case x of CallClaim e b now \<Rightarrow> of_bool (b = a \<and> fst (ClaimAlertDelivery e b now d) = Inr True) | _ \<Rightarrow> 0)
     + claims a xs (alert_call x d)"

text \<open>An episode of an alert: it is unresolved whenever the tables are synchronised, and an unavailable adapter
  is recorded with the alert's attempts, as \<open>deliver\<close> does with a record that is up to date. It excludes the
  records of an unavailable adapter whose attempts are out of date, which \<open>RecordAlertDelivery\<close> accepts.\<close>

fun episode :: "string \<Rightarrow> alert_operation list \<Rightarrow> alert_db \<Rightarrow> bool" where
  "episode a [] d = True"
| "episode a (x # xs) d =
     ((case x of
         CallSync e ids p cs now limit \<Rightarrow>
           (case alert_of a d of None \<Rightarrow> False | Some r \<Rightarrow> ar_state r \<noteq> StateResolved)
       | CallRecord e b out \<Rightarrow>
           b = a \<longrightarrow> do_state out = DeliveryUnavailable \<longrightarrow> map_option ar_attempts (alert_of a d) = Some (do_attempts out)
       | _ \<Rightarrow> True) \<and> episode a xs (alert_call x d))"

definition attempts_of :: "string \<Rightarrow> alert_db \<Rightarrow> int" where
  "attempts_of a d = (case alert_of a d of None \<Rightarrow> 0 | Some r \<Rightarrow> ar_attempts r)"

lemma alert_of_upd:
  "(\<And>r. ar_id (g r) = ar_id r) \<Longrightarrow>
   alert_of a (d\<lparr>alert_rows := upd_where p g (alert_rows d)\<rparr>) = map_option (\<lambda>r. if p r then g r else r) (alert_of a d)"
  by (simp add: alert_of_def alert_table.lookup_def find_upd_where)

lemma update_ids:
  "ar_id (claim_row now r) = ar_id r" "ar_id (record_row out r) = ar_id r"
  by (simp_all add: claim_row_def record_row_def)

lemma claim_result:
  assumes "rows_ok (alert_rows d)" "fst (ClaimAlertDelivery e a now d) = Inr True"
  shows "\<exists>r. alert_of a d = Some r \<and> claimable a now r"
proof -
  have "count_where (claimable a now) (alert_rows d) \<noteq> 0"
    using assms(2) by (auto simp: ClaimAlertDelivery_def split: if_splits)
  then obtain r where "r \<in> set (alert_rows d)" "claimable a now r" by (auto simp: count_where_0)
  then show ?thesis using alert_of_Some [OF assms(1), of a r] by (auto simp: claimable_def)
qed

text \<open>A synchronisation in an episode leaves the attempts alone, or ends the alert.\<close>

lemma sync_attempts:
  assumes "rows_ok (alert_rows d)" "alert_of a d = Some r" "ar_state r \<noteq> StateResolved"
    and "alert_of a (snd (SyncAlerts e ids p cs now limit d)) = Some r'"
  shows "ar_attempts r' = ar_attempts r"
proof -
  obtain x d' where y: "SyncAlerts e ids p cs now limit d = (x, d')" by (metis surj_pair)
  show ?thesis
  proof (rule SyncAlerts_cases [OF y])
    assume "d' = d" then show ?thesis using assms(2,4) y by simp
  next
    fix rows' assume d': "d' = d\<lparr>alert_rows := rows'\<rparr>"
      and body: "sync_body e ids p cs now limit (alert_rows d) = Inr rows'"
    obtain rows1 rows2 where s: "sync_conditions e ids now 1 cs (alert_rows d) = Inr rows1"
      "rows2 = upd_where (is_absent p cs) (resolve_row now) rows1" "rows' = trim_history limit rows2" "rows_ok rows2"
      by (rule sync_step [OF body assms(1)])
    have r: "r \<in> set (alert_rows d)" "ar_id r = a" using assms(1,2) alert_of_Some by auto
    obtain t where t: "t \<in> set rows1" "ar_id t = a" "ar_attempts t = ar_attempts r"
      using sync_conditions_unresolved [OF s(1) r(1) assms(3)] r(2) by (auto simp: life_def)
    let ?u = "if is_absent p cs t then resolve_row now t else t"
    have u: "?u \<in> set rows2" "ar_id ?u = a" "ar_attempts ?u = ar_attempts r"
      using t unfolding s(2) in_upd_where by (auto simp: resolve_row_def)
    have "r' \<in> set rows'" "ar_id r' = a"
      using assms(4) d' y alert_table.lookup_SomeD [of a rows' r'] by (auto simp: alert_of_def)
    then have "r' \<in> set rows2" using s(3) by (auto simp: trim_history_def Let_def)
    then have "r' = ?u" using rows_ok_same(1) [OF s(4) _ u(1)] u(2) \<open>ar_id r' = a\<close> by simp
    then show ?thesis using u(3) by simp
  qed
qed

text \<open>What the other calls do to the row of an alert.\<close>

lemma alert_of_acknowledge:
  "\<exists>q. alert_of a (alert_call (CallAcknowledge e b now) d)
     = map_option (\<lambda>r. if q r then r\<lparr>ar_state := StateAcknowledged, ar_acknowledged := Some now\<rparr> else r) (alert_of a d)"
proof (cases "b = [] \<or> IsZero now \<or> db_fails e (Exec 1)")
  case True
  then show ?thesis by (intro exI [of _ "\<lambda>r. False"]) (auto simp: AcknowledgeAlert_def option.map_ident)
next
  case False
  then show ?thesis
    by (intro exI [of _ "\<lambda>r. ar_id r = b \<and> ar_state r = StateOpen"])
       (auto simp: AcknowledgeAlert_def Let_def alert_of_upd)
qed

lemma alert_of_claim:
  "alert_of a (alert_call (CallClaim e b now) d) = alert_of a d \<or>
   alert_of a (alert_call (CallClaim e b now) d)
     = map_option (\<lambda>r. if claimable b now r then claim_row now r else r) (alert_of a d)"
  by (auto simp: ClaimAlertDelivery_def alert_of_upd update_ids)

lemma alert_of_record:
  "alert_of a (alert_call (CallRecord e b out) d) = alert_of a d \<or>
   alert_of a (alert_call (CallRecord e b out) d)
     = map_option (\<lambda>r. if recordable b out r then record_row out r else r) (alert_of a d)"
  by (auto simp: RecordAlertDelivery_def Let_def alert_of_upd update_ids)

lemma gone_stays_gone:
  assumes "rows_ok (alert_rows d)" "alert_of a d = None" "episode a xs d"
  shows "claims a xs d = 0"
  using assms
proof (induction xs arbitrary: d)
  case (Cons x xs)
  note ok = alert_call_ok [OF Cons.prems(1), of x, THEN conjunct1]
  have "alert_of a (alert_call x d) = None \<and> (\<forall>e now. x = CallClaim e a now \<longrightarrow> fst (ClaimAlertDelivery e a now d) \<noteq> Inr True)"
  proof (cases x)
    case (CallAcknowledge e b now)
    then show ?thesis using alert_of_acknowledge [of a e b now d] Cons.prems(2) by auto
  next
    case (CallClaim e b now)
    then show ?thesis
      using alert_of_claim [of a e b now d] Cons.prems(2) claim_result [OF Cons.prems(1), of e a now] by auto
  next
    case (CallRecord e b out)
    then show ?thesis using alert_of_record [of a e b out d] Cons.prems(2) by auto
  qed (use Cons.prems in auto)
  with Cons.IH [OF ok] Cons.prems(3) show ?case by (auto split: alert_operation.splits)
qed simp

lemma claim_counts:
  assumes "rows_ok (alert_rows d)" "alert_of a d = Some r"
  shows "int (of_bool (fst (ClaimAlertDelivery e a now d) = Inr True))
      + ar_attempts r \<le> attempts_of a (snd (ClaimAlertDelivery e a now d))"
proof (cases "fst (ClaimAlertDelivery e a now d) = Inr True")
  case True
  then have "claimable a now r" using claim_result [OF assms(1) True] assms(2) by auto
  moreover have "alert_of a (snd (ClaimAlertDelivery e a now d))
      = map_option (\<lambda>r. if claimable a now r then claim_row now r else r) (alert_of a d)"
    using True by (auto simp: ClaimAlertDelivery_def alert_of_upd update_ids split: if_splits)
  ultimately show ?thesis using assms(2) True by (simp add: attempts_of_def claim_row_def)
next
  case False
  then show ?thesis
    using alert_of_claim [of a e a now d] assms(2) by (auto simp: attempts_of_def claim_row_def)
qed

lemma claims_and_attempts:
  assumes "rows_ok (alert_rows d)" "episode a xs d"
  shows "int (claims a xs d) + attempts_of a d \<le> DeliveryMaxAttempts"
  using assms
proof (induction xs arbitrary: d)
  case Nil
  then show ?case
    using rows_okD [OF Nil(1)] alert_of_Some [OF Nil(1)]
    by (auto simp: attempts_of_def alert_ok_def DeliveryMaxAttempts_def split: option.splits)
next
  case (Cons x xs)
  note ok = alert_call_ok [OF Cons.prems(1), of x, THEN conjunct1]
  show ?case
  proof (cases "alert_of a d")
    case None
    then show ?thesis
      using gone_stays_gone [OF Cons.prems(1) None Cons.prems(2)] by (simp add: attempts_of_def DeliveryMaxAttempts_def)
  next
    case (Some r)
    have rest: "int (claims a xs (alert_call x d)) + attempts_of a (alert_call x d) \<le> DeliveryMaxAttempts"
      using Cons.IH [OF ok] Cons.prems(2) by simp
    have r: "attempts_of a d = ar_attempts r" "ar_attempts r \<le> DeliveryMaxAttempts"
      using Some rows_okD [OF Cons.prems(1), of r] alert_of_Some [OF Cons.prems(1), of a r]
      by (simp_all add: attempts_of_def alert_ok_def)
    show ?thesis
    proof (cases x)
      case (CallSync e ids p cs now limit)
      show ?thesis
      proof (cases "alert_of a (alert_call x d)")
        case None
        then show ?thesis
          using gone_stays_gone [OF ok None] Cons.prems(2) r by (simp add: CallSync)
      next
        case (Some r')
        then have "ar_attempts r' = ar_attempts r"
          using sync_attempts [OF Cons.prems(1) \<open>alert_of a d = Some r\<close>] Cons.prems(2) \<open>alert_of a d = Some r\<close>
          by (simp add: CallSync)
        then show ?thesis using rest r Some by (simp add: CallSync attempts_of_def)
      qed
    next
      case (CallAcknowledge e b now)
      have "attempts_of a (alert_call x d) = attempts_of a d"
        using alert_of_acknowledge [of a e b now d] Some
        by (auto simp: CallAcknowledge attempts_of_def split: if_splits)
      then show ?thesis using rest by (simp add: CallAcknowledge)
    next
      case (CallClaim e b now)
      show ?thesis
      proof (cases "b = a")
        case True
        then show ?thesis using claim_counts [OF Cons.prems(1) Some, of e now] rest r by (simp add: CallClaim)
      next
        case False
        then have "alert_of a (alert_call x d) = alert_of a d"
          using alert_of_claim [of a e b now d] Some alert_of_Some [OF Cons.prems(1), of a r]
          by (auto simp: CallClaim claimable_def)
        then show ?thesis using rest r False by (simp add: CallClaim attempts_of_def)
      qed
    next
      case (CallRecord e b out)
      have "attempts_of a (alert_call x d) = attempts_of a d"
        using alert_of_record [of a e b out d] Some alert_of_Some [OF Cons.prems(1), of a r] Cons.prems(2)
        by (auto simp: CallRecord attempts_of_def recordable_def record_row_def split: if_splits)
      then show ?thesis using rest by (simp add: CallRecord)
    qed
  qed
qed

text \<open>C38: In one episode an alert is claimed for delivery at most three times, in any sequence of calls in which
  every record of an unavailable adapter carries the attempts the alert then has. (A record with stale attempts,
  which the code accepts, can reset them: \<open>stale_unavailable_outcome_resets_attempts\<close>.)\<close>

theorem claims_are_bounded:
  assumes "episode a xs (alert_calls ys no_alerts)"
  shows "claims a xs (alert_calls ys no_alerts) \<le> 3"
proof -
  have ok: "rows_ok (alert_rows (alert_calls ys no_alerts))" by (rule alert_calls_ok) simp
  have "0 \<le> attempts_of a (alert_calls ys no_alerts)"
    using rows_okD [OF ok] alert_of_Some [OF ok] by (auto simp: attempts_of_def alert_ok_def split: option.splits)
  then show ?thesis using claims_and_attempts [OF ok assms] by (simp add: DeliveryMaxAttempts_def)
qed

section \<open>Rules\<close>

lemma appendCondition_set: "set cs \<subseteq> set (appendCondition cs c)" "set (appendCondition cs c) \<subseteq> insert c (set cs)"
  by (auto simp: appendCondition_def)

lemma appendCondition_remaining:
  "co_remaining c = None \<Longrightarrow> d \<in> set (appendCondition cs c) \<and> co_remaining d = Some v \<longleftrightarrow> d \<in> set cs \<and> co_remaining d = Some v"
  by (auto simp: appendCondition_def)

lemma operational_remaining [simp]: "co_remaining (operationalCondition ev cat kind sev title text now) = None"
  by (simp add: operationalCondition_def Let_def)

lemma operational_conditions_remaining:
  "d \<in> set (operational_conditions ev now cs) \<and> co_remaining d = Some v \<longleftrightarrow> d \<in> set cs \<and> co_remaining d = Some v"
  by (simp add: operational_conditions_def Let_def appendCondition_remaining)

lemma reauthentication_remaining: "d \<in> set (reauthentication_conditions ev now) \<Longrightarrow> co_remaining d = None"
proof -
  have "d \<in> set (foldl (\<lambda>cs a. if P a then appendCondition cs (reauthentication_condition ev now) else cs) cs0 as) \<Longrightarrow>
      \<forall>d\<in>set cs0. co_remaining d = None \<Longrightarrow> co_remaining d = None" for P cs0 and as :: "availability list"
    by (induction as arbitrary: cs0) (auto simp: appendCondition_def reauthentication_condition_def split: if_splits)
  from this [of "\<lambda>a. av_state a = AvailabilityReauthenticationRequired" "[]"]
  show "d \<in> set (reauthentication_conditions ev now) \<Longrightarrow> co_remaining d = None"
    by (auto simp: reauthentication_conditions_def Let_def appendCondition_def reauthentication_condition_def
        split: if_splits)
qed

lemma evaluate_remaining:
  "c \<in> set (Evaluate fsub ev ths now) \<and> co_remaining c = Some v \<longleftrightarrow>
   (\<exists>ob\<in>set (sn_observations (ae_snapshot ev)). is_current ev now ob \<and> c \<in> set (capacity_condition fsub ev ths ob)
      \<and> co_remaining c = Some v)"
proof -
  have credit: "co_remaining d = None" if "d \<in> set (credit_condition ev now)" for d
    using that by (auto simp: credit_condition_def Let_def split: option.splits if_splits)
  have reset: "co_remaining d = None" if "d \<in> set (reset_condition ev now ob)" for d ob
    using that by (auto simp: reset_condition_def window_condition_def split: option.splits if_splits)
  show ?thesis
    unfolding Evaluate_def set_sort_by operational_conditions_remaining
    by (auto simp: observation_conditions_def dest: credit reset reauthentication_remaining split: if_splits)
qed

text \<open>C39: A profile has a capacity alert of a level with a remaining percentage exactly when current,
  available, provider-reported evidence gives that percentage and it lies in the level's range: nothing left,
  up to the critical threshold, or above it up to the warning threshold of the profile and metric.\<close>

theorem alert_levels_match_thresholds:
  "(\<exists>c\<in>set (Evaluate fsub ev ths now). co_kind c = kind \<and> co_metric c = k \<and> co_remaining c = Some v) \<longleftrightarrow>
   (\<exists>ob\<in>set (sn_observations (ae_snapshot ev)). is_current ev now ob \<and> key_of ob = k \<and> v = fsub (Fin 100) (ob_value ob))
   \<and> (if fle v (Fin 0) then kind = KindCapacityExhausted
      else if fle v (th_critical (thresholdFor (ae_profile ev) k ths)) then kind = KindCapacityCritical
      else kind = KindCapacityWarning \<and> fle v (th_warning (thresholdFor (ae_profile ev) k ths)))"
proof -
  let ?level = "\<lambda>v. (if fle v (Fin 0) then kind = KindCapacityExhausted
      else if fle v (th_critical (thresholdFor (ae_profile ev) k ths)) then kind = KindCapacityCritical
      else kind = KindCapacityWarning \<and> fle v (th_warning (thresholdFor (ae_profile ev) k ths)))"
  have "(\<exists>c\<in>set (capacity_condition fsub ev ths ob). co_kind c = kind \<and> co_metric c = k \<and> co_remaining c = Some v)
      \<longleftrightarrow> key_of ob = k \<and> v = fsub (Fin 100) (ob_value ob) \<and> ?level v" for ob
    by (auto simp: capacity_condition_def capacity_kind_def window_condition_def Let_def)
  then show ?thesis using evaluate_remaining [of _ fsub ev ths now v] by blast
qed

section \<open>Samples\<close>

definition sample_condition :: "string \<Rightarrow> condition" where
  "sample_condition k = \<lparr>co_key = k, co_profile = ''p1'', co_alias = ''work'', co_category = CategoryStaleData,
     co_kind = KindStaleEvidence, co_severity = SeverityWarning, co_title = ''Usage evidence is stale'', co_guidance = [],
     co_metric = [], co_start = None, co_end = None, co_remaining = None, co_source = [], co_version = [],
     co_provenance = [], co_scope = [], co_freshness = [], co_reason = [], co_captured = 10, co_observed = 10\<rparr>"

definition sample_sync :: "string list \<Rightarrow> time \<Rightarrow> alert_operation" where
  "sample_sync ks t =
     CallSync (sample_env t) (\<lambda>i. if i = 1 then Some ''a1'' else Some ''a2'') [] (map sample_condition ks) t 5"

definition sample_failure :: "int \<Rightarrow> time \<Rightarrow> alert_operation" where
  "sample_failure n t = CallRecord (sample_env t) ''a1'' (failed_outcome n t)"

text \<open>Two deliveries interleave: the second has listed the alert before the first claimed it, finds the adapter
  unavailable and records that with the attempts it read.\<close>

definition sample_race :: "alert_operation list" where
  "sample_race = [CallClaim (sample_env 20) ''a1'' 20, sample_failure 1 20,
     CallRecord (sample_env 20) ''a1''
       \<lparr>do_state = DeliveryUnavailable, do_attempts = 0, do_attempted = 20, do_next = Some (20 + 30 * Minute),
        do_delivered = None, do_error = AlertNotificationFailed\<rparr>,
     CallClaim (sample_env (40 * Minute)) ''a1'' (40 * Minute), sample_failure 1 (40 * Minute),
     CallClaim (sample_env (60 * Minute)) ''a1'' (60 * Minute), sample_failure 2 (60 * Minute),
     CallClaim (sample_env (80 * Minute)) ''a1'' (80 * Minute)]"

text \<open>Recording an unavailable adapter does not compare the attempts, so a record read before another
  delivery claimed the alert resets its attempts, and the alert is claimed a fourth time.\<close>

theorem stale_unavailable_outcome_resets_attempts:
  "claims ''a1'' sample_race (alert_calls [sample_sync [''k1''] 10] no_alerts) = 4"
  by code_simp

theorem claims_are_bounded_witness:
  "claims ''a1'' (take 2 sample_race) (alert_calls [sample_sync [''k1''] 10] no_alerts) \<le> 3
   \<and> claims ''a1'' (take 2 sample_race) (alert_calls [sample_sync [''k1''] 10] no_alerts) = 1"
proof -
  have "episode ''a1'' (take 2 sample_race) (alert_calls [sample_sync [''k1''] 10] no_alerts)"
    "claims ''a1'' (take 2 sample_race) (alert_calls [sample_sync [''k1''] 10] no_alerts) = 1"
    by code_simp+
  then show ?thesis using claims_are_bounded by blast
qed

definition sample_claim :: "time \<Rightarrow> alert_operation" where
  "sample_claim t = CallClaim (sample_env t) ''a1'' t"


theorem sync_tracks_the_conditions_witness:
  "row_key ` unresolved (alert_rows (snd (SyncAlerts (sample_env 30) (\<lambda>i. Some ''a3'') [] [sample_condition ''k2''] 30 5
     (alert_calls [sample_sync [''k1'', ''k2''] 10] no_alerts)))) = {''k2''}"
proof -
  obtain x d' where s: "SyncAlerts (sample_env 30) (\<lambda>i. Some ''a3'') [] [sample_condition ''k2''] 30 5
     (alert_calls [sample_sync [''k1'', ''k2''] 10] no_alerts) = (x, d')" by (metis surj_pair)
  have "fst (SyncAlerts (sample_env 30) (\<lambda>i. Some ''a3'') [] [sample_condition ''k2''] 30 5
     (alert_calls [sample_sync [''k1'', ''k2''] 10] no_alerts)) = None" by code_simp
  then show ?thesis
    using sync_tracks_the_conditions [of "sample_env 30" "\<lambda>i. Some ''a3''" "[]" "[sample_condition ''k2'']" 30 5
        "[sample_sync [''k1'', ''k2''] 10]" d'] s by (simp add: sample_condition_def)
qed

end
