(* ===== verification/Usage_Store.thy ===== *)
theory Usage_Store
  imports Scheduler Go_Time Alias "HOL-Library.Monad_Syntax"
begin

text \<open>
  Usage in the store: \<^verbatim>\<open>internal/store/usage.go\<close> and \<^verbatim>\<open>internal/store/scheduler.go\<close>. The profile tables are read as \<open>db\<close>;
  the usage tables are a record of their own. A \<open>NULL\<close> blob or text is \<open>''\<close> where the code treats them alike.
  \<open>ids n\<close> is the \<open>n\<close>-th identifier \<open>newStoreIdentifier\<close> draws in the call.
\<close>

section \<open>Tables\<close>

record usage_snapshot_row =
  us_id :: string
  us_profile :: string
  us_source :: string
  us_version :: string
  us_captured :: time
  us_status :: string
  us_trigger :: string
  us_login :: string
  us_workspace :: string

record provenance_row =
  mp_id :: string
  mp_source :: string
  mp_version :: string
  mp_captured :: time
  mp_freshness :: string
  mp_availability :: string
  mp_label :: string

record availability_row =
  ma_id :: string
  ma_profile :: string
  ma_metric :: string
  ma_state :: string
  ma_checked :: time
  ma_provenance :: string
  ma_reason :: string
  ma_condition :: string

record observation_row =
  uo_id :: string
  uo_profile :: string
  uo_metric :: string
  uo_provenance :: string
  uo_availability :: string
  uo_value :: float64
  uo_unit :: string
  uo_start :: "time option"
  uo_end :: "time option"
  uo_observed :: time
  uo_snapshot :: string
  uo_timezone :: string
  uo_assumptions :: string
  uo_uncertainty :: string

text \<open>The columns of \<open>usage_aggregates\<close> that are read here; \<open>bucket_kind\<close> as whether it is \<open>source_window\<close>.\<close>

record aggregate_row =
  ug_id :: string
  ug_profile :: string
  ug_metric :: string
  ug_value :: float64
  ug_window :: bool
  ug_start :: time
  ug_end :: time
  ug_timezone :: string
  ug_last_observed :: time
  ug_last_captured :: time
  ug_source :: string
  ug_version :: string
  ug_label :: string
  ug_availability :: string
  ug_assumptions :: string
  ug_uncertainty :: string

record schedule_row =
  cl_profile :: string
  cl_last :: "time option"
  cl_next :: time
  cl_failures :: int
  cl_outcome :: string

text \<open>\<open>ut_intervals\<close> are the collection columns, in seconds, of the single settings row.\<close>

record usage_db =
  ut_snapshots :: "usage_snapshot_row list"
  ut_metrics :: "metric list"
  ut_provenances :: "provenance_row list"
  ut_availabilities :: "availability_row list"
  ut_observations :: "observation_row list"
  ut_aggregates :: "aggregate_row list"
  ut_schedules :: "schedule_row list"
  ut_intervals :: "(int \<times> int) option"

interpretation provenance_table: keyed_table mp_id .
interpretation availability_table: keyed_table ma_id .
interpretation schedule_table: keyed_table cl_profile .

section \<open>Validation\<close>

definition validUsageSource :: "string \<Rightarrow> bool" where
  "validUsageSource v \<longleftrightarrow> v \<in> set [SourceCodexAppServer, ''local_metadata'', ''derived'']"

definition validUsageProvenance :: "string \<Rightarrow> bool" where
  "validUsageProvenance v \<longleftrightarrow>
     v \<in> set [ProvenanceProvider, ProvenanceLocal, ProvenanceEstimated, ''Observed during session'']"

definition validAvailability :: "string \<Rightarrow> bool" where
  "validAvailability v \<longleftrightarrow>
     v \<in> set [AvailabilityAvailable, AvailabilityUnsupported, AvailabilityTemporarilyUnavailable, AvailabilityStale,
       AvailabilityReauthenticationRequired, AvailabilityContradictory]"

definition validSnapshotStatus :: "string \<Rightarrow> bool" where
  "validSnapshotStatus v \<longleftrightarrow> validAvailability v \<or> v = AvailabilityPartial"

definition validFreshness :: "string \<Rightarrow> bool" where
  "validFreshness v \<longleftrightarrow> v = FreshnessFresh \<or> v = FreshnessStale"

definition validObservationAvailability :: "string \<Rightarrow> bool" where
  "validObservationAvailability v \<longleftrightarrow>
     v = AvailabilityAvailable \<or> v = AvailabilityStale \<or> v = AvailabilityContradictory"

definition ValidTriggerReason :: "string \<Rightarrow> bool" where
  "ValidTriggerReason v \<longleftrightarrow>
     v \<in> set [''explicit_refresh'', ''dashboard_open'', ''dashboard_refresh'', ''pre_launch'', ''post_exit'',
       TriggerPeriodicActive, TriggerPeriodicIdle, TriggerPeriodicReset]"

text \<open>The loop over the availability items; no state is empty, so a key is repeated if it has a state.\<close>

fun valid_items :: "availability list \<Rightarrow> string list \<Rightarrow> bool" where
  "valid_items [] seen = True"
| "valid_items (a # as) seen =
     (lookup_metric Registry (av_key a) \<noteq> None \<and> \<not> IsZero (av_checked a) \<and> validUsageProvenance (av_provenance a)
      \<and> validAvailability (av_state a) \<and> av_key a \<notin> set seen \<and> valid_items as (av_key a # seen))"

definition valid_observation :: "snapshot \<Rightarrow> observation \<Rightarrow> bool" where
  "valid_observation sn ob \<longleftrightarrow>
     lookup_metric Registry (key_of ob) = Some (ob_metric ob) \<and> \<not> IsZero (ob_observed ob) \<and> \<not> IsZero (ob_captured ob)
     \<and> \<not> sn_captured sn < ob_captured ob \<and> validUsageSource (ob_source ob) \<and> \<not> blank (ob_version ob)
     \<and> validUsageProvenance (ob_provenance ob)
     \<and> \<not> (ob_provenance ob = ProvenanceEstimated \<and> ob_assumptions ob = [] \<and> ob_uncertainty ob = [])
     \<and> validFreshness (ob_freshness ob) \<and> validObservationAvailability (ob_availability ob)
     \<and> state_of (sn_availability sn) (key_of ob) = Some (ob_availability ob)
     \<and> (ob_start ob = None \<longleftrightarrow> ob_end ob = None) \<and> \<not> (ob_start ob \<noteq> None \<and> ob_timezone ob = [])"

definition validUsageSnapshot :: "target \<Rightarrow> snapshot \<Rightarrow> bool" where
  "validUsageSnapshot t sn \<longleftrightarrow>
     tg_id t \<noteq> [] \<and> tg_alias t \<noteq> [] \<and> sn_source sn = SourceCodexAppServer \<and> \<not> blank (sn_version sn)
     \<and> \<not> IsZero (sn_captured sn) \<and> validSnapshotStatus (sn_status sn) \<and> ValidTriggerReason (sn_trigger sn)
     \<and> length (sn_availability sn) = length Registry \<and> valid_items (sn_availability sn) []
     \<and> list_all (valid_observation sn) (sn_observations sn)"

definition storedAvailabilityState :: "string \<Rightarrow> string" where
  "storedAvailabilityState v = (if v = AvailabilityContradictory then AvailabilityAvailable else v)"

definition storedAvailabilityCondition :: "string \<Rightarrow> string" where
  "storedAvailabilityCondition v = (if v = AvailabilityContradictory then v else [])"

definition usageScopeAAD :: "string \<Rightarrow> string \<Rightarrow> string" where
  "usageScopeAAD i fld = ''codex-folio/usage-snapshots/'' @ i @ ''/'' @ fld"

section \<open>Profiles\<close>

definition unavailable :: err where
  "unavailable = New UsageProfileUnavailable (plain ErrUsageProfileUnavailable)"

definition usage_invalid :: err where
  "usage_invalid = New UsageRequestInvalid (plain ErrUsageInvalid)"

definition usage_read :: err where "usage_read = read_failed ErrPersistenceFailed"
definition usage_write :: err where "usage_write = write_failed ErrPersistenceFailed"

text \<open>The live profiles with their aliases.\<close>

definition usage_join :: "db \<Rightarrow> (profile_row \<times> string) list" where
  "usage_join d =
     concat (map (\<lambda>p. map (\<lambda>a. (p, al_alias a)) (filter (\<lambda>a. al_profile a = pr_id p) (aliases d)))
                 (filter (\<lambda>p. \<not> quarantined d (pr_id p)) (profiles d)))"

definition decrypt_optional :: "vault_ops \<Rightarrow> string \<Rightarrow> string \<Rightarrow> err + string" where
  "decrypt_optional v ciphertext aad = (if ciphertext = [] then Inr [] else decryptField v ciphertext aad)"

definition ResolveUsageProfile :: "env \<Rightarrow> string \<Rightarrow> db \<Rightarrow> err + target" where
  "ResolveUsageProfile e a d =
     (if ValidateAlias a \<noteq> None then Inl usage_invalid
      else if db_fails e (Query 1) then Inl usage_read
      else case find (\<lambda>(p, b). EqualFold b a) (usage_join d) of
        None \<Rightarrow> Inl (New UsageProfileNotFound (plain ErrUsageProfileNotFound))
      | Some (p, b) \<Rightarrow>
          (case (pr_home p, home_of d p) of
             (Some i, Some h) \<Rightarrow>
               if pr_status p \<noteq> StatusReady \<or> blank i \<or> ho_location h = [] then Inl unavailable
               else (case requireVault e of
                  Inl x \<Rightarrow> Inl x
                | Inr v \<Rightarrow>
                    (case decryptField v (ho_location h) (identityHomeAAD i) of
                       Inl x \<Rightarrow> Inl x
                     | Inr path \<Rightarrow>
                         if \<not> IsAbs (Clean path) then Inl unavailable
                         else (case decrypt_optional v (ho_login h) (documentedMetadataAAD (pr_id p) ''login-identity'') of
                            Inl x \<Rightarrow> Inl x
                          | Inr login \<Rightarrow>
                              (case decrypt_optional v (ho_workspace h) (documentedMetadataAAD (pr_id p) ''workspace'') of
                                 Inl x \<Rightarrow> Inl x
                               | Inr ws \<Rightarrow>
                                   Inr \<lparr>tg_id = pr_id p, tg_alias = b, tg_home = Clean path, tg_login = login,
                                        tg_workspace = ws, tg_selected = False, tg_eligible = True\<rparr>))))
           | _ \<Rightarrow> Inl unavailable))"

text \<open>\<open>ORDER BY rtrim(captured_at, 'Z') DESC, snapshot_id DESC\<close>.\<close>

definition newer_snapshot :: "usage_snapshot_row \<Rightarrow> usage_snapshot_row \<Rightarrow> bool" where
  "newer_snapshot a b = (trimmed_less (us_captured b) (us_captured a)
     \<or> (\<not> trimmed_less (us_captured a) (us_captured b) \<and> string_less (us_id b) (us_id a)))"

definition newest_snapshots :: "(usage_snapshot_row \<Rightarrow> bool) \<Rightarrow> usage_db \<Rightarrow> usage_snapshot_row list" where
  "newest_snapshots p u = sort_by newer_snapshot (filter p (ut_snapshots u))"

definition may_collect :: "usage_db \<Rightarrow> db \<Rightarrow> profile_row \<Rightarrow> bool" where
  "may_collect u d p \<longleftrightarrow>
     pr_status p = StatusReady
     \<and> (case home_of d p of None \<Rightarrow> False
        | Some h \<Rightarrow> ho_location h \<noteq> []
            \<and> (ho_ownership h = HomeOwnershipManaged \<or> ho_ownership h = HomeOwnershipReferenced))
     \<and> (case newest_snapshots (\<lambda>s. us_profile s = pr_id p \<and> us_status s \<noteq> AvailabilityTemporarilyUnavailable) u of
          [] \<Rightarrow> True
        | s # _ \<Rightarrow> us_status s \<noteq> AvailabilityReauthenticationRequired)"

definition usage_target :: "env \<Rightarrow> usage_db \<Rightarrow> db \<Rightarrow> profile_row \<times> string \<Rightarrow> err + target" where
  "usage_target e u d pa =
     (case pa of (p, a) \<Rightarrow>
        let t = \<lparr>tg_id = pr_id p, tg_alias = a, tg_home = [], tg_login = [], tg_workspace = [],
                 tg_selected = (selected d = Some (Some (pr_id p))), tg_eligible = False\<rparr>
        in if \<not> may_collect u d p then Inr t
           else case (requireVault e, home_of d p) of
             (Inl x, _) \<Rightarrow> Inl x
           | (Inr v, None) \<Rightarrow> Inr t
           | (Inr v, Some h) \<Rightarrow>
               (case decryptField v (ho_location h) (identityHomeAAD (ho_id h)) of
                  Inl x \<Rightarrow> Inl x
                | Inr path \<Rightarrow> Inr (t\<lparr>tg_eligible := IsAbs path \<and> is_dir e (Clean path)\<rparr>)))"

fun sequence_targets :: "(err + target) list \<Rightarrow> err + target list" where
  "sequence_targets [] = Inr []"
| "sequence_targets (Inl x # rs) = Inl x"
| "sequence_targets (Inr t # rs) = (case sequence_targets rs of Inl x \<Rightarrow> Inl x | Inr ts \<Rightarrow> Inr (t # ts))"

definition usage_before :: "db \<Rightarrow> profile_row \<times> string \<Rightarrow> profile_row \<times> string \<Rightarrow> bool" where
  "usage_before d x y =
     (let s = (\<lambda>z. selected d = Some (Some (pr_id (fst z)))) in
      if s x \<noteq> s y then s x else string_less (ToLower (snd x)) (ToLower (snd y)))"

definition ListUsageProfiles :: "env \<Rightarrow> usage_db \<Rightarrow> db \<Rightarrow> err + target list" where
  "ListUsageProfiles e u d =
     (if db_fails e (Query 1) then Inl usage_read
      else sequence_targets (map (usage_target e u d) (sort_by (usage_before d) (usage_join d))))"

section \<open>Saving a snapshot\<close>

text \<open>The transaction after its first insert: every failure in it gives the same error, here \<open>None\<close>. The state
  counts the identifiers drawn and the statements executed.\<close>

record save_state =
  sx_db :: usage_db
  sx_drawn :: nat
  sx_execs :: nat

definition draw :: "(nat \<Rightarrow> string option) \<Rightarrow> save_state \<Rightarrow> (string \<times> save_state) option" where
  "draw ids st = map_option (\<lambda>i. (i, st\<lparr>sx_drawn := Suc (sx_drawn st)\<rparr>)) (ids (sx_drawn st))"

definition execute :: "env \<Rightarrow> (usage_db \<Rightarrow> usage_db option) \<Rightarrow> save_state \<Rightarrow> save_state option" where
  "execute e f st =
     (if db_fails e (Exec (sx_execs st)) then None
      else map_option (\<lambda>u. st\<lparr>sx_db := u, sx_execs := Suc (sx_execs st)\<rparr>) (f (sx_db st)))"

text \<open>The states \<open>metric_provenance\<close> admits.\<close>

definition provenance_row_ok :: "provenance_row \<Rightarrow> bool" where
  "provenance_row_ok r \<longleftrightarrow>
     mp_availability r \<in> set [AvailabilityAvailable, AvailabilityUnsupported, AvailabilityTemporarilyUnavailable,
       AvailabilityReauthenticationRequired]"

definition insert_provenance :: "provenance_row \<Rightarrow> usage_db \<Rightarrow> usage_db option" where
  "insert_provenance r u =
     (if \<not> provenance_row_ok r \<or> exists_where (\<lambda>s. mp_id s = mp_id r) (ut_provenances u) then None
      else Some (u\<lparr>ut_provenances := ut_provenances u @ [r]\<rparr>))"

definition insert_availability :: "availability_row \<Rightarrow> usage_db \<Rightarrow> usage_db option" where
  "insert_availability r u =
     (if exists_where (\<lambda>s. ma_id s = ma_id r) (ut_availabilities u)
         \<or> \<not> exists_where (\<lambda>s. mp_id s = ma_provenance r) (ut_provenances u) then None
      else Some (u\<lparr>ut_availabilities := ut_availabilities u @ [r]\<rparr>))"

text \<open>SQLite keeps a NaN as \<open>NULL\<close>, which the column refuses.\<close>

definition insert_observation :: "observation_row \<Rightarrow> usage_db \<Rightarrow> usage_db option" where
  "insert_observation r u =
     (if uo_value r = NaN \<or> exists_where (\<lambda>s. uo_id s = uo_id r) (ut_observations u)
         \<or> \<not> exists_where (\<lambda>s. mp_id s = uo_provenance r) (ut_provenances u)
         \<or> \<not> exists_where (\<lambda>s. ma_id s = uo_availability r) (ut_availabilities u)
         \<or> \<not> exists_where (\<lambda>s. us_id s = uo_snapshot r) (ut_snapshots u) then None
      else Some (u\<lparr>ut_observations := ut_observations u @ [r]\<rparr>))"

definition upsert_metric :: "metric \<Rightarrow> usage_db \<Rightarrow> usage_db option" where
  "upsert_metric m u = Some (u\<lparr>ut_metrics :=
     (if exists_where (\<lambda>n. mt_key n = mt_key m) (ut_metrics u)
      then upd_where (\<lambda>n. mt_key n = mt_key m) (\<lambda>n. m) (ut_metrics u) else ut_metrics u @ [m])\<rparr>)"

fun upsert_metrics :: "env \<Rightarrow> metric list \<Rightarrow> save_state \<Rightarrow> save_state option" where
  "upsert_metrics e [] st = Some st"
| "upsert_metrics e (m # ms) st = do { st1 \<leftarrow> execute e (upsert_metric m) st; upsert_metrics e ms st1 }"

text \<open>A new provenance row of the snapshot: its identifier and the state.\<close>

definition new_provenance ::
  "env \<Rightarrow> (nat \<Rightarrow> string option) \<Rightarrow> (string \<Rightarrow> provenance_row) \<Rightarrow> save_state \<Rightarrow> (string \<times> save_state) option" where
  "new_provenance e ids row st =
     do { (i, st1) \<leftarrow> draw ids st; st2 \<leftarrow> execute e (insert_provenance (row i)) st1; Some (i, st2) }"

definition snapshot_provenance :: "snapshot \<Rightarrow> string \<Rightarrow> string \<Rightarrow> string \<Rightarrow> provenance_row" where
  "snapshot_provenance sn state label i =
     \<lparr>mp_id = i, mp_source = sn_source sn, mp_version = sn_version sn, mp_captured = sn_captured sn,
      mp_freshness = FreshnessFresh, mp_availability = state, mp_label = label\<rparr>"

definition observation_provenance :: "observation \<Rightarrow> string \<Rightarrow> provenance_row" where
  "observation_provenance ob i =
     \<lparr>mp_id = i, mp_source = ob_source ob, mp_version = ob_version ob, mp_captured = ob_captured ob,
      mp_freshness = ob_freshness ob, mp_availability = AvailabilityAvailable, mp_label = ob_provenance ob\<rparr>"

definition availability_row_of :: "string \<Rightarrow> availability \<Rightarrow> string \<Rightarrow> string \<Rightarrow> availability_row" where
  "availability_row_of profile a i prov =
     \<lparr>ma_id = i, ma_profile = profile, ma_metric = av_key a, ma_state = storedAvailabilityState (av_state a),
      ma_checked = av_checked a, ma_provenance = prov, ma_reason = av_reason a,
      ma_condition = storedAvailabilityCondition (av_state a)\<rparr>"

definition observation_row_of ::
  "string \<Rightarrow> string \<Rightarrow> observation \<Rightarrow> string \<Rightarrow> string \<Rightarrow> string \<Rightarrow> observation_row" where
  "observation_row_of profile sid ob i prov avail =
     \<lparr>uo_id = i, uo_profile = profile, uo_metric = key_of ob, uo_provenance = prov, uo_availability = avail,
      uo_value = ob_value ob, uo_unit = mt_unit (ob_metric ob), uo_start = ob_start ob, uo_end = ob_end ob,
      uo_observed = ob_observed ob, uo_snapshot = sid, uo_timezone = ob_timezone ob,
      uo_assumptions = ob_assumptions ob, uo_uncertainty = ob_uncertainty ob\<rparr>"

text \<open>The loop over the availability items; \<open>provs\<close> maps provenance labels to rows, \<open>aids\<close> metrics to their items.\<close>

fun save_items ::
  "env \<Rightarrow> (nat \<Rightarrow> string option) \<Rightarrow> string \<Rightarrow> snapshot \<Rightarrow> availability list \<Rightarrow> (string \<Rightarrow> string option) \<Rightarrow>
    (string \<Rightarrow> string option) \<Rightarrow> save_state \<Rightarrow>
    (availability list \<times> (string \<Rightarrow> string option) \<times> save_state) option" where
  "save_items e ids profile sn [] provs aids st = Some ([], aids, st)"
| "save_items e ids profile sn (a # as) provs aids st =
     do { (i, st1) \<leftarrow> draw ids st;
          (q, st2) \<leftarrow> (case provs (av_provenance a) of
             Some q \<Rightarrow> Some (q, st1)
           | None \<Rightarrow> new_provenance e ids
               (snapshot_provenance sn (storedAvailabilityState (av_state a)) (av_provenance a)) st1);
          st3 \<leftarrow> execute e (insert_availability (availability_row_of profile a i q)) st2;
          (as', aids', st4) \<leftarrow> save_items e ids profile sn as (provs(av_provenance a \<mapsto> q)) (aids(av_key a \<mapsto> i)) st3;
          Some (a\<lparr>av_id := i\<rparr> # as', aids', st4) }"

text \<open>An observation has its own provenance row unless it is the snapshot's.\<close>

definition own_provenance :: "snapshot \<Rightarrow> observation \<Rightarrow> bool" where
  "own_provenance sn ob \<longleftrightarrow> ob_source ob \<noteq> sn_source sn \<or> ob_version ob \<noteq> sn_version sn
     \<or> ob_captured ob \<noteq> sn_captured sn \<or> ob_provenance ob \<noteq> ProvenanceProvider"

fun save_observations ::
  "env \<Rightarrow> (nat \<Rightarrow> string option) \<Rightarrow> string \<Rightarrow> string \<Rightarrow> string \<Rightarrow> snapshot \<Rightarrow> (string \<Rightarrow> string option) \<Rightarrow>
    observation list \<Rightarrow> save_state \<Rightarrow> (observation list \<times> save_state) option" where
  "save_observations e ids profile sid prov sn aids [] st = Some ([], st)"
| "save_observations e ids profile sid prov sn aids (ob # obs) st =
     do { (i, st1) \<leftarrow> draw ids st;
          (q, st2) \<leftarrow> (if own_provenance sn ob then new_provenance e ids (observation_provenance ob) st1
                      else Some (prov, st1));
          st3 \<leftarrow> execute e (insert_observation (observation_row_of profile sid ob i q
                   (case aids (key_of ob) of None \<Rightarrow> [] | Some k \<Rightarrow> k))) st2;
          (obs', st4) \<leftarrow> save_observations e ids profile sid prov sn aids obs st3;
          Some (ob\<lparr>ob_id := i\<rparr> # obs', st4) }"

definition save_details ::
  "env \<Rightarrow> (nat \<Rightarrow> string option) \<Rightarrow> target \<Rightarrow> string \<Rightarrow> snapshot \<Rightarrow> save_state \<Rightarrow> (snapshot \<times> save_state) option" where
  "save_details e ids t sid sn st =
     do { st1 \<leftarrow> upsert_metrics e Registry st;
          (prov, st2) \<leftarrow> new_provenance e ids (snapshot_provenance sn
             (if sn_observations sn = [] then av_state (hd (sn_availability sn)) else AvailabilityAvailable)
             ProvenanceProvider) st1;
          (as, aids, st3) \<leftarrow> save_items e ids (tg_id t) sn (sn_availability sn) [ProvenanceProvider \<mapsto> prov] (\<lambda>k. None) st2;
          (obs, st4) \<leftarrow> save_observations e ids (tg_id t) sid prov sn aids (sn_observations sn) st3;
          Some (sn\<lparr>sn_id := sid, sn_profile := tg_id t, sn_alias := tg_alias t, sn_availability := as,
                   sn_observations := obs\<rparr>, st4) }"

definition encrypt_optional :: "vault_ops \<Rightarrow> string \<Rightarrow> string \<Rightarrow> err + string" where
  "encrypt_optional v text aad = (if text = [] then Inr [] else encryptField v text aad)"

definition encrypt_scope :: "env \<Rightarrow> target \<Rightarrow> string \<Rightarrow> err + (string \<times> string)" where
  "encrypt_scope e t sid =
     (if tg_login t = [] \<and> tg_workspace t = [] then Inr ([], [])
      else case requireVault e of
        Inl x \<Rightarrow> Inl x
      | Inr v \<Rightarrow>
          (case encrypt_optional v (tg_login t) (usageScopeAAD sid ''login-identity'') of
             Inl x \<Rightarrow> Inl x
           | Inr l \<Rightarrow>
               (case encrypt_optional v (tg_workspace t) (usageScopeAAD sid ''workspace'') of
                  Inl x \<Rightarrow> Inl x | Inr w \<Rightarrow> Inr (l, w))))"

definition snapshot_row_of :: "target \<Rightarrow> snapshot \<Rightarrow> string \<Rightarrow> string \<times> string \<Rightarrow> usage_snapshot_row" where
  "snapshot_row_of t sn sid lw =
     \<lparr>us_id = sid, us_profile = tg_id t, us_source = sn_source sn, us_version = sn_version sn,
      us_captured = sn_captured sn, us_status = sn_status sn, us_trigger = sn_trigger sn, us_login = fst lw,
      us_workspace = snd lw\<rparr>"

definition SaveUsageSnapshot ::
  "env \<Rightarrow> (nat \<Rightarrow> string option) \<Rightarrow> db \<Rightarrow> target \<Rightarrow> snapshot \<Rightarrow> usage_db \<Rightarrow> (err + snapshot) \<times> usage_db" where
  "SaveUsageSnapshot e ids d t sn u =
     (if \<not> validUsageSnapshot t sn then (Inl usage_invalid, u)
      else if db_fails e BeginTx then (Inl usage_write, u)
      else case ids 0 of
        None \<Rightarrow> (Inl usage_write, u)
      | Some sid \<Rightarrow>
          (case encrypt_scope e t sid of
             Inl x \<Rightarrow> (Inl x, u)
           | Inr lw \<Rightarrow>
               if db_fails e (Exec 0) then (Inl usage_write, u)
               else if \<not> exists_where (\<lambda>p. pr_id p = tg_id t \<and> pr_status p = StatusReady) (profiles d)
               then (Inl unavailable, u)
               else if exists_where (\<lambda>s. us_id s = sid) (ut_snapshots u) then (Inl usage_write, u)
               else
                 (case save_details e ids t sid sn
                    \<lparr>sx_db = u\<lparr>ut_snapshots := ut_snapshots u @ [snapshot_row_of t sn sid lw]\<rparr>, sx_drawn = 1, sx_execs = 1\<rparr> of
                    None \<Rightarrow> (Inl usage_write, u)
                  | Some (sn', st) \<Rightarrow> if db_fails e Commit then (Inl usage_write, u) else (Inr sn', sx_db st))))"

section \<open>Loading\<close>

text \<open>One row of the union in \<open>lastUsageObservations\<close>.\<close>

record evidence_item =
  ei_id :: string
  ei_key :: string
  ei_value :: float64
  ei_observed :: time
  ei_start :: "time option"
  ei_end :: "time option"
  ei_timezone :: string
  ei_assumptions :: string
  ei_uncertainty :: string
  ei_source :: string
  ei_version :: string
  ei_captured :: time
  ei_label :: string
  ei_freshness :: string
  ei_condition :: string

definition joined_observation :: "usage_db \<Rightarrow> observation_row \<Rightarrow> evidence_item option" where
  "joined_observation u b =
     (case (provenance_table.lookup (uo_provenance b) (ut_provenances u),
            availability_table.lookup (uo_availability b) (ut_availabilities u)) of
        (Some p, Some a) \<Rightarrow> Some
          \<lparr>ei_id = uo_id b, ei_key = uo_metric b, ei_value = uo_value b, ei_observed = uo_observed b,
           ei_start = uo_start b, ei_end = uo_end b, ei_timezone = uo_timezone b, ei_assumptions = uo_assumptions b,
           ei_uncertainty = uo_uncertainty b, ei_source = mp_source p, ei_version = mp_version p,
           ei_captured = mp_captured p, ei_label = mp_label p, ei_freshness = mp_freshness p,
           ei_condition = ma_condition a\<rparr>
      | _ \<Rightarrow> None)"

definition aggregated_observation :: "aggregate_row \<Rightarrow> evidence_item" where
  "aggregated_observation g =
     \<lparr>ei_id = ug_id g, ei_key = ug_metric g, ei_value = ug_value g, ei_observed = ug_last_observed g,
      ei_start = (if ug_window g then Some (ug_start g) else None),
      ei_end = (if ug_window g then Some (ug_end g) else None),
      ei_timezone = ug_timezone g, ei_assumptions = ug_assumptions g, ei_uncertainty = ug_uncertainty g,
      ei_source = ug_source g, ei_version = ug_version g, ei_captured = ug_last_captured g, ei_label = ug_label g,
      ei_freshness = FreshnessStale,
      ei_condition = (if ug_availability g = AvailabilityContradictory then ug_availability g else [])\<rparr>"

definition newer_item :: "evidence_item \<Rightarrow> evidence_item \<Rightarrow> bool" where
  "newer_item a b = trimmed_less (ei_captured b) (ei_captured a)"

definition evidence_items :: "usage_db \<Rightarrow> string \<Rightarrow> string \<Rightarrow> evidence_item list" where
  "evidence_items u profile sid =
     sort_by newer_item
       (List.map_filter (joined_observation u)
          (filter (\<lambda>b. uo_profile b = profile \<and> (sid = [] \<or> uo_snapshot b = sid)) (ut_observations u))
        @ (if sid = [] then map aggregated_observation (filter (\<lambda>g. ug_profile g = profile) (ut_aggregates u)) else []))"

text \<open>The key of the evidence, with the separator of the code.\<close>

definition evidence_key :: "evidence_item \<Rightarrow> string" where
  "evidence_key i = strings_Join [ei_key i, ei_source i, ei_version i, ei_label i] [char_of (0::nat)]"

definition no_metric :: metric where
  "no_metric = \<lparr>mt_key = [], mt_kind = [], mt_unit = [], mt_class = [], mt_scope = [], mt_aggregation = []\<rparr>"

definition item_observation :: "evidence_item \<Rightarrow> observation" where
  "item_observation i =
     \<lparr>ob_id = ei_id i, ob_metric = (case lookup_metric Registry (ei_key i) of None \<Rightarrow> no_metric | Some m \<Rightarrow> m),
      ob_value = ei_value i, ob_observed = ei_observed i, ob_captured = ei_captured i, ob_age = 0,
      ob_start = ei_start i, ob_end = ei_end i, ob_timezone = ei_timezone i, ob_source = ei_source i,
      ob_version = ei_version i, ob_provenance = ei_label i, ob_freshness = ei_freshness i,
      ob_availability = (if ei_condition i = AvailabilityContradictory then ei_condition i else AvailabilityAvailable),
      ob_assumptions = ei_assumptions i, ob_uncertainty = ei_uncertainty i\<rparr>"

definition optional_parses :: "time option \<Rightarrow> bool" where
  "optional_parses v \<longleftrightarrow> (case v of None \<Rightarrow> True | Some t \<Rightarrow> parseStoredTime t \<noteq> None)"

text \<open>The loop over the rows; \<open>latest\<close> holds the capture of the first row of each key. \<open>None\<close> is a timestamp that
  does not parse.\<close>

fun latest_loop :: "(string \<Rightarrow> time option) \<Rightarrow> evidence_item list \<Rightarrow> observation list option" where
  "latest_loop latest [] = Some []"
| "latest_loop latest (i # rest) =
     (if parseStoredTime (ei_observed i) = None \<or> parseStoredTime (ei_captured i) = None then None
      else if (case latest (evidence_key i) of None \<Rightarrow> False | Some t \<Rightarrow> t \<noteq> ei_captured i) then latest_loop latest rest
      else if \<not> optional_parses (ei_start i) \<or> \<not> optional_parses (ei_end i) then None
      else map_option (\<lambda>obs. item_observation i # obs) (latest_loop (latest(evidence_key i \<mapsto> ei_captured i)) rest))"

definition lastUsageObservations :: "env \<Rightarrow> nat \<Rightarrow> usage_db \<Rightarrow> string \<Rightarrow> string \<Rightarrow> err + observation list" where
  "lastUsageObservations e n u profile sid =
     (if db_fails e (Query n) then Inl usage_read
      else case latest_loop (\<lambda>k. None) (evidence_items u profile sid) of None \<Rightarrow> Inl usage_read | Some obs \<Rightarrow> Inr obs)"

definition LastUsageObservations :: "env \<Rightarrow> usage_db \<Rightarrow> target \<Rightarrow> err + observation list" where
  "LastUsageObservations e u t =
     (if tg_id t = [] then Inl usage_invalid else lastUsageObservations e 1 u (tg_id t) [])"

text \<open>The availability items: all those of the profile checked by the source, version and instant of the snapshot.\<close>

definition joined_availability :: "usage_db \<Rightarrow> usage_snapshot_row \<Rightarrow> availability_row \<Rightarrow> (availability_row \<times> string) option" where
  "joined_availability u s a =
     (case provenance_table.lookup (ma_provenance a) (ut_provenances u) of
        None \<Rightarrow> None
      | Some p \<Rightarrow> if mp_source p = us_source s \<and> mp_version p = us_version s \<and> mp_captured p = us_captured s
                  then Some (a, mp_label p) else None)"

definition item_of_row :: "availability_row \<times> string \<Rightarrow> availability" where
  "item_of_row al =
     (case al of (a, label) \<Rightarrow>
        \<lparr>av_id = ma_id a, av_key = ma_metric a,
         av_state = (if ma_condition a \<noteq> [] then ma_condition a else ma_state a), av_reason = ma_reason a,
         av_checked = ma_checked a, av_provenance = label\<rparr>)"

definition snapshot_items :: "usage_db \<Rightarrow> usage_snapshot_row \<Rightarrow> (availability_row \<times> string) list" where
  "snapshot_items u s =
     sort_by (\<lambda>a b. string_less (ma_metric (fst a)) (ma_metric (fst b)))
       (List.map_filter (joined_availability u s) (filter (\<lambda>a. ma_profile a = us_profile s) (ut_availabilities u)))"

definition decrypt_scope :: "env \<Rightarrow> usage_snapshot_row \<Rightarrow> err + (string \<times> string)" where
  "decrypt_scope e s =
     (if us_login s = [] \<and> us_workspace s = [] then Inr ([], [])
      else case requireVault e of
        Inl x \<Rightarrow> Inl x
      | Inr v \<Rightarrow>
          (case decrypt_optional v (us_login s) (usageScopeAAD (us_id s) ''login-identity'') of
             Inl x \<Rightarrow> Inl x
           | Inr l \<Rightarrow>
               (case decrypt_optional v (us_workspace s) (usageScopeAAD (us_id s) ''workspace'') of
                  Inl x \<Rightarrow> Inl x | Inr w \<Rightarrow> Inr (l, w))))"

definition usageSnapshot :: "env \<Rightarrow> usage_db \<Rightarrow> target \<Rightarrow> string \<Rightarrow> err + snapshot" where
  "usageSnapshot e u t sid =
     (if tg_id t = [] \<or> tg_alias t = [] then Inl usage_invalid
      else if db_fails e (Query 1) then Inl usage_read
      else case newest_snapshots (\<lambda>s. us_profile s = tg_id t \<and> (sid = [] \<or> us_id s = sid)) u of
        [] \<Rightarrow> Inl unavailable
      | s # _ \<Rightarrow>
          if parseStoredTime (us_captured s) = None then Inl usage_read
          else case decrypt_scope e s of
            Inl x \<Rightarrow> Inl x
          | Inr (l, w) \<Rightarrow>
              if db_fails e (Query 2) \<or> \<not> list_all (\<lambda>a. parseStoredTime (ma_checked (fst a)) \<noteq> None) (snapshot_items u s)
              then Inl usage_read
              else (case lastUsageObservations e 3 u (tg_id t) sid of
                 Inl x \<Rightarrow> Inl x
               | Inr obs \<Rightarrow> Inr
                   \<lparr>sn_id = us_id s, sn_profile = tg_id t, sn_alias = tg_alias t, sn_source = us_source s,
                    sn_version = us_version s, sn_captured = us_captured s, sn_status = us_status s,
                    sn_trigger = us_trigger s, sn_observations = obs,
                    sn_availability = map item_of_row (snapshot_items u s), sn_login = l, sn_workspace = w\<rparr>))"

definition LatestUsageSnapshot :: "env \<Rightarrow> usage_db \<Rightarrow> target \<Rightarrow> err + snapshot" where
  "LatestUsageSnapshot e u t = usageSnapshot e u t []"

definition LatestSuccessfulUsageRefresh :: "env \<Rightarrow> usage_db \<Rightarrow> target \<Rightarrow> err + time" where
  "LatestSuccessfulUsageRefresh e u t =
     (if db_fails e (Query 1) then Inl (coded StoreReadFailed (Some (plain Opaque)))
      else case newest_snapshots (\<lambda>s. us_profile s = tg_id t
                  \<and> exists_where (\<lambda>b. uo_snapshot b = us_id s) (ut_observations u)) u of
        [] \<Rightarrow> Inr 0
      | s # _ \<Rightarrow> if parseStoredTime (us_captured s) = None then Inl (coded StoreReadFailed (Some (plain Opaque)))
                 else Inr (us_captured s))"

text \<open>The last twelve captures, oldest first; the calls of each load fail as \<open>db_fails\<close> says for the load.\<close>

fun load_each :: "(nat \<Rightarrow> env) \<Rightarrow> usage_db \<Rightarrow> target \<Rightarrow> usage_snapshot_row list \<Rightarrow> err + snapshot list" where
  "load_each es u t [] = Inr []"
| "load_each es u t (s # ss) =
     (case usageSnapshot (es (length ss)) u t (us_id s) of
        Inl x \<Rightarrow> Inl x
      | Inr sn \<Rightarrow> (case load_each es u t ss of Inl x \<Rightarrow> Inl x | Inr sns \<Rightarrow> Inr (sn # sns)))"

definition RecentUsageSnapshots :: "env \<Rightarrow> (nat \<Rightarrow> env) \<Rightarrow> usage_db \<Rightarrow> target \<Rightarrow> err + snapshot list" where
  "RecentUsageSnapshots e es u t =
     (if db_fails e (Query 1) then Inl (coded StoreReadFailed (Some (plain Opaque)))
      else load_each es u t (rev (take 12 (newest_snapshots (\<lambda>s. us_profile s = tg_id t) u))))"

section \<open>The schedule\<close>

definition Collection_Settings :: "env \<Rightarrow> usage_db \<Rightarrow> err + collection_settings" where
  "Collection_Settings e u =
     (if db_fails e (Query 1) then Inl usage_read
      else case ut_intervals u of
        None \<Rightarrow> Inr DefaultCollectionSettings
      | Some (active, idle) \<Rightarrow>
          let s = DefaultCollectionSettings\<lparr>cs_active := wrap64 (active * Second), cs_idle := wrap64 (idle * Second)\<rparr>
          in if ValidateCollectionSettings s then Inr s else Inl usage_read)"

definition SetCollectionSettings :: "env \<Rightarrow> collection_settings \<Rightarrow> usage_db \<Rightarrow> (err + collection_settings) \<times> usage_db" where
  "SetCollectionSettings e s u =
     (let s1 = (if cs_minimum s = 0 then s\<lparr>cs_minimum := ProviderSafeMinimum\<rparr> else s) in
      if \<not> ValidateCollectionSettings s1 then (Inl (New UsageRequestInvalid (plain ErrScheduleInvalid)), u)
      else if db_fails e (Exec 1) then (Inl usage_write, u)
      else (Inr s1, u\<lparr>ut_intervals := Some (quot (cs_active s1) Second, quot (cs_idle s1) Second)\<rparr>))"

definition schedule_row_of :: "string \<Rightarrow> schedule_state \<Rightarrow> schedule_row" where
  "schedule_row_of profile st =
     \<lparr>cl_profile = profile, cl_last = (if IsZero (ss_last st) then None else Some (ss_last st)),
      cl_next = ss_next st, cl_failures = ss_failures st, cl_outcome = ss_outcome st\<rparr>"

definition SaveCollectionScheduleState ::
  "env \<Rightarrow> string \<Rightarrow> schedule_state \<Rightarrow> usage_db \<Rightarrow> err option \<times> usage_db" where
  "SaveCollectionScheduleState e profile st u =
     (if profile = [] \<or> IsZero (ss_next st) \<or> ss_failures st < 0
         \<or> (ss_outcome st \<noteq> [] \<and> ss_outcome st \<noteq> ScheduleOutcomeSucceeded \<and> ss_outcome st \<noteq> ScheduleOutcomeFailed)
      then (Some (New UsageRequestInvalid (plain ErrScheduleInvalid)), u)
      else if db_fails e (Exec 1) then (Some usage_write, u)
      else (None, u\<lparr>ut_schedules :=
        (if exists_where (\<lambda>r. cl_profile r = profile) (ut_schedules u)
         then upd_where (\<lambda>r. cl_profile r = profile) (\<lambda>r. schedule_row_of profile st) (ut_schedules u)
         else ut_schedules u @ [schedule_row_of profile st])\<rparr>))"

text \<open>The schedule of a profile; a profile without a row has an empty one.\<close>

definition schedule_of :: "usage_db \<Rightarrow> string \<Rightarrow> schedule_state option" where
  "schedule_of u profile =
     (case schedule_table.lookup profile (ut_schedules u) of
        None \<Rightarrow> Some \<lparr>ss_last = 0, ss_next = 0, ss_failures = 0, ss_outcome = []\<rparr>
      | Some r \<Rightarrow>
          if \<not> optional_parses (cl_last r) \<or> parseStoredTime (cl_next r) = None then None
          else Some \<lparr>ss_last = (case cl_last r of None \<Rightarrow> 0 | Some t \<Rightarrow> t), ss_next = cl_next r,
                     ss_failures = cl_failures r, ss_outcome = cl_outcome r\<rparr>)"

definition scheduled_target :: "env \<Rightarrow> usage_db \<Rightarrow> db \<Rightarrow> target \<Rightarrow> err + schedule_target" where
  "scheduled_target e u d t =
     (case (case LatestUsageSnapshot e u t of
              Inr sn \<Rightarrow> Inr sn
            | Inl x \<Rightarrow> if errors_Is x ErrUsageProfileUnavailable then Inr no_snapshot else Inl x) of
        Inl x \<Rightarrow> Inl x
      | Inr latest \<Rightarrow>
          if db_fails e (Query 4) then Inl usage_read
          else (case schedule_of u (tg_id t) of
             None \<Rightarrow> Inl usage_read
           | Some st \<Rightarrow> Inr
               \<lparr>st_profile = t,
                st_active = exists_where (\<lambda>l. ml_profile l = tg_id t \<and> ml_state l = StateRunning) (launches d),
                st_latest = latest, st_state = st\<rparr>))"

fun schedule_targets :: "(nat \<Rightarrow> env) \<Rightarrow> usage_db \<Rightarrow> db \<Rightarrow> target list \<Rightarrow> err + schedule_target list" where
  "schedule_targets es u d [] = Inr []"
| "schedule_targets es u d (t # ts) =
     (if \<not> tg_eligible t then schedule_targets es u d ts
      else case scheduled_target (es (length ts)) u d t of
        Inl x \<Rightarrow> Inl x
      | Inr st \<Rightarrow> (case schedule_targets es u d ts of Inl x \<Rightarrow> Inl x | Inr sts \<Rightarrow> Inr (st # sts)))"

definition CollectionScheduleTargets ::
  "env \<Rightarrow> (nat \<Rightarrow> env) \<Rightarrow> usage_db \<Rightarrow> db \<Rightarrow> err + schedule_target list" where
  "CollectionScheduleTargets e es u d =
     (case ListUsageProfiles e u d of Inl x \<Rightarrow> Inl x | Inr ts \<Rightarrow> schedule_targets es u d ts)"

end
