(* ===== verification/Alert_Evidence.thy ===== *)
theory Alert_Evidence
  imports Alert_Store Usage_Store
begin

text \<open>
  \<open>AlertEvidence\<close> of \<^verbatim>\<open>internal/store/alerts.go\<close>: what the rules are given for each live profile. \<open>es k\<close> are the
  environments of the reads for the \<open>k\<close>-th profile from the end.
\<close>

definition snapshotCollectionFailed :: "snapshot \<Rightarrow> bool" where
  "snapshotCollectionFailed sn \<longleftrightarrow>
     sn_status sn = AvailabilityTemporarilyUnavailable
     \<and> list_ex (\<lambda>a. av_reason a = ReasonCollectionFailed \<or> av_reason a = ReasonMalformedSource) (sn_availability sn)"

definition snapshotRequiresReauthentication :: "snapshot \<Rightarrow> bool" where
  "snapshotRequiresReauthentication sn \<longleftrightarrow>
     list_ex (\<lambda>a. av_state a = AvailabilityReauthenticationRequired) (sn_availability sn)"

definition useful :: "snapshot \<Rightarrow> bool" where
  "useful sn \<longleftrightarrow> sn_observations sn \<noteq> [] \<or> snapshotRequiresReauthentication sn"

text \<open>Lines 57--78, with the snapshots newest first: the latest useful one, or else the latest, the version of
  the useful one before it, and the run of failures at the end.\<close>

definition chosen_snapshot :: "snapshot list \<Rightarrow> snapshot" where
  "chosen_snapshot newest =
     (case dropWhile (\<lambda>s. \<not> useful s) newest of
        s # _ \<Rightarrow> s
      | [] \<Rightarrow> (case newest of [] \<Rightarrow> no_snapshot | s # _ \<Rightarrow> s))"

definition previous_version :: "snapshot list \<Rightarrow> string" where
  "previous_version newest =
     (case dropWhile (\<lambda>s. \<not> useful s) newest of
        [] \<Rightarrow> []
      | _ # older \<Rightarrow> (case dropWhile (\<lambda>s. \<not> useful s) older of [] \<Rightarrow> [] | s # _ \<Rightarrow> sn_version s))"

definition failure_run :: "snapshot list \<Rightarrow> int" where
  "failure_run newest = int (length (takeWhile snapshotCollectionFailed newest))"

definition profile_evidence :: "profile_row \<times> string \<Rightarrow> snapshot list \<Rightarrow> int \<Rightarrow> alert_evidence" where
  "profile_evidence pa sns scheduled =
     \<lparr>ae_profile = pr_id (fst pa), ae_alias = snd pa, ae_status = pr_status (fst pa),
      ae_snapshot = chosen_snapshot (rev sns), ae_previous = previous_version (rev sns),
      ae_failures = max (failure_run (rev sns)) scheduled, ae_credit = None\<rparr>"

fun collect_evidence ::
  "(nat \<Rightarrow> nat \<Rightarrow> env) \<Rightarrow> usage_db \<Rightarrow> (profile_row \<times> string) list \<Rightarrow> err + alert_evidence list" where
  "collect_evidence es u [] = Inr []"
| "collect_evidence es u (pa # pas) =
     (let k = length pas;
          t = \<lparr>tg_id = pr_id (fst pa), tg_alias = snd pa, tg_home = [], tg_login = [], tg_workspace = [],
               tg_selected = False, tg_eligible = False\<rparr>
      in case RecentUsageSnapshots (es k 0) (\<lambda>n. es k (n + 2)) u t of
        Inl x \<Rightarrow> Inl x
      | Inr sns \<Rightarrow>
          if db_fails (es k 1) (Query 1) then Inl alert_read_failed
          else
            let scheduled = (case schedule_table.lookup (pr_id (fst pa)) (ut_schedules u) of
                               None \<Rightarrow> 0 | Some r \<Rightarrow> cl_failures r)
            in (case collect_evidence es u pas of
                  Inl x \<Rightarrow> Inl x
                | Inr evs \<Rightarrow> Inr (profile_evidence pa sns scheduled # evs)))"

definition evidence_before :: "profile_row \<times> string \<Rightarrow> profile_row \<times> string \<Rightarrow> bool" where
  "evidence_before x y =
     (if ToLower (snd x) \<noteq> ToLower (snd y) then string_less (ToLower (snd x)) (ToLower (snd y))
      else string_less (pr_id (fst x)) (pr_id (fst y)))"

definition AlertEvidence ::
  "env \<Rightarrow> (nat \<Rightarrow> nat \<Rightarrow> env) \<Rightarrow> usage_db \<Rightarrow> db \<Rightarrow> string \<Rightarrow> err + alert_evidence list" where
  "AlertEvidence e es u d profile =
     (if db_fails e (Query 1) then Inl alert_read_failed
      else collect_evidence es u
             (sort_by evidence_before (filter (\<lambda>pa. profile = [] \<or> pr_id (fst pa) = profile) (usage_join d))))"

text \<open>The reported versions differ only between two useful captures, so a failed collection never raises a
  compatibility alert by itself.\<close>

lemma previous_version_useful:
  "previous_version newest \<noteq> [] \<Longrightarrow> \<exists>s\<in>set newest. useful s \<and> sn_version s = previous_version newest"
proof -
  assume "previous_version newest \<noteq> []"
  then obtain s older t ts where d: "dropWhile (\<lambda>s. \<not> useful s) newest = s # older"
      "dropWhile (\<lambda>s. \<not> useful s) older = t # ts" "previous_version newest = sn_version t"
    by (auto simp: previous_version_def split: list.splits)
  have "t \<in> set older" "useful t"
    using d(2) by (metis list.set_intros(1) set_dropWhileD, metis dropWhile_eq_Cons_conv)
  moreover have "set older \<subseteq> set newest" using d(1) by (metis list.set_intros(2) set_dropWhileD subsetI)
  ultimately show ?thesis using d(3) by auto
qed

end
