(* ===== verification/Usage_Service.thy ===== *)
theory Usage_Service
  imports Usage_Store
begin

text \<open>
  The usage service: \<open>Service\<close> of \<^verbatim>\<open>internal/usage/usage.go\<close>, over a store and a collector that act on a state \<open>'s\<close>.
  Concurrent refreshes of one profile share the flight of the first (\<open>Refresh\<close>, lines 344--362) and collections run
  under one mutex, so a refresh is one step. \<open>fadd\<close> is float64 addition.
\<close>

record collection_request =
  cq_executable :: string
  cq_home :: string
  cq_version :: string
  cq_captured :: time

record 's usage_service =
  sv_resolve :: "string \<Rightarrow> 's \<Rightarrow> (err + target) \<times> 's"
  sv_list :: "'s \<Rightarrow> (err + target list) \<times> 's"
  sv_save :: "target \<Rightarrow> snapshot \<Rightarrow> 's \<Rightarrow> (err + snapshot) \<times> 's"
  sv_latest :: "target \<Rightarrow> 's \<Rightarrow> (err + snapshot) \<times> 's"
  sv_collect :: "collection_request \<Rightarrow> 's \<Rightarrow> (snapshot \<times> err option) \<times> 's"
  sv_add :: "float64 \<Rightarrow> float64 \<Rightarrow> float64"

section \<open>Refreshing\<close>

definition failure_reason :: "err \<Rightarrow> string" where
  "failure_reason x = (if errors_Is x ErrSourceInvalid then ReasonMalformedSource else ReasonCollectionFailed)"

definition failure_snapshot :: "string \<Rightarrow> time \<Rightarrow> string \<Rightarrow> err \<Rightarrow> snapshot" where
  "failure_snapshot version now trigger x =
     (NewUnavailableSnapshot version now AvailabilityTemporarilyUnavailable (failure_reason x))\<lparr>sn_trigger := trigger\<rparr>"

text \<open>The snapshot to save, finalized, or the error of collecting or finalizing it.\<close>

definition collected :: "snapshot \<times> err option \<Rightarrow> string \<Rightarrow> time \<Rightarrow> err + snapshot" where
  "collected r trigger now =
     (case r of
        (sn, Some x) \<Rightarrow> Inl x
      | (sn, None) \<Rightarrow> (case finalizeSnapshot (sn\<lparr>sn_trigger := trigger\<rparr>) now of
            (sn', True) \<Rightarrow> Inr sn'
          | (sn', False) \<Rightarrow> Inl (plain ErrSourceInvalid)))"

text \<open>A snapshot and an error: a failed collection gives both.\<close>

definition refresh ::
  "'s usage_service \<Rightarrow> time \<Rightarrow> target \<Rightarrow> string \<Rightarrow> string \<Rightarrow> string \<Rightarrow> 's \<Rightarrow> (snapshot \<times> err option) \<times> 's" where
  "refresh sv now t exe version trigger s =
     (if IsZero now then ((no_snapshot, Some (plain ErrUsageInvalid)), s)
      else case sv_collect sv \<lparr>cq_executable = exe, cq_home = tg_home t, cq_version = version, cq_captured = now\<rparr> s of
        (r, s1) \<Rightarrow>
          (case collected r trigger now of
             Inl x \<Rightarrow>
               (case sv_save sv t (failure_snapshot version now trigger x) s1 of
                  (Inl y, s2) \<Rightarrow> ((no_snapshot, Some y), s2)
                | (Inr _, s2) \<Rightarrow>
                    (case sv_latest sv t s2 of
                       (Inl y, s3) \<Rightarrow> ((no_snapshot, Some y), s3)
                     | (Inr failure, s3) \<Rightarrow> ((fst (finalizeSnapshot failure now), Some x), s3)))
           | Inr sn \<Rightarrow>
               (case sv_save sv t sn s1 of
                  (Inl y, s2) \<Rightarrow> ((no_snapshot, Some y), s2)
                | (Inr saved, s2) \<Rightarrow> ((saved, None), s2))))"

definition Refresh ::
  "'s usage_service \<Rightarrow> time \<Rightarrow> string \<Rightarrow> string \<Rightarrow> string \<Rightarrow> string \<Rightarrow> 's \<Rightarrow> (snapshot \<times> err option) \<times> 's" where
  "Refresh sv now a exe version trigger s =
     (if a = [] \<or> exe = [] \<or> version = [] \<or> \<not> ValidTriggerReason trigger
      then ((no_snapshot, Some (plain ErrUsageInvalid)), s)
      else case sv_resolve sv a s of
        (Inl x, s1) \<Rightarrow> ((no_snapshot, Some x), s1)
      | (Inr t, s1) \<Rightarrow> refresh sv now t exe version trigger s1)"

section \<open>Reading\<close>

definition Latest :: "'s usage_service \<Rightarrow> time \<Rightarrow> string \<Rightarrow> 's \<Rightarrow> (err + snapshot) \<times> 's" where
  "Latest sv now a s =
     (if a = [] then (Inl (plain ErrUsageInvalid), s)
      else case sv_resolve sv a s of
        (Inl x, s1) \<Rightarrow> (Inl x, s1)
      | (Inr t, s1) \<Rightarrow>
          (case sv_latest sv t s1 of
             (Inl x, s2) \<Rightarrow> (Inl x, s2)
           | (Inr sn, s2) \<Rightarrow>
               if IsZero now then (Inl (plain ErrUsageInvalid), s2)
               else (case finalizeSnapshot sn now of
                  (sn', True) \<Rightarrow> (Inr sn', s2)
                | (sn', False) \<Rightarrow> (Inl (plain ErrSourceInvalid), s2))))"

text \<open>The loop over the profiles: those without any snapshot are skipped.\<close>

fun load_snapshots :: "'s usage_service \<Rightarrow> time \<Rightarrow> target list \<Rightarrow> 's \<Rightarrow> (err + snapshot list) \<times> 's" where
  "load_snapshots sv now [] s = (Inr [], s)"
| "load_snapshots sv now (t # ts) s =
     (case sv_latest sv t s of
        (Inl x, s1) \<Rightarrow> if errors_Is x ErrUsageProfileUnavailable then load_snapshots sv now ts s1 else (Inl x, s1)
      | (Inr sn, s1) \<Rightarrow>
          (case finalizeSnapshot sn now of
             (sn', False) \<Rightarrow> (Inl (plain ErrSourceInvalid), s1)
           | (sn', True) \<Rightarrow>
               (case load_snapshots sv now ts s1 of
                  (Inl x, s2) \<Rightarrow> (Inl x, s2)
                | (Inr sns, s2) \<Rightarrow> (Inr (sn' # sns), s2))))"

text \<open>The position of a profile among the candidates; 0 when it is none of them.\<close>

definition candidate_index :: "candidate list \<Rightarrow> string \<Rightarrow> nat" where
  "candidate_index cs i =
     (case find (\<lambda>(c, n). ca_profile c = i) (rev (zip cs [0 ..< length cs])) of None \<Rightarrow> 0 | Some (c, n) \<Rightarrow> n)"

definition snapshot_before :: "candidate list \<Rightarrow> snapshot \<Rightarrow> snapshot \<Rightarrow> bool" where
  "snapshot_before cs l r \<longleftrightarrow> candidate_index cs (sn_profile l) < candidate_index cs (sn_profile r)"

definition selected_view :: "target \<Rightarrow> snapshot list \<Rightarrow> candidate list \<Rightarrow> nat \<Rightarrow> string \<Rightarrow> dashboard" where
  "selected_view t sns cs eligible rec =
     \<lparr>da_scope = ScopeSelectedProfile, da_eligible = eligible,
      da_profiles = filter (\<lambda>sn. sn_profile sn = tg_id t) sns, da_aggregates = [], da_ambiguous = [],
      da_candidates = [cs ! candidate_index cs (tg_id t)],
      da_recommended = (if rec = tg_id t then rec else [])\<rparr>"

definition view ::
  "'s usage_service \<Rightarrow> time \<Rightarrow> string \<Rightarrow> bool \<Rightarrow> string \<Rightarrow> 's \<Rightarrow> (err + dashboard) \<times> 's" where
  "view sv now scope compatible excluded s =
     (if scope \<noteq> [] \<and> scope \<noteq> ScopeSelectedProfile \<and> scope \<noteq> ScopeCombinedIdentity
      then (Inl (plain ErrUsageInvalid), s)
      else case sv_list sv s of
        (Inl x, s1) \<Rightarrow> (Inl x, s1)
      | (Inr all, s1) \<Rightarrow>
          let ts = filter (\<lambda>t. excluded = [] \<or> tg_id t \<noteq> excluded) all in
          if IsZero now then (Inl (plain ErrUsageInvalid), s1)
          else (case load_snapshots sv now ts s1 of
             (Inl x, s2) \<Rightarrow> (Inl x, s2)
           | (Inr sns, s2) \<Rightarrow>
               (case Rank ts sns now compatible of
                  (cs, rec) \<Rightarrow>
                    let eligible = length (filter ca_eligible cs);
                        sorted = sort_by (snapshot_before cs) sns
                    in if scope = ScopeCombinedIdentity
                       then (Inr ((Combine (sv_add sv) sorted eligible)\<lparr>da_candidates := cs, da_recommended := rec\<rparr>), s2)
                       else (case find tg_selected ts of
                          None \<Rightarrow> (Inl (plain ErrUsageProfileUnavailable), s2)
                        | Some t \<Rightarrow> (Inr (selected_view t sorted cs eligible rec), s2)))))"

definition RankAlternatives ::
  "'s usage_service \<Rightarrow> time \<Rightarrow> string \<Rightarrow> bool \<Rightarrow> 's \<Rightarrow> (err + (candidate list \<times> string)) \<times> 's" where
  "RankAlternatives sv now excluded compatible s =
     (if excluded = [] then (Inl (plain ErrUsageInvalid), s)
      else case view sv now ScopeCombinedIdentity compatible excluded s of
        (Inl x, s1) \<Rightarrow> (Inl x, s1)
      | (Inr v, s1) \<Rightarrow> (Inr (da_candidates v, da_recommended v), s1))"

end
