(* ===== verification/Usage_Tables.thy ===== *)
theory Usage_Tables
  imports Usage_Service Sample_Store
begin

text \<open>
  What the usage tables keep: their rows stay linked, a save appends one snapshot with its observations or
  changes nothing, and loading returns the latest evidence of each kind.
\<close>

section \<open>Linked tables\<close>

definition linked :: "usage_db \<Rightarrow> bool" where
  "linked u \<longleftrightarrow>
     distinct (map us_id (ut_snapshots u)) \<and> distinct (map mp_id (ut_provenances u))
     \<and> distinct (map ma_id (ut_availabilities u)) \<and> distinct (map uo_id (ut_observations u))
     \<and> list_all (\<lambda>a. exists_where (\<lambda>p. mp_id p = ma_provenance a) (ut_provenances u)) (ut_availabilities u)
     \<and> list_all (\<lambda>b. exists_where (\<lambda>p. mp_id p = uo_provenance b) (ut_provenances u)
                  \<and> exists_where (\<lambda>a. ma_id a = uo_availability b) (ut_availabilities u)
                  \<and> exists_where (\<lambda>s. us_id s = uo_snapshot b) (ut_snapshots u)) (ut_observations u)"

lemma exists_key: "exists_where (\<lambda>s. k s = i) rows \<longleftrightarrow> i \<in> k ` set rows"
  by auto

lemma linked_provenance: "linked u \<Longrightarrow> insert_provenance p u = Some u' \<Longrightarrow> linked u'"
  by (auto simp: linked_def insert_provenance_def list_all_iff exists_key simp del: exists_where_iff split: if_splits)

lemma linked_availability: "linked u \<Longrightarrow> insert_availability a u = Some u' \<Longrightarrow> linked u'"
  by (auto simp: linked_def insert_availability_def list_all_iff exists_key simp del: exists_where_iff split: if_splits)

lemma linked_observation: "linked u \<Longrightarrow> insert_observation b u = Some u' \<Longrightarrow> linked u'"
  by (auto simp: linked_def insert_observation_def list_all_iff exists_key simp del: exists_where_iff split: if_splits)

lemma linked_metric: "linked u \<Longrightarrow> upsert_metric m u = Some u' \<Longrightarrow> linked u'"
  by (auto simp: linked_def upsert_metric_def simp del: exists_where_iff)

lemma linked_snapshot:
  "linked u \<Longrightarrow> \<not> exists_where (\<lambda>s. us_id s = us_id r) (ut_snapshots u) \<Longrightarrow>
   linked (u\<lparr>ut_snapshots := ut_snapshots u @ [r]\<rparr>)"
  by (auto simp: linked_def list_all_iff)

section \<open>The effect of a save\<close>

text \<open>The observations of a snapshot and the rows that hold them.\<close>

definition holds_observation :: "string \<Rightarrow> string \<Rightarrow> observation \<Rightarrow> observation_row \<Rightarrow> bool" where
  "holds_observation profile sid ob r \<longleftrightarrow>
     uo_profile r = profile \<and> uo_snapshot r = sid \<and> uo_metric r = key_of ob \<and> uo_value r = ob_value ob
     \<and> uo_start r = ob_start ob \<and> uo_end r = ob_end ob \<and> uo_observed r = ob_observed ob"

text \<open>\<open>u'\<close> adds rows to \<open>u\<close> that hold the observations.\<close>

definition adds :: "string \<Rightarrow> string \<Rightarrow> observation list \<Rightarrow> usage_db \<Rightarrow> usage_db \<Rightarrow> bool" where
  "adds profile sid obs u u' \<longleftrightarrow>
     ut_snapshots u' = ut_snapshots u \<and> ut_aggregates u' = ut_aggregates u \<and> ut_schedules u' = ut_schedules u
     \<and> ut_intervals u' = ut_intervals u \<and> (linked u \<longrightarrow> linked u')
     \<and> (\<exists>new. ut_observations u' = ut_observations u @ new \<and> list_all2 (holds_observation profile sid) obs new)"

lemma adds_refl: "adds profile sid [] u u"
  by (simp add: adds_def)

lemma adds_trans: "adds profile sid xs u v \<Longrightarrow> adds profile sid ys v w \<Longrightarrow> adds profile sid (xs @ ys) u w"
  unfolding adds_def by (auto intro: list_all2_appendI)

lemma adds_Cons: "adds profile sid [x] u v \<Longrightarrow> adds profile sid ys v w \<Longrightarrow> adds profile sid (x # ys) u w"
  using adds_trans [of profile sid "[x]"] by simp

lemma adds_rows: "insert_provenance p u = Some u' \<Longrightarrow> adds profile sid [] u u'"
  unfolding adds_def using linked_provenance [of u p u']
  by (auto simp: insert_provenance_def simp del: exists_where_iff split: if_splits)

lemma adds_item: "insert_availability a u = Some u' \<Longrightarrow> adds profile sid [] u u'"
  unfolding adds_def using linked_availability [of u a u']
  by (auto simp: insert_availability_def simp del: exists_where_iff split: if_splits)

lemma adds_metric: "upsert_metric m u = Some u' \<Longrightarrow> adds profile sid [] u u'"
  unfolding adds_def using linked_metric [of u m u']
  by (auto simp: upsert_metric_def simp del: exists_where_iff)

lemma adds_observation:
  assumes "insert_observation (observation_row_of profile sid ob i q k) u = Some u'"
  shows "adds profile sid [ob] u u'"
proof -
  have "linked u \<longrightarrow> linked u'" using linked_observation [OF _ assms] by blast
  then show ?thesis
    using assms unfolding adds_def
    by (auto simp: insert_observation_def holds_observation_def observation_row_of_def simp del: exists_where_iff
        split: if_splits)
qed

lemma execute_Some: "execute e f st = Some st' \<Longrightarrow> \<exists>u. f (sx_db st) = Some u \<and> sx_db st' = u"
  by (auto simp: execute_def split: if_splits)

lemma draw_Some: "draw ids st = Some (i, st') \<Longrightarrow> sx_db st' = sx_db st"
  by (auto simp: draw_def)

lemma new_provenance_adds:
  "new_provenance e ids row st = Some (i, st') \<Longrightarrow> adds profile sid [] (sx_db st) (sx_db st')"
  by (auto simp: new_provenance_def bind_eq_Some_conv dest!: draw_Some execute_Some intro: adds_rows)

lemma upsert_metrics_adds: "upsert_metrics e ms st = Some st' \<Longrightarrow> adds profile sid [] (sx_db st) (sx_db st')"
proof (induction ms arbitrary: st)
  case (Cons m ms)
  then obtain st1 where "execute e (upsert_metric m) st = Some st1" "upsert_metrics e ms st1 = Some st'"
    by (auto simp: bind_eq_Some_conv)
  then have "adds profile sid [] (sx_db st) (sx_db st1)" "adds profile sid [] (sx_db st1) (sx_db st')"
    using adds_metric execute_Some Cons.IH by blast+
  from adds_trans [OF this] show ?case by simp
qed (simp add: adds_refl)

lemma save_items_adds:
  "save_items e ids pid sn as provs aids st = Some (as', aids', st') \<Longrightarrow> adds profile sid [] (sx_db st) (sx_db st')"
proof (induction as arbitrary: provs aids st as')
  case (Cons a as)
  then obtain i st1 q st2 st3 bs where d: "draw ids st = Some (i, st1)"
    and p: "(case provs (av_provenance a) of Some q \<Rightarrow> Some (q, st1)
           | None \<Rightarrow> new_provenance e ids
               (snapshot_provenance sn (storedAvailabilityState (av_state a)) (av_provenance a)) st1) = Some (q, st2)"
    and x: "execute e (insert_availability (availability_row_of pid a i q)) st2 = Some st3"
    and r: "save_items e ids pid sn as (provs(av_provenance a \<mapsto> q)) (aids(av_key a \<mapsto> i)) st3 = Some (bs, aids', st')"
    by (auto simp: bind_eq_Some_conv)
  have "adds profile sid [] (sx_db st1) (sx_db st2)"
    using p new_provenance_adds by (auto simp: adds_refl split: option.splits)
  then have "adds profile sid [] (sx_db st) (sx_db st2)" unfolding draw_Some [OF d] .
  moreover have "adds profile sid [] (sx_db st2) (sx_db st3)" using execute_Some [OF x] adds_item by blast
  ultimately have "adds profile sid ([] @ []) (sx_db st) (sx_db st3)" by (rule adds_trans)
  from adds_trans [OF this Cons.IH [OF r]] show ?case by simp
qed (simp add: adds_refl)

lemma save_observations_adds:
  "save_observations e ids profile sid prov sn aids obs st = Some (obs', st') \<Longrightarrow>
   adds profile sid obs (sx_db st) (sx_db st') \<and> map (\<lambda>ob. ob\<lparr>ob_id := []\<rparr>) obs' = map (\<lambda>ob. ob\<lparr>ob_id := []\<rparr>) obs"
proof (induction obs arbitrary: st obs')
  case (Cons ob obs)
  then obtain i st1 q st2 st3 bs k where d: "draw ids st = Some (i, st1)"
    and p: "(if own_provenance sn ob then new_provenance e ids (observation_provenance ob) st1
             else Some (prov, st1)) = Some (q, st2)"
    and x: "execute e (insert_observation (observation_row_of profile sid ob i q k)) st2 = Some st3"
    and r: "save_observations e ids profile sid prov sn aids obs st3 = Some (bs, st')" and o': "obs' = ob\<lparr>ob_id := i\<rparr> # bs"
    by (auto simp: bind_eq_Some_conv)
  have "adds profile sid [] (sx_db st1) (sx_db st2)"
    using p new_provenance_adds by (auto simp: adds_refl split: if_splits)
  then have "adds profile sid [] (sx_db st) (sx_db st2)" unfolding draw_Some [OF d] .
  moreover have "adds profile sid [ob] (sx_db st2) (sx_db st3)" using execute_Some [OF x] adds_observation by blast
  ultimately have "adds profile sid [ob] (sx_db st) (sx_db st3)" using adds_trans [of profile sid "[]" _ _ "[ob]"] by simp
  then show ?case using Cons.IH [OF r] adds_Cons o' by auto
qed (simp add: adds_refl)

lemma save_details_adds:
  assumes "save_details e ids t sid sn st = Some (sn', st')"
  shows "adds (tg_id t) sid (sn_observations sn) (sx_db st) (sx_db st')"
    and "sn_id sn' = sid" "sn_profile sn' = tg_id t" "length (sn_observations sn') = length (sn_observations sn)"
proof -
  from assms obtain st1 prov st2 as aids st3 obs where
    "upsert_metrics e Registry st = Some st1"
    "new_provenance e ids (snapshot_provenance sn
             (if sn_observations sn = [] then av_state (hd (sn_availability sn)) else AvailabilityAvailable)
             ProvenanceProvider) st1 = Some (prov, st2)"
    "save_items e ids (tg_id t) sn (sn_availability sn) [ProvenanceProvider \<mapsto> prov] (\<lambda>k. None) st2 = Some (as, aids, st3)"
    and obs: "save_observations e ids (tg_id t) sid prov sn aids (sn_observations sn) st3 = Some (obs, st')"
    and sn': "sn' = sn\<lparr>sn_id := sid, sn_profile := tg_id t, sn_alias := tg_alias t, sn_availability := as,
                   sn_observations := obs\<rparr>"
    by (auto simp: save_details_def bind_eq_Some_conv)
  then have "adds (tg_id t) sid ([] @ [] @ [] @ sn_observations sn) (sx_db st) (sx_db st')"
    by (meson adds_trans upsert_metrics_adds new_provenance_adds save_items_adds save_observations_adds)
  then show "adds (tg_id t) sid (sn_observations sn) (sx_db st) (sx_db st')" by simp
  have "length obs = length (sn_observations sn)" using save_observations_adds [OF obs] map_eq_imp_length_eq by blast
  then show "sn_id sn' = sid" "sn_profile sn' = tg_id t" "length (sn_observations sn') = length (sn_observations sn)"
    by (simp_all add: sn')
qed

lemma SaveUsageSnapshot_cases:
  assumes "SaveUsageSnapshot e ids d t sn u = (r, u')"
  obtains x where "r = Inl x" "u' = u"
  | sn' row where "r = Inr sn'" "validUsageSnapshot t sn" "row = snapshot_row_of t sn (sn_id sn') (us_login row, us_workspace row)"
      "adds (tg_id t) (sn_id sn') (sn_observations sn) (u\<lparr>ut_snapshots := ut_snapshots u @ [row]\<rparr>) u'"
      "\<not> exists_where (\<lambda>s. us_id s = us_id row) (ut_snapshots u)"
      "length (sn_observations sn') = length (sn_observations sn)"
  using assms
proof (cases r)
  case (Inl x)
  then show ?thesis
    using that(1) assms by (auto simp: SaveUsageSnapshot_def split: if_splits option.splits sum.splits)
next
  case (Inr sn')
  then obtain sid lw st where s: "validUsageSnapshot t sn"
      "\<not> exists_where (\<lambda>s. us_id s = sid) (ut_snapshots u)" "u' = sx_db st"
      "save_details e ids t sid sn \<lparr>sx_db = u\<lparr>ut_snapshots := ut_snapshots u @ [snapshot_row_of t sn sid lw]\<rparr>,
         sx_drawn = 1, sx_execs = 1\<rparr> = Some (sn', st)"
    using assms by (auto simp: SaveUsageSnapshot_def split: if_splits option.splits sum.splits)
  note e = save_details_adds [OF s(4)]
  show ?thesis
    by (rule that(2) [OF Inr s(1), of "snapshot_row_of t sn sid lw"])
       (use s e in \<open>simp_all add: snapshot_row_of_def\<close>)
qed

section \<open>Refreshing over the store\<close>

text \<open>The service on the store's operations and on a collector that acts on the rest of the world.\<close>

definition store_usage ::
  "env \<Rightarrow> (nat \<Rightarrow> string option) \<Rightarrow> db \<Rightarrow> (float64 \<Rightarrow> float64 \<Rightarrow> float64) \<Rightarrow>
    (collection_request \<Rightarrow> 'w \<Rightarrow> (snapshot \<times> err option) \<times> 'w) \<Rightarrow> (usage_db \<times> 'w) usage_service" where
  "store_usage e ids d fadd collector =
     \<lparr>sv_resolve = \<lambda>a (u, w). (ResolveUsageProfile e a d, (u, w)),
      sv_list = \<lambda>(u, w). (ListUsageProfiles e u d, (u, w)),
      sv_save = \<lambda>t sn (u, w). (case SaveUsageSnapshot e ids d t sn u of (r, u') \<Rightarrow> (r, (u', w))),
      sv_latest = \<lambda>t (u, w). (LatestUsageSnapshot e u t, (u, w)),
      sv_collect = \<lambda>rq (u, w). (case collector rq w of (r, w') \<Rightarrow> (r, (u, w'))),
      sv_add = fadd\<rparr>"

lemma finalize_keeps: "finalizeSnapshot sn now = (sn', b) \<Longrightarrow> sn_trigger sn' = sn_trigger sn"
  by (auto simp: finalizeSnapshot_def Let_def split: prod.splits bool.splits)

lemma failure_snapshot_facts:
  "sn_observations (failure_snapshot version now trigger x) = []"
  "sn_captured (failure_snapshot version now trigger x) = now"
  "sn_status (failure_snapshot version now trigger x) = AvailabilityTemporarilyUnavailable"
  "sn_trigger (failure_snapshot version now trigger x) = trigger"
  by (simp_all add: failure_snapshot_def NewUnavailableSnapshot_def no_snapshot_def)

text \<open>What a save leaves.\<close>

definition appends :: "target \<Rightarrow> snapshot \<Rightarrow> usage_db \<Rightarrow> usage_snapshot_row \<Rightarrow> observation_row list \<Rightarrow> usage_db \<Rightarrow> bool" where
  "appends t sn u row new u' \<longleftrightarrow>
     ut_snapshots u' = ut_snapshots u @ [row] \<and> us_profile row = tg_id t \<and> us_trigger row = sn_trigger sn
     \<and> us_status row = sn_status sn \<and> us_captured row = sn_captured sn
     \<and> ut_observations u' = ut_observations u @ new
     \<and> list_all2 (holds_observation (tg_id t) (us_id row)) (sn_observations sn) new \<and> (linked u \<longrightarrow> linked u')"

lemma save_appends:
  assumes "SaveUsageSnapshot e ids d t sn u = (Inr sn', u')"
  shows "\<exists>row new. appends t sn u row new u' \<and> us_id row = sn_id sn' \<and> length (sn_observations sn') = length new"
proof (rule SaveUsageSnapshot_cases [OF assms])
  fix sn'' row
  assume r: "Inr sn' = (Inr sn'' :: err + snapshot)"
    and row: "row = snapshot_row_of t sn (sn_id sn'') (us_login row, us_workspace row)"
    and a: "adds (tg_id t) (sn_id sn'') (sn_observations sn) (u\<lparr>ut_snapshots := ut_snapshots u @ [row]\<rparr>) u'"
    and n: "\<not> exists_where (\<lambda>s. us_id s = us_id row) (ut_snapshots u)"
    and l: "length (sn_observations sn'') = length (sn_observations sn)"
  have row': "us_id row = sn_id sn'" "us_profile row = tg_id t" "us_trigger row = sn_trigger sn"
    "us_status row = sn_status sn" "us_captured row = sn_captured sn"
    using r by (subst row, simp add: snapshot_row_of_def)+
  obtain new where new: "ut_observations u' = ut_observations u @ new"
    "list_all2 (holds_observation (tg_id t) (us_id row)) (sn_observations sn) new"
    using a r row' by (auto simp: adds_def)
  have "linked u \<longrightarrow> linked u'" using a linked_snapshot [OF _ n] by (simp add: adds_def)
  then have "appends t sn u row new u'" using a row' new by (simp add: appends_def adds_def)
  moreover have "length (sn_observations sn') = length new" using l r list_all2_lengthD [OF new(2)] by simp
  ultimately show ?thesis using row' by blast
qed simp

lemma save_failure: "SaveUsageSnapshot e ids d t sn u = (Inl x, u') \<Longrightarrow> u' = u"
  by (erule SaveUsageSnapshot_cases) auto

text \<open>C33: A refresh over the store leaves the usage tables as they were and reports an error, or appends exactly one
  capture of the profile with the requested trigger: on success with one row per returned observation, and
  after a failed collection as temporarily unavailable at the instant of the call, without any observation.
  The rows stay linked.\<close>

theorem refresh_appends_one_capture:
  assumes "refresh (store_usage e ids d fadd collector) now t exe version trigger (u, w) = ((sn, x), (u', w'))"
  shows "(u' = u \<and> x \<noteq> None) \<or>
    (\<exists>row new. ut_snapshots u' = ut_snapshots u @ [row] \<and> us_profile row = tg_id t \<and> us_trigger row = trigger
       \<and> ut_observations u' = ut_observations u @ new
       \<and> list_all (\<lambda>b. uo_snapshot b = us_id row \<and> uo_profile b = tg_id t) new \<and> (linked u \<longrightarrow> linked u')
       \<and> (case x of
            None \<Rightarrow> sn_id sn = us_id row \<and> length (sn_observations sn) = length new
          | Some y \<Rightarrow> new = [] \<and> us_captured row = now \<and> us_status row = AvailabilityTemporarilyUnavailable))"
proof -
  have held: "list_all (\<lambda>b. uo_snapshot b = us_id row \<and> uo_profile b = tg_id t) new"
    if "appends t sm u row new v" for sm row new v
  proof -
    have "list_all2 (holds_observation (tg_id t) (us_id row)) (sn_observations sm) new" using that by (simp add: appends_def)
    then show ?thesis by induction (auto simp: holds_observation_def)
  qed
  have failed: "\<exists>row. ut_snapshots v = ut_snapshots u @ [row] \<and> us_profile row = tg_id t \<and> us_trigger row = trigger
      \<and> ut_observations v = ut_observations u \<and> (linked u \<longrightarrow> linked v)
      \<and> us_captured row = now \<and> us_status row = AvailabilityTemporarilyUnavailable"
    if "SaveUsageSnapshot e ids d t (failure_snapshot version now trigger y) u = (Inr sm, v)" for sm v y
    using save_appends [OF that] by (auto simp: appends_def failure_snapshot_facts)
  have success: "\<exists>row new. ut_snapshots v = ut_snapshots u @ [row] \<and> us_profile row = tg_id t \<and> us_trigger row = trigger
       \<and> ut_observations v = ut_observations u @ new
       \<and> list_all (\<lambda>b. uo_snapshot b = us_id row \<and> uo_profile b = tg_id t) new \<and> (linked u \<longrightarrow> linked v)
       \<and> sn_id sm = us_id row \<and> length (sn_observations sm) = length new"
    if s: "SaveUsageSnapshot e ids d t sk u = (Inr sm, v)" and c: "collected r trigger now = Inr sk" for sk sm v r
  proof -
    have "sn_trigger sk = trigger"
      using c by (auto simp: collected_def dest!: finalize_keeps split: prod.splits option.splits bool.splits)
    moreover obtain row new where "appends t sk u row new v" "us_id row = sn_id sm" "length (sn_observations sm) = length new"
      using save_appends [OF s] by blast
    ultimately show ?thesis using held [of sk row new v] by (auto simp: appends_def)
  qed
  show ?thesis
  proof (cases "IsZero now")
    case True
    then show ?thesis using assms by (auto simp: refresh_def)
  next
    case False
    obtain r w1 where r: "collector \<lparr>cq_executable = exe, cq_home = tg_home t, cq_version = version, cq_captured = now\<rparr> w = (r, w1)"
      by (metis surj_pair)
    show ?thesis
    proof (cases "collected r trigger now")
      case (Inl y)
      obtain q v where s: "SaveUsageSnapshot e ids d t (failure_snapshot version now trigger y) u = (q, v)" by (metis surj_pair)
      show ?thesis
      proof (cases q)
        case (Inl z)
        then show ?thesis using assms False r \<open>collected r trigger now = Inl y\<close> s save_failure [of e ids d t _ u]
          by (auto simp: refresh_def store_usage_def)
      next
        case (Inr sm)
        have "u' = v" "x \<noteq> None"
          using assms False r \<open>collected r trigger now = Inl y\<close> s Inr
          by (auto simp: refresh_def store_usage_def split: sum.splits)
        then show ?thesis using failed [OF s [unfolded Inr]] by auto
      qed
    next
      case (Inr sk)
      obtain q v where s: "SaveUsageSnapshot e ids d t sk u = (q, v)" by (metis surj_pair)
      show ?thesis
      proof (cases q)
        case (Inl z)
        then show ?thesis using assms False r Inr s save_failure [of e ids d t _ u]
          by (auto simp: refresh_def store_usage_def)
      next
        case (Inr sm)
        have "u' = v" "x = None" "sn = sm"
          using assms False r \<open>collected r trigger now = Inr sk\<close> s Inr by (auto simp: refresh_def store_usage_def)
        then show ?thesis using success [OF s [unfolded Inr] \<open>collected r trigger now = Inr sk\<close>] by simp
      qed
    qed
  qed
qed

section \<open>The latest evidence\<close>

definition is_latest :: "evidence_item list \<Rightarrow> evidence_item \<Rightarrow> bool" where
  "is_latest items i \<longleftrightarrow> list_all (\<lambda>j. evidence_key j = evidence_key i \<longrightarrow> ei_captured j \<le> ei_captured i) items"

lemma latest_loop_set:
  assumes "latest_loop latest items = Some obs" "sorted_wrt (\<lambda>a b. ei_captured b \<le> ei_captured a) items"
    and "\<And>k t j. latest k = Some t \<Longrightarrow> j \<in> set items \<Longrightarrow> evidence_key j = k \<Longrightarrow> ei_captured j \<le> t"
  shows "set obs = item_observation ` {i \<in> set items.
    (case latest (evidence_key i) of None \<Rightarrow> is_latest items i | Some t \<Rightarrow> ei_captured i = t)}"
  using assms
proof (induction items arbitrary: latest obs)
  case (Cons i items)
  show ?case
  proof (cases "case latest (evidence_key i) of None \<Rightarrow> False | Some t \<Rightarrow> t \<noteq> ei_captured i")
    case True
    then have r: "latest_loop latest items = Some obs" using Cons.prems(1) by (auto split: if_splits)
    note ih = Cons.IH [OF r]
    obtain t where t: "latest (evidence_key i) = Some t" "t \<noteq> ei_captured i" using True by (auto split: option.splits)
    have "set obs = item_observation ` {j \<in> set items.
        (case latest (evidence_key j) of None \<Rightarrow> is_latest items j | Some t \<Rightarrow> ei_captured j = t)}"
      using Cons.prems by (intro ih) auto
    also have "{j \<in> set items. (case latest (evidence_key j) of None \<Rightarrow> is_latest items j | Some t \<Rightarrow> ei_captured j = t)}
      = {j \<in> set (i # items). (case latest (evidence_key j) of None \<Rightarrow> is_latest (i # items) j | Some t \<Rightarrow> ei_captured j = t)}"
      using t by (auto simp: is_latest_def split: option.splits)
    finally show ?thesis .
  next
    case False
    let ?l = "latest(evidence_key i \<mapsto> ei_captured i)"
    obtain obs1 where r: "latest_loop ?l items = Some obs1" "obs = item_observation i # obs1"
      using Cons.prems(1) False by (auto split: if_splits)
    have low: "ei_captured j \<le> ei_captured i" if "j \<in> set items" for j using Cons.prems(2) that by simp
    have "set obs1 = item_observation ` {j \<in> set items.
        (case ?l (evidence_key j) of None \<Rightarrow> is_latest items j | Some t \<Rightarrow> ei_captured j = t)}"
      using Cons.prems low by (intro Cons.IH [OF r(1)]) (auto split: if_splits)
    note obs1 = this
    define P where "P = (\<lambda>j. case latest (evidence_key j) of None \<Rightarrow> is_latest (i # items) j | Some t \<Rightarrow> ei_captured j = t)"
    define Q where "Q = (\<lambda>j. case ?l (evidence_key j) of None \<Rightarrow> is_latest items j | Some t \<Rightarrow> ei_captured j = t)"
    have i: "P i" using False low by (auto simp: P_def is_latest_def list_all_iff split: option.splits)
    have same: "P j = Q j" if "j \<in> set items" for j
    proof (cases "evidence_key j = evidence_key i")
      case True
      have "is_latest (i # items) j \<longleftrightarrow> ei_captured j = ei_captured i"
        using True low that unfolding is_latest_def list_all_iff by (auto intro: antisym)
      then show ?thesis using True False by (auto simp: P_def Q_def split: option.splits)
    next
      case key: False
      then show ?thesis by (auto simp: P_def Q_def is_latest_def split: option.splits)
    qed
    have "{j \<in> set (i # items). P j} = insert i {j \<in> set items. Q j}" using i same by auto
    then show ?thesis using obs1 r(2) unfolding P_def Q_def by simp
  qed
qed simp

lemma evidence_items_sorted: "sorted_wrt (\<lambda>a b. ei_captured b \<le> ei_captured a) (evidence_items u profile sid)"
proof -
  have "sorted_wrt (\<lambda>a b. \<not> newer_item b a) (evidence_items u profile sid)"
    unfolding evidence_items_def by (rule sorted_sort_by) (auto simp: newer_item_def)
  then show ?thesis by (simp add: newer_item_def not_less)
qed

text \<open>C34: The last known observations of a profile are those of its stored and aggregated evidence that no other
  evidence of the same metric, source, version and provenance supersedes; older evidence never hides newer.\<close>

theorem last_known_evidence_is_the_latest:
  assumes "LastUsageObservations e u t = Inr obs"
  shows "set obs = item_observation ` {i \<in> set (evidence_items u (tg_id t) []). is_latest (evidence_items u (tg_id t) []) i}"
proof -
  have "latest_loop (\<lambda>k. None) (evidence_items u (tg_id t) []) = Some obs"
    using assms by (auto simp: LastUsageObservations_def lastUsageObservations_def split: if_splits option.splits)
  from latest_loop_set [OF this evidence_items_sorted] show ?thesis by simp
qed

section \<open>A sample capture\<close>

definition sample_tables :: usage_db where
  "sample_tables = \<lparr>ut_snapshots = [], ut_metrics = [], ut_provenances = [], ut_availabilities = [],
     ut_observations = [], ut_aggregates = [], ut_schedules = [], ut_intervals = None\<rparr>"

definition sample_reading :: observation where
  "sample_reading = \<lparr>ob_id = [], ob_metric = Registry ! 0, ob_value = Fin 40, ob_observed = 90, ob_captured = 100,
     ob_age = 0, ob_start = None, ob_end = None, ob_timezone = [], ob_source = SourceCodexAppServer,
     ob_version = ''1'', ob_provenance = ProvenanceProvider, ob_freshness = FreshnessFresh,
     ob_availability = AvailabilityAvailable, ob_assumptions = [], ob_uncertainty = []\<rparr>"

definition sample_items :: "availability list" where
  "sample_items = map (\<lambda>m. \<lparr>av_id = [], av_key = mt_key m,
     av_state = (if m = Registry ! 0 then AvailabilityAvailable else AvailabilityUnsupported), av_reason = [],
     av_checked = 100, av_provenance = ProvenanceProvider\<rparr>) Registry"

definition sample_capture :: snapshot where
  "sample_capture = no_snapshot\<lparr>sn_source := SourceCodexAppServer, sn_version := ''1'', sn_captured := 100,
     sn_observations := [sample_reading], sn_availability := sample_items\<rparr>"

definition sample_user :: target where
  "sample_user = \<lparr>tg_id = ''p1'', tg_alias = ''Work'', tg_home = ''/homes/p1'', tg_login = [], tg_workspace = [],
     tg_selected = True, tg_eligible = True\<rparr>"

definition sample_ids :: "nat \<Rightarrow> string option" where
  "sample_ids n = Some (''id-'' @ replicate n CHR ''x'')"

definition sample_usage :: "(usage_db \<times> unit) usage_service" where
  "sample_usage = store_usage (sample_env 100) sample_ids sample_db (\<lambda>a b. a)
     (\<lambda>rq w. (if cq_home rq = [] then (no_snapshot, Some (plain Opaque)) else (sample_capture, None), w))"

definition sample_refresh :: "target \<Rightarrow> (snapshot \<times> err option) \<times> (usage_db \<times> unit)" where
  "sample_refresh t = refresh sample_usage 100 t ''/bin/codex'' ''1'' ''explicit_refresh'' (sample_tables, ())"

definition sample_captured :: usage_db where
  "sample_captured = fst (snd (sample_refresh sample_user))"

theorem refresh_appends_one_capture_witness:
  "\<exists>row b. ut_snapshots sample_captured = [row] \<and> us_profile row = ''p1'' \<and> ut_observations sample_captured = [b]
     \<and> uo_snapshot b = us_id row"
proof -
  obtain sn x u' where r: "sample_refresh sample_user = ((sn, x), (u', ()))" by (metis surj_pair unit.exhaust)
  have "snd (fst (sample_refresh sample_user)) = None" "length (sn_observations (fst (fst (sample_refresh sample_user)))) = 1"
    by code_simp+
  then have x: "x = None" "length (sn_observations sn) = 1" "sample_captured = u'" using r by (simp_all add: sample_captured_def)
  obtain row new where n: "ut_snapshots u' = ut_snapshots sample_tables @ [row]" "us_profile row = tg_id sample_user"
      "ut_observations u' = ut_observations sample_tables @ new" "length new = 1"
      "list_all (\<lambda>b. uo_snapshot b = us_id row \<and> uo_profile b = tg_id sample_user) new"
    using refresh_appends_one_capture [OF r [unfolded sample_refresh_def sample_usage_def]] x by auto
  from n(4) obtain b where "new = [b]" by (cases new) auto
  then show ?thesis using n x(3) by (simp add: sample_tables_def sample_user_def)
qed

theorem last_known_evidence_is_the_latest_witness:
  "\<exists>obs. LastUsageObservations (sample_env 100) sample_captured sample_user = Inr obs
     \<and> set obs = item_observation ` {i \<in> set (evidence_items sample_captured ''p1'' []).
         is_latest (evidence_items sample_captured ''p1'' []) i}
     \<and> map ob_value obs = [Fin 40]"
proof -
  have "isl (LastUsageObservations (sample_env 100) sample_captured sample_user) = False"
    "map ob_value (projr (LastUsageObservations (sample_env 100) sample_captured sample_user)) = [Fin 40]" by code_simp+
  then obtain obs where ob: "LastUsageObservations (sample_env 100) sample_captured sample_user = Inr obs" "map ob_value obs = [Fin 40]"
    by (cases "LastUsageObservations (sample_env 100) sample_captured sample_user") auto
  from last_known_evidence_is_the_latest [OF ob(1)] show ?thesis using ob by (simp add: sample_user_def)
qed

end
