(* ===== verification/Vault.thy ===== *)
theory Vault
  imports Checkpoint_Store
begin

text \<open>
  The vault that protects the sensitive columns: \<^verbatim>\<open>internal/vault/vault.go\<close>. An envelope is the bytes of a header,
  the generation of the key, a nonce and what AES-256-GCM sealed; the cipher and the source of randomness are parameters.
  The envelope vault is an instance of the vault the store relies on.
\<close>

section \<open>Keys\<close>

definition EnvelopeVersion :: nat where "EnvelopeVersion = 1"
definition envelopeAlgorithmAES256GCM :: nat where "envelopeAlgorithmAES256GCM = 1"
definition envelopeMagic :: string where "envelopeMagic = ''CFVE''"
definition envelopeHeaderSize :: nat where "envelopeHeaderSize = 9"
definition maxGenerationSize :: nat where "maxGenerationSize = 128"
definition keySize :: nat where "keySize = 32"

lemmas envelope_constants = EnvelopeVersion_def envelopeAlgorithmAES256GCM_def envelopeMagic_def envelopeHeaderSize_def
  maxGenerationSize_def keySize_def

record key_material =
  km_generation :: string
  km_key :: string

definition vault_unavailable :: err where
  "vault_unavailable = New VaultUnavailable (plain ErrVaultUnavailable)"

definition key_invalid :: err where
  "key_invalid = New VaultKeyInvalid (plain ErrInvalidKey)"

definition envelope_invalid :: err where
  "envelope_invalid = New VaultEnvelopeInvalid (plain ErrInvalidEnvelope)"

definition valid_material :: "string \<Rightarrow> string \<Rightarrow> bool" where
  "valid_material generation key \<longleftrightarrow>
     \<not> (generation = [] \<or> maxGenerationSize < length generation \<or> length key \<noteq> keySize)"

definition NewKeyMaterial :: "string \<Rightarrow> string \<Rightarrow> err + key_material" where
  "NewKeyMaterial generation key =
     (if \<not> valid_material generation key then Inl key_invalid
      else Inr \<lparr>km_generation = generation, km_key = key\<rparr>)"

text \<open>\<open>Clear\<close> empties the material.\<close>

definition Clear :: "key_material \<Rightarrow> key_material" where
  "Clear m = m\<lparr>km_key := [], km_generation := []\<rparr>"

text \<open>AES-GCM with a key and a nonce: \<open>Seal\<close>, and \<open>Open\<close>, which may refuse.\<close>

record aead =
  gc_seal :: "string \<Rightarrow> string \<Rightarrow> string \<Rightarrow> string \<Rightarrow> string"
  gc_open :: "string \<Rightarrow> string \<Rightarrow> string \<Rightarrow> string \<Rightarrow> string option"

text \<open>\<open>aes.NewCipher\<close> accepts keys of 16, 24 and 32 bytes; the standard nonce of GCM has 12.\<close>

definition NewCipher_ok :: "string \<Rightarrow> bool" where
  "NewCipher_ok key \<longleftrightarrow> length key \<in> {16, 24, 32}"

definition NonceSize :: nat where "NonceSize = 12"

section \<open>Envelopes\<close>

definition byte :: "nat \<Rightarrow> char" where "byte n = char_of n"

definition encodeEnvelope :: "string \<Rightarrow> string \<Rightarrow> string \<Rightarrow> string" where
  "encodeEnvelope generation nonce ciphertext =
     envelopeMagic @ [byte EnvelopeVersion, byte envelopeAlgorithmAES256GCM,
       byte (length generation div 256), byte (length generation), byte (length nonce)]
     @ generation @ nonce @ ciphertext"

record envelope_metadata =
  em_version :: nat
  em_algorithm :: nat
  em_generation :: string

definition parseEnvelope :: "string \<Rightarrow> err + (envelope_metadata \<times> string \<times> string)" where
  "parseEnvelope envelope =
     (if length envelope < envelopeHeaderSize \<or> take 4 envelope \<noteq> envelopeMagic then Inl envelope_invalid
      else if of_char (envelope ! 4) \<noteq> EnvelopeVersion \<or> of_char (envelope ! 5) \<noteq> envelopeAlgorithmAES256GCM
      then Inl (New VaultEnvelopeUnsupported (plain ErrUnsupportedEnvelope))
      else let generationSize = of_char (envelope ! 6) * 256 + of_char (envelope ! 7);
               nonceSize = of_char (envelope ! 8) in
        if generationSize = 0 \<or> maxGenerationSize < generationSize \<or> nonceSize \<noteq> 12 then Inl envelope_invalid
        else let nonceStart = envelopeHeaderSize + generationSize; ciphertextStart = nonceStart + nonceSize in
          if length envelope < ciphertextStart \<or> length envelope - ciphertextStart < 16 then Inl envelope_invalid
          else Inr (\<lparr>em_version = of_char (envelope ! 4), em_algorithm = of_char (envelope ! 5),
                 em_generation = take generationSize (drop envelopeHeaderSize envelope)\<rparr>,
               take nonceSize (drop nonceStart envelope), drop ciphertextStart envelope))"

definition ParseEnvelopeMetadata :: "string \<Rightarrow> err + envelope_metadata" where
  "ParseEnvelopeMetadata envelope = (case parseEnvelope envelope of Inl x \<Rightarrow> Inl x | Inr (m, _, _) \<Rightarrow> Inr m)"

section \<open>The envelope vault\<close>

text \<open>What one call meets: the state of its context, the answer of the key provider, and the bytes the random source
  yields (\<open>None\<close> when it fails).\<close>

definition loadMaterial :: "err option \<Rightarrow> err + key_material \<Rightarrow> err + key_material" where
  "loadMaterial ctx provided =
     (case ctx of
        Some x \<Rightarrow> Inl (New VaultUnavailable (errors_Join [Some (plain ErrVaultUnavailable), Some x]))
      | None \<Rightarrow>
          (case provided of
             Inl x \<Rightarrow>
               if Code x \<noteq> None then Inl x
               else Inl (New VaultUnavailable (errors_Join [Some (plain ErrVaultUnavailable), Some x]))
           | Inr m \<Rightarrow> if \<not> valid_material (km_generation m) (km_key m) then Inl key_invalid else Inr m))"

definition vault_Encrypt ::
  "aead \<Rightarrow> err option \<Rightarrow> err + key_material \<Rightarrow> (nat \<Rightarrow> string option) \<Rightarrow> string \<Rightarrow> string \<Rightarrow> err + string" where
  "vault_Encrypt gcm ctx provided random plaintext aad =
     (case loadMaterial ctx provided of
        Inl x \<Rightarrow> Inl x
      | Inr m \<Rightarrow>
          if \<not> NewCipher_ok (km_key m) then Inl key_invalid
          else case random NonceSize of
            None \<Rightarrow> Inl (New VaultEncryptionFailed (errors_Join [Some (plain ErrEncryption), Some (plain Opaque)]))
          | Some nonce \<Rightarrow>
              Inr (encodeEnvelope (km_generation m) nonce (gc_seal gcm (km_key m) nonce plaintext aad)))"

definition vault_Decrypt :: "aead \<Rightarrow> err option \<Rightarrow> err + key_material \<Rightarrow> string \<Rightarrow> string \<Rightarrow> err + string" where
  "vault_Decrypt gcm ctx provided envelope aad =
     (case loadMaterial ctx provided of
        Inl x \<Rightarrow> Inl x
      | Inr m \<Rightarrow>
          (case parseEnvelope envelope of
             Inl x \<Rightarrow> Inl x
           | Inr (md, nonce, ciphertext) \<Rightarrow>
               if em_generation md \<noteq> km_generation m
               then Inl (New VaultKeyGenerationMismatch (plain ErrGenerationMismatch))
               else if \<not> NewCipher_ok (km_key m) then Inl key_invalid
               else case gc_open gcm (km_key m) nonce ciphertext aad of
                 None \<Rightarrow> Inl (New VaultEnvelopeInvalid
                   (errors_Join [Some (plain ErrInvalidEnvelope), Some (plain ErrAuthentication), Some (plain Opaque)]))
               | Some p \<Rightarrow> Inr p))"

section \<open>The vault in memory\<close>

datatype memory_state = memoryVaultAvailable | memoryVaultLocked | memoryVaultUnavailable

record memory_provider =
  my_material :: key_material
  my_state :: memory_state
  my_cause :: "err option"

definition LoadOrCreate :: "err option \<Rightarrow> memory_provider \<Rightarrow> err + key_material" where
  "LoadOrCreate ctx p =
     (case ctx of
        Some x \<Rightarrow> Inl (errors_Join [Some (plain ErrVaultUnavailable), Some x])
      | None \<Rightarrow>
          (case my_state p of
             memoryVaultLocked \<Rightarrow> Inl (New VaultLocked (plain ErrLocked))
           | memoryVaultUnavailable \<Rightarrow>
               Inl (New VaultUnavailable (errors_Join [Some (plain ErrVaultUnavailable), my_cause p]))
           | memoryVaultAvailable \<Rightarrow> Inr (my_material p)))"

definition setState :: "memory_state \<Rightarrow> err option \<Rightarrow> memory_provider \<Rightarrow> memory_provider" where
  "setState s cause p = p\<lparr>my_state := s, my_cause := cause\<rparr>"

definition Lock :: "memory_provider \<Rightarrow> memory_provider" where
  "Lock = setState memoryVaultLocked None"

definition SetUnavailable :: "err option \<Rightarrow> memory_provider \<Rightarrow> memory_provider" where
  "SetUnavailable cause = setState memoryVaultUnavailable cause"

definition SetAvailable :: "memory_provider \<Rightarrow> memory_provider" where
  "SetAvailable = setState memoryVaultAvailable None"

text \<open>An absent key is drawn from the random source, an empty generation named.\<close>

definition NewMemoryVault ::
  "string option \<Rightarrow> string \<Rightarrow> (nat \<Rightarrow> string option) \<Rightarrow> err + memory_provider" where
  "NewMemoryVault key generation random =
     (case (case key of None \<Rightarrow> random keySize | Some k \<Rightarrow> Some k) of
        None \<Rightarrow> Inl (New VaultUnavailable (errors_Join [Some (plain ErrVaultUnavailable), Some (plain Opaque)]))
      | Some k \<Rightarrow>
          (case NewKeyMaterial (if generation = [] then ''memory-1'' else generation) k of
             Inl x \<Rightarrow> Inl x
           | Inr m \<Rightarrow> Inr \<lparr>my_material = m, my_state = memoryVaultAvailable, my_cause = None\<rparr>))"

definition memory_Encrypt ::
  "aead \<Rightarrow> err option \<Rightarrow> (nat \<Rightarrow> string option) \<Rightarrow> memory_provider \<Rightarrow> string \<Rightarrow> string \<Rightarrow> err + string" where
  "memory_Encrypt gcm ctx random p plaintext aad = vault_Encrypt gcm ctx (LoadOrCreate ctx p) random plaintext aad"

definition memory_Decrypt :: "aead \<Rightarrow> err option \<Rightarrow> memory_provider \<Rightarrow> string \<Rightarrow> string \<Rightarrow> err + string" where
  "memory_Decrypt gcm ctx p envelope aad = vault_Decrypt gcm ctx (LoadOrCreate ctx p) envelope aad"

end
