(* ===== verification/Vault_Properties.thy ===== *)
theory Vault_Properties
  imports Vault
begin

text \<open>What the envelope vault promises: its format is canonical, and what it encrypts it decrypts, with the same key
  and associated data only.\<close>

section \<open>The format\<close>

lemma of_char_byte: "n < 256 \<Longrightarrow> of_char (byte n) = n"
  by (simp add: byte_def)

lemma byte_of_char [simp]: "byte (of_char c) = c"
  by (simp add: byte_def)

lemma encode_shape:
  "encodeEnvelope g n ct = CHR ''C'' # CHR ''F'' # CHR ''V'' # CHR ''E'' # byte 1 # byte 1 #
     byte (length g div 256) # byte (length g) # byte (length n) # g @ n @ ct"
  by (simp add: encodeEnvelope_def envelope_constants)

lemma length_encode: "length (encodeEnvelope g n ct) = 9 + length g + length n + length ct"
  by (simp add: encode_shape)

text \<open>The well-formed triples.\<close>

definition envelope_parts :: "string \<Rightarrow> string \<Rightarrow> string \<Rightarrow> bool" where
  "envelope_parts g n ct \<longleftrightarrow> g \<noteq> [] \<and> length g \<le> 128 \<and> length n = 12 \<and> 16 \<le> length ct"

lemma drop_header:
  "drop (9 + k) (a # b # c # d # e # f # g # h # i # r) = drop k r"
  "drop (21 + k) (a # b # c # d # e # f # g # h # i # r) = drop (k + 12) r"
  by (simp_all add: eval_nat_numeral)

lemma parse_encode:
  assumes "envelope_parts g n ct"
  shows "parseEnvelope (encodeEnvelope g n ct) = Inr (\<lparr>em_version = 1, em_algorithm = 1, em_generation = g\<rparr>, n, ct)"
proof -
  have g: "length g < 256" "length g div 256 = 0" using assms by (auto simp: envelope_parts_def)
  then show ?thesis
    using assms unfolding parseEnvelope_def encode_shape envelope_constants envelope_parts_def
    by (simp add: of_char_byte Let_def drop_header)
qed

lemma nine_bytes: "9 \<le> length xs \<Longrightarrow> \<exists>a b c d e f g h i r. xs = a # b # c # d # e # f # g # h # i # r"
  by (metis (no_types) Suc_le_length_iff eval_nat_numeral(2) eval_nat_numeral(3) semiring_norm(26) semiring_norm(27) semiring_norm(28) numeral_One One_nat_def)

lemma parse_accepted:
  assumes "parseEnvelope env = Inr (md, n, ct)"
  shows "env = encodeEnvelope (em_generation md) n ct" "envelope_parts (em_generation md) n ct"
    "em_version md = 1" "em_algorithm md = 1"
proof -
  from assms have "9 \<le> length env" by (auto simp: parseEnvelope_def envelope_constants split: if_splits)
  from nine_bytes [OF this] obtain a b c d e f g h i r where env: "env = a # b # c # d # e # f # g # h # i # r" by blast
  define k :: nat where "k = of_char g * 256 + of_char h"
  have p: "[a, b, c, d] = ''CFVE''" "of_char e = (1::nat)" "of_char f = (1::nat)" "0 < k" "k \<le> 128" "of_char i = (12::nat)"
      "9 + k + 12 \<le> length env" "16 \<le> length env - (9 + k + 12)"
      "md = \<lparr>em_version = 1, em_algorithm = 1, em_generation = take k r\<rparr>" "n = take 12 (drop k r)" "ct = drop (k + 12) r"
    using assms unfolding parseEnvelope_def envelope_constants env
    by (auto simp: Let_def k_def drop_header add.assoc split: if_splits)
  have len: "k \<le> length r" "12 \<le> length r - k" "16 \<le> length r - (k + 12)" using p env by auto
  have gh: "of_char g = (0::nat)" "k = of_char h" using p(5) by (auto simp: k_def)
  have "e = byte 1" "f = byte 1" "i = byte 12" "g = byte 0" "h = byte k"
    using p(2,3,6) gh byte_of_char by metis+
  moreover have "r = take k r @ take 12 (drop k r) @ drop (k + 12) r"
    by (metis add.commute append_take_drop_id drop_drop)
  moreover have "k div 256 = 0" using p(5) by simp
  ultimately show "env = encodeEnvelope (em_generation md) n ct"
    using p len unfolding env encode_shape by simp
  show "envelope_parts (em_generation md) n ct" "em_version md = 1" "em_algorithm md = 1"
    using p len by (auto simp: envelope_parts_def)
qed

text \<open>C17: Bytes are accepted as an envelope exactly when they are the encoding of a generation of 1 to 128 bytes, a
  nonce of 12 and a sealed text of at least 16; the parts read back are the parts encoded.\<close>

theorem envelope_format_is_canonical:
  "parseEnvelope env = Inr (md, n, ct) \<longleftrightarrow>
     env = encodeEnvelope (em_generation md) n ct \<and> md = \<lparr>em_version = 1, em_algorithm = 1, em_generation = em_generation md\<rparr>
     \<and> em_generation md \<noteq> [] \<and> length (em_generation md) \<le> 128 \<and> length n = 12 \<and> 16 \<le> length ct"
proof
  assume p: "parseEnvelope env = Inr (md, n, ct)"
  note a = parse_accepted [OF p]
  from a(3,4) have md: "md = \<lparr>em_version = 1, em_algorithm = 1, em_generation = em_generation md\<rparr>" by simp
  have "em_generation md \<noteq> []" "length (em_generation md) \<le> 128" "length n = 12" "16 \<le> length ct"
    using a(2) unfolding envelope_parts_def by blast+
  with a(1) md show "env = encodeEnvelope (em_generation md) n ct \<and> md = \<lparr>em_version = 1, em_algorithm = 1, em_generation = em_generation md\<rparr>
     \<and> em_generation md \<noteq> [] \<and> length (em_generation md) \<le> 128 \<and> length n = 12 \<and> 16 \<le> length ct"
    by blast
next
  assume r: "env = encodeEnvelope (em_generation md) n ct \<and> md = \<lparr>em_version = 1, em_algorithm = 1, em_generation = em_generation md\<rparr>
     \<and> em_generation md \<noteq> [] \<and> length (em_generation md) \<le> 128 \<and> length n = 12 \<and> 16 \<le> length ct"
  then have "envelope_parts (em_generation md) n ct" unfolding envelope_parts_def by blast
  from parse_encode [OF this] r show "parseEnvelope env = Inr (md, n, ct)" by metis
qed

section \<open>The vault\<close>

text \<open>What is relied on of AES-GCM, for one key: \<open>Open\<close> gives back what was sealed with the same nonce and associated
  data, and sealing adds a tag of 16 bytes.\<close>

definition genuine :: "aead \<Rightarrow> bool" where
  "genuine gcm \<longleftrightarrow> (\<forall>k n p a. gc_open gcm k n (gc_seal gcm k n p a) a = Some p
     \<and> length (gc_seal gcm k n p a) = length p + 16)"

text \<open>The random source fills the buffer it is given, or fails.\<close>

definition fills :: "(nat \<Rightarrow> string option) \<Rightarrow> bool" where
  "fills random \<longleftrightarrow> (\<forall>n b. random n = Some b \<longrightarrow> length b = n)"

lemma loadMaterial_Inr: "loadMaterial ctx provided = Inr m \<longleftrightarrow>
    ctx = None \<and> provided = Inr m \<and> valid_material (km_generation m) (km_key m)"
  by (auto simp: loadMaterial_def split: option.splits sum.splits if_splits)

lemma vault_Encrypt_Inr:
  assumes "vault_Encrypt gcm ctx provided random p a = Inr env"
  obtains m n where "loadMaterial ctx provided = Inr m" "random 12 = Some n"
    "env = encodeEnvelope (km_generation m) n (gc_seal gcm (km_key m) n p a)"
  using assms by (auto simp: vault_Encrypt_def NonceSize_def split: sum.splits if_splits option.splits)

lemma sealed_parts:
  assumes "genuine gcm" "fills random" "loadMaterial ctx provided = Inr m" "random 12 = Some n"
  shows "envelope_parts (km_generation m) n (gc_seal gcm (km_key m) n p a)"
  using assms
  by (auto simp: envelope_parts_def genuine_def fills_def loadMaterial_Inr valid_material_def envelope_constants)

lemma material_loads: "valid_material (km_generation m) (km_key m) \<Longrightarrow> loadMaterial None (Inr m) = Inr m"
  by (simp add: loadMaterial_def)

lemma valid_cipher: "valid_material g k \<Longrightarrow> NewCipher_ok k"
  by (simp add: valid_material_def NewCipher_ok_def keySize_def)

lemma sealed_facts:
  assumes "genuine gcm" "fills random" "vault_Encrypt gcm ctx provided random p a = Inr env"
  obtains m n where "ctx = None" "provided = Inr m" "valid_material (km_generation m) (km_key m)"
    "parseEnvelope env = Inr (\<lparr>em_version = 1, em_algorithm = 1, em_generation = km_generation m\<rparr>, n,
       gc_seal gcm (km_key m) n p a)"
proof -
  obtain m n where m: "loadMaterial ctx provided = Inr m" "random 12 = Some n"
    and e: "env = encodeEnvelope (km_generation m) n (gc_seal gcm (km_key m) n p a)"
    using vault_Encrypt_Inr [OF assms(3)] .
  show ?thesis
    using m parse_encode [OF sealed_parts [OF assms(1,2) m]] by (intro that [of m n]) (auto simp: loadMaterial_Inr e)
qed

lemma opens_sealed:
  assumes "genuine gcm" "fills random" "vault_Encrypt gcm ctx provided random p a = Inr env"
  shows "vault_Decrypt gcm ctx provided env a = Inr p"
proof -
  obtain m n where m: "ctx = None" "provided = Inr m" "valid_material (km_generation m) (km_key m)"
    and e: "parseEnvelope env = Inr (\<lparr>em_version = 1, em_algorithm = 1, em_generation = km_generation m\<rparr>, n,
       gc_seal gcm (km_key m) n p a)"
    using sealed_facts [OF assms] .
  show ?thesis
    using m(3) valid_cipher [OF m(3)] assms(1) unfolding m(1,2)
    by (simp add: vault_Decrypt_def material_loads e genuine_def)
qed

text \<open>C16: What the vault encrypts it decrypts under the same associated data, whatever the nonce, as long as it is
  given the same key; under a key of another generation, or with no key, it refuses.\<close>

theorem vault_opens_what_it_sealed:
  assumes "genuine gcm" "fills random"
    and "vault_Encrypt gcm ctx (Inr m) random p a = Inr env"
  shows "vault_Decrypt gcm ctx (Inr m) env a = Inr p
    \<and> vault_Decrypt gcm ctx (Inl (New VaultLocked (plain ErrLocked))) env a = Inl (New VaultLocked (plain ErrLocked))
    \<and> (\<forall>other. valid_material (km_generation other) (km_key other) \<longrightarrow> km_generation other \<noteq> km_generation m \<longrightarrow>
         vault_Decrypt gcm ctx (Inr other) env a = Inl (New VaultKeyGenerationMismatch (plain ErrGenerationMismatch)))"
proof -
  obtain n where m: "ctx = None" "parseEnvelope env =
      Inr (\<lparr>em_version = 1, em_algorithm = 1, em_generation = km_generation m\<rparr>, n, gc_seal gcm (km_key m) n p a)"
    using sealed_facts [OF assms] by (metis sum.inject(2))
  have "vault_Decrypt gcm ctx (Inr m) env a = Inr p" by (rule opens_sealed [OF assms])
  moreover have "vault_Decrypt gcm ctx (Inl (New VaultLocked (plain ErrLocked))) env a = Inl (New VaultLocked (plain ErrLocked))"
    using m(1) by (simp add: vault_Decrypt_def loadMaterial_def)
  moreover have "vault_Decrypt gcm ctx (Inr other) env a = Inl (New VaultKeyGenerationMismatch (plain ErrGenerationMismatch))"
    if "valid_material (km_generation other) (km_key other)" "km_generation other \<noteq> km_generation m" for other
    using that m by (simp add: vault_Decrypt_def material_loads)
  ultimately show ?thesis by blast
qed

text \<open>A stand-in for the cipher that only adds a tag of 16 bytes.\<close>

definition sample_aead :: aead where
  "sample_aead = \<lparr>gc_seal = \<lambda>k n p a. replicate 16 CHR ''t'' @ p,
     gc_open = \<lambda>k n c a. if take 16 c = replicate 16 CHR ''t'' then Some (drop 16 c) else None\<rparr>"

theorem vault_opens_what_it_sealed_witness:
  "\<exists>env. vault_Encrypt sample_aead None (Inr \<lparr>km_generation = ''g1'', km_key = replicate 32 CHR ''k''\<rparr>)
       (\<lambda>n. Some (replicate n CHR ''n'')) ''secret'' ''aad'' = Inr env
     \<and> vault_Decrypt sample_aead None (Inr \<lparr>km_generation = ''g1'', km_key = replicate 32 CHR ''k''\<rparr>) env ''aad'' = Inr ''secret''
     \<and> vault_Decrypt sample_aead None (Inr \<lparr>km_generation = ''g2'', km_key = replicate 32 CHR ''k''\<rparr>) env ''aad''
         = Inl (New VaultKeyGenerationMismatch (plain ErrGenerationMismatch))"
proof -
  let ?m = "\<lparr>km_generation = ''g1'', km_key = replicate 32 CHR ''k''\<rparr>"
  let ?n = "\<lambda>n. Some (replicate n CHR ''n'')"
  have "isl (vault_Encrypt sample_aead None (Inr ?m) ?n ''secret'' ''aad'') = False" by code_simp
  then obtain env where env: "vault_Encrypt sample_aead None (Inr ?m) ?n ''secret'' ''aad'' = Inr env"
    by (cases "vault_Encrypt sample_aead None (Inr ?m) ?n ''secret'' ''aad''") auto
  have "genuine sample_aead" "fills ?n" by (auto simp: genuine_def sample_aead_def fills_def)
  from vault_opens_what_it_sealed [OF this env] env show ?thesis
    by (simp add: valid_material_def envelope_constants)
qed

section \<open>The vault of the store\<close>

text \<open>The operations the store calls, for a key that stays the same and a nonce drawn for each text.\<close>

definition envelope_ops ::
  "aead \<Rightarrow> err + key_material \<Rightarrow> (string \<Rightarrow> string \<Rightarrow> nat \<Rightarrow> string option) \<Rightarrow> vault_ops" where
  "envelope_ops gcm provided random =
     \<lparr>v_encrypt = \<lambda>p a. vault_Encrypt gcm None provided (random p a) p a,
      v_decrypt = \<lambda>c a. vault_Decrypt gcm None provided c a\<rparr>"

lemma envelope_ops_inverse:
  assumes "genuine gcm" "\<And>p a. fills (random p a)"
  shows "vault_inverse (envelope_ops gcm provided random)"
  using opens_sealed [OF assms(1) assms(2)] by (simp add: vault_inverse_def envelope_ops_def)

end
