(* ===== verification/Go_Json.thy ===== *)
theory Go_Json
  imports Go_Lib
begin

text \<open>
  \<^verbatim>\<open>encoding/json\<close> as the program uses it: values, \<open>Marshal\<close>'s texts (with HTML characters escaped) and the
  parser behind \<open>Unmarshal\<close>. Strings are UTF-8 bytes; a number is its literal.
\<close>

datatype json =
    JNull
  | JBool bool
  | JNum string
  | JStr string
  | JArr "json list"
  | JObj "(string \<times> json) list"

section \<open>Writing strings\<close>

definition hex_code :: "nat \<Rightarrow> nat" where
  "hex_code d = (if d < 10 then 48 + d else 87 + d)"

definition escape_byte :: "nat \<Rightarrow> nat list" where
  "escape_byte b =
     (if b = 34 \<or> b = 92 then [92, b]
      else if b = 8 then [92, 98] else if b = 12 then [92, 102] else if b = 10 then [92, 110]
      else if b = 13 then [92, 114] else if b = 9 then [92, 116]
      else if b < 32 \<or> b = 60 \<or> b = 62 \<or> b = 38
      then [92, 117, 48, 48, hex_code (b div 16), hex_code (b mod 16)]
      else [b])"

lemma rune_length_pos [simp]: "0 < rune_length bs"
  by (auto simp: rune_length_def split: list.splits)

text \<open>U+2028 and U+2029 are escaped; a byte that begins no rune is written as the escape of U+FFFD.\<close>

function quote_bytes :: "nat list \<Rightarrow> nat list" where
  "quote_bytes [] = []"
| "quote_bytes (b # bs) =
     (if b < 128 then escape_byte b @ quote_bytes bs
      else (let n = rune_length (b # bs); r = take n (b # bs) in
        (if n = 1 then [92, 117, 102, 102, 102, 100]
         else if r = [226, 128, 168] then [92, 117, 50, 48, 50, 56]
         else if r = [226, 128, 169] then [92, 117, 50, 48, 50, 57] else r)
        @ quote_bytes (drop n (b # bs))))"
  by pat_completeness auto
termination
proof (relation "measure length")
  fix b :: nat and bs :: "nat list" and n r
  assume "n = rune_length (b # bs)"
  then have "0 < n" by simp
  then show "(drop n (b # bs), b # bs) \<in> measure length" by simp
qed auto

definition json_quote :: "string \<Rightarrow> string" where
  "json_quote s = CHR 0x22 # map char_of (quote_bytes (bytes s)) @ [CHR 0x22]"

section \<open>Writing values\<close>

fun show_nat :: "nat \<Rightarrow> string" where
  "show_nat n = (if n < 10 then [char_of (48 + n)] else show_nat (n div 10) @ [char_of (48 + n mod 10)])"

declare show_nat.simps [simp del]

definition show_int :: "int \<Rightarrow> string" where
  "show_int i = (if i < 0 then CHR ''-'' # show_nat (nat (- i)) else show_nat (nat i))"

fun render :: "json \<Rightarrow> string" where
  "render JNull = ''null''"
| "render (JBool b) = (if b then ''true'' else ''false'')"
| "render (JNum l) = l"
| "render (JStr s) = json_quote s"
| "render (JArr js) = CHR ''['' # strings_Join (map render js) '','' @ '']''"
| "render (JObj ms) = CHR ''{'' # strings_Join (map (\<lambda>(k, j). json_quote k @ CHR '':'' # render j) ms) '','' @ ''}''"

section \<open>Reading strings\<close>

definition hex_value :: "nat \<Rightarrow> nat option" where
  "hex_value b =
     (if 48 \<le> b \<and> b \<le> 57 then Some (b - 48) else if 97 \<le> b \<and> b \<le> 102 then Some (b - 87)
      else if 65 \<le> b \<and> b \<le> 70 then Some (b - 55) else None)"

definition hex4 :: "nat \<Rightarrow> nat \<Rightarrow> nat \<Rightarrow> nat \<Rightarrow> nat option" where
  "hex4 a b c d =
     (case (hex_value a, hex_value b, hex_value c, hex_value d) of
        (Some w, Some x, Some y, Some z) \<Rightarrow> Some (w * 4096 + x * 256 + y * 16 + z)
      | _ \<Rightarrow> None)"

definition utf8_encode :: "nat \<Rightarrow> nat list" where
  "utf8_encode r =
     (if r < 128 then [r] else if r < 2048 then [192 + r div 64, 128 + r mod 64]
      else if r < 65536 then [224 + r div 4096, 128 + r div 64 mod 64, 128 + r mod 64]
      else [240 + r div 262144, 128 + r div 4096 mod 64, 128 + r div 64 mod 64, 128 + r mod 64])"

definition replacement :: "nat list" where "replacement = [239, 191, 189]"

definition simple_escape :: "nat \<Rightarrow> nat option" where
  "simple_escape b =
     (if b = 34 \<or> b = 92 \<or> b = 47 then Some b else if b = 98 then Some 8 else if b = 102 then Some 12
      else if b = 110 then Some 10 else if b = 114 then Some 13 else if b = 116 then Some 9 else None)"

text \<open>A pair of surrogate escapes is one rune; a lone surrogate becomes U+FFFD.\<close>

definition surrogate_pair :: "nat \<Rightarrow> nat list \<Rightarrow> (nat \<times> nat list) option" where
  "surrogate_pair r bs =
     (case bs of
        p # q # a # b # c # d # rest \<Rightarrow>
          if p = 92 \<and> q = 117 then
            (case hex4 a b c d of
               Some t \<Rightarrow>
                 if 55296 \<le> r \<and> r < 56320 \<and> 56320 \<le> t \<and> t < 57344
                 then Some (65536 + (r - 55296) * 1024 + (t - 56320), rest) else None
             | None \<Rightarrow> None)
          else None
      | _ \<Rightarrow> None)"

lemma surrogate_pair_shorter: "surrogate_pair r bs = Some (t, rest) \<Longrightarrow> length rest < length bs"
  by (auto simp: surrogate_pair_def split: list.splits if_splits option.splits)

text \<open>Reads up to the closing quote; the result is the decoded bytes and what follows the quote.\<close>

function unquote :: "nat list \<Rightarrow> (nat list \<times> nat list) option" where
  "unquote [] = None"
| "unquote (b # bs) =
     (if b = 34 then Some ([], bs)
      else if b = 92 then
        (case bs of
           [] \<Rightarrow> None
         | e # rest \<Rightarrow>
             if e = 117 then
               (case rest of
                  h1 # h2 # h3 # h4 # rest1 \<Rightarrow>
                    (case hex4 h1 h2 h3 h4 of
                       None \<Rightarrow> None
                     | Some r \<Rightarrow>
                         (case surrogate_pair r rest1 of
                            Some (t, rest2) \<Rightarrow> map_option (map_prod ((@) (utf8_encode t)) id) (unquote rest2)
                          | None \<Rightarrow>
                              map_option (map_prod ((@) (if 55296 \<le> r \<and> r < 57344 then replacement else utf8_encode r)) id)
                                (unquote rest1)))
                | _ \<Rightarrow> None)
             else (case simple_escape e of
               None \<Rightarrow> None
             | Some x \<Rightarrow> map_option (map_prod ((#) x) id) (unquote rest)))
      else if b < 32 then None
      else if b < 128 then map_option (map_prod ((#) b) id) (unquote bs)
      else (let n = rune_length (b # bs) in
        map_option (map_prod ((@) (if n = 1 then replacement else take n (b # bs))) id) (unquote (drop n (b # bs)))))"
  by pat_completeness auto
termination
proof (relation "measure length")
  fix b :: nat and bs :: "nat list" and n
  assume "n = rune_length (b # bs)"
  then have "0 < n" by simp
  then show "(drop n (b # bs), b # bs) \<in> measure length" by simp
qed (auto dest: surrogate_pair_shorter)

section \<open>Reading values\<close>

definition is_space :: "char \<Rightarrow> bool" where
  "is_space c \<longleftrightarrow> c \<in> {CHR '' '', CHR 0x09, CHR 0x0A, CHR 0x0D}"

definition skip_space :: "string \<Rightarrow> string" where
  "skip_space = dropWhile is_space"

definition is_digit :: "char \<Rightarrow> bool" where
  "is_digit c \<longleftrightarrow> 48 \<le> (of_char c :: nat) \<and> (of_char c :: nat) \<le> 57"

definition number_char :: "char \<Rightarrow> bool" where
  "number_char c \<longleftrightarrow> is_digit c \<or> c \<in> {CHR ''-'', CHR ''+'', CHR ''.'', CHR ''e'', CHR ''E''}"

definition digits1 :: "string \<Rightarrow> bool" where
  "digits1 s \<longleftrightarrow> s \<noteq> [] \<and> list_all is_digit s"

definition valid_exponent :: "string \<Rightarrow> bool" where
  "valid_exponent s \<longleftrightarrow>
     (case s of [] \<Rightarrow> True
      | e # r \<Rightarrow> (e = CHR ''e'' \<or> e = CHR ''E'')
          \<and> digits1 (case r of [] \<Rightarrow> [] | c # r2 \<Rightarrow> if c = CHR ''+'' \<or> c = CHR ''-'' then r2 else r))"

text \<open>The JSON grammar of numbers: sign, integer without leading zeros, fraction, exponent.\<close>

definition valid_number :: "string \<Rightarrow> bool" where
  "valid_number s =
     (let u = (case s of [] \<Rightarrow> [] | c # r \<Rightarrow> if c = CHR ''-'' then r else s);
          i = takeWhile is_digit u; r = dropWhile is_digit u
      in i \<noteq> [] \<and> (hd i = CHR ''0'' \<longrightarrow> length i = 1)
         \<and> (case r of
              [] \<Rightarrow> True
            | c # r2 \<Rightarrow>
                if c = CHR ''.'' then digits1 (takeWhile is_digit r2) \<and> valid_exponent (dropWhile is_digit r2)
                else valid_exponent r))"

definition keyword :: "string \<Rightarrow> json \<Rightarrow> string \<Rightarrow> (json \<times> string) option" where
  "keyword w j s = (if take (length w) s = w then Some (j, drop (length w) s) else None)"

definition parse_string :: "string \<Rightarrow> (string \<times> string) option" where
  "parse_string s = map_option (map_prod (map char_of) (map char_of)) (unquote (bytes s))"

text \<open>Recursive descent; each call is given the depth it may still use.\<close>

fun parse_value :: "nat \<Rightarrow> string \<Rightarrow> (json \<times> string) option"
and parse_elements :: "nat \<Rightarrow> string \<Rightarrow> (json list \<times> string) option"
and parse_members :: "nat \<Rightarrow> string \<Rightarrow> ((string \<times> json) list \<times> string) option" where
  "parse_value 0 s = None"
| "parse_value (Suc k) s =
     (case skip_space s of
        [] \<Rightarrow> None
      | c # r \<Rightarrow>
          if c = CHR ''{'' then
            (case skip_space r of
               [] \<Rightarrow> None
             | d # r2 \<Rightarrow> if d = CHR ''}'' then Some (JObj [], r2) else map_option (map_prod JObj id) (parse_members k r))
          else if c = CHR ''['' then
            (case skip_space r of
               [] \<Rightarrow> None
             | d # r2 \<Rightarrow> if d = CHR '']'' then Some (JArr [], r2) else map_option (map_prod JArr id) (parse_elements k r))
          else if c = CHR 0x22 then map_option (map_prod JStr id) (parse_string r)
          else if c = CHR ''n'' then keyword ''null'' JNull (c # r)
          else if c = CHR ''t'' then keyword ''true'' (JBool True) (c # r)
          else if c = CHR ''f'' then keyword ''false'' (JBool False) (c # r)
          else (let l = takeWhile number_char (c # r) in
            if valid_number l then Some (JNum l, dropWhile number_char (c # r)) else None))"
| "parse_elements 0 s = None"
| "parse_elements (Suc k) s =
     (case parse_value k s of
        None \<Rightarrow> None
      | Some (j, r) \<Rightarrow>
          (case skip_space r of
             [] \<Rightarrow> None
           | c # r2 \<Rightarrow>
               if c = CHR '']'' then Some ([j], r2)
               else if c = CHR '','' then map_option (map_prod ((#) j) id) (parse_elements k r2)
               else None))"
| "parse_members 0 s = None"
| "parse_members (Suc k) s =
     (case skip_space s of
        [] \<Rightarrow> None
      | q # s2 \<Rightarrow>
          if q \<noteq> CHR 0x22 then None
          else (case parse_string s2 of
            None \<Rightarrow> None
          | Some (key, r) \<Rightarrow>
              (case skip_space r of
                 [] \<Rightarrow> None
               | c # r2 \<Rightarrow>
                   if c \<noteq> CHR '':'' then None
                   else (case parse_value k r2 of
                     None \<Rightarrow> None
                   | Some (j, r3) \<Rightarrow>
                       (case skip_space r3 of
                          [] \<Rightarrow> None
                        | d # r4 \<Rightarrow>
                            if d = CHR ''}'' then Some ([(key, j)], r4)
                            else if d = CHR '','' then map_option (map_prod ((#) (key, j)) id) (parse_members k r4)
                            else None)))))"

text \<open>A text has at most as many nested values as bytes, so twice its length bounds the depth.\<close>

definition parse_json :: "string \<Rightarrow> json option" where
  "parse_json s =
     (case parse_value (2 * length s + 2) s of
        Some (j, r) \<Rightarrow> if skip_space r = [] then Some j else None
      | None \<Rightarrow> None)"

end
