(* ===== verification/Json_Roundtrip.thy ===== *)
theory Json_Roundtrip
  imports Go_Json
begin

text \<open>What \<open>Marshal\<close> writes, \<open>Unmarshal\<close> parses back: for every value whose strings are UTF-8.\<close>

section \<open>Runes\<close>

function valid_utf8 :: "nat list \<Rightarrow> bool" where
  "valid_utf8 [] = True"
| "valid_utf8 (b # bs) =
     (if b < 128 then valid_utf8 bs
      else (let n = rune_length (b # bs) in n \<noteq> 1 \<and> valid_utf8 (drop n (b # bs))))"
  by pat_completeness auto
termination
proof (relation "measure length")
  fix b :: nat and bs :: "nat list" and n
  assume "n = rune_length (b # bs)"
  then have "0 < n" by simp
  then show "(drop n (b # bs), b # bs) \<in> measure length" by simp
qed auto

abbreviation (input) two_bytes :: "nat \<Rightarrow> nat \<Rightarrow> bool" where
  "two_bytes b c \<equiv> 194 \<le> b \<and> b \<le> 223 \<and> cont_byte c"

abbreviation (input) three_bytes :: "nat \<Rightarrow> nat \<Rightarrow> nat \<Rightarrow> bool" where
  "three_bytes b c d \<equiv> 224 \<le> b \<and> b \<le> 239 \<and> cont_byte c \<and> cont_byte d \<and> (b = 224 \<longrightarrow> 160 \<le> c) \<and> (b = 237 \<longrightarrow> c \<le> 159)"

abbreviation (input) four_bytes :: "nat \<Rightarrow> nat \<Rightarrow> nat \<Rightarrow> nat \<Rightarrow> bool" where
  "four_bytes b c d e \<equiv> 240 \<le> b \<and> b \<le> 244 \<and> cont_byte c \<and> cont_byte d \<and> cont_byte e
     \<and> (b = 240 \<longrightarrow> 144 \<le> c) \<and> (b = 244 \<longrightarrow> c \<le> 143)"

lemma rune_length_cases:
  obtains "rune_length bs = 1"
  | b c r where "bs = b # c # r" "two_bytes b c" "rune_length bs = 2"
  | b c d r where "bs = b # c # d # r" "three_bytes b c d" "rune_length bs = 3"
  | b c d e r where "bs = b # c # d # e # r" "four_bytes b c d e" "rune_length bs = 4"
proof (cases "rune_length bs = 1")
  case False
  then show ?thesis
    using that(2-4) unfolding rune_length_def by (auto split: list.splits if_splits)
qed (rule that(1))

lemma two_bytes_rune: "two_bytes b c \<Longrightarrow> rune_length (b # c # r) = 2"
  by (auto simp: rune_length_def split: list.split)

lemma three_bytes_rune: "three_bytes b c d \<Longrightarrow> rune_length (b # c # d # r) = 3"
  by (auto simp: rune_length_def split: list.split)

lemma four_bytes_rune: "four_bytes b c d e \<Longrightarrow> rune_length (b # c # d # e # r) = 4"
  by (auto simp: rune_length_def)

lemma rune_prefix_length:
  assumes "rune_length bs \<noteq> 1"
  shows "rune_length (take (rune_length bs) bs @ t) = rune_length bs" "length (take (rune_length bs) bs) = rune_length bs"
    "bs \<noteq> []" "128 \<le> hd bs"
  by (rule rune_length_cases [of bs];
      use assms in \<open>auto simp: two_bytes_rune three_bytes_rune four_bytes_rune eval_nat_numeral\<close>)+

section \<open>Strings\<close>

definition escaped_bytes :: "nat list" where "escaped_bytes = [0..<32] @ [60, 62, 38]"

lemma hex_roundtrip:
  assumes "b < 32 \<or> b = 60 \<or> b = 62 \<or> b = 38"
  shows "hex4 48 48 (hex_code (b div 16)) (hex_code (b mod 16)) = Some b"
proof -
  have "list_all (\<lambda>b. hex4 48 48 (hex_code (b div 16)) (hex_code (b mod 16)) = Some b) escaped_bytes" by code_simp
  then show ?thesis using assms by (auto simp: list_all_iff escaped_bytes_def)
qed

lemma append_single: "(@) [b] = (#) b"
  by (rule ext) simp

lemma unquote_escape:
  assumes "b < 128"
  shows "unquote (escape_byte b @ t) = map_option (map_prod ((#) b) id) (unquote t)"
proof (cases "b \<in> {34, 92, 8, 12, 10, 13, 9}")
  case True
  then show ?thesis by (auto simp: escape_byte_def simple_escape_def)
next
  case simple: False
  show ?thesis
  proof (cases "b < 32 \<or> b = 60 \<or> b = 62 \<or> b = 38")
    case True
    have "surrogate_pair b t = None" using assms by (auto simp: surrogate_pair_def split: list.splits option.splits)
    then show ?thesis
      using simple True assms hex_roundtrip [OF True] by (auto simp: escape_byte_def utf8_encode_def append_single)
  next
    case False
    then show ?thesis using simple assms by (auto simp: escape_byte_def)
  qed
qed

lemma unquote_separator:
  "unquote (92 # 117 # 50 # 48 # 50 # 56 # t) = map_option (map_prod ((@) [226, 128, 168]) id) (unquote t)"
  "unquote (92 # 117 # 50 # 48 # 50 # 57 # t) = map_option (map_prod ((@) [226, 128, 169]) id) (unquote t)"
proof -
  have "surrogate_pair 8232 t = None" "surrogate_pair 8233 t = None"
    by (auto simp: surrogate_pair_def split: list.splits option.splits)
  then show "unquote (92 # 117 # 50 # 48 # 50 # 56 # t) = map_option (map_prod ((@) [226, 128, 168]) id) (unquote t)"
    "unquote (92 # 117 # 50 # 48 # 50 # 57 # t) = map_option (map_prod ((@) [226, 128, 169]) id) (unquote t)"
    by (simp_all add: hex4_def hex_value_def utf8_encode_def)
qed

lemma unquote_rune:
  assumes "rune_length bs \<noteq> 1"
  shows "unquote (take (rune_length bs) bs @ t) = map_option (map_prod ((@) (take (rune_length bs) bs)) id) (unquote t)"
proof -
  note r = rune_prefix_length [OF assms]
  obtain b rs where b: "bs = b # rs" "128 \<le> b" using r(3,4) by (cases bs) auto
  obtain cs where bs: "take (rune_length bs) bs @ t = b # cs"
    unfolding b(1) by (cases "rune_length (b # rs)") (use rune_length_pos [of "b # rs"] in auto)
  note bs = this b(2)
  have "take (rune_length bs) (take (rune_length bs) bs @ t) = take (rune_length bs) bs"
    "drop (rune_length bs) (take (rune_length bs) bs @ t) = t"
    using r(2) by simp_all
  moreover have "rune_length (b # cs) = rune_length bs" using r(1) [of t] bs(1) by metis
  ultimately show ?thesis using bs assms by (simp add: Let_def)
qed

lemma unquote_quote: "valid_utf8 bs \<Longrightarrow> unquote (quote_bytes bs @ 34 # t) = Some (bs, t)"
proof (induction bs rule: quote_bytes.induct)
  case (2 b bs)
  show ?case
  proof (cases "b < 128")
    case True
    then show ?thesis using 2 by (simp add: unquote_escape)
  next
    case False
    define n where "n = rune_length (b # bs)"
    have n: "n \<noteq> 1" "valid_utf8 (drop n (b # bs))" using 2(3) False by (auto simp: Let_def n_def)
    have ih: "unquote (quote_bytes (drop n (b # bs)) @ 34 # t) = Some (drop n (b # bs), t)"
      using 2(2) [OF False n_def refl n(2)] .
    have join: "take n (b # bs) @ drop n (b # bs) = b # bs" by simp
    define tl where "tl = quote_bytes (drop n (b # bs)) @ 34 # t"
    consider (a) "take n (b # bs) = [226, 128, 168]" | (b) "take n (b # bs) = [226, 128, 169]"
      | (c) "take n (b # bs) \<notin> {[226, 128, 168], [226, 128, 169]}" by blast
    then have "unquote (quote_bytes (b # bs) @ 34 # t)
        = map_option (map_prod ((@) (take n (b # bs))) id) (unquote tl)"
    proof cases
      case a
      then have "quote_bytes (b # bs) @ 34 # t = 92 # 117 # 50 # 48 # 50 # 56 # tl"
        using False n(1) by (simp add: Let_def n_def tl_def)
      then show ?thesis using a unquote_separator(1) [of tl] by simp
    next
      case b
      then have "quote_bytes (b # bs) @ 34 # t = 92 # 117 # 50 # 48 # 50 # 57 # tl"
        using False n(1) by (simp add: Let_def n_def tl_def)
      then show ?thesis using b unquote_separator(2) [of tl] by simp
    next
      case c
      then have "quote_bytes (b # bs) @ 34 # t = take n (b # bs) @ tl"
        using False n(1) by (simp add: Let_def n_def tl_def)
      then show ?thesis using unquote_rune [of "b # bs" tl] n(1) unfolding n_def by simp
    qed
    then show ?thesis using ih join by (simp add: tl_def)
  qed
qed simp

lemma bytes_map_char_of: "list_all (\<lambda>n. n < 256) bs \<Longrightarrow> bytes (map char_of bs) = bs"
  by (induction bs) (auto simp: bytes_def)

lemma bytes_small: "list_all (\<lambda>n. n < 256) (bytes s)"
  by (induction s) (auto simp: bytes_def nat_of_char_less_256)

lemma char_of_bytes [simp]: "map char_of (bytes s) = s"
  by (induction s) (auto simp: bytes_def)

lemma parse_string_quote:
  assumes "valid_utf8 (bytes s)"
  shows "parse_string (map char_of (quote_bytes (bytes s)) @ CHR 0x22 # r) = Some (s, r)"
proof -
  have q: "list_all (\<lambda>n. n < 256) (quote_bytes bs)" if "list_all (\<lambda>n. n < 256) bs" for bs
    using that
  proof (induction bs rule: quote_bytes.induct)
    case (2 b bs)
    have e: "list_all (\<lambda>n. n < 256) (escape_byte b)" if "b < 256"
      using that by (auto simp: escape_byte_def hex_code_def)
    show ?case
    proof (cases "b < 128")
      case True
      then show ?thesis using 2 e by auto
    next
      case False
      define n where "n = rune_length (b # bs)"
      have "list_all (\<lambda>n. n < 256) (take n (b # bs))" "list_all (\<lambda>n. n < 256) (drop n (b # bs))"
        using 2(3) by (metis append_take_drop_id list_all_append)+
      then show ?thesis using 2(2) [OF False n_def refl] False by (simp add: Let_def n_def)
    qed
  qed simp
  have "bytes (map char_of (quote_bytes (bytes s)) @ CHR 0x22 # r) = quote_bytes (bytes s) @ 34 # bytes r"
    using bytes_map_char_of [OF q [OF bytes_small]] by (simp add: bytes_def)
  then show ?thesis using unquote_quote [OF assms] by (simp add: parse_string_def)
qed

section \<open>Values\<close>

fun json_ok :: "json \<Rightarrow> bool" where
  "json_ok (JNum l) = (valid_number l \<and> list_all number_char l)"
| "json_ok (JStr s) = valid_utf8 (bytes s)"
| "json_ok (JArr js) = list_all json_ok js"
| "json_ok (JObj ms) = list_all (\<lambda>(k, j). valid_utf8 (bytes k) \<and> json_ok j) ms"
| "json_ok j = True"

text \<open>How deep the parser goes for the text of a value.\<close>

fun weight :: "json \<Rightarrow> nat" where
  "weight (JArr js) = Suc (sum_list (map (\<lambda>j. Suc (weight j)) js))"
| "weight (JObj ms) = Suc (sum_list (map (\<lambda>(k, j). Suc (weight j)) ms))"
| "weight j = 1"

definition terminated :: "string \<Rightarrow> bool" where
  "terminated r \<longleftrightarrow> (case r of [] \<Rightarrow> True | c # _ \<Rightarrow> \<not> number_char c)"

lemma number_chars: "number_char c \<Longrightarrow> \<not> is_space c \<and> c \<notin> {CHR ''{'', CHR ''}'', CHR ''['', CHR '']'', CHR 0x22, CHR ''n'', CHR ''t'', CHR ''f''}"
  by (auto simp: number_char_def is_digit_def is_space_def)

lemma valid_number_nonempty: "valid_number l \<Longrightarrow> l \<noteq> []"
  by (auto simp: valid_number_def Let_def)

lemma render_head:
  assumes "json_ok j"
  obtains c r where "render j = c # r" "\<not> is_space c" "c \<noteq> CHR '']''" "c \<noteq> CHR ''}''"
proof (cases j)
  case (JNum l)
  with assms have "l \<noteq> []" "list_all number_char l" using valid_number_nonempty by auto
  then obtain c r where "l = c # r" "number_char c" by (cases l) auto
  then show ?thesis using that [of c r] number_chars JNum by auto
next
  case (JBool b)
  then show ?thesis using that by (cases b) (auto simp: is_space_def)
qed (use that in \<open>auto simp: is_space_def json_quote_def\<close>)

lemma skip_space_id: "\<not> is_space c \<Longrightarrow> skip_space (c # r) = c # r"
  by (simp add: skip_space_def)

lemma takeWhile_number:
  assumes "list_all number_char l" "terminated r"
  shows "takeWhile number_char (l @ r) = l" "dropWhile number_char (l @ r) = r"
  using assms by (auto simp: terminated_def list_all_iff takeWhile_append2 dropWhile_append2 split: list.splits)

lemma terminated_punctuation [simp]:
  "terminated (CHR '','' # r)" "terminated (CHR '']'' # r)" "terminated (CHR ''}'' # r)" "terminated []"
  by (simp_all add: terminated_def number_char_def is_digit_def)

lemma punctuation_not_space [simp]:
  "skip_space (CHR '','' # r) = CHR '','' # r" "skip_space (CHR '']'' # r) = CHR '']'' # r"
  "skip_space (CHR ''}'' # r) = CHR ''}'' # r" "skip_space (CHR '':'' # r) = CHR '':'' # r"
  "skip_space (CHR 0x22 # r) = CHR 0x22 # r" "skip_space (CHR ''['' # r) = CHR ''['' # r"
  "skip_space (CHR ''{'' # r) = CHR ''{'' # r" "skip_space [] = []"
  by (simp_all add: skip_space_def is_space_def)

definition reads_back :: "json \<Rightarrow> bool" where
  "reads_back j \<longleftrightarrow> (\<forall>k r. weight j \<le> k \<longrightarrow> terminated r \<longrightarrow> parse_value k (render j @ r) = Some (j, r))"

lemma elements_read_back:
  assumes "js \<noteq> []" "list_all json_ok js" "list_all reads_back js" "sum_list (map (\<lambda>j. Suc (weight j)) js) \<le> k"
  shows "parse_elements k (strings_Join (map render js) '','' @ CHR '']'' # r) = Some (js, r)"
  using assms
proof (induction js arbitrary: k)
  case (Cons j js)
  then obtain k' where k: "k = Suc k'" "weight j \<le> k'" by (cases k) auto
  have j: "parse_value k' (render j @ r2) = Some (j, r2)" if "terminated r2" for r2
    using Cons.prems(3) k that by (simp add: reads_back_def)
  show ?case
  proof (cases js)
    case Nil
    then show ?thesis using j k by simp
  next
    case (Cons j2 js2)
    then show ?thesis using j k Cons.IH [of k'] Cons.prems by simp
  qed
qed simp

lemma members_read_back:
  assumes "ms \<noteq> []" "list_all (\<lambda>(q, j). valid_utf8 (bytes q) \<and> json_ok j) ms" "list_all (\<lambda>(q, j). reads_back j) ms"
    and "sum_list (map (\<lambda>(q, j). Suc (weight j)) ms) \<le> k"
  shows "parse_members k (strings_Join (map (\<lambda>(q, j). json_quote q @ CHR '':'' # render j) ms) '','' @ CHR ''}'' # r)
    = Some (ms, r)"
  using assms
proof (induction ms arbitrary: k)
  case (Cons m ms)
  obtain q j where m: "m = (q, j)" by (cases m)
  with Cons.prems obtain k' where k: "k = Suc k'" "weight j \<le> k'" by (cases k) auto
  have j: "parse_value k' (render j @ r2) = Some (j, r2)" if "terminated r2" for r2
    using Cons.prems(3) k that m by (simp add: reads_back_def)
  have q: "parse_string (map char_of (quote_bytes (bytes q)) @ CHR 0x22 # r2) = Some (q, r2)" for r2
    using Cons.prems(2) m by (simp add: parse_string_quote)
  show ?case
  proof (cases ms)
    case Nil
    then show ?thesis using j k q m by (simp add: json_quote_def)
  next
    case (Cons m2 ms2)
    then show ?thesis using j k q m Cons.IH [of k'] Cons.prems by (simp add: json_quote_def split: prod.splits)
  qed
qed simp

lemma parse_render: "json_ok j \<Longrightarrow> reads_back j"
proof (induction j)
  case JNull
  show ?case unfolding reads_back_def
    by (intro allI impI, rename_tac k r, case_tac k) (simp_all add: skip_space_def is_space_def keyword_def)
next
  case (JBool b)
  show ?case unfolding reads_back_def
    by (intro allI impI, rename_tac k r, case_tac k; cases b) (simp_all add: skip_space_def is_space_def keyword_def)
next
  case (JNum l)
  then obtain c l2 where l: "l = c # l2" "number_char c" using valid_number_nonempty by (cases l) auto
  show ?case
    unfolding reads_back_def
  proof (intro allI impI)
    fix k r assume k: "weight (JNum l) \<le> k" and r: "terminated r"
    then obtain k' where "k = Suc k'" by (cases k) auto
    moreover have "takeWhile number_char (c # l2 @ r) = l" "dropWhile number_char (c # l2 @ r) = r"
      using takeWhile_number [of l r] JNum r l(1) by simp_all
    ultimately show "parse_value k (render (JNum l) @ r) = Some (JNum l, r)"
      using JNum l number_chars [OF l(2)] by (simp add: skip_space_id Let_def del: takeWhile.simps dropWhile.simps)
  qed
next
  case (JStr s)
  show ?case unfolding reads_back_def
    by (intro allI impI, rename_tac k r, case_tac k) (use JStr in \<open>simp_all add: json_quote_def parse_string_quote\<close>)
next
  case (JArr js)
  show ?case
    unfolding reads_back_def
  proof (intro allI impI)
    fix k r assume k: "weight (JArr js) \<le> k" and r: "terminated r"
    then obtain k' where k': "k = Suc k'" "sum_list (map (\<lambda>j. Suc (weight j)) js) \<le> k'" by (cases k) auto
    show "parse_value k (render (JArr js) @ r) = Some (JArr js, r)"
    proof (cases js)
      case Nil
      then show ?thesis using k' by simp
    next
      case (Cons j js')
      have e: "parse_elements k' (strings_Join (map render js) '','' @ CHR '']'' # r) = Some (js, r)"
        using JArr Cons k' by (intro elements_read_back) (auto simp: list_all_iff)
      have "json_ok j" using JArr.prems Cons by simp
      from render_head [OF this] obtain c t where "render j = c # t" "\<not> is_space c" "c \<noteq> CHR '']''" by metis
      moreover obtain t2 where "strings_Join (map render js) '','' = render j @ t2" using Cons by (cases js') auto
      ultimately have "skip_space (strings_Join (map render js) '','' @ CHR '']'' # r) = c # t @ t2 @ CHR '']'' # r" "c \<noteq> CHR '']''"
        by (simp_all add: skip_space_id)
      then show ?thesis using k' e by simp
    qed
  qed
next
  case (JObj ms)
  show ?case
    unfolding reads_back_def
  proof (intro allI impI)
    fix k r assume k: "weight (JObj ms) \<le> k" and r: "terminated r"
    then obtain k' where k': "k = Suc k'" "sum_list (map (\<lambda>(q, j). Suc (weight j)) ms) \<le> k'" by (cases k) auto
    show "parse_value k (render (JObj ms) @ r) = Some (JObj ms, r)"
    proof (cases ms)
      case Nil
      then show ?thesis using k' by simp
    next
      case (Cons m ms')
      have e: "parse_members k' (strings_Join (map (\<lambda>(q, j). json_quote q @ CHR '':'' # render j) ms) '','' @ CHR ''}'' # r) = Some (ms, r)"
        using JObj Cons k' by (intro members_read_back) (force simp: list_all_iff)+
      obtain t2 where "strings_Join (map (\<lambda>(q, j). json_quote q @ CHR '':'' # render j) ms) '','' = CHR 0x22 # t2"
        using Cons by (cases m; cases ms') (auto simp: json_quote_def)
      then show ?thesis using k' e by simp
    qed
  qed
qed

lemma join_length: "sum_list (map length xs) + length xs \<le> length (strings_Join xs '','') + 1"
  by (induction xs "'',''" rule: strings_Join.induct) auto

lemma double_sum: "s + l \<le> t + 1 \<Longrightarrow> 2 * s + l \<le> 2 * (t + (1::nat))"
  by simp

lemma weight_render: "json_ok j \<Longrightarrow> weight j \<le> 2 * length (render j)"
proof (induction j)
  case (JNum l)
  then show ?case using valid_number_nonempty [of l] by (cases l) auto
next
  case (JArr js)
  have "weight j \<le> 2 * length (render j)" if "j \<in> set js" for j using JArr that by (auto simp: list_all_iff)
  then have "sum_list (map (\<lambda>j. Suc (weight j)) js) \<le> sum_list (map (\<lambda>j. Suc (2 * length (render j))) js)"
    by (intro sum_list_mono) auto
  also have "\<dots> = 2 * sum_list (map length (map render js)) + length (map render js)" by (induction js) auto
  also have "\<dots> \<le> 2 * (length (strings_Join (map render js) '','') + 1)" by (rule double_sum [OF join_length])
  finally show ?case by simp
next
  case (JObj ms)
  let ?r = "\<lambda>(k, j). json_quote k @ CHR '':'' # render j"
  have w: "weight j \<le> 2 * length (render j)" if "(k, j) \<in> set ms" for k j
    using JObj.prems that by (intro JObj.IH [OF that]) (auto simp: list_all_iff)
  have "Suc (weight j) \<le> Suc (2 * length (?r (k, j)))" if "(k, j) \<in> set ms" for k j
    using w [OF that] by simp
  then have "sum_list (map (\<lambda>(k, j). Suc (weight j)) ms) \<le> sum_list (map (\<lambda>p. Suc (2 * length (?r p))) ms)"
    by (intro sum_list_mono) (simp only: split_paired_all prod.case)
  also have "\<dots> = 2 * sum_list (map length (map ?r ms)) + length (map ?r ms)" by (induction ms) auto
  also have "\<dots> \<le> 2 * (length (strings_Join (map ?r ms) '','') + 1)" by (rule double_sum [OF join_length])
  finally show ?case by simp
qed (auto simp: json_quote_def)

lemma parse_json_render:
  assumes "json_ok j"
  shows "parse_json (render j) = Some j"
proof -
  have "weight j \<le> 2 * length (render j) + 2" using weight_render [OF assms] by simp
  then have "parse_value (2 * length (render j) + 2) (render j @ []) = Some (j, [])"
    using parse_render [OF assms] by (simp only: reads_back_def terminated_punctuation)
  then show ?thesis unfolding parse_json_def by (simp only: append_Nil2 option.case prod.case punctuation_not_space refl if_True simp_thms)
qed

end
