(* ===== verification/Time_Text.thy ===== *)
theory Time_Text
  imports Go_Time Go_Json
begin

text \<open>
  Instants in JSON: \<open>Time.MarshalJSON\<close> writes RFC 3339 with the offset of the location and refuses years outside
  0 to 9999, \<open>UnmarshalJSON\<close> reads it strictly. A zoned instant is an instant with its offset in minutes.
\<close>

type_synonym zoned = "time \<times> int"

section \<open>Writing\<close>

definition zone_text :: "int \<Rightarrow> string" where
  "zone_text m =
     (if m = 0 then ''Z''
      else (if m < 0 then CHR ''-'' else CHR ''+'') # padded 2 (\<bar>m\<bar> div 60) @ CHR '':'' # padded 2 (\<bar>m\<bar> mod 60))"

definition clock_text :: "time \<Rightarrow> string" where
  "clock_text t =
     (let s = t div Second; sod = s mod 86400 in
      case civil (s div 86400) of (y, m, d) \<Rightarrow>
        padded 4 y @ ''-'' @ padded 2 m @ ''-'' @ padded 2 d @ ''T'' @ padded 2 (sod div 3600) @ '':''
          @ padded 2 (sod div 60 mod 60) @ '':'' @ padded 2 (sod mod 60)
          @ map char_of (fraction (t mod Second)))"

definition local_time :: "zoned \<Rightarrow> time" where
  "local_time z = fst z + snd z * Minute"

definition json_time_ok :: "zoned \<Rightarrow> bool" where
  "json_time_ok z \<longleftrightarrow> parseStoredTime (local_time z) \<noteq> None \<and> \<bar>snd z\<bar> < 1440"

definition time_text :: "zoned \<Rightarrow> string" where
  "time_text z = clock_text (local_time z) @ zone_text (snd z)"

section \<open>Reading\<close>

definition digit_value :: "char \<Rightarrow> int" where
  "digit_value c = of_char c - 48"

definition number_of :: "string \<Rightarrow> int" where
  "number_of s = foldl (\<lambda>n c. 10 * n + digit_value c) 0 s"

definition number_in :: "string \<Rightarrow> int \<Rightarrow> int \<Rightarrow> int option" where
  "number_in s low high =
     (if s \<noteq> [] \<and> list_all is_digit s \<and> low \<le> number_of s \<and> number_of s \<le> high then Some (number_of s) else None)"

text \<open>The number of a day counted from 1 January of the year 1.\<close>

definition day_number :: "int \<Rightarrow> int \<Rightarrow> int \<Rightarrow> int" where
  "day_number y m d =
     365 * (y - 1) + (y - 1) div 4 - (y - 1) div 100 + (y - 1) div 400
       + sum_list (take (nat (m - 1)) (month_lengths y)) + d - 1"

text \<open>A fraction beyond nine digits is cut off.\<close>

definition parse_fraction :: "string \<Rightarrow> (int \<times> string) option" where
  "parse_fraction r =
     (case r of
        [] \<Rightarrow> Some (0, r)
      | c # r2 \<Rightarrow>
          if c \<noteq> CHR ''.'' then Some (0, r)
          else (let ds = takeWhile is_digit r2 in
            if ds = [] then None
            else Some (number_of (take 9 (ds @ replicate 9 CHR ''0'')), dropWhile is_digit r2)))"

definition parse_zone :: "string \<Rightarrow> int option" where
  "parse_zone r =
     (if r = ''Z'' then Some 0
      else if length r \<noteq> 6 \<or> r ! 3 \<noteq> CHR '':'' then None
      else case (number_in (take 2 (drop 1 r)) 0 23, number_in (drop 4 r) 0 59) of
        (Some h, Some m) \<Rightarrow>
          if hd r = CHR ''+'' then Some (60 * h + m) else if hd r = CHR ''-'' then Some (- (60 * h + m)) else None
      | _ \<Rightarrow> None)"

definition parse_clock :: "string \<Rightarrow> (time \<times> string) option" where
  "parse_clock s =
     (if length s < 19 \<or> s ! 4 \<noteq> CHR ''-'' \<or> s ! 7 \<noteq> CHR ''-'' \<or> s ! 10 \<noteq> CHR ''T'' \<or> s ! 13 \<noteq> CHR '':''
         \<or> s ! 16 \<noteq> CHR '':'' then None
      else case (number_in (take 4 s) 0 9999, number_in (take 2 (drop 5 s)) 1 12) of
        (Some y, Some m) \<Rightarrow>
          (case (number_in (take 2 (drop 8 s)) 1 (month_lengths y ! nat (m - 1)), number_in (take 2 (drop 11 s)) 0 23,
                 number_in (take 2 (drop 14 s)) 0 59, number_in (take 2 (drop 17 s)) 0 59, parse_fraction (drop 19 s)) of
             (Some d, Some h, Some mi, Some sec, Some (ns, r)) \<Rightarrow>
               Some ((day_number y m d * 86400 + h * 3600 + mi * 60 + sec) * Second + ns, r)
           | _ \<Rightarrow> None)
      | _ \<Rightarrow> None)"

definition parse_time :: "string \<Rightarrow> zoned option" where
  "parse_time s =
     (case parse_clock s of
        None \<Rightarrow> None
      | Some (t, r) \<Rightarrow> map_option (\<lambda>m. (t - m * Minute, m)) (parse_zone r))"

section \<open>What is written is read back\<close>

lemma month_lengths_sum: "sum_list (month_lengths y) = (if leap_year y then 366 else 365)"
  by (simp add: month_lengths_def)

lemma month_day_correct:
  assumes "0 \<le> k" "k < sum_list ls" "month_day ls m k = (m', d)"
  shows "m \<le> m'" "m' < m + int (length ls)" "1 \<le> d" "d \<le> ls ! nat (m' - m)"
    "sum_list (take (nat (m' - m)) ls) + d - 1 = k"
proof -
  have "m \<le> m' \<and> m' < m + int (length ls) \<and> 1 \<le> d \<and> d \<le> ls ! nat (m' - m) \<and> sum_list (take (nat (m' - m)) ls) + d - 1 = k"
    using assms
  proof (induction ls m k rule: month_day.induct)
    case (2 l ls m k)
    show ?case
    proof (cases "k < l")
      case False
      then have ih: "m + 1 \<le> m'" "m' < m + 1 + int (length ls)" "1 \<le> d" "d \<le> ls ! nat (m' - (m + 1))"
          "sum_list (take (nat (m' - (m + 1))) ls) + d - 1 = k - l"
        using 2 by auto
      have "nat (m' - m) = Suc (nat (m' - (m + 1)))" using ih(1) by simp
      then show ?thesis using ih by simp
    qed (use 2 in auto)
  qed simp
  then show "m \<le> m'" "m' < m + int (length ls)" "1 \<le> d" "d \<le> ls ! nat (m' - m)"
    "sum_list (take (nat (m' - m)) ls) + d - 1 = k" by blast+
qed

lemma civil_parts:
  fixes q n100 q4 n1 :: int
  assumes "0 \<le> n100" "n100 \<le> 3" "0 \<le> q4" "q4 \<le> 24" "0 \<le> n1" "n1 \<le> 3"
    and y: "y = 400 * q + 100 * n100 + 4 * q4 + n1 + 1"
  shows "365 * (y - 1) + (y - 1) div 4 - (y - 1) div 100 + (y - 1) div 400
      = 146097 * q + 36524 * n100 + 1461 * q4 + 365 * n1"
    and "n1 = 3 \<Longrightarrow> q4 \<noteq> 24 \<or> n100 = 3 \<Longrightarrow> leap_year y"
proof -
  have "(y - 1) div 4 = 100 * q + 25 * n100 + q4"
    by (rule int_div_pos_eq [where r = n1]) (use assms in auto)
  moreover have "(y - 1) div 100 = 4 * q + n100"
    by (rule int_div_pos_eq [where r = "4 * q4 + n1"]) (use assms in auto)
  moreover have "(y - 1) div 400 = q"
    by (rule int_div_pos_eq [where r = "100 * n100 + 4 * q4 + n1"]) (use assms in auto)
  ultimately show "365 * (y - 1) + (y - 1) div 4 - (y - 1) div 100 + (y - 1) div 400
      = 146097 * q + 36524 * n100 + 1461 * q4 + 365 * n1"
    unfolding y by simp
  assume n: "n1 = 3" "q4 \<noteq> 24 \<or> n100 = 3"
  have "y mod 4 = 0" using n y by (simp add: mod_add_eq [symmetric])
  moreover have "y mod 100 \<noteq> 0 \<or> y mod 400 = 0"
  proof (cases "q4 = 24")
    case True
    then have "y = 400 * (q + 1)" using n y by simp
    then show ?thesis by simp
  next
    case False
    have "y mod 100 = 4 * q4 + 4"
      by (rule int_mod_pos_eq [where q = "4 * q + n100"]) (use assms n False in auto)
    then show ?thesis using assms(3) by simp
  qed
  ultimately show "leap_year y" by (simp add: leap_year_def)
qed

lemma div_bounds: "0 < b \<Longrightarrow> b * (a div b) \<le> a \<and> a < b * (a div b) + b" for a b :: int
proof -
  assume "0 < b"
  then have "0 \<le> a mod b" "a mod b < b" by simp_all
  moreover have "b * (a div b) + a mod b = a" by simp
  ultimately show ?thesis by linarith
qed

lemma civil_decomposed:
  assumes "civil n = (y, m, d)"
  obtains q n100 q4 n1 k where "0 \<le> n100" "n100 \<le> 3" "0 \<le> q4" "q4 \<le> 24" "0 \<le> n1" "n1 \<le> 3"
    "y = 400 * q + 100 * n100 + 4 * q4 + n1 + 1" "n = 146097 * q + 36524 * n100 + 1461 * q4 + 365 * n1 + k"
    "0 \<le> k" "k \<le> 365" "k = 365 \<longrightarrow> n1 = 3 \<and> (q4 \<noteq> 24 \<or> n100 = 3)" "month_day (month_lengths y) 1 k = (m, d)"
proof -
  define q where "q = n div 146097"
  define r where "r = n mod 146097"
  define n100 where "n100 = min 3 (r div 36524)"
  define r2 where "r2 = r - n100 * 36524"
  define q4 where "q4 = r2 div 1461"
  define r3 where "r3 = r2 mod 1461"
  define n1 where "n1 = min 3 (r3 div 365)"
  define k where "k = r3 - n1 * 365"
  have r: "0 \<le> r" "r \<le> 146096" by (simp_all add: r_def)
  note b1 = div_bounds [of 36524 r, simplified]
  have n100: "0 \<le> n100" "n100 \<le> 3" using r by (auto simp: n100_def pos_imp_zdiv_nonneg_iff)
  have r2: "0 \<le> r2" "r2 \<le> 36524" "n100 < 3 \<Longrightarrow> r2 < 36524"
    using r b1 unfolding r2_def n100_def by (auto simp: min_def)
  note b2 = div_bounds [of 1461 r2, simplified, folded q4_def]
  have q4: "0 \<le> q4" "q4 \<le> 24" using r2 b2 by auto
  have r3: "0 \<le> r3" "r3 \<le> 1460" by (simp_all add: r3_def)
  note b3 = div_bounds [of 365 r3, simplified]
  have n1: "0 \<le> n1" "n1 \<le> 3" using r3 by (auto simp: n1_def pos_imp_zdiv_nonneg_iff)
  have k: "0 \<le> k" "k \<le> 365" "n1 < 3 \<Longrightarrow> k < 365"
    using r3 b3 unfolding k_def n1_def by (auto simp: min_def)
  have y: "y = 400 * q + 100 * n100 + 4 * q4 + n1 + 1" and md: "month_day (month_lengths y) 1 k = (m, d)"
  proof -
    have "civil n = (400 * q + 100 * n100 + 4 * q4 + n1 + 1, month_day (month_lengths (400 * q + 100 * n100 + 4 * q4 + n1 + 1)) 1 k)"
      unfolding civil_def Let_def q_def r_def n100_def r2_def q4_def r3_def n1_def k_def by (rule refl)
    then show "y = 400 * q + 100 * n100 + 4 * q4 + n1 + 1" "month_day (month_lengths y) 1 k = (m, d)"
      using assms by (metis prod.inject)+
  qed
  have parts: "r2 = 1461 * q4 + r3" "r = 36524 * n100 + r2" "n = 146097 * q + r" "r3 = 365 * n1 + k"
    by (simp_all add: q4_def r3_def r2_def q_def r_def k_def)
  have last: "n1 = 3 \<and> (q4 \<noteq> 24 \<or> n100 = 3)" if "k = 365"
  proof
    show n1_3: "n1 = 3" using that k(3) n1 by (cases "n1 < 3") auto
    have "r2 = 36524" if "q4 = 24" using parts(1,4) n1_3 \<open>k = 365\<close> that by simp
    then show "q4 \<noteq> 24 \<or> n100 = 3" using r2(3) n100 by (cases "n100 < 3") auto
  qed
  show ?thesis
    using parts last by (intro that [OF n100 q4 n1 y _ k(1,2) _ md]) auto
qed

lemma civil_correct:
  assumes "civil n = (y, m, d)"
  shows "1 \<le> m" "m \<le> 12" "1 \<le> d" "d \<le> month_lengths y ! nat (m - 1)" "day_number y m d = n"
proof -
  obtain q n100 q4 n1 k where p: "0 \<le> n100" "n100 \<le> 3" "0 \<le> q4" "q4 \<le> 24" "0 \<le> n1" "n1 \<le> 3"
      "y = 400 * q + 100 * n100 + 4 * q4 + n1 + 1" and n: "n = 146097 * q + 36524 * n100 + 1461 * q4 + 365 * n1 + k"
    and k: "0 \<le> k" "k \<le> 365" "k = 365 \<longrightarrow> n1 = 3 \<and> (q4 \<noteq> 24 \<or> n100 = 3)"
    and md: "month_day (month_lengths y) 1 k = (m, d)"
    by (rule civil_decomposed [OF assms])
  have "k < (if leap_year y then 366 else 365)"
  proof (cases "k = 365")
    case True
    with k(3) have "leap_year y" using civil_parts(2) [OF p] by blast
    with True show ?thesis by simp
  next
    case False
    with k(2) show ?thesis by simp
  qed
  then have "k < sum_list (month_lengths y)" by (simp only: month_lengths_sum)
  note c = month_day_correct [OF k(1) this md]
  have "int (length (month_lengths y)) = 12" by (simp add: month_lengths_def)
  with c show "1 \<le> m" "m \<le> 12" "1 \<le> d" "d \<le> month_lengths y ! nat (m - 1)" by auto
  show "day_number y m d = n"
    using civil_parts(1) [OF p] c(5) n unfolding day_number_def by linarith
qed

lemma civil_year:
  assumes "civil n = (y, m, d)" "-366 \<le> n" "n < 3652059"
  shows "0 \<le> y" "y \<le> 9999"
proof -
  obtain q n100 q4 n1 k where p: "0 \<le> n100" "n100 \<le> 3" "0 \<le> q4" "q4 \<le> 24" "0 \<le> n1" "n1 \<le> 3"
      "y = 400 * q + 100 * n100 + 4 * q4 + n1 + 1" "n = 146097 * q + 36524 * n100 + 1461 * q4 + 365 * n1 + k"
      "0 \<le> k" "k \<le> 365" "k = 365 \<longrightarrow> n1 = 3 \<and> (q4 \<noteq> 24 \<or> n100 = 3)"
    by (rule civil_decomposed [OF assms(1)])
  have q: "-1 \<le> q" "q \<le> 24" using p(1-6,8,9,10) assms(2,3) by linarith+
  show "y \<le> 9999" using p q(2) assms(3) by linarith
  show "0 \<le> y"
  proof (cases "q = -1")
    case True
    have n: "36524 * n100 + 1461 * q4 + 365 * n1 + k \<ge> 145731" using p(8) assms(2) True by simp
    have "n100 = 3" using n p(2,4,6,10) by linarith
    moreover have "q4 = 24" using n p(2,4,6,10) by linarith
    moreover have "n1 = 3"
    proof (cases "k = 365")
      case False
      then have "k \<le> 364" using p(10) by simp
      then show ?thesis using n p(2,4,6) by linarith
    qed (use p(11) in blast)
    ultimately show ?thesis using p(7) True by simp
  next
    case False
    then have "0 \<le> q" using q(1) by simp
    then show ?thesis using p(1,3,5,7) by linarith
  qed
qed

lemma digit_value_char_of: "d < 10 \<Longrightarrow> digit_value (char_of (48 + d)) = int d"
  unfolding digit_value_def of_nat_of_char [where ?'a = int, symmetric] by simp

lemma digits_small: "list_all (\<lambda>d. d < 10) (digits k n)"
  by (induction k) (auto simp: nat_less_iff)

lemma is_digit_char_of: "d < 10 \<Longrightarrow> is_digit (char_of (48 + (d::nat)))"
  by (simp add: is_digit_def)

lemma padded_digits: "list_all is_digit (padded k i)"
  using digits_small [of k i] by (auto simp: padded_def list_all_iff is_digit_char_of)

lemma number_of_digits:
  "foldl (\<lambda>n c. 10 * n + digit_value c) a (map (\<lambda>d. char_of (48 + d)) (digits k n)) = a * 10 ^ k + n mod 10 ^ k"
proof (induction k arbitrary: a)
  case (Suc k)
  have "nat (n div 10 ^ k mod 10) < 10" by (simp add: nat_less_iff)
  then have "digit_value (char_of (48 + nat (n div 10 ^ k mod 10))) = n div 10 ^ k mod 10"
    by (simp add: digit_value_char_of)
  moreover have "n mod 10 ^ Suc k = 10 ^ k * (n div 10 ^ k mod 10) + n mod 10 ^ k"
    using zmod_zmult2_eq [of 10 n "10 ^ k"] by (simp add: mult.commute)
  ultimately show ?case using Suc by (simp add: algebra_simps)
qed simp

lemma number_in_padded:
  assumes "0 < k" "0 \<le> i" "i < 10 ^ k" "low \<le> i" "i \<le> high"
  shows "number_in (padded k i) low high = Some i"
proof -
  have "number_of (padded k i) = i" using number_of_digits [of 0 k i] assms by (simp add: number_of_def padded_def)
  moreover have "padded k i \<noteq> []" using assms(1) by (cases k) (auto simp: padded_def)
  ultimately show ?thesis using assms padded_digits by (simp add: number_in_def)
qed

lemma strip_zeros_append: "\<exists>j. xs = strip_zeros xs @ replicate j 0"
proof -
  have "rev xs = takeWhile (\<lambda>d. d = 0) (rev xs) @ dropWhile (\<lambda>d. d = 0) (rev xs)" by simp
  then have "xs = strip_zeros xs @ rev (takeWhile (\<lambda>d. d = 0) (rev xs))"
    unfolding strip_zeros_def by (metis rev_append rev_rev_ident)
  moreover have "takeWhile (\<lambda>d. d = 0) (rev xs) = replicate (length (takeWhile (\<lambda>d. d = 0) (rev xs))) 0"
    by (rule replicate_eqI [symmetric, THEN sym]) (auto dest: set_takeWhileD)
  ultimately show ?thesis by (metis rev_replicate)
qed

lemma span_digits:
  "list_all is_digit ds \<Longrightarrow> r \<noteq> [] \<Longrightarrow> \<not> is_digit (hd r) \<Longrightarrow>
   takeWhile is_digit (ds @ r) = ds \<and> dropWhile is_digit (ds @ r) = r"
  by (induction ds) (cases r; simp)+

lemma zero_char: "CHR ''0'' = char_of (48::nat)"
  by code_simp

lemma point_char: "char_of (46::nat) = CHR ''.''"
  by code_simp

lemma zero_digits: "foldl (\<lambda>n c. 10 * n + digit_value c) 0 (replicate j (char_of (48::nat))) = 0"
  using digit_value_char_of [of 0] by (induction j) simp_all

lemma parse_fraction_text:
  assumes "0 \<le> ns" "ns < Second" "r \<noteq> []" "\<not> is_digit (hd r)" "hd r \<noteq> CHR ''.''"
  shows "parse_fraction (map char_of (fraction ns) @ r) = Some (ns, r)"
proof (cases "strip_zeros (digits 9 ns) = []")
  case True
  obtain j where j: "digits 9 ns = replicate j 0" using strip_zeros_append [of "digits 9 ns"] True by auto
  then have "j = 9" by (metis length_digits length_replicate)
  then have "ns = 0"
    using number_of_digits [of 0 9 ns] assms(1,2) zero_digits unfolding j by (simp add: Second_def)
  then show ?thesis using assms True by (cases r) (auto simp: parse_fraction_def fraction_def)
next
  case False
  let ?ds = "map (\<lambda>d. char_of (48 + d)) (strip_zeros (digits 9 ns))"
  obtain j where j: "digits 9 ns = strip_zeros (digits 9 ns) @ replicate j 0" using strip_zeros_append by blast
  have len: "length (strip_zeros (digits 9 ns)) + j = 9"
    using arg_cong [OF j, of length] by simp
  have dg: "list_all is_digit ?ds"
    using digits_small [of 9 ns] arg_cong [OF j, of "list_all (\<lambda>d. d < 10)"]
    by (auto simp: list_all_iff is_digit_char_of)
  have "takeWhile is_digit (?ds @ r) = ?ds" "dropWhile is_digit (?ds @ r) = r"
    using span_digits [OF dg assms(3,4)] by blast+
  moreover have "take 9 (?ds @ replicate 9 CHR ''0'') = map (\<lambda>d. char_of (48 + d)) (digits 9 ns)"
  proof -
    have "take 9 (?ds @ replicate 9 CHR ''0'') = ?ds @ replicate j CHR ''0''" using len by (simp add: min_def)
    also have "\<dots> = map (\<lambda>d. char_of (48 + d)) (strip_zeros (digits 9 ns) @ replicate j 0)" by (simp add: zero_char)
    finally show ?thesis by (simp only: j [symmetric])
  qed
  moreover have "number_of (map (\<lambda>d. char_of (48 + d)) (digits 9 ns)) = ns"
    using number_of_digits [of 0 9 ns] assms(1,2) by (simp add: number_of_def Second_def)
  moreover have "map char_of (fraction ns) = CHR ''.'' # ?ds" using False by (simp add: fraction_def comp_def point_char)
  ultimately show ?thesis using False by (simp add: parse_fraction_def Let_def)
qed

lemma two_chars: obtains a b where "padded 2 i = [a, b]"
proof -
  have "length (padded 2 i) = 2" by (simp add: padded_def)
  then show ?thesis using that by (auto simp: length_Suc_conv numeral_2_eq_2)
qed

lemma four_chars: obtains a b c d where "padded 4 i = [a, b, c, d]"
proof -
  have "length (padded 4 i) = 4" by (simp add: padded_def)
  then show ?thesis using that by (auto simp: length_Suc_conv eval_nat_numeral)
qed

lemma zone_text_facts:
  assumes "\<bar>m\<bar> < 1440"
  shows "parse_zone (zone_text m) = Some m" "zone_text m \<noteq> []" "\<not> is_digit (hd (zone_text m))" "hd (zone_text m) \<noteq> CHR ''.''"
proof -
  obtain a b c d where p: "padded 2 (\<bar>m\<bar> div 60) = [a, b]" "padded 2 (\<bar>m\<bar> mod 60) = [c, d]"
    using two_chars by metis
  have "number_in (padded 2 (\<bar>m\<bar> div 60)) 0 23 = Some (\<bar>m\<bar> div 60)" "number_in (padded 2 (\<bar>m\<bar> mod 60)) 0 59 = Some (\<bar>m\<bar> mod 60)"
    using assms by (auto intro!: number_in_padded simp: pos_imp_zdiv_nonneg_iff)
  then have "number_in [a, b] 0 23 = Some (\<bar>m\<bar> div 60)" "number_in [c, d] 0 59 = Some (\<bar>m\<bar> mod 60)" by (simp_all add: p)
  then show "parse_zone (zone_text m) = Some m"
    using p by (auto simp: parse_zone_def zone_text_def numeral_2_eq_2 numeral_3_eq_3 eval_nat_numeral)
  show "zone_text m \<noteq> []" "\<not> is_digit (hd (zone_text m))" "hd (zone_text m) \<noteq> CHR ''.''"
    by (auto simp: zone_text_def is_digit_def)
qed

lemma clock_parts:
  assumes "parseStoredTime t \<noteq> None"
  obtains y m d where "civil (t div Second div 86400) = (y, m, d)" "0 \<le> y" "y \<le> 9999" "1 \<le> m" "m \<le> 12" "1 \<le> d"
    "d \<le> month_lengths y ! nat (m - 1)" "d \<le> 31" "day_number y m d = t div Second div 86400"
proof -
  obtain y m d where c: "civil (t div Second div 86400) = (y, m, d)" by (metis prod_cases3)
  have "-31622400 \<le> t div Second" "t div Second < 315537897600"
    using assms by (auto simp: parseStoredTime_def Second_def split: if_splits)
  then have "-366 \<le> t div Second div 86400" "t div Second div 86400 < 3652059" by simp_all
  note y = civil_year [OF c this] and k = civil_correct [OF c]
  have "month_lengths y ! nat (m - 1) \<in> set (month_lengths y)"
    using k(1,2) by (intro nth_mem) (simp add: month_lengths_def)
  then have "month_lengths y ! nat (m - 1) \<le> 31" by (auto simp: month_lengths_def split: if_splits)
  with k(4) have "d \<le> 31" by simp
  then show ?thesis using that c y k by blast
qed

lemma parse_clock_text:
  assumes "parseStoredTime t \<noteq> None" "r \<noteq> []" "\<not> is_digit (hd r)" "hd r \<noteq> CHR ''.''"
  shows "parse_clock (clock_text t @ r) = Some (t, r)"
proof -
  obtain y m d where c: "civil (t div Second div 86400) = (y, m, d)" and b: "0 \<le> y" "y \<le> 9999" "1 \<le> m" "m \<le> 12" "1 \<le> d"
    "d \<le> month_lengths y ! nat (m - 1)" "d \<le> 31" and n: "day_number y m d = t div Second div 86400"
    by (rule clock_parts [OF assms(1)])
  define sod where "sod = t div Second mod 86400"
  have s: "0 \<le> sod" "sod < 86400" by (simp_all add: sod_def)
  obtain y1 y2 y3 y4 where Y: "padded 4 y = [y1, y2, y3, y4]" by (rule four_chars)
  obtain m1 m2 where M: "padded 2 m = [m1, m2]" by (rule two_chars)
  obtain d1 d2 where D: "padded 2 d = [d1, d2]" by (rule two_chars)
  obtain h1 h2 where H: "padded 2 (sod div 3600) = [h1, h2]" by (rule two_chars)
  obtain i1 i2 where I: "padded 2 (sod div 60 mod 60) = [i1, i2]" by (rule two_chars)
  obtain s1 s2 where S: "padded 2 (sod mod 60) = [s1, s2]" by (rule two_chars)
  have Y': "number_in [y1, y2, y3, y4] 0 9999 = Some y"
    using b number_in_padded [of 4 y 0 9999] by (simp add: Y)
  have M': "number_in [m1, m2] 1 12 = Some m" using b number_in_padded [of 2 m 1 12] by (simp add: M)
  have D': "number_in [d1, d2] 1 (month_lengths y ! nat (m - 1)) = Some d"
    using b number_in_padded [of 2 d 1 "month_lengths y ! nat (m - 1)"] by (simp add: D)
  have "0 \<le> sod div 3600" "sod div 3600 < 24" using s by (auto simp: pos_imp_zdiv_nonneg_iff)
  then have H': "number_in [h1, h2] 0 23 = Some (sod div 3600)" using number_in_padded [of 2 "sod div 3600" 0 23] by (simp add: H)
  have I': "number_in [i1, i2] 0 59 = Some (sod div 60 mod 60)" using number_in_padded [of 2 "sod div 60 mod 60" 0 59] by (simp add: I)
  have S': "number_in [s1, s2] 0 59 = Some (sod mod 60)" using number_in_padded [of 2 "sod mod 60" 0 59] by (simp add: S)
  have f: "parse_fraction (map char_of (fraction (t mod Second)) @ r) = Some (t mod Second, r)"
    by (rule parse_fraction_text) (use assms in \<open>simp_all add: Second_def\<close>)
  have tx: "clock_text t = [y1, y2, y3, y4, CHR ''-'', m1, m2, CHR ''-'', d1, d2, CHR ''T'', h1, h2, CHR '':'', i1, i2, CHR '':'', s1, s2]
      @ map char_of (fraction (t mod Second))"
    using c by (simp add: clock_text_def Let_def Y M D H I S sod_def [symmetric])
  define hh where "hh = sod div 3600"
  define mi where "mi = sod div 60 mod 60"
  define se where "se = sod mod 60"
  define ns where "ns = t mod Second"
  have p: "parse_clock (clock_text t @ r) = Some ((day_number y m d * 86400 + hh * 3600 + mi * 60 + se) * Second + ns, r)"
    unfolding parse_clock_def tx
    by (simp add: Y' M' D' H' [folded hh_def] I' [folded mi_def] S' [folded se_def], simp only: f ns_def option.case prod.case)
  have "sod div 3600 = sod div 60 div 60" using zdiv_zmult2_eq [of 60 sod 60] by simp
  moreover have "60 * (sod div 60) + sod mod 60 = sod" "60 * (sod div 60 div 60) + sod div 60 mod 60 = sod div 60"
    by (rule mult_div_mod_eq)+
  ultimately have "sod = hh * 3600 + mi * 60 + se" unfolding hh_def mi_def se_def by linarith
  then have "day_number y m d * 86400 + hh * 3600 + mi * 60 + se = t div Second"
    unfolding n sod_def by (metis add.assoc div_mult_mod_eq)
  then show ?thesis unfolding p ns_def by (metis div_mult_mod_eq)
qed

lemma parse_time_text:
  assumes "json_time_ok z"
  shows "parse_time (time_text z) = Some z"
proof -
  note zt = zone_text_facts [of "snd z"]
  show ?thesis
    using assms zt parse_clock_text [of "local_time z" "zone_text (snd z)"]
    by (cases z) (simp add: parse_time_def time_text_def json_time_ok_def local_time_def)
qed

lemma time_text_plain: "list_all (\<lambda>c. (of_char c :: nat) < 128) (time_text z)"
proof -
  have d: "list_all (\<lambda>c. (of_char c :: nat) < 128) (padded k i)" for k i
    using padded_digits [of k i] by (auto simp: list_all_iff is_digit_def)
  have s: "list_all (\<lambda>d. d < 10) (strip_zeros xs)" if "list_all (\<lambda>d. d < (10::nat)) xs" for xs
    using strip_zeros_append [of xs] that by (metis list_all_append)
  have f: "list_all (\<lambda>c. (of_char c :: nat) < 128) (map char_of (fraction ns))" for ns
    using s [OF digits_small [of 9 ns]] by (auto simp: fraction_def Let_def list_all_iff)
  obtain y m e where c: "civil (local_time z div Second div 86400) = (y, m, e)" by (metis prod_cases3)
  show ?thesis
    using d f c by (simp add: time_text_def clock_text_def zone_text_def Let_def)
qed

end
