(* ===== verification/Continuation_Model.thy ===== *)
theory Continuation_Model
  imports Time_Text Launch_Store "HOL-Library.Sublist"
begin

text \<open>
  Checkpoints as the continuation service sees them: the data of \<^verbatim>\<open>internal/continuation/checkpoint.go\<close>, the
  retention settings of \<^verbatim>\<open>retention.go\<close>, redaction, and the JSON texts a checkpoint is stored as. Paths are those of Unix.
  A nil slice is an empty list: no nil slice reaches a stored text. SHA-256 is a parameter.
\<close>

section \<open>Data\<close>

definition MaxCheckpointBytes :: nat where "MaxCheckpointBytes = 16 * 1024"

definition SourceRepositoryFirst :: string where "SourceRepositoryFirst = ''repository-first''"
definition SourceTranscriptAssisted :: string where "SourceTranscriptAssisted = ''transcript-assisted''"
definition ProvenanceLocalObserved :: string where "ProvenanceLocalObserved = ''local-observed''"
definition ProvenanceUserConfirmed :: string where "ProvenanceUserConfirmed = ''user-confirmed''"
definition ProvenanceUnknown :: string where "ProvenanceUnknown = ''unknown''"
definition CompletenessComplete :: string where "CompletenessComplete = ''complete''"
definition CompletenessPartial :: string where "CompletenessPartial = ''partial''"
definition CompletenessUnknown :: string where "CompletenessUnknown = ''unknown''"
definition EvidenceFresh :: string where "EvidenceFresh = ''fresh''"
definition EvidenceStale :: string where "EvidenceStale = ''stale''"
definition EvidenceUnknown :: string where "EvidenceUnknown = ''unknown''"
definition RedactedValue :: string where "RedactedValue = ''[REDACTED]''"
definition HomeMark :: string where "HomeMark = ''[HOME]''"

text \<open>The text of a checkpoint's status.\<close>

fun status_text :: "checkpoint_status \<Rightarrow> string" where
  "status_text StatusDraft = ''draft''"
| "status_text StatusApproved = ''approved''"
| "status_text StatusLaunching = ''launching''"
| "status_text StatusCompleted = ''completed''"
| "status_text StatusExpired = ''expired''"

definition status_of :: "string \<Rightarrow> checkpoint_status option" where
  "status_of s = find (\<lambda>c. status_text c = s) [StatusDraft, StatusApproved, StatusLaunching, StatusCompleted, StatusExpired]"

lemma status_of_text [simp]: "status_of (status_text s) = Some s"
  by (cases s) (simp_all add: status_of_def)

record 'a Evidence =
  fe_value :: 'a
  fe_provenance :: string
  fe_completeness :: string

record UpstreamDivergence =
  up_ahead :: int
  up_behind :: int

record DiffStatistics =
  df_files :: int
  df_insertions :: int
  df_deletions :: int
  df_binary :: int

record RepositoryInventory =
  ri_branch :: string
  ri_head :: string
  ri_upstream :: "UpstreamDivergence option"
  ri_staged :: "string list"
  ri_modified :: "string list"
  ri_untracked :: "string list"
  ri_diff :: DiffStatistics
  ri_commands :: "string list"

record RepositoryState =
  rs_branch :: "string Evidence"
  rs_head :: "string Evidence"
  rs_upstream :: "UpstreamDivergence option Evidence"
  rs_staged :: "string list Evidence"
  rs_modified :: "string list Evidence"
  rs_untracked :: "string list Evidence"
  rs_diff :: "DiffStatistics Evidence"
  rs_commands :: "string list Evidence"

record ValidationEvidence =
  va_command :: string
  va_timestamp :: "zoned option"
  va_exit :: "int option"
  va_source :: string
  va_freshness :: string

record CheckpointFields =
  cf_goal :: "string Evidence"
  cf_completed :: "string Evidence"
  cf_pending :: "string Evidence"
  cf_validation :: "ValidationEvidence list Evidence"
  cf_risks :: "string Evidence"
  cf_next :: "string Evidence"

record Project =
  pj_id :: string
  pj_alias :: string
  pj_basename :: string

record Checkpoint =
  cc_id :: string
  cc_status :: string
  cc_project :: Project
  cc_repository :: RepositoryState
  cc_fields :: CheckpointFields
  cc_source :: string
  cc_retention :: string
  cc_created :: time
  cc_expires :: "time option"
  cc_size :: int
  cc_revision :: string

record CaptureRequest =
  ca_path :: string
  ca_alias :: string
  ca_goal :: string
  ca_completed :: string
  ca_pending :: string
  ca_risks :: string
  ca_next :: string
  ca_validation :: "ValidationEvidence option"
  ca_commands :: "string list"
  ca_redact_paths :: "string list"
  ca_redact_text :: "string list"

record EditRequest =
  ed_fields :: CheckpointFields
  ed_redact_paths :: "string list"
  ed_redact_text :: "string list"

section \<open>Retention\<close>

record RetentionPolicy =
  rp_repository :: string
  rp_transcript :: string

definition DefaultRepositoryRetention :: string where "DefaultRepositoryRetention = ''30''"
definition DefaultTranscriptRetention :: string where "DefaultTranscriptRetention = ''7''"

text \<open>\<open>strconv.Atoi\<close>; a number beyond 64 bits is an error in the code and out of the range below here.\<close>

definition Atoi :: "string \<Rightarrow> int option" where
  "Atoi s =
     (let (negative, u) = (case s of [] \<Rightarrow> (False, s) | c # r \<Rightarrow>
            if c = CHR ''-'' then (True, r) else if c = CHR ''+'' then (False, r) else (False, s))
      in if u = [] \<or> \<not> list_all is_digit u then None else Some (if negative then - number_of u else number_of u))"

text \<open>\<open>None\<close> for unlimited, the days otherwise.\<close>

definition ParseRetention :: "string \<Rightarrow> err + int option" where
  "ParseRetention setting =
     (if setting = ''unlimited'' then Inr None
      else case Atoi setting of
        None \<Rightarrow> Inl (plain ErrCheckpointInvalid)
      | Some days \<Rightarrow> if days < 1 \<or> 3652059 < days then Inl (plain ErrCheckpointInvalid) else Inr (Some days))"

definition policy_setting :: "RetentionPolicy \<Rightarrow> string \<Rightarrow> err + string" where
  "policy_setting policy source =
     (if source \<noteq> SourceTranscriptAssisted \<and> source \<noteq> SourceRepositoryFirst then Inl (plain ErrCheckpointInvalid)
      else let (setting, default) =
          (if source = SourceTranscriptAssisted then (rp_transcript policy, DefaultTranscriptRetention)
           else (rp_repository policy, DefaultRepositoryRetention));
          chosen = (if setting = [] then default else setting)
        in case ParseRetention chosen of Inl x \<Rightarrow> Inl x | Inr _ \<Rightarrow> Inr chosen)"

definition Year :: "time \<Rightarrow> int" where
  "Year t = fst (civil (t div Second div 86400))"

definition retentionExpiry :: "time \<Rightarrow> string \<Rightarrow> err + time option" where
  "retentionExpiry created setting =
     (case ParseRetention setting of
        Inl x \<Rightarrow> Inl x
      | Inr None \<Rightarrow> Inr None
      | Inr (Some days) \<Rightarrow>
          let expires = created + days * 86400 * Second in
          if 9999 < Year expires then Inl (plain ErrCheckpointInvalid) else Inr (Some expires))"

section \<open>Texts\<close>

text \<open>\<open>unicode.IsControl\<close>: the runes below 32, 127, and U+0080 to U+009F, which are the byte 194 and one below 160.\<close>

fun has_control :: "nat list \<Rightarrow> nat list \<Rightarrow> bool" where
  "has_control allowed [] = False"
| "has_control allowed (b # bs) =
     ((b < 32 \<or> b = 127) \<and> b \<notin> set allowed
      \<or> b = 194 \<and> (case bs of [] \<Rightarrow> False | c # _ \<Rightarrow> 128 \<le> c \<and> c < 160)
      \<or> has_control allowed bs)"

definition invalidText :: "string \<Rightarrow> bool" where
  "invalidText v = has_control [10, 9] (bytes v)"

text \<open>\<open>strings.ReplaceAll\<close> of a text that is not empty, and the same up to the case of ASCII letters.\<close>

function replace_by :: "(string \<Rightarrow> string \<Rightarrow> bool) \<Rightarrow> string \<Rightarrow> string \<Rightarrow> string \<Rightarrow> string" where
  "replace_by same old new [] = []"
| "replace_by same old new (c # cs) =
     (if old \<noteq> [] \<and> length old \<le> length (c # cs) \<and> same (take (length old) (c # cs)) old
      then new @ replace_by same old new (drop (length old) (c # cs))
      else c # replace_by same old new cs)"
  by pat_completeness auto
termination
  by (relation "measure (\<lambda>(same, old, new, s). length s)") auto

definition ReplaceAll :: "string \<Rightarrow> string \<Rightarrow> string \<Rightarrow> string" where
  "ReplaceAll s old new = replace_by (=) old new s"

definition isWindowsPath :: "string \<Rightarrow> bool" where
  "isWindowsPath path \<longleftrightarrow>
     3 \<le> length path \<and> path ! 1 = CHR '':'' \<and> (path ! 2 = CHR 0x5C \<or> path ! 2 = CHR ''/'')
     \<or> take 2 path = [CHR 0x5C, CHR 0x5C] \<or> take 2 path = ''//''"

definition redact_home :: "string \<Rightarrow> string \<Rightarrow> string" where
  "redact_home home v =
     (if home = [] then v
      else foldl (\<lambda>v candidate. replace_by (if isWindowsPath home then EqualFold else (=)) candidate HomeMark v) v
        [home, ReplaceAll home [CHR 0x5C] ''/'', ReplaceAll home ''/'' [CHR 0x5C]])"

definition sanitizeText :: "string \<Rightarrow> string \<Rightarrow> string list \<Rightarrow> string" where
  "sanitizeText v home redactions = foldl (\<lambda>v r. ReplaceAll v r RedactedValue) (redact_home home v) redactions"

definition invalidRelativePath :: "string \<Rightarrow> string \<Rightarrow> bool" where
  "invalidRelativePath v normalized \<longleftrightarrow>
     IsAbs v \<or> normalized = ''..'' \<or> take 3 normalized = ''../'' \<or> has_control [] (bytes v)"

fun sanitizePaths :: "string list \<Rightarrow> string list \<Rightarrow> err + string list" where
  "sanitizePaths [] redactions = Inr []"
| "sanitizePaths (p # ps) redactions =
     (let normalized = Clean p in
      if invalidRelativePath p normalized then Inl (plain ErrCheckpointInvalid)
      else case sanitizePaths ps redactions of
        Inl x \<Rightarrow> Inl x
      | Inr rs \<Rightarrow> Inr ((if normalized \<in> set redactions then RedactedValue else normalized) # rs))"

definition normalizedRedactions :: "string list \<Rightarrow> string list" where
  "normalizedRedactions = map Clean"

definition invalidRedactions :: "string list \<Rightarrow> string list \<Rightarrow> bool" where
  "invalidRedactions paths txt \<longleftrightarrow>
     list_ex (\<lambda>p. invalidRelativePath p (Clean p)) paths \<or> list_ex (\<lambda>v. v = [] \<or> invalidText v) (paths @ txt)"

definition invalidCaptureText :: "CaptureRequest \<Rightarrow> bool" where
  "invalidCaptureText rq \<longleftrightarrow>
     list_ex invalidText ([ca_alias rq, ca_goal rq, ca_completed rq, ca_pending rq, ca_risks rq, ca_next rq] @ ca_commands rq)"

definition invalidValidation :: "ValidationEvidence \<Rightarrow> bool" where
  "invalidValidation v \<longleftrightarrow>
     blank (va_command v) \<or> invalidText (va_command v) \<or> invalidText (va_source v)
     \<or> va_freshness v \<notin> {[], EvidenceFresh, EvidenceStale, EvidenceUnknown}"

end
