(* ===== verification/Continuation_Text.thy ===== *)
theory Continuation_Text
  imports Continuation_Model
begin

text \<open>
  The evidence a checkpoint is made of, its JSON text and its revision: the lower half of
  \<^verbatim>\<open>internal/continuation/checkpoint.go\<close>. Reading follows \<open>json.Unmarshal\<close>: names match up to the case of ASCII
  letters, unknown names are ignored, \<open>null\<close> leaves a value as it is.
\<close>

section \<open>Evidence\<close>

definition observed :: "'a \<Rightarrow> string \<Rightarrow> 'a Evidence" where
  "observed v complete = \<lparr>fe_value = v, fe_provenance = ProvenanceLocalObserved, fe_completeness = complete\<rparr>"

definition unknown_evidence :: "'a \<Rightarrow> 'a Evidence" where
  "unknown_evidence v = \<lparr>fe_value = v, fe_provenance = ProvenanceUnknown, fe_completeness = CompletenessUnknown\<rparr>"

definition confirmed :: "'a \<Rightarrow> string \<Rightarrow> 'a Evidence" where
  "confirmed v complete = \<lparr>fe_value = v, fe_provenance = ProvenanceUserConfirmed, fe_completeness = complete\<rparr>"

definition completeness :: "bool \<Rightarrow> string" where
  "completeness ok = (if ok then CompletenessComplete else CompletenessUnknown)"

definition userField :: "string \<Rightarrow> string Evidence" where
  "userField v = (if blank v then unknown_evidence v else confirmed v CompletenessComplete)"

definition userValues :: "string list \<Rightarrow> string list Evidence" where
  "userValues vs = (if vs = [] then unknown_evidence [] else confirmed vs CompletenessComplete)"

definition repositoryState :: "RepositoryInventory \<Rightarrow> RepositoryState" where
  "repositoryState i =
     \<lparr>rs_branch = observed (ri_branch i) (completeness (ri_branch i \<noteq> [])),
      rs_head = observed (ri_head i) (completeness (ri_head i \<noteq> [])),
      rs_upstream = observed (ri_upstream i) (if ri_upstream i = None then CompletenessUnknown else CompletenessComplete),
      rs_staged = observed (ri_staged i) CompletenessComplete,
      rs_modified = observed (ri_modified i) CompletenessComplete,
      rs_untracked = observed (ri_untracked i) CompletenessComplete,
      rs_diff = observed (ri_diff i) CompletenessComplete,
      rs_commands = userValues (ri_commands i)\<rparr>"

definition validation_completeness :: "ValidationEvidence \<Rightarrow> string" where
  "validation_completeness v =
     (if va_timestamp v = None \<or> va_exit v = None \<or> va_source v = [] \<or> va_source v = ProvenanceUnknown
         \<or> va_freshness v = [] \<or> va_freshness v = EvidenceUnknown
      then CompletenessPartial else CompletenessComplete)"

definition sanitized_validation :: "ValidationEvidence \<Rightarrow> string \<Rightarrow> string list \<Rightarrow> ValidationEvidence" where
  "sanitized_validation v home redactions =
     v\<lparr>va_command := sanitizeText (va_command v) home redactions,
       va_source := sanitizeText (if va_source v = [] then ProvenanceUnknown else va_source v) home redactions,
       va_freshness := (if va_freshness v = [] then EvidenceUnknown else va_freshness v)\<rparr>"

definition validationField ::
  "ValidationEvidence option \<Rightarrow> string \<Rightarrow> string list \<Rightarrow> ValidationEvidence list Evidence" where
  "validationField v home redactions =
     (case v of
        None \<Rightarrow> unknown_evidence []
      | Some w \<Rightarrow> confirmed [sanitized_validation w home redactions] (validation_completeness w))"

fun sanitize_validations ::
  "ValidationEvidence list \<Rightarrow> string \<Rightarrow> string list \<Rightarrow> err + (ValidationEvidence list \<times> string)" where
  "sanitize_validations [] home redactions = Inr ([], CompletenessComplete)"
| "sanitize_validations (v # vs) home redactions =
     (if invalidValidation v then Inl (plain ErrCheckpointInvalid)
      else case sanitize_validations vs home redactions of
        Inl x \<Rightarrow> Inl x
      | Inr (ws, complete) \<Rightarrow>
          Inr (sanitized_validation v home redactions # ws,
               if validation_completeness v \<noteq> CompletenessComplete then CompletenessPartial else complete))"

definition sanitizeFields :: "CheckpointFields \<Rightarrow> string \<Rightarrow> string list \<Rightarrow> err + CheckpointFields" where
  "sanitizeFields f home redactions =
     (if list_ex (\<lambda>e. invalidText (fe_value e)) [cf_goal f, cf_completed f, cf_pending f, cf_risks f, cf_next f]
      then Inl (plain ErrCheckpointInvalid)
      else case sanitize_validations (fe_value (cf_validation f)) home redactions of
        Inl x \<Rightarrow> Inl x
      | Inr (vs, complete) \<Rightarrow>
          let user = (\<lambda>e. userField (sanitizeText (fe_value e) home redactions)) in
          Inr \<lparr>cf_goal = user (cf_goal f), cf_completed = user (cf_completed f), cf_pending = user (cf_pending f),
               cf_validation = (if vs = [] then unknown_evidence [] else confirmed vs complete),
               cf_risks = user (cf_risks f), cf_next = user (cf_next f)\<rparr>)"

definition MergeHistoryCandidates :: "CheckpointFields \<Rightarrow> CheckpointFields \<Rightarrow> CheckpointFields" where
  "MergeHistoryCandidates base c =
     (let over = (\<lambda>b e. if blank (fe_value e) then b else e) in
      base\<lparr>cf_goal := over (cf_goal base) (cf_goal c), cf_completed := over (cf_completed base) (cf_completed c),
           cf_pending := over (cf_pending base) (cf_pending c), cf_risks := over (cf_risks base) (cf_risks c),
           cf_next := over (cf_next base) (cf_next c)\<rparr>)"

definition RedactHistoryIdentityHome :: "CheckpointFields \<Rightarrow> string \<Rightarrow> CheckpointFields" where
  "RedactHistoryIdentityHome f home =
     (let clean = (\<lambda>e. e\<lparr>fe_value := sanitizeText (fe_value e) home []\<rparr>) in
      \<lparr>cf_goal = clean (cf_goal f), cf_completed = clean (cf_completed f), cf_pending = clean (cf_pending f),
       cf_validation = (cf_validation f)\<lparr>fe_value := map (\<lambda>v. v\<lparr>va_command := sanitizeText (va_command v) home [],
          va_source := sanitizeText (va_source v) home []\<rparr>) (fe_value (cf_validation f))\<rparr>,
       cf_risks = clean (cf_risks f), cf_next = clean (cf_next f)\<rparr>)"

section \<open>The JSON text\<close>

definition evidence_json :: "('a \<Rightarrow> json) \<Rightarrow> 'a Evidence \<Rightarrow> json" where
  "evidence_json enc e = JObj [(''value'', enc (fe_value e)), (''provenance'', JStr (fe_provenance e)),
     (''completeness'', JStr (fe_completeness e))]"

definition int_json :: "int \<Rightarrow> json" where "int_json i = JNum (show_int i)"
definition strings_json :: "string list \<Rightarrow> json" where "strings_json vs = JArr (map JStr vs)"

definition option_json :: "('a \<Rightarrow> json) \<Rightarrow> 'a option \<Rightarrow> json" where
  "option_json enc v = (case v of None \<Rightarrow> JNull | Some x \<Rightarrow> enc x)"

definition upstream_json :: "UpstreamDivergence \<Rightarrow> json" where
  "upstream_json u = JObj [(''ahead'', int_json (up_ahead u)), (''behind'', int_json (up_behind u))]"

definition diff_json :: "DiffStatistics \<Rightarrow> json" where
  "diff_json d = JObj ([(''files_changed'', int_json (df_files d)), (''insertions'', int_json (df_insertions d)),
     (''deletions'', int_json (df_deletions d))] @ (if df_binary d = 0 then [] else [(''binary_files'', int_json (df_binary d))]))"

definition repository_json :: "RepositoryState \<Rightarrow> json" where
  "repository_json r = JObj
     [(''branch'', evidence_json JStr (rs_branch r)), (''head'', evidence_json JStr (rs_head r)),
      (''upstream'', evidence_json (option_json upstream_json) (rs_upstream r)),
      (''staged'', evidence_json strings_json (rs_staged r)), (''modified'', evidence_json strings_json (rs_modified r)),
      (''untracked'', evidence_json strings_json (rs_untracked r)),
      (''diff_statistics'', evidence_json diff_json (rs_diff r)),
      (''configured_commands'', evidence_json strings_json (rs_commands r))]"

definition validation_json :: "ValidationEvidence \<Rightarrow> json" where
  "validation_json v = JObj
     [(''command'', JStr (va_command v)), (''timestamp'', option_json (\<lambda>z. JStr (time_text z)) (va_timestamp v)),
      (''exit_status'', option_json int_json (va_exit v)), (''source'', JStr (va_source v)),
      (''freshness'', JStr (va_freshness v))]"

definition fields_json :: "CheckpointFields \<Rightarrow> json" where
  "fields_json f = JObj
     [(''goal'', evidence_json JStr (cf_goal f)), (''completed_work'', evidence_json JStr (cf_completed f)),
      (''pending_work'', evidence_json JStr (cf_pending f)),
      (''known_validation'', evidence_json (\<lambda>vs. JArr (map validation_json vs)) (cf_validation f)),
      (''risks'', evidence_json JStr (cf_risks f)), (''next_action'', evidence_json JStr (cf_next f))]"

definition project_json :: "Project \<Rightarrow> json" where
  "project_json p = JObj [(''id'', JStr (pj_id p)), (''alias'', JStr (pj_alias p)), (''basename'', JStr (pj_basename p))]"

text \<open>The instants of a checkpoint are in UTC.\<close>

definition utc_json :: "time \<Rightarrow> json" where "utc_json t = JStr (time_text (t, 0))"

definition checkpoint_json :: "Checkpoint \<Rightarrow> json" where
  "checkpoint_json c = JObj
     [(''id'', JStr (cc_id c)), (''status'', JStr (cc_status c)), (''project'', project_json (cc_project c)),
      (''repository'', repository_json (cc_repository c)), (''fields'', fields_json (cc_fields c)),
      (''source'', JStr (cc_source c)), (''retention'', JStr (cc_retention c)), (''created_at'', utc_json (cc_created c)),
      (''expires_at'', option_json utc_json (cc_expires c)), (''size_bytes'', int_json (cc_size c)),
      (''revision'', JStr (cc_revision c))]"

text \<open>\<open>Marshal\<close> refuses an instant outside the years of RFC 3339.\<close>

definition times_ok :: "Checkpoint \<Rightarrow> bool" where
  "times_ok c \<longleftrightarrow>
     json_time_ok (cc_created c, 0) \<and> (case cc_expires c of None \<Rightarrow> True | Some t \<Rightarrow> json_time_ok (t, 0))
     \<and> list_all (\<lambda>v. case va_timestamp v of None \<Rightarrow> True | Some z \<Rightarrow> json_time_ok z) (fe_value (cf_validation (cc_fields c)))"

definition encodeCheckpoint :: "Checkpoint \<Rightarrow> string option" where
  "encodeCheckpoint c = (if times_ok c then Some (render (checkpoint_json c)) else None)"

text \<open>What an expired checkpoint keeps.\<close>

definition expired_json :: "Checkpoint \<Rightarrow> json" where
  "expired_json c = JObj
     [(''id'', JStr (cc_id c)), (''status'', JStr (cc_status c)), (''project'', JObj [(''id'', JStr (pj_id (cc_project c)))]),
      (''source'', JStr (cc_source c)), (''retention'', JStr (cc_retention c)), (''created_at'', utc_json (cc_created c)),
      (''expires_at'', option_json utc_json (cc_expires c)), (''revision'', JStr (cc_revision c))]"

definition content_json :: "Checkpoint \<Rightarrow> json" where
  "content_json c = JObj
     [(''project'', project_json (cc_project c)), (''repository'', repository_json (cc_repository c)),
      (''fields'', fields_json (cc_fields c)), (''source'', JStr (cc_source c)), (''retention'', JStr (cc_retention c)),
      (''created_at'', utc_json (cc_created c)), (''expires_at'', option_json utc_json (cc_expires c))]"

end
