(* ===== verification/Continuation_Finalize.thy ===== *)
theory Continuation_Finalize
  imports Continuation_Text
begin

text \<open>
  \<open>finalizeCheckpoint\<close> and \<open>prepareCheckpoint\<close>: a checkpoint states the length of its own text, which is found by
  encoding until the length no longer changes. That the loop ends rests on the length of a decimal number.
\<close>

section \<open>The length of a text with its length in it\<close>

lemma show_nat_length_pos: "0 < length (show_nat n)"
  by (subst show_nat.simps) simp

lemma show_nat_length_le: "2 * length (show_nat n) \<le> n + 2"
proof (induction n rule: show_nat.induct)
  case (1 n)
  show ?case
  proof (cases "n < 10")
    case False
    then have "2 * length (show_nat (n div 10)) \<le> n div 10 + 2" using 1 by simp
    moreover have "length (show_nat n) = length (show_nat (n div 10)) + 1"
      using False by (subst show_nat.simps) simp
    moreover have "n div 10 + 2 \<le> n" using False by presburger
    ultimately show ?thesis by linarith
  qed (subst show_nat.simps, simp)
qed

lemma show_nat_length_mono: "m \<le> n \<Longrightarrow> length (show_nat m) \<le> length (show_nat n)"
proof (induction n arbitrary: m rule: show_nat.induct)
  case (1 n)
  show ?case
  proof (cases "n < 10")
    case True
    then show ?thesis using 1(2) by (subst (1 2) show_nat.simps) simp
  next
    case n: False
    then have e: "length (show_nat n) = length (show_nat (n div 10)) + 1" by (subst show_nat.simps) simp
    show ?thesis
    proof (cases "m < 10")
      case True
      then show ?thesis using e show_nat_length_pos [of "n div 10"] by (subst show_nat.simps) simp
    next
      case False
      then have "length (show_nat m) = length (show_nat (m div 10)) + 1" by (subst show_nat.simps) simp
      moreover have "length (show_nat (m div 10)) \<le> length (show_nat (n div 10))"
        using 1(1) n 1(2) by (simp add: div_le_mono)
      ultimately show ?thesis using e by simp
    qed
  qed
qed

text \<open>The number of characters of a number, and of a text of \<open>b\<close> characters beside it.\<close>

definition width :: "int \<Rightarrow> int" where "width i = int (length (show_int i))"

lemma width_pos: "0 < width i"
  using show_nat_length_pos by (auto simp: width_def show_int_def)

lemma width_mono: "0 \<le> i \<Longrightarrow> i \<le> j \<Longrightarrow> width i \<le> width j"
  using show_nat_length_mono [of "nat i" "nat j"] by (simp add: width_def show_int_def)

lemma width_le: "0 \<le> i \<Longrightarrow> 2 * width i \<le> i + 2"
  using show_nat_length_le [of "nat i"] by (simp add: width_def show_int_def)

text \<open>A decreasing measure for the iteration \<open>s \<mapsto> b + width s\<close>: it climbs below \<open>2 * b + 2\<close> or falls.\<close>

definition climb :: "int \<Rightarrow> int \<Rightarrow> int" where
  "climb b s = (if s \<le> b + width s then 2 * b + 2 - s else s + 2 * b + 3)"

lemma climb_less:
  assumes "0 \<le> b" "0 \<le> s" "b + width s \<noteq> s"
  shows "climb b (b + width s) < climb b s" "0 < climb b s"
proof -
  let ?n = "b + width s"
  have n: "0 \<le> ?n" using assms width_pos [of s] by linarith
  show "climb b ?n < climb b s"
  proof (cases "s < ?n")
    case True
    then have "?n \<le> b + width ?n" using width_mono [of s ?n] assms by simp
    then show ?thesis using True by (simp add: climb_def)
  next
    case False
    then show ?thesis using n assms by (auto simp: climb_def)
  qed
  show "0 < climb b s" using assms width_le [OF assms(2)] by (auto simp: climb_def)
qed

section \<open>The size of a checkpoint\<close>

text \<open>The length of the text but for the digits of its size.\<close>

definition frame :: "Checkpoint \<Rightarrow> int" where
  "frame c = int (length (render (checkpoint_json (c\<lparr>cc_size := 0\<rparr>)))) - 1"

lemma length_checkpoint: "int (length (render (checkpoint_json c))) = frame c + width (cc_size c)"
proof -
  have "length (show_int 0) = 1" by (simp add: show_int_def, subst show_nat.simps, simp)
  then show ?thesis by (simp add: frame_def checkpoint_json_def int_json_def width_def)
qed

lemma frame_nonneg: "0 \<le> frame c"
  by (simp add: frame_def checkpoint_json_def)

lemma frame_size [simp]: "frame (c\<lparr>cc_size := s\<rparr>) = frame c"
  by (simp add: frame_def)

lemma encodeCheckpoint_length: "encodeCheckpoint c = Some m \<Longrightarrow> int (length m) = frame c + width (cc_size c)"
  using length_checkpoint by (auto simp: encodeCheckpoint_def split: if_splits)

lemma encodeCheckpoint_size: "encodeCheckpoint (c\<lparr>cc_size := s\<rparr>) = None \<longleftrightarrow> encodeCheckpoint c = None"
  by (simp add: encodeCheckpoint_def times_ok_def)

section \<open>Finalizing\<close>

function finalizeCheckpoint :: "Checkpoint \<Rightarrow> (Checkpoint \<times> string) option" where
  "finalizeCheckpoint c =
     (case encodeCheckpoint c of
        None \<Rightarrow> None
      | Some metadata \<Rightarrow>
          if cc_size c = int (length metadata) then Some (c, metadata)
          else finalizeCheckpoint (c\<lparr>cc_size := int (length metadata)\<rparr>))"
  by auto
termination
proof (relation "measures [\<lambda>c. if cc_size c < 0 then 1 else 0, \<lambda>c. nat (climb (frame c) (cc_size c))]")
  fix c m
  assume m: "encodeCheckpoint c = Some m" "cc_size c \<noteq> int (length m)"
  have l: "int (length m) = frame c + width (cc_size c)" using m(1) by (rule encodeCheckpoint_length)
  show "(c\<lparr>cc_size := int (length m)\<rparr>, c)
      \<in> measures [\<lambda>c. if cc_size c < 0 then 1 else 0, \<lambda>c. nat (climb (frame c) (cc_size c))]"
  proof (cases "cc_size c < 0")
    case False
    then have "climb (frame c) (int (length m)) < climb (frame c) (cc_size c)" "0 < climb (frame c) (cc_size c)"
      using climb_less [OF frame_nonneg [of c], of "cc_size c"] m l by auto
    then show ?thesis using False by simp
  qed simp
qed simp

declare finalizeCheckpoint.simps [simp del]

lemma finalizeCheckpoint_Some:
  "finalizeCheckpoint c = Some (c', m) \<Longrightarrow>
     c' = c\<lparr>cc_size := int (length m)\<rparr> \<and> encodeCheckpoint c' = Some m"
proof (induction c rule: finalizeCheckpoint.induct)
  case (1 c)
  then show ?case
    by (subst (asm) (2) finalizeCheckpoint.simps) (auto split: option.splits if_splits)
qed

lemma finalizeCheckpoint_None: "finalizeCheckpoint c = None \<longleftrightarrow> \<not> times_ok c"
proof (induction c rule: finalizeCheckpoint.induct)
  case (1 c)
  then show ?case
    by (subst finalizeCheckpoint.simps) (auto simp: encodeCheckpoint_def times_ok_def split: if_splits)
qed

section \<open>Revisions\<close>

definition hex_string :: "string \<Rightarrow> string" where
  "hex_string s = concat (map (\<lambda>b. [char_of (hex_code (b div 16)), char_of (hex_code (b mod 16))]) (bytes s))"

definition revision_of :: "(string \<Rightarrow> string) \<Rightarrow> Checkpoint \<Rightarrow> string" where
  "revision_of sha256 c = hex_string (sha256 (render (content_json c)))"

definition prepareCheckpoint :: "(string \<Rightarrow> string) \<Rightarrow> Checkpoint \<Rightarrow> (Checkpoint \<times> string) option" where
  "prepareCheckpoint sha256 c =
     (if \<not> times_ok c then None else finalizeCheckpoint (c\<lparr>cc_revision := revision_of sha256 c\<rparr>))"

text \<open>A version 4 UUID from 16 random bytes.\<close>

definition newID :: "(nat \<Rightarrow> string option) \<Rightarrow> string option" where
  "newID random =
     (case random 16 of
        None \<Rightarrow> None
      | Some v \<Rightarrow>
          let u = v[6 := char_of (of_char (v ! 6) mod 16 + (64::nat)), 8 := char_of (of_char (v ! 8) mod 64 + (128::nat))] in
          Some (hex_string (take 4 u) @ ''-'' @ hex_string (take 2 (drop 4 u)) @ ''-'' @ hex_string (take 2 (drop 6 u)) @ ''-''
            @ hex_string (take 2 (drop 8 u)) @ ''-'' @ hex_string (drop 10 u)))"

end
