(* ===== verification/Continuation_Decode.thy ===== *)
theory Continuation_Decode
  imports Continuation_Finalize Json_Roundtrip
begin

text \<open>
  Reading a checkpoint back from its stored text, and that this gives the checkpoint that was written.
  A decoder changes the value it is given, as \<open>Unmarshal\<close> does; a repeated member decodes into what the earlier one
  left, but for the elements of an array, which start empty.
\<close>

section \<open>Decoders\<close>

definition dec_string :: "json \<Rightarrow> string \<Rightarrow> string option" where
  "dec_string j v = (case j of JStr s \<Rightarrow> Some s | JNull \<Rightarrow> Some v | _ \<Rightarrow> None)"

text \<open>An integer literal within 64 bits.\<close>

definition dec_int :: "json \<Rightarrow> int \<Rightarrow> int option" where
  "dec_int j v =
     (case j of
        JNum l \<Rightarrow>
          (case Atoi l of
             None \<Rightarrow> None
           | Some i \<Rightarrow> if min_duration \<le> i \<and> i \<le> max_duration then Some i else None)
      | JNull \<Rightarrow> Some v
      | _ \<Rightarrow> None)"

definition dec_time :: "json \<Rightarrow> zoned \<Rightarrow> zoned option" where
  "dec_time j v = (case j of JStr s \<Rightarrow> parse_time s | JNull \<Rightarrow> Some v | _ \<Rightarrow> None)"

definition dec_utc :: "json \<Rightarrow> time \<Rightarrow> time option" where
  "dec_utc j v = map_option fst (dec_time j (v, 0))"

definition dec_pointer :: "(json \<Rightarrow> 'a \<Rightarrow> 'a option) \<Rightarrow> 'a \<Rightarrow> json \<Rightarrow> 'a option \<Rightarrow> 'a option option" where
  "dec_pointer dec zero j v =
     (if j = JNull then Some None else map_option Some (dec j (case v of None \<Rightarrow> zero | Some x \<Rightarrow> x)))"

fun dec_each :: "(json \<Rightarrow> 'a option) \<Rightarrow> json list \<Rightarrow> 'a list option" where
  "dec_each dec [] = Some []"
| "dec_each dec (j # js) =
     (case dec j of None \<Rightarrow> None | Some x \<Rightarrow> map_option ((#) x) (dec_each dec js))"

definition dec_list :: "(json \<Rightarrow> 'a \<Rightarrow> 'a option) \<Rightarrow> 'a \<Rightarrow> json \<Rightarrow> 'a list \<Rightarrow> 'a list option" where
  "dec_list dec zero j v = (case j of JArr js \<Rightarrow> dec_each (\<lambda>j. dec j zero) js | JNull \<Rightarrow> Some [] | _ \<Rightarrow> None)"

type_synonym 'r members = "(string \<times> (json \<Rightarrow> 'r \<Rightarrow> 'r option)) list"

definition dec_member :: "'r members \<Rightarrow> string \<Rightarrow> json \<Rightarrow> 'r \<Rightarrow> 'r option" where
  "dec_member fs key j r = (case find (\<lambda>(name, dec). EqualFold key name) fs of None \<Rightarrow> Some r | Some (_, dec) \<Rightarrow> dec j r)"

fun dec_members :: "'r members \<Rightarrow> (string \<times> json) list \<Rightarrow> 'r \<Rightarrow> 'r option" where
  "dec_members fs [] r = Some r"
| "dec_members fs ((key, j) # ms) r = (case dec_member fs key j r of None \<Rightarrow> None | Some r2 \<Rightarrow> dec_members fs ms r2)"

definition dec_struct :: "'r members \<Rightarrow> json \<Rightarrow> 'r \<Rightarrow> 'r option" where
  "dec_struct fs j r = (case j of JObj ms \<Rightarrow> dec_members fs ms r | JNull \<Rightarrow> Some r | _ \<Rightarrow> None)"

definition part :: "('r \<Rightarrow> 'a) \<Rightarrow> ('a \<Rightarrow> 'r \<Rightarrow> 'r) \<Rightarrow> (json \<Rightarrow> 'a \<Rightarrow> 'a option) \<Rightarrow> json \<Rightarrow> 'r \<Rightarrow> 'r option" where
  "part get put dec j r = map_option (\<lambda>v. put v r) (dec j (get r))"

section \<open>Zero values\<close>

definition no_evidence :: "'a \<Rightarrow> 'a Evidence" where
  "no_evidence v = \<lparr>fe_value = v, fe_provenance = [], fe_completeness = []\<rparr>"

definition no_upstream :: UpstreamDivergence where "no_upstream = \<lparr>up_ahead = 0, up_behind = 0\<rparr>"
definition no_diff :: DiffStatistics where "no_diff = \<lparr>df_files = 0, df_insertions = 0, df_deletions = 0, df_binary = 0\<rparr>"
definition no_validation :: ValidationEvidence where
  "no_validation = \<lparr>va_command = [], va_timestamp = None, va_exit = None, va_source = [], va_freshness = []\<rparr>"

definition no_repository :: RepositoryState where
  "no_repository = \<lparr>rs_branch = no_evidence [], rs_head = no_evidence [], rs_upstream = no_evidence None,
     rs_staged = no_evidence [], rs_modified = no_evidence [], rs_untracked = no_evidence [], rs_diff = no_evidence no_diff,
     rs_commands = no_evidence []\<rparr>"

definition no_fields :: CheckpointFields where
  "no_fields = \<lparr>cf_goal = no_evidence [], cf_completed = no_evidence [], cf_pending = no_evidence [],
     cf_validation = no_evidence [], cf_risks = no_evidence [], cf_next = no_evidence []\<rparr>"

definition no_checkpoint :: Checkpoint where
  "no_checkpoint = \<lparr>cc_id = [], cc_status = [], cc_project = \<lparr>pj_id = [], pj_alias = [], pj_basename = []\<rparr>,
     cc_repository = no_repository, cc_fields = no_fields, cc_source = [], cc_retention = [], cc_created = 0,
     cc_expires = None, cc_size = 0, cc_revision = []\<rparr>"

section \<open>The structures\<close>

definition dec_evidence :: "(json \<Rightarrow> 'a \<Rightarrow> 'a option) \<Rightarrow> json \<Rightarrow> 'a Evidence \<Rightarrow> 'a Evidence option" where
  "dec_evidence dec = dec_struct
     [(''value'', part fe_value (\<lambda>v r. r\<lparr>fe_value := v\<rparr>) dec),
      (''provenance'', part fe_provenance (\<lambda>v r. r\<lparr>fe_provenance := v\<rparr>) dec_string),
      (''completeness'', part fe_completeness (\<lambda>v r. r\<lparr>fe_completeness := v\<rparr>) dec_string)]"

abbreviation "dec_strings \<equiv> dec_list dec_string []"

definition dec_upstream :: "json \<Rightarrow> UpstreamDivergence \<Rightarrow> UpstreamDivergence option" where
  "dec_upstream = dec_struct
     [(''ahead'', part up_ahead (\<lambda>v r. r\<lparr>up_ahead := v\<rparr>) dec_int),
      (''behind'', part up_behind (\<lambda>v r. r\<lparr>up_behind := v\<rparr>) dec_int)]"

definition dec_diff :: "json \<Rightarrow> DiffStatistics \<Rightarrow> DiffStatistics option" where
  "dec_diff = dec_struct
     [(''files_changed'', part df_files (\<lambda>v r. r\<lparr>df_files := v\<rparr>) dec_int),
      (''insertions'', part df_insertions (\<lambda>v r. r\<lparr>df_insertions := v\<rparr>) dec_int),
      (''deletions'', part df_deletions (\<lambda>v r. r\<lparr>df_deletions := v\<rparr>) dec_int),
      (''binary_files'', part df_binary (\<lambda>v r. r\<lparr>df_binary := v\<rparr>) dec_int)]"

definition dec_repository :: "json \<Rightarrow> RepositoryState \<Rightarrow> RepositoryState option" where
  "dec_repository = dec_struct
     [(''branch'', part rs_branch (\<lambda>v r. r\<lparr>rs_branch := v\<rparr>) (dec_evidence dec_string)),
      (''head'', part rs_head (\<lambda>v r. r\<lparr>rs_head := v\<rparr>) (dec_evidence dec_string)),
      (''upstream'', part rs_upstream (\<lambda>v r. r\<lparr>rs_upstream := v\<rparr>) (dec_evidence (dec_pointer dec_upstream no_upstream))),
      (''staged'', part rs_staged (\<lambda>v r. r\<lparr>rs_staged := v\<rparr>) (dec_evidence dec_strings)),
      (''modified'', part rs_modified (\<lambda>v r. r\<lparr>rs_modified := v\<rparr>) (dec_evidence dec_strings)),
      (''untracked'', part rs_untracked (\<lambda>v r. r\<lparr>rs_untracked := v\<rparr>) (dec_evidence dec_strings)),
      (''diff_statistics'', part rs_diff (\<lambda>v r. r\<lparr>rs_diff := v\<rparr>) (dec_evidence dec_diff)),
      (''configured_commands'', part rs_commands (\<lambda>v r. r\<lparr>rs_commands := v\<rparr>) (dec_evidence dec_strings))]"

definition dec_validation :: "json \<Rightarrow> ValidationEvidence \<Rightarrow> ValidationEvidence option" where
  "dec_validation = dec_struct
     [(''command'', part va_command (\<lambda>v r. r\<lparr>va_command := v\<rparr>) dec_string),
      (''timestamp'', part va_timestamp (\<lambda>v r. r\<lparr>va_timestamp := v\<rparr>) (dec_pointer dec_time (0, 0))),
      (''exit_status'', part va_exit (\<lambda>v r. r\<lparr>va_exit := v\<rparr>) (dec_pointer dec_int 0)),
      (''source'', part va_source (\<lambda>v r. r\<lparr>va_source := v\<rparr>) dec_string),
      (''freshness'', part va_freshness (\<lambda>v r. r\<lparr>va_freshness := v\<rparr>) dec_string)]"

definition dec_fields :: "json \<Rightarrow> CheckpointFields \<Rightarrow> CheckpointFields option" where
  "dec_fields = dec_struct
     [(''goal'', part cf_goal (\<lambda>v r. r\<lparr>cf_goal := v\<rparr>) (dec_evidence dec_string)),
      (''completed_work'', part cf_completed (\<lambda>v r. r\<lparr>cf_completed := v\<rparr>) (dec_evidence dec_string)),
      (''pending_work'', part cf_pending (\<lambda>v r. r\<lparr>cf_pending := v\<rparr>) (dec_evidence dec_string)),
      (''known_validation'', part cf_validation (\<lambda>v r. r\<lparr>cf_validation := v\<rparr>) (dec_evidence (dec_list dec_validation no_validation))),
      (''risks'', part cf_risks (\<lambda>v r. r\<lparr>cf_risks := v\<rparr>) (dec_evidence dec_string)),
      (''next_action'', part cf_next (\<lambda>v r. r\<lparr>cf_next := v\<rparr>) (dec_evidence dec_string))]"

definition dec_project :: "json \<Rightarrow> Project \<Rightarrow> Project option" where
  "dec_project = dec_struct
     [(''id'', part pj_id (\<lambda>v r. r\<lparr>pj_id := v\<rparr>) dec_string),
      (''alias'', part pj_alias (\<lambda>v r. r\<lparr>pj_alias := v\<rparr>) dec_string),
      (''basename'', part pj_basename (\<lambda>v r. r\<lparr>pj_basename := v\<rparr>) dec_string)]"

definition dec_checkpoint :: "json \<Rightarrow> Checkpoint \<Rightarrow> Checkpoint option" where
  "dec_checkpoint = dec_struct
     [(''id'', part cc_id (\<lambda>v r. r\<lparr>cc_id := v\<rparr>) dec_string),
      (''status'', part cc_status (\<lambda>v r. r\<lparr>cc_status := v\<rparr>) dec_string),
      (''project'', part cc_project (\<lambda>v r. r\<lparr>cc_project := v\<rparr>) dec_project),
      (''repository'', part cc_repository (\<lambda>v r. r\<lparr>cc_repository := v\<rparr>) dec_repository),
      (''fields'', part cc_fields (\<lambda>v r. r\<lparr>cc_fields := v\<rparr>) dec_fields),
      (''source'', part cc_source (\<lambda>v r. r\<lparr>cc_source := v\<rparr>) dec_string),
      (''retention'', part cc_retention (\<lambda>v r. r\<lparr>cc_retention := v\<rparr>) dec_string),
      (''created_at'', part cc_created (\<lambda>v r. r\<lparr>cc_created := v\<rparr>) dec_utc),
      (''expires_at'', part cc_expires (\<lambda>v r. r\<lparr>cc_expires := v\<rparr>) (dec_pointer dec_utc 0)),
      (''size_bytes'', part cc_size (\<lambda>v r. r\<lparr>cc_size := v\<rparr>) dec_int),
      (''revision'', part cc_revision (\<lambda>v r. r\<lparr>cc_revision := v\<rparr>) dec_string)]"

definition decodeCheckpoint :: "string \<Rightarrow> Checkpoint option" where
  "decodeCheckpoint s = (case parse_json s of None \<Rightarrow> None | Some j \<Rightarrow> dec_checkpoint j no_checkpoint)"

section \<open>What was written is read\<close>

lemma lower_names:
  "ToLower ''value'' = ''value''" "ToLower ''provenance'' = ''provenance''" "ToLower ''completeness'' = ''completeness''"
  "ToLower ''ahead'' = ''ahead''" "ToLower ''behind'' = ''behind''" "ToLower ''files_changed'' = ''files_changed''"
  "ToLower ''insertions'' = ''insertions''" "ToLower ''deletions'' = ''deletions''" "ToLower ''binary_files'' = ''binary_files''"
  "ToLower ''branch'' = ''branch''" "ToLower ''head'' = ''head''" "ToLower ''upstream'' = ''upstream''"
  "ToLower ''staged'' = ''staged''" "ToLower ''modified'' = ''modified''" "ToLower ''untracked'' = ''untracked''"
  "ToLower ''diff_statistics'' = ''diff_statistics''" "ToLower ''configured_commands'' = ''configured_commands''"
  "ToLower ''command'' = ''command''" "ToLower ''timestamp'' = ''timestamp''" "ToLower ''exit_status'' = ''exit_status''"
  "ToLower ''source'' = ''source''" "ToLower ''freshness'' = ''freshness''" "ToLower ''goal'' = ''goal''"
  "ToLower ''completed_work'' = ''completed_work''" "ToLower ''pending_work'' = ''pending_work''"
  "ToLower ''known_validation'' = ''known_validation''" "ToLower ''risks'' = ''risks''" "ToLower ''next_action'' = ''next_action''"
  "ToLower ''id'' = ''id''" "ToLower ''alias'' = ''alias''" "ToLower ''basename'' = ''basename''" "ToLower ''status'' = ''status''"
  "ToLower ''project'' = ''project''" "ToLower ''repository'' = ''repository''" "ToLower ''fields'' = ''fields''"
  "ToLower ''retention'' = ''retention''" "ToLower ''created_at'' = ''created_at''" "ToLower ''expires_at'' = ''expires_at''"
  "ToLower ''size_bytes'' = ''size_bytes''" "ToLower ''revision'' = ''revision''"
  by code_simp+

lemmas decode_simps = dec_struct_def dec_member_def EqualFold_def lower_names part_def

definition reads :: "(json \<Rightarrow> 'a \<Rightarrow> 'a option) \<Rightarrow> ('a \<Rightarrow> json) \<Rightarrow> 'a \<Rightarrow> bool" where
  "reads dec enc v \<longleftrightarrow> (\<forall>w. dec (enc v) w = Some v)"

lemma reads_string: "reads dec_string JStr v"
  by (simp add: reads_def dec_string_def)

lemma reads_evidence: "reads dec enc (fe_value e) \<Longrightarrow> reads (dec_evidence dec) (evidence_json enc) e"
  by (simp add: reads_def dec_evidence_def evidence_json_def decode_simps dec_string_def)

lemma reads_each: "list_all (\<lambda>v. reads dec enc v) vs \<Longrightarrow> dec_each (\<lambda>j. dec j zero) (map enc vs) = Some vs"
  by (induction vs) (auto simp: reads_def)

lemma reads_strings: "reads dec_strings strings_json vs"
  using reads_each [of dec_string JStr vs "[]"] reads_string by (simp add: reads_def dec_list_def strings_json_def list_all_iff)

lemma show_nat_small: "n < 10 \<Longrightarrow> show_nat n = [char_of (48 + n)]"
  by (subst show_nat.simps) simp

lemma show_nat_big: "\<not> n < 10 \<Longrightarrow> show_nat n = show_nat (n div 10) @ [char_of (48 + n mod 10)]"
  by (subst show_nat.simps) simp

lemma show_nat_digits: "list_all is_digit (show_nat n)"
proof (induction n rule: show_nat.induct)
  case (1 n)
  then show ?case by (cases "n < 10") (simp_all add: show_nat_small show_nat_big is_digit_char_of)
qed

lemma number_of_show: "number_of (show_nat n) = int n"
proof (induction n rule: show_nat.induct)
  case (1 n)
  show ?case
  proof (cases "n < 10")
    case True
    then show ?thesis by (simp add: show_nat_small number_of_def digit_value_char_of)
  next
    case False
    have "n mod 10 < 10" by simp
    then have d: "digit_value (char_of (48 + n mod 10)) = int (n mod 10)" by (rule digit_value_char_of)
    have "number_of (show_nat n) = 10 * number_of (show_nat (n div 10)) + int (n mod 10)"
      by (simp only: show_nat_big [OF False] number_of_def foldl_append foldl.simps d)
    also have "number_of (show_nat (n div 10)) = int (n div 10)" using 1 False by simp
    also have "10 * int (n div 10) + int (n mod 10) = int (10 * (n div 10) + n mod 10)" by (simp only: of_nat_add of_nat_mult of_nat_numeral)
    also have "\<dots> = int n" by (simp only: mult_div_mod_eq)
    finally show ?thesis .
  qed
qed

lemma show_nat_nonempty: "show_nat n \<noteq> []"
  using show_nat_length_pos [of n] by auto

lemma show_nat_zero: "hd (show_nat n) = CHR ''0'' \<Longrightarrow> length (show_nat n) = 1"
proof (induction n rule: show_nat.induct)
  case (1 n)
  show ?case
  proof (cases "n < 10")
    case False
    then have h: "hd (show_nat n) = hd (show_nat (n div 10))" by (simp add: show_nat_big show_nat_nonempty)
    then have "length (show_nat (n div 10)) = 1" using 1 False by simp
    then have "n div 10 < 10" by (cases "n div 10 < 10") (simp_all add: show_nat_big show_nat_nonempty)
    then have "char_of (48 + n div 10) = CHR ''0''" using 1(2) h by (simp add: show_nat_small)
    then have "of_char (char_of (48 + n div 10)) = (48::nat)" by simp
    then show ?thesis using \<open>n div 10 < 10\<close> False by simp
  qed (simp add: show_nat_small)
qed

lemma digit_not_sign: "is_digit c \<Longrightarrow> c \<noteq> CHR ''-'' \<and> c \<noteq> CHR ''+''"
  by (auto simp: is_digit_def)

lemma Atoi_show: "Atoi (show_int i) = Some i"
proof (cases "i < 0")
  case True
  then show ?thesis by (simp add: Atoi_def show_int_def show_nat_nonempty show_nat_digits number_of_show)
next
  case False
  then obtain c r where c: "show_nat (nat i) = c # r" using show_nat_nonempty by (cases "show_nat (nat i)") auto
  then have "is_digit c" "list_all is_digit (c # r)" using show_nat_digits [of "nat i"] by auto
  moreover have "number_of (c # r) = i" using number_of_show [of "nat i"] c False by simp
  ultimately show ?thesis using False c digit_not_sign [of c] by (simp add: Atoi_def show_int_def)
qed

lemma valid_number_show: "valid_number (show_int i)" "list_all number_char (show_int i)"
proof -
  have d: "takeWhile is_digit (show_nat n) = show_nat n" "dropWhile is_digit (show_nat n) = []" for n
    using show_nat_digits [of n] by (auto simp: list_all_iff)
  obtain c r where c: "show_nat (nat i) = c # r" using show_nat_nonempty by (cases "show_nat (nat i)") auto
  then have "is_digit c" using show_nat_digits [of "nat i"] by simp
  have "(case show_int i of [] \<Rightarrow> [] | c # r \<Rightarrow> if c = CHR ''-'' then r else show_int i) = show_nat (nat \<bar>i\<bar>)"
    using c digit_not_sign [OF \<open>is_digit c\<close>] by (auto simp: show_int_def)
  then show "valid_number (show_int i)"
    unfolding valid_number_def Let_def by (simp only: d) (simp add: show_nat_nonempty show_nat_zero)
  show "list_all number_char (show_int i)"
    using show_nat_digits by (auto simp: show_int_def list_all_iff number_char_def)
qed

definition int64 :: "int \<Rightarrow> bool" where
  "int64 i \<longleftrightarrow> min_duration \<le> i \<and> i \<le> max_duration"

lemma reads_int: "int64 i \<Longrightarrow> reads dec_int int_json i"
  by (simp add: reads_def dec_int_def int_json_def Atoi_show int64_def)

lemma reads_time: "json_time_ok z \<Longrightarrow> reads dec_time (\<lambda>z. JStr (time_text z)) z"
  by (simp add: reads_def dec_time_def parse_time_text)

lemma reads_utc: "json_time_ok (t, 0) \<Longrightarrow> reads dec_utc utc_json t"
  by (simp add: reads_def dec_utc_def dec_time_def utc_json_def parse_time_text)

lemma reads_pointer:
  "(\<And>x. v = Some x \<Longrightarrow> reads dec enc x \<and> enc x \<noteq> JNull) \<Longrightarrow> reads (dec_pointer dec zero) (option_json enc) v"
  by (cases v) (auto simp: reads_def dec_pointer_def option_json_def)

definition upstream_ok :: "UpstreamDivergence \<Rightarrow> bool" where
  "upstream_ok u \<longleftrightarrow> int64 (up_ahead u) \<and> int64 (up_behind u)"

definition diff_ok :: "DiffStatistics \<Rightarrow> bool" where
  "diff_ok d \<longleftrightarrow> int64 (df_files d) \<and> int64 (df_insertions d) \<and> int64 (df_deletions d) \<and> int64 (df_binary d)"

definition validation_ok :: "ValidationEvidence \<Rightarrow> bool" where
  "validation_ok v \<longleftrightarrow> (case va_exit v of None \<Rightarrow> True | Some i \<Rightarrow> int64 i)
     \<and> (case va_timestamp v of None \<Rightarrow> True | Some z \<Rightarrow> json_time_ok z)"

lemma reads_upstream: "upstream_ok u \<Longrightarrow> reads dec_upstream upstream_json u"
  using reads_int by (simp add: reads_def dec_upstream_def upstream_json_def upstream_ok_def decode_simps)

text \<open>Binary files are left out when there are none, which is what a fresh value has.\<close>

lemma reads_diff: "diff_ok d \<Longrightarrow> dec_diff (diff_json d) no_diff = Some d"
  using reads_int by (simp add: reads_def dec_diff_def diff_json_def diff_ok_def decode_simps no_diff_def)

lemma reads_validation: "validation_ok v \<Longrightarrow> reads dec_validation validation_json v"
proof -
  assume v: "validation_ok v"
  have "reads (dec_pointer dec_time (0, 0)) (option_json (\<lambda>z. JStr (time_text z))) (va_timestamp v)"
    using v reads_time by (intro reads_pointer) (auto simp: validation_ok_def)
  moreover have "reads (dec_pointer dec_int 0) (option_json int_json) (va_exit v)"
    using v reads_int by (intro reads_pointer) (auto simp: validation_ok_def int_json_def)
  ultimately show ?thesis
    by (simp add: reads_def dec_validation_def validation_json_def decode_simps dec_string_def)
qed

lemma reads_validations:
  "list_all validation_ok vs \<Longrightarrow> reads (dec_list dec_validation no_validation) (\<lambda>vs. JArr (map validation_json vs)) vs"
  using reads_each [of dec_validation validation_json vs no_validation] reads_validation
  by (simp add: reads_def dec_list_def list_all_iff)

definition ints_ok :: "Checkpoint \<Rightarrow> bool" where
  "ints_ok c \<longleftrightarrow> int64 (cc_size c) \<and> diff_ok (fe_value (rs_diff (cc_repository c)))
     \<and> (case fe_value (rs_upstream (cc_repository c)) of None \<Rightarrow> True | Some u \<Rightarrow> upstream_ok u)
     \<and> list_all (\<lambda>v. case va_exit v of None \<Rightarrow> True | Some i \<Rightarrow> int64 i) (fe_value (cf_validation (cc_fields c)))"

lemma reads_project: "reads dec_project project_json p"
  by (simp add: reads_def dec_project_def project_json_def decode_simps dec_string_def)

lemma reads_fields: "list_all validation_ok (fe_value (cf_validation f)) \<Longrightarrow> reads dec_fields fields_json f"
  using reads_evidence [OF reads_validations] reads_evidence [of dec_string JStr, OF reads_string]
  by (simp add: reads_def dec_fields_def fields_json_def decode_simps)

lemma decode_repository:
  assumes "diff_ok (fe_value (rs_diff r))" "case fe_value (rs_upstream r) of None \<Rightarrow> True | Some u \<Rightarrow> upstream_ok u"
  shows "dec_repository (repository_json r) no_repository = Some r"
proof -
  have s: "reads (dec_evidence dec_string) (evidence_json JStr) e" for e by (rule reads_evidence [OF reads_string])
  have l: "reads (dec_evidence dec_strings) (evidence_json strings_json) e" for e by (rule reads_evidence [OF reads_strings])
  have "reads (dec_pointer dec_upstream no_upstream) (option_json upstream_json) (fe_value (rs_upstream r))"
    using assms(2) reads_upstream by (intro reads_pointer) (auto simp: upstream_json_def)
  then have u: "reads (dec_evidence (dec_pointer dec_upstream no_upstream)) (evidence_json (option_json upstream_json)) (rs_upstream r)"
    by (rule reads_evidence)
  have d: "dec_evidence dec_diff (evidence_json diff_json (rs_diff r)) (no_evidence no_diff) = Some (rs_diff r)"
    using reads_diff [OF assms(1)]
    by (simp add: dec_evidence_def evidence_json_def decode_simps dec_string_def no_evidence_def)
  show ?thesis
    using s l u d
    by (simp add: dec_repository_def repository_json_def decode_simps no_repository_def reads_def)
qed

lemma decode_checkpoint_json:
  assumes "times_ok c" "ints_ok c"
  shows "dec_checkpoint (checkpoint_json c) no_checkpoint = Some c"
proof -
  have v: "list_all validation_ok (fe_value (cf_validation (cc_fields c)))"
    using assms by (auto simp: times_ok_def ints_ok_def validation_ok_def list_all_iff)
  have "reads (dec_pointer dec_utc 0) (option_json utc_json) (cc_expires c)"
    using assms(1) reads_utc by (intro reads_pointer) (auto simp: times_ok_def utc_json_def)
  moreover have "reads dec_utc utc_json (cc_created c)" using assms(1) by (simp add: times_ok_def reads_utc)
  moreover have "reads dec_int int_json (cc_size c)" using assms(2) by (simp add: ints_ok_def reads_int)
  moreover have "dec_repository (repository_json (cc_repository c)) no_repository = Some (cc_repository c)"
    using assms(2) by (intro decode_repository) (auto simp: ints_ok_def)
  ultimately show ?thesis
    using reads_fields [OF v] reads_project [of "cc_project c"]
    by (simp add: dec_checkpoint_def checkpoint_json_def decode_simps dec_string_def reads_def no_checkpoint_def)
qed

lemma decode_encode:
  assumes "encodeCheckpoint c = Some m" "json_ok (checkpoint_json c)" "ints_ok c"
  shows "decodeCheckpoint m = Some c"
  using assms decode_checkpoint_json [of c] parse_json_render [OF assms(2)]
  by (auto simp: decodeCheckpoint_def encodeCheckpoint_def split: if_splits)

end
