(* ===== verification/Continuation_Service.thy ===== *)
theory Continuation_Service
  imports Continuation_Decode
begin

text \<open>
  The continuation service of \<^verbatim>\<open>internal/continuation/checkpoint.go\<close> and \<open>Export\<close> of \<^verbatim>\<open>export.go\<close>. Its repository,
  its projects and its inspector act on a state \<open>'s\<close>; the clock is read once per call. The service's own lock makes a
  call one step.
\<close>

section \<open>Collaborators\<close>

record CheckpointRecord =
  kr_id :: string
  kr_project :: string
  kr_status :: string
  kr_metadata :: string
  kr_expected_status :: string
  kr_expected_revision :: string
  kr_goal :: "string option"
  kr_completed :: "string option"
  kr_pending :: "string option"
  kr_validation :: "string option"
  kr_risks :: "string option"
  kr_next :: "string option"
  kr_created :: time
  kr_expires :: "time option"

record 's continuation_service =
  ks_save :: "CheckpointRecord \<Rightarrow> 's \<Rightarrow> (err + unit) \<times> 's"
  ks_load :: "string \<Rightarrow> 's \<Rightarrow> (err + CheckpointRecord) \<times> 's"
  ks_list :: "'s \<Rightarrow> (err + CheckpointRecord list) \<times> 's"
  ks_purge :: "string \<Rightarrow> string \<Rightarrow> 's \<Rightarrow> (err + unit) \<times> 's"
  ks_source :: "string \<Rightarrow> 's \<Rightarrow> (err + (string \<times> source_state)) \<times> 's"
  ks_identity_home :: "string \<Rightarrow> 's \<Rightarrow> (err + string) \<times> 's"
  ks_retention :: "'s \<Rightarrow> (err + RetentionPolicy) \<times> 's"
  ks_set_retention :: "string \<Rightarrow> string \<Rightarrow> 's \<Rightarrow> (err + RetentionPolicy) \<times> 's"
  ks_resolve :: "string \<Rightarrow> string \<Rightarrow> 's \<Rightarrow> (err + Project) \<times> 's"
  ks_location :: "string \<Rightarrow> 's \<Rightarrow> (err + string) \<times> 's"
  ks_inspect :: "string \<Rightarrow> 's \<Rightarrow> (err + RepositoryInventory) \<times> 's"
  ks_home :: string
  ks_sha256 :: "string \<Rightarrow> string"

abbreviation fail :: "sentinel \<Rightarrow> 's \<Rightarrow> (err + 'a) \<times> 's" where
  "fail x s \<equiv> (Inl (plain x), s)"

definition inspection_failed :: "err \<Rightarrow> err" where
  "inspection_failed x = errors_Join [Some (plain ErrRepositoryInspection), Some x]"

section \<open>Saving\<close>

definition pointerOrNil :: "string \<Rightarrow> string option" where
  "pointerOrNil v = (if v = [] then None else Some v)"

definition record_of :: "Checkpoint \<Rightarrow> string \<Rightarrow> string \<Rightarrow> string \<Rightarrow> CheckpointRecord" where
  "record_of c metadata expectedStatus expectedRevision =
     (let f = cc_fields c; p = (\<lambda>e. pointerOrNil (fe_value e)) in
      \<lparr>kr_id = cc_id c, kr_project = pj_id (cc_project c), kr_status = cc_status c, kr_metadata = metadata,
       kr_expected_status = expectedStatus, kr_expected_revision = expectedRevision,
       kr_goal = p (cf_goal f), kr_completed = p (cf_completed f), kr_pending = p (cf_pending f),
       kr_validation = pointerOrNil (render (JArr (map validation_json (fe_value (cf_validation f))))),
       kr_risks = p (cf_risks f), kr_next = p (cf_next f), kr_created = cc_created c, kr_expires = cc_expires c\<rparr>)"

text \<open>The end of every call that changes a checkpoint: what was finalized is measured, then saved.\<close>

definition save_finalized ::
  "'s continuation_service \<Rightarrow> (Checkpoint \<times> string) option \<Rightarrow> string \<Rightarrow> string \<Rightarrow> 's \<Rightarrow> (err + Checkpoint) \<times> 's" where
  "save_finalized sv final expectedStatus expectedRevision s =
     (case final of
        None \<Rightarrow> fail ErrCheckpointInvalid s
      | Some (c, metadata) \<Rightarrow>
          if int MaxCheckpointBytes < cc_size c then fail ErrCheckpointOversize s
          else flow (ks_save sv (record_of c metadata expectedStatus expectedRevision) s) Inl (\<lambda>_ s. (Inr c, s)))"

section \<open>Capturing\<close>

definition sanitize_inventory ::
  "string \<Rightarrow> CaptureRequest \<Rightarrow> RepositoryInventory \<Rightarrow> err + RepositoryInventory" where
  "sanitize_inventory home rq i =
     (let paths = normalizedRedactions (ca_redact_paths rq) in
      case sanitizePaths (ri_staged i) paths of
        Inl x \<Rightarrow> Inl x
      | Inr staged \<Rightarrow>
          (case sanitizePaths (ri_modified i) paths of
             Inl x \<Rightarrow> Inl x
           | Inr modified \<Rightarrow>
               (case sanitizePaths (ri_untracked i) paths of
                  Inl x \<Rightarrow> Inl x
                | Inr untracked \<Rightarrow>
                    Inr (i\<lparr>ri_branch := sanitizeText (ri_branch i) home (ca_redact_text rq), ri_staged := staged,
                      ri_modified := modified, ri_untracked := untracked,
                      ri_commands := ri_commands i @ map (\<lambda>c. sanitizeText c home (ca_redact_text rq)) (ca_commands rq)\<rparr>))))"

definition captured_fields :: "string \<Rightarrow> CaptureRequest \<Rightarrow> CheckpointFields" where
  "captured_fields home rq =
     (let user = (\<lambda>v. userField (sanitizeText v home (ca_redact_text rq))) in
      \<lparr>cf_goal = user (ca_goal rq), cf_completed = user (ca_completed rq), cf_pending = user (ca_pending rq),
       cf_validation = validationField (ca_validation rq) home (ca_redact_text rq),
       cf_risks = user (ca_risks rq), cf_next = user (ca_next rq)\<rparr>)"

definition captured_checkpoint ::
  "string \<Rightarrow> CaptureRequest \<Rightarrow> string \<Rightarrow> Project \<Rightarrow> RepositoryInventory \<Rightarrow> string \<Rightarrow> time \<Rightarrow> time option \<Rightarrow> Checkpoint" where
  "captured_checkpoint home rq i p inventory setting now expires =
     \<lparr>cc_id = i, cc_status = status_text StatusDraft, cc_project = p, cc_repository = repositoryState inventory,
      cc_fields = captured_fields home rq, cc_source = SourceRepositoryFirst, cc_retention = setting, cc_created = now,
      cc_expires = expires, cc_size = 0, cc_revision = []\<rparr>"

definition CaptureCheckpoint ::
  "'s continuation_service \<Rightarrow> time \<Rightarrow> (nat \<Rightarrow> string option) \<Rightarrow> CaptureRequest \<Rightarrow> 's \<Rightarrow> (err + Checkpoint) \<times> 's" where
  "CaptureCheckpoint sv now random rq s =
     (if blank (ca_path rq) \<or> invalidCaptureText rq \<or> invalidRedactions (ca_redact_paths rq) (ca_redact_text rq)
         \<or> (case ca_validation rq of None \<Rightarrow> False | Some v \<Rightarrow> invalidValidation v)
      then fail ErrCheckpointInvalid s
      else flow (ks_resolve sv (ca_path rq) (ca_alias rq) s) Inl (\<lambda>p s.
        let clean = (\<lambda>v. sanitizeText v (ks_home sv) (ca_redact_text rq)) in
        flow (ks_location sv (pj_id p) s) Inl (\<lambda>path s.
        flow (ks_inspect sv path s) (\<lambda>x. Inl (inspection_failed x)) (\<lambda>inventory s.
        case sanitize_inventory (ks_home sv) rq inventory of
          Inl x \<Rightarrow> (Inl x, s)
        | Inr inventory \<Rightarrow>
            flow (ks_retention sv s) Inl (\<lambda>policy s.
            case policy_setting policy SourceRepositoryFirst of
              Inl x \<Rightarrow> (Inl x, s)
            | Inr setting \<Rightarrow>
                (case retentionExpiry now setting of
                   Inl x \<Rightarrow> (Inl x, s)
                 | Inr expires \<Rightarrow>
                     (case newID random of
                        None \<Rightarrow> fail ErrCheckpointInvalid s
                      | Some i \<Rightarrow>
                          save_finalized sv
                            (prepareCheckpoint (ks_sha256 sv)
                              (captured_checkpoint (ks_home sv) rq i
                                (p\<lparr>pj_alias := clean (pj_alias p), pj_basename := clean (pj_basename p)\<rparr>)
                                inventory setting now expires)) [] [] s)))))))"

definition CaptureProject ::
  "'s continuation_service \<Rightarrow> time \<Rightarrow> (nat \<Rightarrow> string option) \<Rightarrow> string \<Rightarrow> CaptureRequest \<Rightarrow> 's \<Rightarrow> (err + Checkpoint) \<times> 's" where
  "CaptureProject sv now random project rq s =
     (if blank project \<or> invalidText project \<or> \<not> blank (ca_path rq) \<or> \<not> blank (ca_alias rq)
      then fail ErrCheckpointInvalid s
      else flow (ks_location sv project s) Inl (\<lambda>path s. CaptureCheckpoint sv now random (rq\<lparr>ca_path := path\<rparr>) s))"

definition SourceOf :: "'s continuation_service \<Rightarrow> string \<Rightarrow> 's \<Rightarrow> (err + (string \<times> source_state)) \<times> 's" where
  "SourceOf sv project s =
     (if blank project \<or> invalidText project then fail ErrCheckpointInvalid s else ks_source sv project s)"

definition RetentionOf :: "'s continuation_service \<Rightarrow> string \<Rightarrow> string \<Rightarrow> 's \<Rightarrow> (err + RetentionPolicy) \<times> 's" where
  "RetentionOf sv source setting s =
     (if source = [] \<and> setting = [] then
        flow (ks_retention sv s) Inl (\<lambda>policy s.
          case policy_setting policy SourceRepositoryFirst of
            Inl x \<Rightarrow> (Inl x, s)
          | Inr r \<Rightarrow>
              (case policy_setting (policy\<lparr>rp_repository := r\<rparr>) SourceTranscriptAssisted of
                 Inl x \<Rightarrow> (Inl x, s)
               | Inr t \<Rightarrow> (Inr \<lparr>rp_repository = r, rp_transcript = t\<rparr>, s)))
      else if source = [] \<or> setting = [] then fail ErrCheckpointInvalid s
      else case ParseRetention setting of
        Inl x \<Rightarrow> (Inl x, s)
      | Inr _ \<Rightarrow> ks_set_retention sv source setting s)"

section \<open>Showing\<close>

definition default_retention :: "Checkpoint \<Rightarrow> Checkpoint" where
  "default_retention c =
     (if cc_retention c \<noteq> [] then c
      else c\<lparr>cc_retention := (if cc_source c = SourceTranscriptAssisted then DefaultTranscriptRetention
                              else DefaultRepositoryRetention)\<rparr>)"

definition is_expired :: "time \<Rightarrow> Checkpoint \<Rightarrow> bool" where
  "is_expired now c \<longleftrightarrow>
     (case cc_expires c of None \<Rightarrow> False | Some t \<Rightarrow> \<not> now < t) \<and> cc_status c \<noteq> status_text StatusLaunching"

definition expired_checkpoint :: "string \<Rightarrow> Checkpoint \<Rightarrow> Checkpoint" where
  "expired_checkpoint project c =
     no_checkpoint\<lparr>cc_id := cc_id c, cc_status := status_text StatusExpired,
       cc_project := \<lparr>pj_id = project, pj_alias = [], pj_basename = []\<rparr>, cc_source := cc_source c,
       cc_retention := cc_retention c, cc_created := cc_created c, cc_expires := cc_expires c, cc_revision := cc_revision c\<rparr>"

definition sensitive :: "CheckpointRecord \<Rightarrow> bool" where
  "sensitive r \<longleftrightarrow>
     kr_goal r \<noteq> None \<or> kr_completed r \<noteq> None \<or> kr_pending r \<noteq> None \<or> kr_validation r \<noteq> None \<or> kr_risks r \<noteq> None
     \<or> kr_next r \<noteq> None"

definition expired_record :: "Checkpoint \<Rightarrow> string \<Rightarrow> string \<Rightarrow> CheckpointRecord" where
  "expired_record c expectedStatus expectedRevision =
     \<lparr>kr_id = cc_id c, kr_project = pj_id (cc_project c), kr_status = cc_status c, kr_metadata = render (expired_json c),
      kr_expected_status = expectedStatus, kr_expected_revision = expectedRevision, kr_goal = None, kr_completed = None,
      kr_pending = None, kr_validation = None, kr_risks = None, kr_next = None, kr_created = cc_created c,
      kr_expires = cc_expires c\<rparr>"

text \<open>An expired checkpoint is emptied, in the repository too unless it already is.\<close>

definition expire :: "'s continuation_service \<Rightarrow> CheckpointRecord \<Rightarrow> Checkpoint \<Rightarrow> 's \<Rightarrow> (err + Checkpoint) \<times> 's" where
  "expire sv r c s =
     (let e = expired_checkpoint (kr_project r) c in
      if \<not> times_ok e then fail ErrCheckpointInvalid s
      else if kr_status r \<noteq> status_text StatusExpired \<or> kr_metadata r \<noteq> render (expired_json e) \<or> sensitive r
      then flow (ks_save sv (expired_record e (cc_status c) (cc_revision c)) s) Inl (\<lambda>_ s. (Inr e, s))
      else (Inr e, s))"

definition ShowCheckpoint :: "'s continuation_service \<Rightarrow> time \<Rightarrow> string \<Rightarrow> 's \<Rightarrow> (err + Checkpoint) \<times> 's" where
  "ShowCheckpoint sv now i s =
     (if blank i \<or> invalidText i then fail ErrCheckpointInvalid s
      else flow (ks_load sv i s) Inl (\<lambda>r s.
        case decodeCheckpoint (kr_metadata r) of
          None \<Rightarrow> fail ErrCheckpointInvalid s
        | Some c0 \<Rightarrow>
            let c = default_retention (c0\<lparr>cc_status := kr_status r\<rparr>) in
            if is_expired now c then expire sv r c s else (Inr c, s)))"

fun show_each :: "'s continuation_service \<Rightarrow> time \<Rightarrow> CheckpointRecord list \<Rightarrow> 's \<Rightarrow> (err + Checkpoint list) \<times> 's" where
  "show_each sv now [] s = (Inr [], s)"
| "show_each sv now (r # rs) s =
     (case ShowCheckpoint sv now (kr_id r) s of
        (Inl x, s) \<Rightarrow> (Inl x, s)
      | (Inr c, s) \<Rightarrow>
          (case show_each sv now rs s of (Inl x, s) \<Rightarrow> (Inl x, s) | (Inr cs, s) \<Rightarrow> (Inr (c # cs), s)))"

definition ListRetained :: "'s continuation_service \<Rightarrow> time \<Rightarrow> 's \<Rightarrow> (err + Checkpoint list) \<times> 's" where
  "ListRetained sv now s = flow (ks_list sv s) Inl (\<lambda>rs s. show_each sv now rs s)"

definition PurgeRetained :: "'s continuation_service \<Rightarrow> time \<Rightarrow> string \<Rightarrow> string \<Rightarrow> 's \<Rightarrow> (err + unit) \<times> 's" where
  "PurgeRetained sv now i revision s =
     (if blank i \<or> blank revision \<or> invalidText i \<or> invalidText revision then fail ErrCheckpointInvalid s
      else flow (ShowCheckpoint sv now i s) Inl (\<lambda>c s.
        if cc_revision c \<noteq> revision then fail ErrCheckpointRevisionChanged s
        else if cc_status c = status_text StatusLaunching then fail ErrHandoffNotReady s
        else ks_purge sv i revision s))"

section \<open>Editing\<close>

definition closed_status :: "Checkpoint \<Rightarrow> bool" where
  "closed_status c \<longleftrightarrow>
     cc_status c \<in> {status_text StatusLaunching, status_text StatusCompleted, status_text StatusExpired}"

definition apply_edit :: "string \<Rightarrow> EditRequest \<Rightarrow> Checkpoint \<Rightarrow> err + Checkpoint" where
  "apply_edit home rq c =
     (let clean = (\<lambda>v. sanitizeText v home (ed_redact_text rq));
          paths = normalizedRedactions (ed_redact_paths rq); r = cc_repository c in
      case sanitizeFields (ed_fields rq) home (ed_redact_text rq) of
        Inl x \<Rightarrow> Inl x
      | Inr edited \<Rightarrow>
          (case sanitizePaths (fe_value (rs_staged r)) paths of
             Inl x \<Rightarrow> Inl x
           | Inr staged \<Rightarrow>
               (case sanitizePaths (fe_value (rs_modified r)) paths of
                  Inl x \<Rightarrow> Inl x
                | Inr modified \<Rightarrow>
                    (case sanitizePaths (fe_value (rs_untracked r)) paths of
                       Inl x \<Rightarrow> Inl x
                     | Inr untracked \<Rightarrow>
                         Inr (c\<lparr>cc_fields := edited,
                           cc_project := (cc_project c)\<lparr>pj_alias := clean (pj_alias (cc_project c)),
                             pj_basename := clean (pj_basename (cc_project c))\<rparr>,
                           cc_repository := r\<lparr>rs_branch := (rs_branch r)\<lparr>fe_value := clean (fe_value (rs_branch r))\<rparr>,
                             rs_staged := (rs_staged r)\<lparr>fe_value := staged\<rparr>,
                             rs_modified := (rs_modified r)\<lparr>fe_value := modified\<rparr>,
                             rs_untracked := (rs_untracked r)\<lparr>fe_value := untracked\<rparr>,
                             rs_commands := (rs_commands r)\<lparr>fe_value := map clean (fe_value (rs_commands r))\<rparr>\<rparr>\<rparr>)))))"

definition EditCheckpoint ::
  "'s continuation_service \<Rightarrow> time \<Rightarrow> string \<Rightarrow> EditRequest \<Rightarrow> 's \<Rightarrow> (err + Checkpoint) \<times> 's" where
  "EditCheckpoint sv now i rq s =
     (if invalidRedactions (ed_redact_paths rq) (ed_redact_text rq) then fail ErrCheckpointInvalid s
      else flow (ShowCheckpoint sv now i s) Inl (\<lambda>c s.
        if closed_status c then fail ErrHandoffNotReady s
        else case apply_edit (ks_home sv) rq c of
          Inl x \<Rightarrow> (Inl x, s)
        | Inr edited \<Rightarrow>
            save_finalized sv (prepareCheckpoint (ks_sha256 sv) (edited\<lparr>cc_status := status_text StatusDraft\<rparr>))
              (cc_status c) (cc_revision c) s))"

text \<open>A preview is not saved.\<close>

definition preview_assisted ::
  "'s continuation_service \<Rightarrow> time \<Rightarrow> string \<Rightarrow> string \<Rightarrow> EditRequest \<Rightarrow> 's \<Rightarrow> (err + Checkpoint) \<times> 's" where
  "preview_assisted sv now i revision rq s =
     (if blank revision \<or> invalidText revision \<or> invalidRedactions (ed_redact_paths rq) (ed_redact_text rq)
      then fail ErrCheckpointInvalid s
      else flow (ShowCheckpoint sv now i s) Inl (\<lambda>c s.
        if cc_status c \<noteq> status_text StatusDraft \<or> cc_source c \<noteq> SourceRepositoryFirst \<or> cc_revision c \<noteq> revision
        then fail ErrCheckpointRevisionChanged s
        else case apply_edit (ks_home sv) rq c of
          Inl x \<Rightarrow> (Inl x, s)
        | Inr edited \<Rightarrow>
            flow (ks_retention sv s) Inl (\<lambda>policy s.
            case policy_setting policy SourceTranscriptAssisted of
              Inl x \<Rightarrow> (Inl x, s)
            | Inr setting \<Rightarrow>
                (case retentionExpiry (cc_created edited) setting of
                   Inl x \<Rightarrow> (Inl x, s)
                 | Inr expires \<Rightarrow>
                     if (case expires of None \<Rightarrow> False | Some t \<Rightarrow> \<not> now < t) then fail ErrHandoffNotReady s
                     else case prepareCheckpoint (ks_sha256 sv)
                         (edited\<lparr>cc_source := SourceTranscriptAssisted, cc_retention := setting, cc_expires := expires\<rparr>) of
                       None \<Rightarrow> fail ErrCheckpointInvalid s
                     | Some (p, _) \<Rightarrow>
                         if int MaxCheckpointBytes < cc_size p then fail ErrCheckpointOversize s else (Inr p, s)))))"

definition ApproveAssisted ::
  "'s continuation_service \<Rightarrow> time \<Rightarrow> string \<Rightarrow> string \<Rightarrow> string \<Rightarrow> EditRequest \<Rightarrow> 's \<Rightarrow> (err + Checkpoint) \<times> 's" where
  "ApproveAssisted sv now i revision preview rq s =
     (if blank preview \<or> invalidText preview then fail ErrCheckpointInvalid s
      else flow (preview_assisted sv now i revision rq s) Inl (\<lambda>p s.
        if cc_revision p \<noteq> preview then fail ErrCheckpointRevisionChanged s
        else save_finalized sv (finalizeCheckpoint (p\<lparr>cc_status := status_text StatusApproved\<rparr>))
          (status_text StatusDraft) revision s))"

definition ApproveCheckpoint ::
  "'s continuation_service \<Rightarrow> time \<Rightarrow> string \<Rightarrow> string \<Rightarrow> 's \<Rightarrow> (err + Checkpoint) \<times> 's" where
  "ApproveCheckpoint sv now i revision s =
     (if revision = [] \<or> invalidText revision then fail ErrCheckpointInvalid s
      else flow (ShowCheckpoint sv now i s) Inl (\<lambda>c s.
        if closed_status c then fail ErrHandoffNotReady s
        else if cc_revision c \<noteq> revision then fail ErrCheckpointRevisionChanged s
        else save_finalized sv (finalizeCheckpoint (c\<lparr>cc_status := status_text StatusApproved\<rparr>))
          (cc_status c) (cc_revision c) s))"

section \<open>Handing over\<close>

record HistorySource =
  hs_profile :: string
  hs_home :: string

definition PrepareHistory ::
  "'s continuation_service \<Rightarrow> time \<Rightarrow> string \<Rightarrow> string \<Rightarrow> 's \<Rightarrow> (err + HistorySource) \<times> 's" where
  "PrepareHistory sv now i revision s =
     (if blank i \<or> blank revision \<or> invalidText i \<or> invalidText revision then fail ErrCheckpointInvalid s
      else flow (ShowCheckpoint sv now i s) Inl (\<lambda>c s.
        if cc_status c \<noteq> status_text StatusDraft \<or> cc_source c \<noteq> SourceRepositoryFirst \<or> cc_revision c \<noteq> revision
        then fail ErrHistoryUnavailable s
        else flow (ks_source sv (pj_id (cc_project c)) s) (\<lambda>x. Inl (plain ErrHistoryUnavailable)) (\<lambda>(profile, state) s.
          if state \<noteq> SourceExited \<or> profile = [] then fail ErrHistoryUnavailable s
          else flow (ks_identity_home sv profile s) (\<lambda>x. Inl (plain ErrHistoryUnavailable)) (\<lambda>home s.
            if \<not> IsAbs home then fail ErrHistoryUnavailable s
            else (Inr \<lparr>hs_profile = profile, hs_home = Clean home\<rparr>, s)))))"

record PreparedHandoff =
  ph_checkpoint :: string
  ph_revision :: string
  ph_project :: string
  ph_source :: string
  ph_directory :: string
  ph_context :: string

definition sameExpiry :: "time option \<Rightarrow> time option \<Rightarrow> bool" where
  "sameExpiry l r \<longleftrightarrow> l = r"

definition handoff_ready :: "time \<Rightarrow> string \<Rightarrow> CheckpointRecord \<Rightarrow> Checkpoint \<Rightarrow> bool" where
  "handoff_ready now revision r c \<longleftrightarrow>
     \<not> (kr_status r \<noteq> status_text StatusApproved \<or> cc_status c \<noteq> status_text StatusApproved \<or> cc_revision c \<noteq> revision
        \<or> kr_project r = [] \<or> pj_id (cc_project c) \<noteq> kr_project r
        \<or> (case kr_expires r of None \<Rightarrow> False | Some t \<Rightarrow> \<not> now < t) \<or> \<not> sameExpiry (cc_expires c) (kr_expires r))"

definition PrepareHandoff ::
  "'s continuation_service \<Rightarrow> time \<Rightarrow> string \<Rightarrow> string \<Rightarrow> string \<Rightarrow> 's \<Rightarrow> (err + PreparedHandoff) \<times> 's" where
  "PrepareHandoff sv now i revision target s =
     (if blank i \<or> blank revision \<or> blank target \<or> invalidText i \<or> invalidText revision \<or> invalidText target
      then fail ErrCheckpointInvalid s
      else flow (ks_load sv i s) Inl (\<lambda>r s.
        case decodeCheckpoint (kr_metadata r) of
          None \<Rightarrow> fail ErrCheckpointInvalid s
        | Some c \<Rightarrow>
            if \<not> handoff_ready now revision r c then fail ErrHandoffNotReady s
            else flow (ks_source sv (kr_project r) s) Inl (\<lambda>(profile, state) s.
              if state \<noteq> SourceExited \<or> profile = [] \<or> profile = target then fail ErrHandoffNotReady s
              else flow (ks_location sv (kr_project r) s) Inl (\<lambda>directory s.
                flow (ks_inspect sv directory s) (\<lambda>x. Inl (inspection_failed x)) (\<lambda>_ s.
                  (Inr \<lparr>ph_checkpoint = i, ph_revision = revision, ph_project = kr_project r, ph_source = profile,
                      ph_directory = directory, ph_context = kr_metadata r\<rparr>, s))))))"

section \<open>Exporting\<close>

definition CheckpointExportVersion :: string where "CheckpointExportVersion = ''codex-folio.checkpoint.v1''"

record CheckpointExport =
  xp_version :: string
  xp_exported :: time
  xp_checkpoint :: Checkpoint

definition ExportCheckpoint :: "'s continuation_service \<Rightarrow> time \<Rightarrow> string \<Rightarrow> 's \<Rightarrow> (err + CheckpointExport) \<times> 's" where
  "ExportCheckpoint sv now i s =
     flow (ShowCheckpoint sv now i s) Inl (\<lambda>c s.
       if cc_status c \<noteq> status_text StatusApproved \<and> cc_status c \<noteq> status_text StatusCompleted
       then fail ErrHandoffNotReady s
       else (Inr \<lparr>xp_version = CheckpointExportVersion, xp_exported = now, xp_checkpoint = c\<rparr>, s))"

end
