(* ===== verification/Continuation_Contract.thy ===== *)
theory Continuation_Contract
  imports Continuation_Service
begin

text \<open>
  The contract between the continuation service and its repository, and what the service guarantees from it: the
  text of every stored checkpoint states the revision that its own content hashes to.
\<close>

section \<open>Reading the text of an expired checkpoint\<close>

definition texts_ok :: "Checkpoint \<Rightarrow> bool" where
  "texts_ok c \<longleftrightarrow> json_ok (checkpoint_json c) \<and> ints_ok c"

definition expired_stub :: "Checkpoint \<Rightarrow> Checkpoint" where
  "expired_stub c =
     no_checkpoint\<lparr>cc_id := cc_id c, cc_status := cc_status c,
       cc_project := \<lparr>pj_id = pj_id (cc_project c), pj_alias = [], pj_basename = []\<rparr>, cc_source := cc_source c,
       cc_retention := cc_retention c, cc_created := cc_created c, cc_expires := cc_expires c, cc_revision := cc_revision c\<rparr>"

lemma expired_stub_stub [simp]: "expired_stub (expired_stub c) = expired_stub c"
  by (simp add: expired_stub_def)

lemma expired_checkpoint_stub: "expired_checkpoint p c = expired_stub (expired_checkpoint p c)"
  by (simp add: expired_stub_def expired_checkpoint_def)

lemma json_ok_option [simp]: "json_ok (option_json f v) \<longleftrightarrow> (case v of None \<Rightarrow> True | Some x \<Rightarrow> json_ok (f x))"
  by (simp add: option_json_def split: option.split)

lemma bytes_128: "list_all (\<lambda>c. (of_char c :: nat) < 128) s \<Longrightarrow> valid_utf8 (bytes s)"
  by (induction s) (auto simp: bytes_def)

lemma json_ok_utc [simp]: "json_ok (utc_json t)"
  using bytes_128 [OF time_text_plain] by (simp add: utc_json_def)

lemma json_ok_names [simp]: "valid_utf8 (bytes ''id'')" "valid_utf8 (bytes ''status'')" "valid_utf8 (bytes ''project'')"
  "valid_utf8 (bytes ''source'')" "valid_utf8 (bytes ''retention'')" "valid_utf8 (bytes ''created_at'')"
  "valid_utf8 (bytes ''expires_at'')" "valid_utf8 (bytes ''revision'')" "valid_utf8 (bytes ''alias'')" "valid_utf8 (bytes ''basename'')"
  "valid_utf8 (bytes ''repository'')" "valid_utf8 (bytes ''fields'')" "valid_utf8 (bytes ''size_bytes'')"
  by (simp_all add: bytes_128)

lemma expired_json_ok:
  "json_ok (expired_json c) \<longleftrightarrow> list_all (\<lambda>s. valid_utf8 (bytes s))
     [cc_id c, cc_status c, pj_id (cc_project c), cc_source c, cc_retention c, cc_revision c]"
  by (auto simp: expired_json_def split: option.split)

lemma checkpoint_json_texts:
  "json_ok (checkpoint_json c) \<Longrightarrow> list_all (\<lambda>s. valid_utf8 (bytes s))
     [cc_id c, cc_status c, pj_id (cc_project c), cc_source c, cc_retention c, cc_revision c]"
  by (simp add: checkpoint_json_def project_json_def)

definition utc_times_ok :: "Checkpoint \<Rightarrow> bool" where
  "utc_times_ok c \<longleftrightarrow> json_time_ok (cc_created c, 0) \<and> (case cc_expires c of None \<Rightarrow> True | Some t \<Rightarrow> json_time_ok (t, 0))"

lemma times_utc: "times_ok c \<Longrightarrow> utc_times_ok c"
  by (simp add: times_ok_def utc_times_ok_def)

lemma times_ok_expired: "times_ok (expired_checkpoint p c) \<longleftrightarrow> utc_times_ok c"
  by (simp add: times_ok_def utc_times_ok_def expired_checkpoint_def no_checkpoint_def no_fields_def no_evidence_def)

lemma decode_expired:
  assumes "json_ok (expired_json c)" "utc_times_ok c"
  shows "decodeCheckpoint (render (expired_json c)) = Some (expired_stub c)"
proof -
  have "reads (dec_pointer dec_utc 0) (option_json utc_json) (cc_expires c)"
    using assms(2) reads_utc by (intro reads_pointer) (auto simp: utc_times_ok_def utc_json_def)
  moreover have "reads dec_utc utc_json (cc_created c)" using assms(2) by (simp add: utc_times_ok_def reads_utc)
  ultimately have "dec_checkpoint (expired_json c) no_checkpoint = Some (expired_stub c)"
    by (simp add: dec_checkpoint_def dec_project_def expired_json_def expired_stub_def decode_simps dec_string_def reads_def
        no_checkpoint_def)
  then show ?thesis by (simp add: decodeCheckpoint_def parse_json_render [OF assms(1)])
qed

section \<open>Content and revision\<close>

lemma revision_of_cong:
  "cc_project c = cc_project d \<Longrightarrow> cc_repository c = cc_repository d \<Longrightarrow> cc_fields c = cc_fields d \<Longrightarrow>
   cc_source c = cc_source d \<Longrightarrow> cc_retention c = cc_retention d \<Longrightarrow> cc_created c = cc_created d \<Longrightarrow>
   cc_expires c = cc_expires d \<Longrightarrow> revision_of sha c = revision_of sha d"
  by (simp add: revision_of_def content_json_def)

definition hashed :: "(string \<Rightarrow> string) \<Rightarrow> Checkpoint \<Rightarrow> bool" where
  "hashed sha c \<longleftrightarrow> cc_revision c = revision_of sha c"

lemma hashed_simps [simp]:
  "hashed sha (c\<lparr>cc_status := st\<rparr>) = hashed sha c" "hashed sha (c\<lparr>cc_size := n\<rparr>) = hashed sha c"
  by (simp_all add: hashed_def revision_of_def content_json_def)

lemma finalize_hashed: "finalizeCheckpoint c = Some (c', m) \<Longrightarrow> hashed sha c' = hashed sha c"
  using finalizeCheckpoint_Some [of c c' m] by simp

lemma prepare_hashed: "prepareCheckpoint sha c = Some (c', m) \<Longrightarrow> hashed sha c'"
proof -
  assume p: "prepareCheckpoint sha c = Some (c', m)"
  have "hashed sha (c\<lparr>cc_revision := revision_of sha c\<rparr>)" by (simp add: hashed_def revision_of_def content_json_def)
  then show ?thesis using p finalize_hashed by (auto simp: prepareCheckpoint_def split: if_splits)
qed

lemma prepare_facts:
  assumes "prepareCheckpoint sha c = Some (c', m)"
  shows "c' = c\<lparr>cc_revision := revision_of sha c, cc_size := int (length m)\<rparr>" "encodeCheckpoint c' = Some m"
  using assms finalizeCheckpoint_Some [of "c\<lparr>cc_revision := revision_of sha c\<rparr>" c' m]
  by (auto simp: prepareCheckpoint_def split: if_splits)

section \<open>The stored texts\<close>

text \<open>What a stored record says: the text of a checkpoint that hashes to its revision, or what expiry left of one.\<close>

definition faithful :: "(string \<Rightarrow> string) \<Rightarrow> CheckpointRecord \<Rightarrow> bool" where
  "faithful sha r \<longleftrightarrow> (\<exists>c. texts_ok c \<and> cc_retention c \<noteq> [] \<and> kr_id r = cc_id c \<and> kr_project r = pj_id (cc_project c) \<and>
     (encodeCheckpoint c = Some (kr_metadata r) \<and> hashed sha c
      \<or> kr_status r = status_text StatusExpired \<and> cc_status c = status_text StatusExpired \<and> utc_times_ok c
        \<and> kr_metadata r = render (expired_json c)))"

text \<open>The expectation of a save is not kept.\<close>

definition kept :: "CheckpointRecord \<Rightarrow> CheckpointRecord" where
  "kept r = r\<lparr>kr_expected_status := [], kr_expected_revision := []\<rparr>"

lemma faithful_kept [simp]: "faithful sha (kept r) = faithful sha r"
  by (simp add: faithful_def kept_def)

lemma faithful_status: "faithful sha r \<Longrightarrow> kr_status r \<noteq> status_text StatusExpired \<Longrightarrow> faithful sha (r\<lparr>kr_status := st\<rparr>)"
  by (auto simp: faithful_def)

lemma encode_times: "encodeCheckpoint c = Some m \<Longrightarrow> times_ok c"
  by (simp add: encodeCheckpoint_def split: if_splits)

lemma stub_texts:
  assumes "texts_ok c"
  shows "json_ok (expired_json c)"
  using checkpoint_json_texts [of c] assms by (simp only: texts_ok_def expired_json_ok)

lemma faithful_decodes:
  assumes "faithful sha r"
  obtains c where "decodeCheckpoint (kr_metadata r) = Some c" "cc_retention c \<noteq> []" "pj_id (cc_project c) = kr_project r"
    "cc_id c = kr_id r" "utc_times_ok c"
    "list_all (\<lambda>s. valid_utf8 (bytes s)) [cc_id c, pj_id (cc_project c), cc_source c, cc_retention c, cc_revision c]"
    "kr_status r = status_text StatusExpired \<and> cc_status c = status_text StatusExpired
      \<or> hashed sha c \<and> encodeCheckpoint c = Some (kr_metadata r) \<and> texts_ok c"
proof -
  obtain c where c: "texts_ok c" "cc_retention c \<noteq> []" "kr_project r = pj_id (cc_project c)" "kr_id r = cc_id c"
    and d: "encodeCheckpoint c = Some (kr_metadata r) \<and> hashed sha c
      \<or> kr_status r = status_text StatusExpired \<and> cc_status c = status_text StatusExpired \<and> utc_times_ok c
        \<and> kr_metadata r = render (expired_json c)"
    using assms by (auto simp: faithful_def)
  note t = checkpoint_json_texts [of c] c(1) [unfolded texts_ok_def]
  from d show ?thesis
  proof
    assume e: "encodeCheckpoint c = Some (kr_metadata r) \<and> hashed sha c"
    have "decodeCheckpoint (kr_metadata r) = Some c" using decode_encode [of c "kr_metadata r"] e t by blast
    then show ?thesis using that c e t times_utc [OF encode_times] by auto
  next
    assume e: "kr_status r = status_text StatusExpired \<and> cc_status c = status_text StatusExpired \<and> utc_times_ok c
        \<and> kr_metadata r = render (expired_json c)"
    then have "decodeCheckpoint (kr_metadata r) = Some (expired_stub c)"
      using decode_expired [OF stub_texts [OF c(1)]] by simp
    then show ?thesis
      using that [of "expired_stub c"] c e t by (simp add: expired_stub_def utc_times_ok_def)
  qed
qed

lemma json_ok_literals [simp]: "valid_utf8 (bytes ''value'')" "valid_utf8 (bytes ''provenance'')"
  "valid_utf8 (bytes ''completeness'')" "valid_utf8 (bytes ''branch'')" "valid_utf8 (bytes ''head'')" "valid_utf8 (bytes ''upstream'')"
  "valid_utf8 (bytes ''staged'')" "valid_utf8 (bytes ''modified'')" "valid_utf8 (bytes ''untracked'')"
  "valid_utf8 (bytes ''diff_statistics'')" "valid_utf8 (bytes ''configured_commands'')" "valid_utf8 (bytes ''goal'')"
  "valid_utf8 (bytes ''completed_work'')" "valid_utf8 (bytes ''pending_work'')" "valid_utf8 (bytes ''known_validation'')"
  "valid_utf8 (bytes ''risks'')" "valid_utf8 (bytes ''next_action'')" "valid_utf8 (bytes ''files_changed'')"
  "valid_utf8 (bytes ''insertions'')" "valid_utf8 (bytes ''deletions'')" "valid_utf8 (bytes [])" "valid_utf8 (bytes ''expired'')"
  by (simp_all add: bytes_128)

lemma json_ok_int [simp]: "json_ok (int_json i)"
  by (simp add: int_json_def valid_number_show)

lemma texts_ok_expired:
  assumes "list_all (\<lambda>s. valid_utf8 (bytes s)) [cc_id c, p, cc_source c, cc_retention c, cc_revision c]"
  shows "texts_ok (expired_checkpoint p c)"
  using assms
  by (simp add: texts_ok_def checkpoint_json_def project_json_def repository_json_def fields_json_def evidence_json_def
      strings_json_def diff_json_def expired_checkpoint_def no_checkpoint_def no_repository_def no_fields_def
      no_evidence_def no_diff_def ints_ok_def int64_def diff_ok_def min_duration_def max_duration_def split: option.split)

definition all_faithful :: "(string \<Rightarrow> string) \<Rightarrow> (string \<Rightarrow> CheckpointRecord option) \<Rightarrow> bool" where
  "all_faithful sha st \<longleftrightarrow> (\<forall>i r. st i = Some r \<longrightarrow> kr_id r = i \<and> faithful sha r)"

text \<open>What a shown checkpoint is good for.\<close>

definition shown_ok :: "(string \<Rightarrow> string) \<Rightarrow> string \<Rightarrow> Checkpoint \<Rightarrow> bool" where
  "shown_ok sha i c \<longleftrightarrow> cc_id c = i \<and> cc_retention c \<noteq> [] \<and> (cc_status c = status_text StatusExpired \<or> hashed sha c)"

lemma shown_ok_expired: "cc_id c = i \<Longrightarrow> cc_retention c \<noteq> [] \<Longrightarrow> shown_ok sha i (expired_checkpoint p c)"
  by (simp add: shown_ok_def expired_checkpoint_def)

section \<open>Calls\<close>

text \<open>The calls on the service; a call is described by what it returns of type \<open>Checkpoint\<close>, if anything.\<close>

datatype continuation_call =
    CallCapture time "nat \<Rightarrow> string option" CaptureRequest
  | CallCaptureProject time "nat \<Rightarrow> string option" string CaptureRequest
  | CallShow time string
  | CallListRetained time
  | CallPurge time string string
  | CallEdit time string EditRequest
  | CallPreview time string string EditRequest
  | CallApproveAssisted time string string string EditRequest
  | CallApprove time string string
  | CallHistory time string string
  | CallHandoff time string string string
  | CallExport time string
  | CallSource string
  | CallRetention string string

definition drop_result :: "'a \<times> 's \<Rightarrow> (err + Checkpoint) \<times> 's" where
  "drop_result r = (Inl (plain Opaque), snd r)"

fun perform :: "'s continuation_service \<Rightarrow> continuation_call \<Rightarrow> 's \<Rightarrow> (err + Checkpoint) \<times> 's" where
  "perform sv (CallCapture now random rq) s = CaptureCheckpoint sv now random rq s"
| "perform sv (CallCaptureProject now random p rq) s = CaptureProject sv now random p rq s"
| "perform sv (CallShow now i) s = ShowCheckpoint sv now i s"
| "perform sv (CallListRetained now) s = drop_result (ListRetained sv now s)"
| "perform sv (CallPurge now i revision) s = drop_result (PurgeRetained sv now i revision s)"
| "perform sv (CallEdit now i rq) s = EditCheckpoint sv now i rq s"
| "perform sv (CallPreview now i revision rq) s = preview_assisted sv now i revision rq s"
| "perform sv (CallApproveAssisted now i revision preview rq) s = ApproveAssisted sv now i revision preview rq s"
| "perform sv (CallApprove now i revision) s = ApproveCheckpoint sv now i revision s"
| "perform sv (CallHistory now i revision) s = drop_result (PrepareHistory sv now i revision s)"
| "perform sv (CallHandoff now i revision target) s = drop_result (PrepareHandoff sv now i revision target s)"
| "perform sv (CallExport now i) s = drop_result (ExportCheckpoint sv now i s)"
| "perform sv (CallSource p) s = drop_result (SourceOf sv p s)"
| "perform sv (CallRetention source setting) s = drop_result (RetentionOf sv source setting s)"

text \<open>Launches move an approved checkpoint to launching, back to approved, or on to completed, beside the service.\<close>

definition open_status :: "string \<Rightarrow> bool" where
  "open_status st \<longleftrightarrow> st \<in> status_text ` {StatusApproved, StatusLaunching, StatusCompleted}"

definition launch_moves :: "(string \<Rightarrow> CheckpointRecord option) \<Rightarrow> (string \<Rightarrow> CheckpointRecord option) \<Rightarrow> bool" where
  "launch_moves st st' \<longleftrightarrow> (\<forall>i. st' i = st i \<or>
     (\<exists>r x. st i = Some r \<and> open_status (kr_status r) \<and> open_status x \<and> st' i = Some (r\<lparr>kr_status := x\<rparr>)))"

text \<open>States reached from those without a checkpoint by calls whose results hold UTF-8 texts and 64-bit numbers
  (\<open>texts_ok\<close>), and by launches. The service itself accepts other bytes, for example in a file name that git
  reports; the calls that return such a checkpoint are left out here, because its stored text reads back differently.\<close>

inductive continuation_reachable ::
  "('e \<Rightarrow> 's continuation_service) \<Rightarrow> ('s \<Rightarrow> string \<Rightarrow> CheckpointRecord option) \<Rightarrow> 's \<Rightarrow> bool"
  for sv stored where
  start: "(\<And>i. stored s i = None) \<Longrightarrow> continuation_reachable sv stored s"
| call: "continuation_reachable sv stored s \<Longrightarrow> perform (sv e) c s = (res, s') \<Longrightarrow>
    (\<And>c. res = Inr c \<Longrightarrow> texts_ok c) \<Longrightarrow> continuation_reachable sv stored s'"
| launch: "continuation_reachable sv stored s \<Longrightarrow> launch_moves (stored s) (stored s') \<Longrightarrow> continuation_reachable sv stored s'"

section \<open>The contract\<close>

text \<open>\<open>sv e\<close> is the service in an environment \<open>e\<close>; \<open>stored\<close> views the checkpoints of a state. Only saving and
  purging change them; a checkpoint is loaded as it was saved.\<close>

locale checkpoint_repository =
  fixes sv :: "'e \<Rightarrow> 's continuation_service"
    and stored :: "'s \<Rightarrow> string \<Rightarrow> CheckpointRecord option"
    and sha :: "string \<Rightarrow> string"
  assumes save: "ks_save (sv e) r s = (Inr u, s') \<Longrightarrow> stored s' = (stored s)(kr_id r \<mapsto> kept r)"
    and save_fails: "ks_save (sv e) r s = (Inl x, s') \<Longrightarrow> stored s' = stored s"
    and load: "ks_load (sv e) i s = (Inr r, s') \<Longrightarrow> stored s i = Some r"
    and load_keeps: "stored (snd (ks_load (sv e) i s)) = stored s"
    and purge: "stored (snd (ks_purge (sv e) i revision s)) j \<in> {None, stored s j}"
    and list_keeps: "stored (snd (ks_list (sv e) s)) = stored s"
    and source_keeps: "stored (snd (ks_source (sv e) p s)) = stored s"
    and identity_home_keeps: "stored (snd (ks_identity_home (sv e) p s)) = stored s"
    and retention_keeps: "stored (snd (ks_retention (sv e) s)) = stored s"
    and set_retention_keeps: "stored (snd (ks_set_retention (sv e) p q s)) = stored s"
    and resolve_keeps: "stored (snd (ks_resolve (sv e) p q s)) = stored s"
    and location_keeps: "stored (snd (ks_location (sv e) p s)) = stored s"
    and inspect_keeps: "stored (snd (ks_inspect (sv e) p s)) = stored s"
    and hash: "ks_sha256 (sv e) = sha"
begin

lemmas keeps = load_keeps list_keeps source_keeps identity_home_keeps retention_keeps set_retention_keeps resolve_keeps
  location_keeps inspect_keeps

abbreviation good :: "'s \<Rightarrow> bool" where "good s \<equiv> all_faithful sha (stored s)"

lemma good_cong: "stored s' = stored s \<Longrightarrow> good s' = good s"
  by simp

text \<open>A call is sound if it leaves a good state whenever what it returns is \<open>ok\<close>.\<close>

definition sound :: "('b \<Rightarrow> bool) \<Rightarrow> (err + 'b) \<times> 's \<Rightarrow> bool" where
  "sound ok r \<longleftrightarrow> (case fst r of Inl x \<Rightarrow> True | Inr c \<Rightarrow> ok c) \<longrightarrow> good (snd r)"

lemma sound_good [intro]: "good s \<Longrightarrow> sound ok (res, s)"
  by (simp add: sound_def)

lemma sound_flow:
  assumes "good (snd r)" "\<And>a s. r = (Inr a, s) \<Longrightarrow> good s \<Longrightarrow> sound ok (go a s)"
  shows "sound ok (flow r ret go)"
  using assms by (cases r; cases "fst r") (auto simp: flow_def)

lemma sound_sum:
  "(\<And>a. x = Inl a \<Longrightarrow> sound ok (f a)) \<Longrightarrow> (\<And>b. x = Inr b \<Longrightarrow> sound ok (g b)) \<Longrightarrow> sound ok (case x of Inl a \<Rightarrow> f a | Inr b \<Rightarrow> g b)"
  by (cases x) auto

lemma sound_option:
  "(x = None \<Longrightarrow> sound ok f) \<Longrightarrow> (\<And>b. x = Some b \<Longrightarrow> sound ok (g b)) \<Longrightarrow> sound ok (case x of None \<Rightarrow> f | Some b \<Rightarrow> g b)"
  by (cases x) auto

lemma sound_if: "(b \<Longrightarrow> sound ok f) \<Longrightarrow> (\<not> b \<Longrightarrow> sound ok g) \<Longrightarrow> sound ok (if b then f else g)"
  by simp

lemma sound_prod: "(\<And>a b. p = (a, b) \<Longrightarrow> sound ok (f a b)) \<Longrightarrow> sound ok (case p of (a, b) \<Rightarrow> f a b)"
  by (cases p) auto

lemma sound_prod_apply: "(\<And>a b. p = (a, b) \<Longrightarrow> sound ok (f a b s)) \<Longrightarrow> sound ok ((case p of (a, b) \<Rightarrow> f a b) s)"
  by (cases p) auto

lemmas sound_rules = sound_flow sound_sum sound_option sound_if sound_prod sound_prod_apply

lemma save_good:
  assumes "ks_save (sv e) r s = (res, s')" "good s" "faithful sha r"
  shows "good s'"
proof (cases res)
  case (Inl x)
  then show ?thesis using assms save_fails by metis
next
  case (Inr u)
  then have "stored s' = (stored s)(kr_id r \<mapsto> kept r)" using assms(1) save by blast
  then show ?thesis using assms(2,3) by (auto simp: all_faithful_def kept_def faithful_def)
qed

lemma expire_good:
  assumes "expire (sv e) r c s = (res, s')" "good s" "utc_times_ok c" "kr_id r = cc_id c" "cc_retention c \<noteq> []"
    and "list_all (\<lambda>s. valid_utf8 (bytes s)) [cc_id c, kr_project r, cc_source c, cc_retention c, cc_revision c]"
  shows "good s' \<and> (\<forall>d. res = Inr d \<longrightarrow> d = expired_checkpoint (kr_project r) c)"
proof -
  let ?e = "expired_checkpoint (kr_project r) c"
  have t: "texts_ok ?e" by (rule texts_ok_expired [OF assms(6)])
  have f: "faithful sha (expired_record ?e st rev)" for st rev
    unfolding faithful_def
    by (intro exI [of _ ?e] conjI t disjI2)
      (use assms(3,5) in \<open>simp_all add: expired_record_def expired_checkpoint_def utc_times_ok_def\<close>)
  show ?thesis
  proof (cases "ks_save (sv e) (expired_record ?e (cc_status c) (cc_revision c)) s")
    case (Pair x s1)
    then have "good s1" using save_good [OF _ assms(2) f] by metis
    then show ?thesis using assms(1,2) Pair by (cases x) (auto simp: expire_def Let_def split: if_splits)
  qed
qed

lemma show_good:
  assumes "ShowCheckpoint (sv e) now i s = (res, s')" "good s"
  shows "good s' \<and> (\<forall>c. res = Inr c \<longrightarrow> shown_ok sha i c)"
proof (cases "blank i \<or> invalidText i")
  case True
  then show ?thesis using assms by (auto simp: ShowCheckpoint_def)
next
  case valid: False
  obtain x s1 where l: "ks_load (sv e) i s = (x, s1)" by (metis surj_pair)
  have g: "good s1" using load_keeps [of e i s] l assms(2) by simp
  show ?thesis
  proof (cases x)
    case (Inl y)
    then show ?thesis using assms l g valid by (auto simp: ShowCheckpoint_def)
  next
    case (Inr r)
    have r: "kr_id r = i" "faithful sha r"
      using load [of e i s r s1] l Inr assms(2) by (auto simp: all_faithful_def)
    obtain c where c: "decodeCheckpoint (kr_metadata r) = Some c" "cc_retention c \<noteq> []" "pj_id (cc_project c) = kr_project r"
      "cc_id c = kr_id r" "utc_times_ok c"
      "list_all (\<lambda>s. valid_utf8 (bytes s)) [cc_id c, pj_id (cc_project c), cc_source c, cc_retention c, cc_revision c]"
      and d: "kr_status r = status_text StatusExpired \<and> cc_status c = status_text StatusExpired
        \<or> hashed sha c \<and> encodeCheckpoint c = Some (kr_metadata r) \<and> texts_ok c"
      using faithful_decodes [OF r(2)] by metis
    define c1 where "c1 = c\<lparr>cc_status := kr_status r\<rparr>"
    have def: "default_retention c1 = c1" using c(2) by (simp add: default_retention_def c1_def)
    have sh: "ShowCheckpoint (sv e) now i s = (if is_expired now c1 then expire (sv e) r c1 s1 else (Inr c1, s1))"
      using valid l Inr c(1) def by (simp add: ShowCheckpoint_def Let_def c1_def)
    show ?thesis
    proof (cases "is_expired now c1")
      case True
      have c1: "utc_times_ok c1" "kr_id r = cc_id c1" "cc_retention c1 \<noteq> []"
        using c(2,4,5) by (simp_all add: c1_def utc_times_ok_def)
      have tx: "list_all (\<lambda>s. valid_utf8 (bytes s)) [cc_id c1, kr_project r, cc_source c1, cc_retention c1, cc_revision c1]"
        using c(6) by (simp add: c1_def c(3))
      have ex: "expire (sv e) r c1 s1 = (res, s')" using sh True assms(1) by simp
      have "good s' \<and> (\<forall>d. res = Inr d \<longrightarrow> d = expired_checkpoint (kr_project r) c1)"
        by (rule expire_good [OF ex g c1 tx])
      moreover have "shown_ok sha i (expired_checkpoint (kr_project r) c1)"
        by (rule shown_ok_expired [OF _ c1(3)]) (simp only: c1(2) [symmetric] r(1))
      ultimately show ?thesis by metis
    next
      case False
      have "shown_ok sha i c1" using c(2,4) d r(1) by (cases "hashed sha c") (simp_all add: shown_ok_def c1_def)
      moreover have "res = Inr c1" "s' = s1" using sh False assms(1) by simp_all
      ultimately show ?thesis using g by simp
    qed
  qed
qed

lemma save_finalized_good:
  assumes "save_finalized (sv e) final st rn s = (res, s')" "good s"
    and "\<And>c m. final = Some (c, m) \<Longrightarrow> encodeCheckpoint c = Some m \<and> hashed sha c \<and> cc_retention c \<noteq> []"
    and "\<And>c. res = Inr c \<Longrightarrow> texts_ok c"
  shows "good s'"
proof (cases final)
  case None
  then show ?thesis using assms by (simp add: save_finalized_def)
next
  case (Some cm)
  obtain c m where cm: "cm = (c, m)" by (cases cm)
  have f: "encodeCheckpoint c = Some m" "hashed sha c" "cc_retention c \<noteq> []" using assms(3) Some cm by blast+
  show ?thesis
  proof (cases "int MaxCheckpointBytes < cc_size c")
    case True
    then show ?thesis using assms Some cm by (simp add: save_finalized_def)
  next
    case False
    obtain x s1 where sv: "ks_save (sv e) (record_of c m st rn) s = (x, s1)" by (metis surj_pair)
    show ?thesis
    proof (cases x)
      case (Inl y)
      then show ?thesis using assms(1,2) Some cm False sv save_fails by (auto simp: save_finalized_def)
    next
      case (Inr u)
      then have r: "res = Inr c" "s' = s1" using assms(1) Some cm False sv by (auto simp: save_finalized_def)
      have "faithful sha (record_of c m st rn)"
        using f assms(4) [OF r(1)] by (auto simp: faithful_def record_of_def Let_def)
      then show ?thesis using save_good [OF sv assms(2)] r by simp
    qed
  qed
qed

lemma policy_setting_nonempty: "policy_setting p source = Inr setting \<Longrightarrow> setting \<noteq> []"
  by (auto simp: policy_setting_def ParseRetention_def Atoi_def Let_def DefaultRepositoryRetention_def
      DefaultTranscriptRetention_def split: if_splits sum.splits option.splits)

lemma save_finalized_sound:
  assumes "good s" "\<And>c m. final = Some (c, m) \<Longrightarrow> encodeCheckpoint c = Some m \<and> hashed sha c \<and> cc_retention c \<noteq> []"
  shows "sound texts_ok (save_finalized (sv e) final st rn s)"
proof -
  obtain res s' where r: "save_finalized (sv e) final st rn s = (res, s')" by (metis surj_pair)
  have "good s'" if "\<And>c. res = Inr c \<Longrightarrow> texts_ok c"
  proof (rule save_finalized_good [OF r assms(1)])
    fix c m assume "final = Some (c, m)"
    then show "encodeCheckpoint c = Some m \<and> hashed sha c \<and> cc_retention c \<noteq> []" by (rule assms(2))
  next
    fix c assume "res = Inr c"
    then show "texts_ok c" by (rule that)
  qed
  then show ?thesis unfolding r by (cases res) (simp_all add: sound_def)
qed

lemma show_snd_good: "good s \<Longrightarrow> good (snd (ShowCheckpoint (sv e) now i s))"
  using show_good by (metis surj_pair snd_conv)

lemma show_shown: "ShowCheckpoint (sv e) now i s = (Inr c, s') \<Longrightarrow> good s \<Longrightarrow> shown_ok sha i c"
  using show_good by blast

lemma prepared_good:
  assumes "prepareCheckpoint sha c = Some (c', m)" "cc_retention c \<noteq> []"
  shows "encodeCheckpoint c' = Some m \<and> hashed sha c' \<and> cc_retention c' \<noteq> []"
  using prepare_facts [OF assms(1)] prepare_hashed [OF assms(1)] assms(2) by simp

lemma finalized_good:
  assumes "finalizeCheckpoint (c\<lparr>cc_status := st\<rparr>) = Some (c', m)" "cc_retention c \<noteq> []" "hashed sha c"
  shows "encodeCheckpoint c' = Some m \<and> hashed sha c' \<and> cc_retention c' \<noteq> []"
  using finalizeCheckpoint_Some [OF assms(1)] finalize_hashed [OF assms(1)] assms(2,3) by auto

lemma captured_good:
  "prepareCheckpoint sha (captured_checkpoint h rq i p inventory setting now expires) = Some (c, m) \<Longrightarrow>
   policy_setting policy src = Inr setting \<Longrightarrow> encodeCheckpoint c = Some m \<and> hashed sha c \<and> cc_retention c \<noteq> []"
  using prepared_good [of "captured_checkpoint h rq i p inventory setting now expires" c m] policy_setting_nonempty [of policy src setting]
  by (simp add: captured_checkpoint_def)

lemma capture_sound: "good s \<Longrightarrow> sound texts_ok (CaptureCheckpoint (sv e) now random rq s)"
  unfolding CaptureCheckpoint_def Let_def
  by (intro sound_rules sound_good save_finalized_sound)
    (auto simp: keeps hash dest: captured_good)

lemma capture_project_sound: "good s \<Longrightarrow> sound texts_ok (CaptureProject (sv e) now random p rq s)"
  unfolding CaptureProject_def by (intro sound_rules sound_good capture_sound) (auto simp: keeps)

lemma apply_edit_keeps: "apply_edit home rq c = Inr d \<Longrightarrow> cc_retention d = cc_retention c \<and> cc_id d = cc_id c"
  by (auto simp: apply_edit_def Let_def split: sum.splits)

lemma edit_sound: "good s \<Longrightarrow> sound texts_ok (EditCheckpoint (sv e) now i rq s)"
  unfolding EditCheckpoint_def
  by (intro sound_rules sound_good save_finalized_sound show_snd_good)
    (auto simp: hash shown_ok_def dest!: prepared_good show_shown apply_edit_keeps)

lemma preview_snd_good: "good s \<Longrightarrow> good (snd (preview_assisted (sv e) now i revision rq s))"
proof -
  have "sound (\<lambda>_. True) (preview_assisted (sv e) now i revision rq s)" if "good s"
    unfolding preview_assisted_def
    by (intro sound_rules sound_good show_snd_good) (use that in \<open>auto simp: keeps\<close>)
  then show "good s \<Longrightarrow> ?thesis" by (auto simp: sound_def split: sum.splits)
qed

lemma preview_hashed:
  assumes "preview_assisted (sv e) now i revision rq s = (Inr p, s')" "good s"
  shows "hashed sha p \<and> cc_retention p \<noteq> []"
proof -
  obtain d m setting policy where "prepareCheckpoint sha d = Some (p, m)" "cc_retention d = setting"
    "policy_setting policy SourceTranscriptAssisted = Inr setting"
    using assms(1)
    by (auto simp: preview_assisted_def flow_def hash split: if_splits sum.splits option.splits prod.splits)
  then show ?thesis
    using prepared_good [of d p m] policy_setting_nonempty by auto
qed

lemma approve_assisted_sound: "good s \<Longrightarrow> sound texts_ok (ApproveAssisted (sv e) now i revision preview rq s)"
  unfolding ApproveAssisted_def
  by (intro sound_rules sound_good save_finalized_sound preview_snd_good)
    (auto dest!: preview_hashed finalized_good)

lemma approve_sound: "good s \<Longrightarrow> sound texts_ok (ApproveCheckpoint (sv e) now i revision s)"
  unfolding ApproveCheckpoint_def
  by (intro sound_rules sound_good save_finalized_sound show_snd_good)
    (auto simp: shown_ok_def closed_status_def dest!: show_shown finalized_good)

lemma list_good: "good s \<Longrightarrow> good (snd (show_each (sv e) now rs s))"
proof (induction rs arbitrary: s)
  case (Cons r rs)
  then show ?case
    using show_snd_good [of s e now "kr_id r"] by (auto split: prod.split sum.split) (metis snd_conv)+
qed simp

lemma sound_snd: "good (snd r) \<Longrightarrow> sound ok r"
  by (simp add: sound_def)

lemma drop_sound: "good (snd r) \<Longrightarrow> sound ok (drop_result r)"
  by (simp add: sound_def drop_result_def)

lemma sound_any: "sound (\<lambda>_. True) r \<Longrightarrow> good (snd r)"
  by (simp add: sound_def split: sum.splits)

lemma other_calls_good:
  assumes "good s"
  shows "good (snd (ListRetained (sv e) now s))" "good (snd (PurgeRetained (sv e) now i rn s))"
    "good (snd (PrepareHistory (sv e) now i rn s))" "good (snd (PrepareHandoff (sv e) now i rn target s))"
    "good (snd (ExportCheckpoint (sv e) now i s))" "good (snd (SourceOf (sv e) p s))" "good (snd (RetentionOf (sv e) p q s))"
proof -
  have purges: "good (snd (ks_purge (sv e) i rn s))" if "good s" for s
    using that purge [of e i rn s] unfolding all_faithful_def by (metis insertE option.distinct(1) singletonD)
  have lists: "sound (\<lambda>_. True) (show_each (sv e) now rs s)" if "good s" for rs s
    using list_good [OF that] by (simp add: sound_def)
  show "good (snd (ListRetained (sv e) now s))"
    unfolding ListRetained_def by (rule sound_any, intro sound_flow lists) (auto simp: keeps assms)
  show "good (snd (PurgeRetained (sv e) now i rn s))"
    unfolding PurgeRetained_def
    by (rule sound_any, intro sound_rules sound_good show_snd_good)
      (use assms purges in \<open>auto simp: sound_def\<close>)
  show "good (snd (PrepareHistory (sv e) now i rn s))"
    unfolding PrepareHistory_def
    by (rule sound_any, intro sound_rules sound_good show_snd_good) (use assms in \<open>auto simp: keeps\<close>)
  show "good (snd (PrepareHandoff (sv e) now i rn target s))"
    unfolding PrepareHandoff_def
    by (rule sound_any, intro sound_rules sound_good) (use assms in \<open>auto simp: keeps\<close>)
  show "good (snd (ExportCheckpoint (sv e) now i s))"
    unfolding ExportCheckpoint_def
    by (rule sound_any, intro sound_rules sound_good show_snd_good) (use assms in auto)
  show "good (snd (SourceOf (sv e) p s))" using assms by (simp add: SourceOf_def keeps)
  show "good (snd (RetentionOf (sv e) p q s))"
    unfolding RetentionOf_def
    by (rule sound_any, intro sound_rules sound_good) (use assms in \<open>auto simp: keeps sound_def\<close>)
qed

lemma perform_sound: "good s \<Longrightarrow> sound texts_ok (perform (sv e) c s)"
  by (cases c)
    (auto intro: capture_sound capture_project_sound edit_sound approve_assisted_sound approve_sound drop_sound
      other_calls_good sound_snd show_snd_good preview_snd_good)

lemma launch_good: "good s \<Longrightarrow> launch_moves (stored s) (stored s') \<Longrightarrow> good s'"
proof -
  assume g: "good s" and m: "launch_moves (stored s) (stored s')"
  have "kr_id r = i \<and> faithful sha r" if r: "stored s' i = Some r" for i r
  proof (cases "stored s' i = stored s i")
    case False
    then obtain r0 x where "stored s i = Some r0" "open_status (kr_status r0)" "r = r0\<lparr>kr_status := x\<rparr>"
      using m r unfolding launch_moves_def by (metis option.inject)
    then show ?thesis using g faithful_status [of sha r0 x] by (auto simp: all_faithful_def open_status_def)
  qed (use g r in \<open>auto simp: all_faithful_def\<close>)
  then show "good s'" by (simp add: all_faithful_def)
qed

lemma reachable_good: "continuation_reachable sv stored s \<Longrightarrow> good s"
proof (induction rule: continuation_reachable.induct)
  case (start s)
  then show ?case by (simp add: all_faithful_def)
next
  case (call s e c res s')
  then show ?case using perform_sound [of s e c] by (auto simp: sound_def split: sum.splits)
next
  case (launch s s')
  then show ?case using launch_good by blast
qed

text \<open>A handoff: the stored record is approved, its text too, and the latest launch for the project ended elsewhere.\<close>

lemma handoff_reviewed:
  assumes "good s" "PrepareHandoff (sv e) now i revision target s = (Inr h, s')"
  obtains c r s1 where "encodeCheckpoint c = Some (ph_context h)" "cc_id c = i" "cc_status c = status_text StatusApproved"
    "cc_revision c = revision" "hashed sha c" "cc_expires c = None \<or> now < the (cc_expires c)"
    "ks_load (sv e) i s = (Inr r, s1)" "stored s i = Some r" "kr_status r = status_text StatusApproved"
    "kr_metadata r = ph_context h" "kr_project r = ph_project h" "pj_id (cc_project c) = ph_project h"
    "fst (ks_source (sv e) (ph_project h) s1) = Inr (ph_source h, SourceExited)" "ph_source h \<noteq> target"
    "ph_checkpoint h = i" "ph_revision h = revision"
proof -
  obtain r s1 c0 where l: "ks_load (sv e) i s = (Inr r, s1)" "decodeCheckpoint (kr_metadata r) = Some c0"
    "handoff_ready now revision r c0" "ph_context h = kr_metadata r" "ph_project h = kr_project r" "ph_checkpoint h = i"
    "ph_revision h = revision" "fst (ks_source (sv e) (ph_project h) s1) = Inr (ph_source h, SourceExited)" "ph_source h \<noteq> target"
    using assms(2)
    by (auto simp: PrepareHandoff_def flow_def split: if_splits sum.splits option.splits prod.splits)
  have st: "stored s i = Some r" using load [OF l(1)] .
  then have r: "kr_id r = i" "faithful sha r" using assms(1) by (auto simp: all_faithful_def)
  obtain c where c: "decodeCheckpoint (kr_metadata r) = Some c" "cc_id c = kr_id r"
    and d: "kr_status r = status_text StatusExpired \<and> cc_status c = status_text StatusExpired
      \<or> hashed sha c \<and> encodeCheckpoint c = Some (kr_metadata r) \<and> texts_ok c"
    using faithful_decodes [OF r(2)] by metis
  have "c = c0" using c(1) l(2) by simp
  show ?thesis
  proof (rule that [OF _ _ _ _ _ _ l(1) st _ _ _ _ l(8,9,6,7)])
    show "encodeCheckpoint c = Some (ph_context h)" "cc_id c = i" "cc_status c = status_text StatusApproved"
      "cc_revision c = revision" "hashed sha c" "cc_expires c = None \<or> now < the (cc_expires c)"
      "kr_status r = status_text StatusApproved" "kr_metadata r = ph_context h" "kr_project r = ph_project h"
      "pj_id (cc_project c) = ph_project h"
      using l(3-5) r(1) c(2) d \<open>c = c0\<close> by (auto simp: handoff_ready_def sameExpiry_def split: option.splits)
  qed
qed

end

end
