(* ===== verification/Project_Identities.thy ===== *)
theory Project_Identities
  imports Checkpoint_Store Continuation_Finalize
begin

text \<open>
  Project identities: the service of \<^verbatim>\<open>internal/activity/project.go\<close> over a repository, and the repository the
  store gives it (\<^verbatim>\<open>internal/store/secure.go\<close>), which encrypts the location of a project. The service's lock makes
  a call one step; what it asks of the file system is a parameter of the call.
\<close>

section \<open>The service\<close>

record ProjectRecord =
  pc_id :: string
  pc_alias :: string
  pc_basename :: string
  pc_path :: string
  pc_created :: time
  pc_updated :: time

record ProjectIdentity =
  py_id :: string
  py_alias :: string
  py_basename :: string
  py_created :: time
  py_updated :: time

record 's project_repository =
  jr_save :: "ProjectRecord \<Rightarrow> 's \<Rightarrow> (err + unit) \<times> 's"
  jr_list :: "'s \<Rightarrow> err + ProjectRecord list"
  jr_identities :: "'s \<Rightarrow> err + ProjectIdentity list"
  jr_update_alias :: "string \<Rightarrow> string \<Rightarrow> time \<Rightarrow> 's \<Rightarrow> (err + unit) \<times> 's"

record project_paths =
  pa_canonical :: "string \<Rightarrow> string option"
  pa_same :: "string \<Rightarrow> string \<Rightarrow> bool"
  pa_base :: "string \<Rightarrow> string"

definition project_invalid :: err where "project_invalid = New ProjectIdentityInvalid (plain ErrProjectInvalid)"
definition project_not_found :: err where "project_not_found = New ProjectIdentityNotFound (plain ErrProjectNotFound)"
definition path_invalid :: err where "path_invalid = New ProjectPathInvalid (plain ErrPathInvalid)"
definition path_collision :: err where "path_collision = New ProjectPathCollision (plain ErrPathCollision)"

definition canonicalRepository :: "project_paths \<Rightarrow> string \<Rightarrow> err + string" where
  "canonicalRepository pa path =
     (if blank path then Inl path_invalid
      else case pa_canonical pa path of None \<Rightarrow> Inl path_invalid | Some c \<Rightarrow> Inr c)"

definition validAlias :: "string \<Rightarrow> err + string" where
  "validAlias alias =
     (let a = TrimSpace alias in
      if a = [] \<or> 120 < length a \<or> has_control [] (bytes a) then Inl project_invalid else Inr a)"

definition projectIdentity :: "ProjectRecord \<Rightarrow> ProjectIdentity" where
  "projectIdentity r =
     \<lparr>py_id = pc_id r, py_alias = pc_alias r, py_basename = pc_basename r, py_created = pc_created r, py_updated = pc_updated r\<rparr>"

text \<open>The same version 4 UUID as that of a checkpoint.\<close>

definition newProjectID :: "(nat \<Rightarrow> string option) \<Rightarrow> string option" where
  "newProjectID random = newID random"

definition find_record :: "'s project_repository \<Rightarrow> string \<Rightarrow> 's \<Rightarrow> err + (ProjectRecord \<times> ProjectRecord list)" where
  "find_record pr i s =
     (case jr_list pr s of
        Inl x \<Rightarrow> Inl x
      | Inr rs \<Rightarrow> (case find (\<lambda>r. pc_id r = i) rs of None \<Rightarrow> Inl project_not_found | Some r \<Rightarrow> Inr (r, rs)))"

definition findSafe :: "'s project_repository \<Rightarrow> string \<Rightarrow> 's \<Rightarrow> err + ProjectIdentity" where
  "findSafe pr i s =
     (case jr_identities pr s of
        Inl x \<Rightarrow> Inl x
      | Inr ps \<Rightarrow> (case find (\<lambda>p. py_id p = i) ps of None \<Rightarrow> Inl project_not_found | Some p \<Rightarrow> Inr p))"

definition save_record :: "'s project_repository \<Rightarrow> ProjectRecord \<Rightarrow> 's \<Rightarrow> (err + ProjectIdentity) \<times> 's" where
  "save_record pr r s = flow (jr_save pr r s) Inl (\<lambda>_ s. (Inr (projectIdentity r), s))"

definition ResolveProject ::
  "'s project_repository \<Rightarrow> project_paths \<Rightarrow> time \<Rightarrow> (nat \<Rightarrow> string option) \<Rightarrow> string \<Rightarrow> string \<Rightarrow> 's
     \<Rightarrow> (err + ProjectIdentity) \<times> 's" where
  "ResolveProject pr pa now random path alias s =
     (case canonicalRepository pa path of
        Inl x \<Rightarrow> (Inl x, s)
      | Inr canonical \<Rightarrow>
          (case jr_list pr s of
             Inl x \<Rightarrow> (Inl x, s)
           | Inr rs \<Rightarrow>
               (case find (\<lambda>r. pa_same pa (pc_path r) canonical) rs of
                  Some r \<Rightarrow>
                    if pc_basename r = [] then save_record pr (r\<lparr>pc_basename := pa_base pa canonical\<rparr>) s
                    else (Inr (projectIdentity r), s)
                | None \<Rightarrow>
                    (case validAlias (if blank alias then pa_base pa canonical else alias) of
                       Inl x \<Rightarrow> (Inl x, s)
                     | Inr a \<Rightarrow>
                         (case newProjectID random of
                            None \<Rightarrow> (Inl (New ProjectIdentityInvalid (plain Opaque)), s)
                          | Some i \<Rightarrow>
                              save_record pr \<lparr>pc_id = i, pc_alias = a, pc_basename = pa_base pa canonical,
                                pc_path = canonical, pc_created = now, pc_updated = now\<rparr> s)))))"

definition ListProjects :: "'s project_repository \<Rightarrow> 's \<Rightarrow> err + ProjectIdentity list" where
  "ListProjects pr s = jr_identities pr s"

definition EditProjectAlias ::
  "'s project_repository \<Rightarrow> time \<Rightarrow> string \<Rightarrow> string \<Rightarrow> 's \<Rightarrow> (err + ProjectIdentity) \<times> 's" where
  "EditProjectAlias pr now i alias s =
     (case validAlias alias of
        Inl x \<Rightarrow> (Inl x, s)
      | Inr a \<Rightarrow>
          (case findSafe pr i s of
             Inl x \<Rightarrow> (Inl x, s)
           | Inr p \<Rightarrow>
               flow (jr_update_alias pr i a now s) Inl (\<lambda>_ s. (Inr (p\<lparr>py_alias := a, py_updated := now\<rparr>), s))))"

definition ReconcileProject ::
  "'s project_repository \<Rightarrow> project_paths \<Rightarrow> time \<Rightarrow> string \<Rightarrow> string \<Rightarrow> 's \<Rightarrow> (err + ProjectIdentity) \<times> 's" where
  "ReconcileProject pr pa now i path s =
     (case canonicalRepository pa path of
        Inl x \<Rightarrow> (Inl x, s)
      | Inr canonical \<Rightarrow>
          (case find_record pr i s of
             Inl x \<Rightarrow> (Inl x, s)
           | Inr (r, rs) \<Rightarrow>
               if list_ex (\<lambda>c. pc_id c \<noteq> i \<and> pa_same pa (pc_path c) canonical) rs then (Inl path_collision, s)
               else if pa_same pa (pc_path r) canonical then (Inr (projectIdentity r), s)
               else save_record pr
                 (r\<lparr>pc_path := canonical, pc_basename := pa_base pa canonical, pc_updated := now\<rparr>) s))"

text \<open>The error of a location that is not found comes with no location.\<close>

definition CanonicalLocation :: "'s project_repository \<Rightarrow> string \<Rightarrow> 's \<Rightarrow> err + string" where
  "CanonicalLocation pr i s = (case find_record pr i s of Inl x \<Rightarrow> Inl x | Inr (r, _) \<Rightarrow> Inr (pc_path r))"

section \<open>The rows of the store\<close>

record project_row =
  pw_id :: string
  pw_alias :: string
  pw_basename :: string
  pw_path :: string
  pw_created :: time
  pw_updated :: time

interpretation project_table: keyed_table pw_id .

definition projectIdentityAAD :: "string \<Rightarrow> string" where
  "projectIdentityAAD i = ''codex-folio/project-identities/'' @ i @ ''/canonical-path''"

definition project_row_of :: "ProjectRecord \<Rightarrow> string \<Rightarrow> project_row" where
  "project_row_of r ciphertext =
     \<lparr>pw_id = pc_id r, pw_alias = pc_alias r, pw_basename = pc_basename r, pw_path = ciphertext, pw_created = pc_created r,
      pw_updated = pc_updated r\<rparr>"

definition upsert_project :: "project_row \<Rightarrow> project_row list \<Rightarrow> project_row list" where
  "upsert_project r rows =
     (if exists_where (\<lambda>s. pw_id s = pw_id r) rows then upd_where (\<lambda>s. pw_id s = pw_id r) (\<lambda>s. r) rows else rows @ [r])"

definition PutProjectIdentity :: "env \<Rightarrow> ProjectRecord \<Rightarrow> project_row list \<Rightarrow> (err + unit) \<times> project_row list" where
  "PutProjectIdentity e r rows =
     (case requireVault e of
        Inl x \<Rightarrow> (Inl x, rows)
      | Inr v \<Rightarrow>
          (case encryptField v (pc_path r) (projectIdentityAAD (pc_id r)) of
             Inl x \<Rightarrow> (Inl x, rows)
           | Inr c \<Rightarrow>
               if db_fails e (Exec 1) then (Inl (write_failed ErrSensitiveWrite), rows)
               else (Inr (), upsert_project (project_row_of r c) rows)))"

definition record_of_row :: "project_row \<Rightarrow> string \<Rightarrow> ProjectRecord" where
  "record_of_row r path =
     \<lparr>pc_id = pw_id r, pc_alias = pw_alias r, pc_basename = pw_basename r, pc_path = path, pc_created = pw_created r,
      pc_updated = pw_updated r\<rparr>"

definition scan_project :: "vault_ops \<Rightarrow> project_row \<Rightarrow> err + ProjectRecord" where
  "scan_project v r =
     (case decryptField v (pw_path r) (projectIdentityAAD (pw_id r)) of
        Inl x \<Rightarrow> Inl x
      | Inr path \<Rightarrow>
          if parseStoredTime (pw_created r) = None \<or> parseStoredTime (pw_updated r) = None
          then Inl (read_failed ErrSensitiveRead) else Inr (record_of_row r path))"

text \<open>\<open>None\<close> is \<open>sql.ErrNoRows\<close>.\<close>

definition GetProjectIdentity :: "env \<Rightarrow> string \<Rightarrow> project_row list \<Rightarrow> (err + ProjectRecord) option" where
  "GetProjectIdentity e i rows =
     (case requireVault e of
        Inl x \<Rightarrow> Some (Inl x)
      | Inr v \<Rightarrow>
          if db_fails e (Query 1) then Some (Inl (read_failed ErrSensitiveRead))
          else map_option (scan_project v) (project_table.lookup i rows))"

definition project_before :: "project_row \<Rightarrow> project_row \<Rightarrow> bool" where
  "project_before a b \<longleftrightarrow>
     stored_less (pw_created a) (pw_created b) \<or> pw_created a = pw_created b \<and> string_less (pw_id a) (pw_id b)"

fun scan_projects :: "(project_row \<Rightarrow> err + 'p) \<Rightarrow> project_row list \<Rightarrow> err + 'p list" where
  "scan_projects scan [] = Inr []"
| "scan_projects scan (r # rs) =
     (case scan r of
        Inl x \<Rightarrow> Inl x
      | Inr p \<Rightarrow> (case scan_projects scan rs of Inl x \<Rightarrow> Inl x | Inr ps \<Rightarrow> Inr (p # ps)))"

definition ListProjectRecords :: "env \<Rightarrow> project_row list \<Rightarrow> err + ProjectRecord list" where
  "ListProjectRecords e rows =
     (case requireVault e of
        Inl x \<Rightarrow> Inl x
      | Inr v \<Rightarrow>
          if db_fails e (Query 1) then Inl (read_failed ErrSensitiveRead)
          else scan_projects (scan_project v) (sort_by project_before rows))"

definition scan_identity :: "project_row \<Rightarrow> err + ProjectIdentity" where
  "scan_identity r =
     (if parseStoredTime (pw_created r) = None \<or> parseStoredTime (pw_updated r) = None
      then Inl (coded StoreReadFailed (Some (plain Opaque)))
      else Inr \<lparr>py_id = pw_id r, py_alias = pw_alias r, py_basename = pw_basename r, py_created = pw_created r,
             py_updated = pw_updated r\<rparr>)"

definition ListProjectIdentities :: "env \<Rightarrow> project_row list \<Rightarrow> err + ProjectIdentity list" where
  "ListProjectIdentities e rows =
     (if db_fails e (Query 1) then Inl (coded StoreReadFailed (Some (plain Opaque)))
      else scan_projects scan_identity (sort_by project_before rows))"

definition UpdateProjectAlias :: "env \<Rightarrow> string \<Rightarrow> string \<Rightarrow> time \<Rightarrow> project_row list \<Rightarrow> (err + unit) \<times> project_row list" where
  "UpdateProjectAlias e i alias now rows =
     (if db_fails e (Exec 1) then (Inl (coded StoreWriteFailed (Some (plain Opaque))), rows)
      else if count_where (\<lambda>r. pw_id r = i) rows = 0 then (Inl project_not_found, rows)
      else (Inr (), upd_where (\<lambda>r. pw_id r = i) (\<lambda>r. r\<lparr>pw_alias := alias, pw_updated := now\<rparr>) rows))"

definition stored_projects :: "env \<Rightarrow> project_row list project_repository" where
  "stored_projects e =
     \<lparr>jr_save = PutProjectIdentity e, jr_list = ListProjectRecords e, jr_identities = ListProjectIdentities e,
      jr_update_alias = UpdateProjectAlias e\<rparr>"

end
