(* ===== verification/Project_Contract.thy ===== *)
theory Project_Contract
  imports Project_Identities Sample_Env
begin

text \<open>
  What the project service keeps over any repository that stores what it is given: no two projects share a location.
  The repository of the running program is the store.
\<close>

section \<open>Calls\<close>

datatype project_call =
    CallResolve project_paths time "nat \<Rightarrow> string option" string string
  | CallEditAlias project_paths time string string
  | CallReconcile project_paths time string string

fun call_paths :: "project_call \<Rightarrow> project_paths" where
  "call_paths (CallResolve pa now random path alias) = pa"
| "call_paths (CallEditAlias pa now i alias) = pa"
| "call_paths (CallReconcile pa now i path) = pa"

fun perform_project :: "'s project_repository \<Rightarrow> project_call \<Rightarrow> 's \<Rightarrow> (err + ProjectIdentity) \<times> 's" where
  "perform_project pr (CallResolve pa now random path alias) s = ResolveProject pr pa now random path alias s"
| "perform_project pr (CallEditAlias pa now i alias) s = EditProjectAlias pr now i alias s"
| "perform_project pr (CallReconcile pa now i path) s = ReconcileProject pr pa now i path s"

text \<open>The states reached from those without a project while the file system tells locations apart by \<open>same\<close>.\<close>

inductive project_reachable ::
  "('e \<Rightarrow> 's project_repository) \<Rightarrow> ('s \<Rightarrow> bool) \<Rightarrow> (string \<Rightarrow> string \<Rightarrow> bool) \<Rightarrow> 's \<Rightarrow> bool"
  for pr none same where
  start: "none s \<Longrightarrow> project_reachable pr none same s"
| call: "project_reachable pr none same s \<Longrightarrow> pa_same (call_paths c) = same \<Longrightarrow> perform_project (pr e) c s = (res, s') \<Longrightarrow>
    project_reachable pr none same s'"

section \<open>The contract\<close>

text \<open>\<open>view\<close> shows the records of a state, and \<open>ok\<close> is an invariant of the repository.\<close>

locale project_store =
  fixes pr :: "'e \<Rightarrow> 's project_repository"
    and view :: "'s \<Rightarrow> string \<Rightarrow> ProjectRecord option"
    and ok :: "'s \<Rightarrow> bool"
  assumes save: "jr_save (pr e) r s = (Inr u, s') \<Longrightarrow> ok s \<Longrightarrow> ok s' \<and> view s' = (view s)(pc_id r \<mapsto> r)"
    and save_fails: "jr_save (pr e) r s = (Inl x, s') \<Longrightarrow> s' = s"
    and lists: "jr_list (pr e) s = Inr rs \<Longrightarrow> ok s \<Longrightarrow> r \<in> set rs \<longleftrightarrow> view s (pc_id r) = Some r"
    and keys: "view s i = Some r \<Longrightarrow> pc_id r = i"
    and update: "jr_update_alias (pr e) i a now s = (Inr u, s') \<Longrightarrow> ok s \<Longrightarrow>
      ok s' \<and> view s' = (view s)(i := map_option (\<lambda>r. r\<lparr>pc_alias := a, pc_updated := now\<rparr>) (view s i))"
    and update_fails: "jr_update_alias (pr e) i a now s = (Inl x, s') \<Longrightarrow> s' = s"
begin

definition apart :: "(string \<Rightarrow> string \<Rightarrow> bool) \<Rightarrow> 's \<Rightarrow> bool" where
  "apart same s \<longleftrightarrow> (\<forall>i j r t. view s i = Some r \<and> view s j = Some t \<and> i \<noteq> j \<longrightarrow> \<not> same (pc_path r) (pc_path t))"

definition held :: "(string \<Rightarrow> string \<Rightarrow> bool) \<Rightarrow> 's \<Rightarrow> bool" where
  "held same s \<longleftrightarrow> ok s \<and> apart same s"

lemma apart_put:
  assumes "apart same s" "symp same" "view s' = (view s)(i \<mapsto> r)"
    and "\<And>j t. view s j = Some t \<Longrightarrow> j \<noteq> i \<Longrightarrow> \<not> same (pc_path t) (pc_path r)"
  shows "apart same s'"
  unfolding apart_def
proof (intro allI impI, elim conjE)
  fix j k t u
  assume v: "view s' j = Some t" "view s' k = Some u" "j \<noteq> k"
  note swap = sympD [OF assms(2)]
  show "\<not> same (pc_path t) (pc_path u)"
  proof (cases "j = i")
    case True
    then have "t = r" "view s k = Some u" "k \<noteq> i" using v assms(3) by auto
    then show ?thesis using assms(4) swap by metis
  next
    case False
    then have t: "view s j = Some t" using v assms(3) by simp
    show ?thesis
    proof (cases "k = i")
      case True
      then have "u = r" using v assms(3) by simp
      then show ?thesis using assms(4) t False by metis
    next
      case False
      then have "view s k = Some u" using v assms(3) by simp
      then show ?thesis using assms(1) t v(3) unfolding apart_def by metis
    qed
  qed
qed

lemma save_record_cases:
  assumes "save_record (pr e) r s = (res, s')" "ok s"
  obtains (saved) "res = Inr (projectIdentity r)" "ok s'" "view s' = (view s)(pc_id r \<mapsto> r)"
  | (failed) x where "res = Inl x" "s' = s"
proof (cases "jr_save (pr e) r s")
  case (Pair y s1)
  then show thesis
  proof (cases y)
    case (Inl x)
    then have "res = Inl x" "s' = s" using assms(1) Pair save_fails [of e r s x s1] by (simp_all add: save_record_def)
    then show thesis by (rule failed)
  next
    case (Inr u)
    then have "res = Inr (projectIdentity r)" "s' = s1" using assms(1) Pair by (simp_all add: save_record_def)
    then show thesis using saved save [OF _ assms(2), of e r u s1] Pair Inr by metis
  qed
qed

lemma save_record_held:
  assumes "save_record (pr e) r s = (res, s')" "held same s" "symp same"
    and "\<And>j t. view s j = Some t \<Longrightarrow> j \<noteq> pc_id r \<Longrightarrow> \<not> same (pc_path t) (pc_path r)"
  shows "held same s'"
proof -
  have h: "ok s" "apart same s" using assms(2) by (simp_all add: held_def)
  show ?thesis
  proof (rule save_record_cases [OF assms(1) h(1)])
    assume "ok s'" "view s' = (view s)(pc_id r \<mapsto> r)"
    then show ?thesis using apart_put [OF h(2) assms(3) _ assms(4)] by (simp add: held_def)
  next
    fix x assume "s' = s"
    then show ?thesis using assms(2) by simp
  qed
qed

lemma resolve_held:
  assumes "ResolveProject (pr e) pa now random path alias s = (res, s')" "held same s" "symp same" "pa_same pa = same"
  shows "held same s'"
proof (cases "s' = s")
  case False
  then obtain c rs where c: "canonicalRepository pa path = Inr c" "jr_list (pr e) s = Inr rs"
    using assms(1) by (auto simp: ResolveProject_def split: sum.splits)
  have ok: "ok s" using assms(2) by (simp add: held_def)
  note member = lists [OF c(2) ok]
  show ?thesis
  proof (cases "find (\<lambda>r. pa_same pa (pc_path r) c) rs")
    case (Some r)
    then have r: "view s (pc_id r) = Some r" using member find_SomeD by metis
    have "save_record (pr e) (r\<lparr>pc_basename := pa_base pa c\<rparr>) s = (res, s')"
      using assms(1) c Some False by (simp add: ResolveProject_def split: if_splits)
    then show ?thesis
    proof (rule save_record_held [OF _ assms(2,3)])
      fix j t assume "view s j = Some t" "j \<noteq> pc_id (r\<lparr>pc_basename := pa_base pa c\<rparr>)"
      then show "\<not> same (pc_path t) (pc_path (r\<lparr>pc_basename := pa_base pa c\<rparr>))"
        using r assms(2) by (simp add: held_def apart_def)
    qed
  next
    case None
    then obtain a i where s': "save_record (pr e) \<lparr>pc_id = i, pc_alias = a, pc_basename = pa_base pa c, pc_path = c,
        pc_created = now, pc_updated = now\<rparr> s = (res, s')"
      using assms(1) c False by (simp add: ResolveProject_def split: sum.splits option.splits)
    then show ?thesis
    proof (rule save_record_held [OF _ assms(2,3)])
      fix j t assume t: "view s j = Some t"
      then have "t \<in> set rs" using member keys by metis
      then show "\<not> same (pc_path t) (pc_path \<lparr>pc_id = i, pc_alias = a, pc_basename = pa_base pa c, pc_path = c,
        pc_created = now, pc_updated = now\<rparr>)" using None assms(4) by (simp add: find_None)
    qed
  qed
qed (use assms(2) in simp)

lemma reconcile_held:
  assumes "ReconcileProject (pr e) pa now i path s = (res, s')" "held same s" "symp same" "pa_same pa = same"
  shows "held same s'"
proof (cases "s' = s")
  case False
  then obtain c r rs where c: "jr_list (pr e) s = Inr rs" "find (\<lambda>r. pc_id r = i) rs = Some r"
      "\<not> list_ex (\<lambda>c'. pc_id c' \<noteq> i \<and> pa_same pa (pc_path c') c) rs"
      "save_record (pr e) (r\<lparr>pc_path := c, pc_basename := pa_base pa c, pc_updated := now\<rparr>) s = (res, s')"
    using assms(1) by (auto simp: ReconcileProject_def find_record_def split: sum.splits option.splits if_splits)
  have ok: "ok s" using assms(2) by (simp add: held_def)
  have i: "pc_id r = i" using find_SomeD [OF c(2)] by simp
  from c(4) show ?thesis
  proof (rule save_record_held [OF _ assms(2,3)])
    fix j t assume t: "view s j = Some t" "j \<noteq> pc_id (r\<lparr>pc_path := c, pc_basename := pa_base pa c, pc_updated := now\<rparr>)"
    then have "t \<in> set rs" "pc_id t \<noteq> i" using lists [OF c(1) ok, of t] keys [OF t(1)] i by simp_all
    then show "\<not> same (pc_path t) (pc_path (r\<lparr>pc_path := c, pc_basename := pa_base pa c, pc_updated := now\<rparr>))"
      using c(3) assms(4) by (auto simp: list_ex_iff)
  qed
qed (use assms(2) in simp)

lemma edit_alias_held:
  assumes "EditProjectAlias (pr e) now i alias s = (res, s')" "held same s"
  shows "held same s'"
proof (cases "s' = s")
  case False
  then obtain a y where y: "jr_update_alias (pr e) i a now s = (y, s')"
    using assms(1) by (auto simp: EditProjectAlias_def flow_def split: sum.splits prod.splits)
  have ok: "ok s" using assms(2) by (simp add: held_def)
  obtain u where "y = Inr u" using y False update_fails by (cases y) metis+
  then have v: "ok s'" "view s' = (view s)(i := map_option (\<lambda>r. r\<lparr>pc_alias := a, pc_updated := now\<rparr>) (view s i))"
    using update [OF _ ok] y by metis+
  have "\<exists>t. view s j = Some t \<and> pc_path t = pc_path r" if "view s' j = Some r" for j r
    using that v(2) by (cases "j = i") auto
  then show ?thesis using assms(2) v(1) unfolding held_def apart_def by metis
qed (use assms(2) in simp)

lemma perform_held:
  "perform_project (pr e) c s = (res, s') \<Longrightarrow> held same s \<Longrightarrow> symp same \<Longrightarrow> pa_same (call_paths c) = same \<Longrightarrow> held same s'"
  by (cases c) (auto intro: resolve_held edit_alias_held reconcile_held)

lemma reachable_held:
  assumes "project_reachable pr none same s" "symp same" "\<And>s. none s \<Longrightarrow> ok s \<and> view s = Map.empty"
  shows "held same s"
  using assms(1)
proof (induction rule: project_reachable.induct)
  case (start s)
  then show ?case using assms(3) [of s] by (simp add: held_def apart_def)
qed (use perform_held assms(2) in blast)

text \<open>Resolving finds the project whose location it is.\<close>

lemma resolve_finds:
  assumes "ResolveProject (pr e) pa now random path alias s = (Inr p, s')" "ok s" "pa_canonical pa path = Some c" "reflp (pa_same pa)"
  shows "\<exists>r. view s' (py_id p) = Some r \<and> pa_same pa (pc_path r) c"
proof -
  have canon: "canonicalRepository pa path = Inr c"
    using assms(1,3) by (auto simp: ResolveProject_def canonicalRepository_def split: if_splits)
  obtain rs where rs: "jr_list (pr e) s = Inr rs" using assms(1) canon by (auto simp: ResolveProject_def split: sum.splits)
  note member = lists [OF rs assms(2)]
  show ?thesis
  proof (cases "find (\<lambda>r. pa_same pa (pc_path r) c) rs")
    case (Some r)
    then have r: "view s (pc_id r) = Some r" "pa_same pa (pc_path r) c" using member find_SomeD by metis+
    show ?thesis
    proof (cases "pc_basename r = []")
      case False
      then have "p = projectIdentity r \<and> s' = s" using assms(1) canon rs Some by (simp add: ResolveProject_def)
      then show ?thesis using r by (simp add: projectIdentity_def)
    next
      case True
      then have "save_record (pr e) (r\<lparr>pc_basename := pa_base pa c\<rparr>) s = (Inr p, s')"
        using assms(1) canon rs Some by (simp add: ResolveProject_def)
      then show ?thesis by (rule save_record_cases [OF _ assms(2)]) (use r in \<open>auto simp: projectIdentity_def\<close>)
    qed
  next
    case None
    then obtain a i where "save_record (pr e) \<lparr>pc_id = i, pc_alias = a, pc_basename = pa_base pa c, pc_path = c,
        pc_created = now, pc_updated = now\<rparr> s = (Inr p, s')"
      using assms(1) canon rs by (simp add: ResolveProject_def split: sum.splits option.splits)
    then show ?thesis
      by (rule save_record_cases [OF _ assms(2)]) (use assms(4) in \<open>auto simp: projectIdentity_def reflp_def\<close>)
  qed
qed

lemma resolve_known:
  assumes "ResolveProject (pr e) pa now random path alias s = (Inr p, s')" "held (pa_same pa) s" "equivp (pa_same pa)"
    and "pa_canonical pa path = Some c" "view s i = Some r" "pa_same pa (pc_path r) c"
  shows "py_id p = i"
proof -
  have ok: "ok s" and ap: "apart (pa_same pa) s" using assms(2) by (simp_all add: held_def)
  have canon: "canonicalRepository pa path = Inr c"
    using assms(1,4) by (auto simp: ResolveProject_def canonicalRepository_def split: if_splits)
  obtain rs where rs: "jr_list (pr e) s = Inr rs" using assms(1) canon by (auto simp: ResolveProject_def split: sum.splits)
  note member = lists [OF rs ok]
  have "r \<in> set rs" using member assms(5) keys [OF assms(5)] by simp
  then obtain t where t: "find (\<lambda>r. pa_same pa (pc_path r) c) rs = Some t" using assms(6) find_None by fastforce
  have "view s (pc_id t) = Some t" "pa_same pa (pc_path t) c" using member find_SomeD [OF t] by metis+
  then have "pc_id t = i"
    using ap assms(3,5,6) unfolding apart_def by (metis equivp_symp equivp_transp)
  moreover have "py_id p = pc_id t"
    using assms(1) canon rs t
    by (auto simp: ResolveProject_def save_record_def flow_def projectIdentity_def split: if_splits sum.splits prod.splits)
  ultimately show ?thesis by simp
qed

end

end
