(* ===== verification/Project_Properties.thy ===== *)
theory Project_Properties
  imports Project_Contract
begin

text \<open>The store keeps the contract of the project service, and what follows for the program.\<close>

section \<open>The store as a repository\<close>

definition project_view :: "sealing_vault \<Rightarrow> project_row list \<Rightarrow> string \<Rightarrow> ProjectRecord option" where
  "project_view v rows i =
     (case project_table.lookup i rows of
        None \<Rightarrow> None
      | Some r \<Rightarrow>
          (case decryptField (vault_of v) (pw_path r) (projectIdentityAAD (pw_id r)) of
             Inl x \<Rightarrow> None | Inr path \<Rightarrow> Some (record_of_row r path)))"

definition secured_projects :: "sealing_vault \<Rightarrow> env \<Rightarrow> project_row list project_repository" where
  "secured_projects v e = stored_projects (secured v e)"

lemma upsert_project_wf: "project_table.wf rows \<Longrightarrow> project_table.wf (upsert_project r rows)"
proof -
  have "map pw_id (upd_where (\<lambda>s. pw_id s = pw_id r) (\<lambda>s. r) rows) = map pw_id rows" by (rule map_upd_where) simp
  then show "project_table.wf rows \<Longrightarrow> ?thesis"
    by (auto simp: upsert_project_def project_table.wf_def)
qed

lemma find_replaced:
  "find (\<lambda>s. pw_id s = i) (upd_where (\<lambda>s. pw_id s = pw_id r) (\<lambda>s. r) rows) =
    (if i = pw_id r then (if exists_where (\<lambda>s. pw_id s = i) rows then Some r else None) else find (\<lambda>s. pw_id s = i) rows)"
  by (induction rows) auto

lemma upsert_project_lookup:
  "project_table.lookup i (upsert_project r rows) = (if i = pw_id r then Some r else project_table.lookup i rows)"
proof -
  have "find (\<lambda>s. pw_id s = pw_id r) rows = None" if "\<not> exists_where (\<lambda>s. pw_id s = pw_id r) rows"
    using that by (auto simp: find_None)
  then show ?thesis
    by (auto simp: upsert_project_def project_table.lookup_def find_replaced find_append split: option.splits)
qed

lemma put_project_ok:
  assumes "PutProjectIdentity (secured v e) r rows = (Inr u, rows')"
  obtains c where "decryptField (vault_of v) c (projectIdentityAAD (pc_id r)) = Inr (pc_path r)"
    "rows' = upsert_project (project_row_of r c) rows"
proof -
  obtain c where c: "encryptField (vault_of v) (pc_path r) (projectIdentityAAD (pc_id r)) = Inr c"
      "rows' = upsert_project (project_row_of r c) rows"
    using assms by (auto simp: PutProjectIdentity_def split: sum.splits if_splits)
  then show thesis using that decrypt_encrypt [OF vault_of_inverse c(1)] by blast
qed

lemma put_project_fails: "PutProjectIdentity e r rows = (Inl x, rows') \<Longrightarrow> rows' = rows"
  by (auto simp: PutProjectIdentity_def split: sum.splits if_splits)

lemma scan_projects_ok: "scan_projects scan rows = Inr ps \<Longrightarrow> p \<in> set ps \<longleftrightarrow> (\<exists>r\<in>set rows. scan r = Inr p)"
  by (induction rows arbitrary: ps) (auto split: sum.splits)

lemma scan_projects_each: "scan_projects scan rows = Inr ps \<Longrightarrow> r \<in> set rows \<Longrightarrow> \<exists>p. scan r = Inr p"
  by (induction rows arbitrary: ps) (auto split: sum.splits)

lemma record_of_row_of [simp]: "record_of_row (project_row_of r c) (pc_path r) = r"
  by (simp add: record_of_row_def project_row_of_def)

lemma scan_project_view:
  assumes "project_table.wf rows" "scan_projects (scan_project (vault_of v)) (sort_by project_before rows) = Inr ps"
  shows "p \<in> set ps \<longleftrightarrow> project_view v rows (pc_id p) = Some p"
proof
  assume "p \<in> set ps"
  then obtain r where r: "r \<in> set rows" "scan_project (vault_of v) r = Inr p" using scan_projects_ok [OF assms(2)] by auto
  then have "pc_id p = pw_id r" by (auto simp: scan_project_def record_of_row_def split: sum.splits if_splits)
  then show "project_view v rows (pc_id p) = Some p"
    using r project_table.lookup_SomeI [OF assms(1) r(1)]
    by (auto simp: project_view_def scan_project_def split: sum.splits if_splits)
next
  assume "project_view v rows (pc_id p) = Some p"
  then obtain r path where r: "project_table.lookup (pc_id p) rows = Some r" "p = record_of_row r path"
      "decryptField (vault_of v) (pw_path r) (projectIdentityAAD (pw_id r)) = Inr path"
    by (auto simp: project_view_def split: option.splits sum.splits)
  then have m: "r \<in> set rows" using project_table.lookup_SomeD by blast
  then obtain q where "scan_project (vault_of v) r = Inr q" using scan_projects_each [OF assms(2)] by auto
  then have "scan_project (vault_of v) r = Inr p" using r by (auto simp: scan_project_def split: if_splits)
  then show "p \<in> set ps" using m scan_projects_ok [OF assms(2)] by auto
qed

lemma project_view_put:
  assumes "decryptField (vault_of v) c (projectIdentityAAD (pc_id r)) = Inr (pc_path r)"
  shows "project_view v (upsert_project (project_row_of r c) rows) = (project_view v rows)(pc_id r \<mapsto> r)"
proof
  fix i
  have "pw_id (project_row_of r c) = pc_id r" "pw_path (project_row_of r c) = c" by (simp_all add: project_row_of_def)
  then show "project_view v (upsert_project (project_row_of r c) rows) i = ((project_view v rows)(pc_id r \<mapsto> r)) i"
    using assms by (simp add: project_view_def upsert_project_lookup)
qed

lemma project_view_alias:
  "project_view v (upd_where (\<lambda>r. pw_id r = i) (\<lambda>r. r\<lparr>pw_alias := a, pw_updated := now\<rparr>) rows) =
    (project_view v rows)(i := map_option (\<lambda>r. r\<lparr>pc_alias := a, pc_updated := now\<rparr>) (project_view v rows i))"
proof
  fix j
  have "project_table.lookup j (upd_where (\<lambda>r. pw_id r = i) (\<lambda>r. r\<lparr>pw_alias := a, pw_updated := now\<rparr>) rows) =
      map_option (\<lambda>r. if pw_id r = i then r\<lparr>pw_alias := a, pw_updated := now\<rparr> else r) (project_table.lookup j rows)"
    unfolding project_table.lookup_def by (rule find_upd_where) simp
  then show "project_view v (upd_where (\<lambda>r. pw_id r = i) (\<lambda>r. r\<lparr>pw_alias := a, pw_updated := now\<rparr>) rows) j =
    ((project_view v rows)(i := map_option (\<lambda>r. r\<lparr>pc_alias := a, pc_updated := now\<rparr>) (project_view v rows i))) j"
    using project_table.lookup_SomeD
    by (auto simp: project_view_def record_of_row_def split: option.splits sum.splits)
qed

interpretation stored_project: project_store "secured_projects v" "project_view v" project_table.wf for v
proof unfold_locales
  fix e r s s' and u :: unit
  assume "jr_save (secured_projects v e) r s = (Inr u, s')" "project_table.wf s"
  then show "project_table.wf s' \<and> project_view v s' = (project_view v s)(pc_id r \<mapsto> r)"
    using project_view_put upsert_project_wf
    by (auto simp: secured_projects_def stored_projects_def elim!: put_project_ok)
next
  fix e r s x s'
  assume "jr_save (secured_projects v e) r s = (Inl x, s')"
  then show "s' = s" by (simp add: secured_projects_def stored_projects_def put_project_fails)
next
  fix e s rs r
  assume "jr_list (secured_projects v e) s = Inr rs" "project_table.wf s"
  then show "r \<in> set rs \<longleftrightarrow> project_view v s (pc_id r) = Some r"
    using scan_project_view
    by (auto simp: secured_projects_def stored_projects_def ListProjectRecords_def split: sum.splits if_splits)
next
  fix s i r
  assume "project_view v s i = Some r"
  then show "pc_id r = i" using project_table.lookup_SomeD
    by (fastforce simp: project_view_def record_of_row_def split: option.splits sum.splits)
next
  fix e i a now s s' and u :: unit
  assume "jr_update_alias (secured_projects v e) i a now s = (Inr u, s')" "project_table.wf s"
  then show "project_table.wf s' \<and> project_view v s' =
      (project_view v s)(i := map_option (\<lambda>r. r\<lparr>pc_alias := a, pc_updated := now\<rparr>) (project_view v s i))"
    by (auto simp: secured_projects_def stored_projects_def UpdateProjectAlias_def project_view_alias project_table.wf_upd
        split: if_splits)
next
  fix e i a now s x s'
  assume "jr_update_alias (secured_projects v e) i a now s = (Inl x, s')"
  then show "s' = s" by (auto simp: secured_projects_def stored_projects_def UpdateProjectAlias_def split: if_splits)
qed

section \<open>Locations\<close>

definition no_projects :: "project_row list \<Rightarrow> bool" where
  "no_projects rows \<longleftrightarrow> rows = []"

lemma no_projects_view: "no_projects s \<Longrightarrow> project_table.wf s \<and> project_view v s = Map.empty"
  by (auto simp: no_projects_def project_view_def project_table.wf_def project_table.lookup_def)

lemmas projects_held = stored_project.reachable_held [where none = no_projects, OF _ _ no_projects_view]

text \<open>C18: However projects are resolved, renamed and reconciled, no two stored projects share a location, as long as the
  file system tells locations apart consistently.\<close>
theorem project_locations_stay_apart:
  assumes "project_reachable (secured_projects v) no_projects same rows" "symp same"
    and "project_view v rows i = Some r" "project_view v rows j = Some t" "i \<noteq> j"
  shows "\<not> same (pc_path r) (pc_path t)"
  using projects_held [OF assms(1,2)] assms(3-5)
  by (simp add: stored_project.held_def stored_project.apart_def)

text \<open>C19: A location is one project: resolving it again, by whatever path and with whatever alias, gives the identity that
  resolving it gave before.\<close>
theorem resolving_again_finds_the_project:
  assumes "project_reachable (secured_projects v) no_projects (pa_same pa) rows" "equivp (pa_same pa)"
    and "ResolveProject (secured_projects v e) pa now random path alias rows = (Inr p, rows2)"
    and "ResolveProject (secured_projects v e2) pa now2 random2 path2 alias2 rows2 = (Inr q, rows3)"
    and "pa_canonical pa path = Some c" "pa_canonical pa path2 = Some c2" "pa_same pa c c2"
  shows "py_id q = py_id p"
proof -
  have sy: "symp (pa_same pa)" and re: "reflp (pa_same pa)" using assms(2) by (simp_all add: equivp_reflp_symp_transp)
  have h: "stored_project.held v (pa_same pa) rows" by (rule projects_held [OF assms(1) sy])
  then have wf: "project_table.wf rows" by (simp add: stored_project.held_def)
  obtain r where r: "project_view v rows2 (py_id p) = Some r" "pa_same pa (pc_path r) c"
    using stored_project.resolve_finds [OF assms(3) wf assms(5) re] by blast
  have "pa_same pa (pc_path r) c2" by (rule equivp_transp [OF assms(2) r(2) assms(7)])
  then show ?thesis
    by (rule stored_project.resolve_known [OF assms(4) stored_project.resolve_held [OF assms(3) h sy refl] assms(2,6) r(1)])
qed

section \<open>Instances\<close>

definition sample_sealing :: sealing_vault where
  "sample_sealing = sealed_by sample_vault"

lemma vault_of_sample [simp]: "vault_of sample_sealing = sample_vault"
  unfolding sample_sealing_def
  by (rule sealed_by_inverse) (simp add: vault_inverse_def sample_vault_def)

definition sample_paths :: project_paths where
  "sample_paths = \<lparr>pa_canonical = (\<lambda>p. Some (''/r/'' @ p)), pa_same = (=), pa_base = (\<lambda>p. drop 3 p)\<rparr>"

definition sample_random :: "nat \<Rightarrow> nat \<Rightarrow> string option" where
  "sample_random k n = Some (replicate n (char_of k))"

lemma secured_sample [simp]: "secured sample_sealing (sample_env t) = sample_env t"
  by (simp add: secured_def sample_env_def)

definition sample_first :: "(err + ProjectIdentity) \<times> project_row list" where
  "sample_first = ResolveProject (stored_projects (sample_env 5)) sample_paths 5 (sample_random 1) ''a'' [] []"

definition sample_second :: "(err + ProjectIdentity) \<times> project_row list" where
  "sample_second = ResolveProject (stored_projects (sample_env 6)) sample_paths 6 (sample_random 2) ''b'' ''B'' (snd sample_first)"

definition sample_again :: "(err + ProjectIdentity) \<times> project_row list" where
  "sample_again = ResolveProject (stored_projects (sample_env 7)) sample_paths 7 (sample_random 3) ''a'' ''C'' (snd sample_first)"

definition first_id :: string where "first_id = ''01010101-0101-4101-8101-010101010101''"
definition second_id :: string where "second_id = ''02020202-0202-4202-8202-020202020202''"

definition sample_record :: "string \<Rightarrow> string \<Rightarrow> string \<Rightarrow> time \<Rightarrow> ProjectRecord" where
  "sample_record i a base now =
     \<lparr>pc_id = i, pc_alias = a, pc_basename = base, pc_path = ''/r/'' @ base, pc_created = now, pc_updated = now\<rparr>"

definition sample_row :: "string \<Rightarrow> string \<Rightarrow> string \<Rightarrow> time \<Rightarrow> project_row" where
  "sample_row i a base now = project_row_of (sample_record i a base now) (''!/r/'' @ base)"

lemma sample_first_eq:
  "sample_first = (Inr (projectIdentity (sample_record first_id ''a'' ''a'' 5)), [sample_row first_id ''a'' ''a'' 5])"
  by code_simp

lemma sample_second_eq:
  "sample_second = (Inr (projectIdentity (sample_record second_id ''B'' ''b'' 6)),
     [sample_row first_id ''a'' ''a'' 5, sample_row second_id ''B'' ''b'' 6])"
  by code_simp

lemma sample_again_eq:
  "sample_again = (Inr (projectIdentity (sample_record first_id ''a'' ''a'' 5)), [sample_row first_id ''a'' ''a'' 5])"
  by code_simp

lemma sample_calls:
  "ResolveProject (secured_projects sample_sealing (sample_env 5)) sample_paths 5 (sample_random 1) ''a'' [] [] =
    (fst sample_first, snd sample_first)"
  "ResolveProject (secured_projects sample_sealing (sample_env 6)) sample_paths 6 (sample_random 2) ''b'' ''B''
    (snd sample_first) = (fst sample_second, snd sample_second)"
  "ResolveProject (secured_projects sample_sealing (sample_env 7)) sample_paths 7 (sample_random 3) ''a'' ''C''
    (snd sample_first) = (fst sample_again, snd sample_again)"
  by (simp_all only: secured_projects_def secured_sample sample_first_def [symmetric] sample_second_def [symmetric]
      sample_again_def [symmetric] prod.collapse)

lemma projects_reached:
  "project_reachable (secured_projects sample_sealing) no_projects (=) (snd sample_first)"
  "project_reachable (secured_projects sample_sealing) no_projects (=) (snd sample_second)"
proof -
  have z: "project_reachable (secured_projects sample_sealing) no_projects (=) []"
    by (rule project_reachable.start) (simp add: no_projects_def)
  have p: "pa_same (call_paths (CallResolve sample_paths t rnd path a)) = (=)" for t rnd path a
    by (simp add: sample_paths_def)
  show f: "project_reachable (secured_projects sample_sealing) no_projects (=) (snd sample_first)"
  proof (rule project_reachable.call [where pr = "secured_projects sample_sealing", OF z p])
    show "perform_project (secured_projects sample_sealing (sample_env 5))
        (CallResolve sample_paths 5 (sample_random 1) ''a'' []) [] = (fst sample_first, snd sample_first)"
      by (simp only: perform_project.simps sample_calls)
  qed
  show "project_reachable (secured_projects sample_sealing) no_projects (=) (snd sample_second)"
  proof (rule project_reachable.call [where pr = "secured_projects sample_sealing", OF f p])
    show "perform_project (secured_projects sample_sealing (sample_env 6))
        (CallResolve sample_paths 6 (sample_random 2) ''b'' ''B'') (snd sample_first) = (fst sample_second, snd sample_second)"
      by (simp only: perform_project.simps sample_calls)
  qed
qed

lemma sample_views:
  "project_view sample_sealing (snd sample_second) first_id = Some (sample_record first_id ''a'' ''a'' 5)"
  "project_view sample_sealing (snd sample_second) second_id = Some (sample_record second_id ''B'' ''b'' 6)"
  by (simp_all add: sample_second_eq project_view_def project_table.lookup_def sample_row_def sample_record_def
      project_row_of_def record_of_row_def decryptField_def sample_vault_def first_id_def second_id_def)

theorem project_locations_stay_apart_witness:
  "pc_path (sample_record first_id ''a'' ''a'' 5) \<noteq> pc_path (sample_record second_id ''B'' ''b'' 6)"
  by (rule project_locations_stay_apart [OF projects_reached(2) _ sample_views]) (simp_all add: first_id_def second_id_def)

theorem resolving_again_finds_the_project_witness:
  "py_id (projectIdentity (sample_record first_id ''a'' ''a'' 5)) = first_id"
proof -
  have r: "project_reachable (secured_projects sample_sealing) no_projects (pa_same sample_paths) []"
    by (rule project_reachable.start) (simp add: no_projects_def)
  note c = sample_calls(1,3) [unfolded sample_first_eq sample_again_eq fst_conv snd_conv]
  have "py_id (projectIdentity (sample_record first_id ''a'' ''a'' 5)) =
      py_id (projectIdentity (sample_record first_id ''a'' ''a'' 5))"
    by (rule resolving_again_finds_the_project [OF r _ c]) (simp_all add: sample_paths_def identity_equivp)
  then show ?thesis by (simp add: projectIdentity_def sample_record_def)
qed

end
