(* ===== verification/Continuation_Store.thy ===== *)
theory Continuation_Store
  imports Continuation_Contract Project_Properties
begin

text \<open>
  The repository and the projects of the running program: the checkpoint rows of the store, the retention columns of
  its settings row (\<^verbatim>\<open>internal/store/retention.go\<close>), and the project service. It keeps the contract of the
  continuation service.
\<close>

section \<open>State and collaborators\<close>

record retention_row =
  rt_repository_mode :: string
  rt_repository_days :: "int option"
  rt_transcript_mode :: string
  rt_transcript_days :: "int option"

record 'w continuation_state =
  kt_db :: db
  kt_projects :: "project_row list"
  kt_settings :: "retention_row option"
  kt_world :: 'w

record 'w continuation_env =
  kv_env :: env
  kv_paths :: project_paths
  kv_random :: "nat \<Rightarrow> string option"
  kv_home :: string
  kv_inspect :: "string \<Rightarrow> 'w \<Rightarrow> (err + RepositoryInventory) \<times> 'w"

section \<open>Checkpoint rows\<close>

text \<open>What \<open>json.Unmarshal\<close> reads from the \<open>revision\<close> member of a text.\<close>

definition json_revision :: "string \<Rightarrow> string option" where
  "json_revision m =
     (case parse_json m of None \<Rightarrow> None | Some j \<Rightarrow> dec_struct [(''revision'', dec_string)] j [])"

text \<open>The column admits the five statuses only; any other text fails as the statement does.\<close>

definition stored_checkpoint :: "CheckpointRecord \<Rightarrow> checkpoint" where
  "stored_checkpoint r =
     \<lparr>ck_id = kr_id r, ck_project = kr_project r,
      ck_status = (case status_of (kr_status r) of None \<Rightarrow> StatusDraft | Some st \<Rightarrow> st), ck_goal = kr_goal r,
      ck_completed = kr_completed r, ck_pending = kr_pending r, ck_validation = kr_validation r, ck_risks = kr_risks r,
      ck_next = kr_next r, ck_metadata = Some (kr_metadata r), ck_created = kr_created r, ck_expires = kr_expires r\<rparr>"

definition status_check :: "CheckpointRecord \<Rightarrow> env \<Rightarrow> env" where
  "status_check r e = (if status_of (kr_status r) = None then e\<lparr>db_fails := (db_fails e)(Exec 1 := True)\<rparr> else e)"

text \<open>An expected text that is no status differs from the status of every row.\<close>

definition other_status :: "checkpoint_status \<Rightarrow> checkpoint_status" where
  "other_status st = (if st = StatusDraft then StatusApproved else StatusDraft)"

definition expected_status :: "CheckpointRecord \<Rightarrow> db \<Rightarrow> checkpoint_status option" where
  "expected_status r d =
     (if kr_expected_status r = [] then None
      else case status_of (kr_expected_status r) of
        Some st \<Rightarrow> Some st
      | None \<Rightarrow>
          Some (case checkpoint_table.lookup (kr_id r) (checkpoints d) of
                  None \<Rightarrow> StatusDraft | Some row \<Rightarrow> other_status (cp_status row)))"

definition save_record_row :: "env \<Rightarrow> CheckpointRecord \<Rightarrow> db \<Rightarrow> (err + unit) \<times> db" where
  "save_record_row e r d =
     SaveCheckpoint (status_check r e) (stored_checkpoint r) (kr_metadata r) (expected_status r d) (kr_expected_revision r) d"

definition loaded_record :: "checkpoint \<Rightarrow> CheckpointRecord" where
  "loaded_record c =
     \<lparr>kr_id = ck_id c, kr_project = ck_project c, kr_status = status_text (ck_status c),
      kr_metadata = (case ck_metadata c of None \<Rightarrow> [] | Some m \<Rightarrow> m), kr_expected_status = [], kr_expected_revision = [],
      kr_goal = ck_goal c, kr_completed = ck_completed c, kr_pending = ck_pending c, kr_validation = ck_validation c,
      kr_risks = ck_risks c, kr_next = ck_next c, kr_created = ck_created c, kr_expires = ck_expires c\<rparr>"

definition load_record :: "env \<Rightarrow> string \<Rightarrow> db \<Rightarrow> err + CheckpointRecord" where
  "load_record e i d = (case LoadCheckpoint e i d of Inl x \<Rightarrow> Inl x | Inr c \<Rightarrow> Inr (loaded_record c))"

definition checkpoint_before :: "checkpoint_row \<Rightarrow> checkpoint_row \<Rightarrow> bool" where
  "checkpoint_before a b \<longleftrightarrow>
     stored_less (cp_created b) (cp_created a) \<or> cp_created a = cp_created b \<and> string_less (cp_id a) (cp_id b)"

fun load_all :: "(string \<Rightarrow> err + CheckpointRecord) \<Rightarrow> string list \<Rightarrow> err + CheckpointRecord list" where
  "load_all load [] = Inr []"
| "load_all load (i # is) =
     (case load i of
        Inl x \<Rightarrow> Inl x
      | Inr r \<Rightarrow> (case load_all load is of Inl x \<Rightarrow> Inl x | Inr rs \<Rightarrow> Inr (r # rs)))"

text \<open>The first query fails as any; a failing read of a record is that of its own query.\<close>

definition ListCheckpoints :: "env \<Rightarrow> env \<Rightarrow> db \<Rightarrow> err + CheckpointRecord list" where
  "ListCheckpoints e e' d =
     (if db_fails e (Query 1) then Inl (coded StoreReadFailed (Some (plain Opaque)))
      else load_all (\<lambda>i. load_record e' i d) (map cp_id (sort_by checkpoint_before (checkpoints d))))"

section \<open>Retention\<close>

definition checkpointRetentionSetting :: "string \<Rightarrow> int option \<Rightarrow> string" where
  "checkpointRetentionSetting mode days =
     (if mode = ''unlimited'' then ''unlimited'' else show_int (case days of None \<Rightarrow> 0 | Some n \<Rightarrow> n))"

definition policy_of :: "retention_row \<Rightarrow> RetentionPolicy" where
  "policy_of r =
     \<lparr>rp_repository = checkpointRetentionSetting (rt_repository_mode r) (rt_repository_days r),
      rp_transcript = checkpointRetentionSetting (rt_transcript_mode r) (rt_transcript_days r)\<rparr>"

definition CheckpointRetention :: "env \<Rightarrow> retention_row option \<Rightarrow> err + RetentionPolicy" where
  "CheckpointRetention e row =
     (if db_fails e (Query 1) then Inl (coded StoreReadFailed (Some (plain Opaque)))
      else case row of
        None \<Rightarrow> Inr \<lparr>rp_repository = DefaultRepositoryRetention, rp_transcript = DefaultTranscriptRetention\<rparr>
      | Some r \<Rightarrow> Inr (policy_of r))"

text \<open>The columns of an inserted row that are not given take their defaults.\<close>

definition default_row :: retention_row where
  "default_row =
     \<lparr>rt_repository_mode = ''days'', rt_repository_days = Some 30, rt_transcript_mode = ''days'', rt_transcript_days = Some 7\<rparr>"

definition SetCheckpointRetention ::
  "env \<Rightarrow> string \<Rightarrow> string \<Rightarrow> retention_row option \<Rightarrow> (err + RetentionPolicy) \<times> retention_row option" where
  "SetCheckpointRetention e source setting row =
     (let invalid = New ContinuationCheckpointInvalid (plain ErrCheckpointInvalid) in
      case ParseRetention setting of
        Inl x \<Rightarrow> (Inl invalid, row)
      | Inr days \<Rightarrow>
          if source \<noteq> SourceRepositoryFirst \<and> source \<noteq> SourceTranscriptAssisted then (Inl invalid, row)
          else
            let mode = (if days = None then ''unlimited'' else ''days'');
                r = (case row of None \<Rightarrow> default_row | Some r \<Rightarrow> r);
                r' = (if source = SourceTranscriptAssisted then r\<lparr>rt_transcript_mode := mode, rt_transcript_days := days\<rparr>
                      else r\<lparr>rt_repository_mode := mode, rt_repository_days := days\<rparr>)
            in if db_fails e (Exec 1) then (Inl (coded StoreWriteFailed (Some (plain Opaque))), row)
               else if db_fails e (Query 1) then (Inl (coded StoreReadFailed (Some (plain Opaque))), Some r')
               else (Inr (policy_of r'), Some r'))"

section \<open>The service\<close>

definition on_db :: "(db \<Rightarrow> 'a \<times> db) \<Rightarrow> 'w continuation_state \<Rightarrow> 'a \<times> 'w continuation_state" where
  "on_db f s = (let (a, d) = f (kt_db s) in (a, s\<lparr>kt_db := d\<rparr>))"

definition project_of :: "ProjectIdentity \<Rightarrow> Project" where
  "project_of p = \<lparr>pj_id = py_id p, pj_alias = py_alias p, pj_basename = py_basename p\<rparr>"

text \<open>The service in the environment \<open>ke\<close>, whose calls on the store have the collaborators \<open>e\<close>.\<close>

definition continuation_on ::
  "env \<Rightarrow> (string \<Rightarrow> string) \<Rightarrow> 'w continuation_env \<Rightarrow> 'w continuation_state continuation_service" where
  "continuation_on e sha ke =
     \<lparr>ks_save = (\<lambda>r. on_db (save_record_row e r)),
      ks_load = (\<lambda>i s. (load_record e i (kt_db s), s)),
      ks_list = (\<lambda>s. (ListCheckpoints e e (kt_db s), s)),
      ks_purge = (\<lambda>i revision. on_db (PurgeCheckpoint e i revision)),
      ks_source = (\<lambda>p s. (LatestSourceLaunch e p (kt_db s), s)),
      ks_identity_home = (\<lambda>p s. (SourceIdentityHome e p (kt_db s), s)),
      ks_retention = (\<lambda>s. (CheckpointRetention e (kt_settings s), s)),
      ks_set_retention = (\<lambda>source setting s.
        let (a, row) = SetCheckpointRetention e source setting (kt_settings s) in (a, s\<lparr>kt_settings := row\<rparr>)),
      ks_resolve = (\<lambda>path alias s.
        let (a, rows) =
          ResolveProject (stored_projects e) (kv_paths ke) (clock_now e) (kv_random ke) path alias (kt_projects s)
        in (map_sum id project_of a, s\<lparr>kt_projects := rows\<rparr>)),
      ks_location = (\<lambda>i s. (CanonicalLocation (stored_projects e) i (kt_projects s), s)),
      ks_inspect = (\<lambda>path s. let (a, w) = kv_inspect ke path (kt_world s) in (a, s\<lparr>kt_world := w\<rparr>)),
      ks_home = kv_home ke, ks_sha256 = sha\<rparr>"

definition store_continuation ::
  "sealing_vault \<Rightarrow> (string \<Rightarrow> string) \<Rightarrow> 'w continuation_env \<Rightarrow> 'w continuation_state continuation_service" where
  "store_continuation v sha ke = continuation_on (secured v (kv_env ke)\<lparr>metadata_revision := json_revision\<rparr>) sha ke"

section \<open>What the rows say\<close>

definition row_record :: "vault_ops \<Rightarrow> checkpoint_row \<Rightarrow> CheckpointRecord option" where
  "row_record v r =
     (case decrypt_fields v (cp_id r) (zip (cp_fields r @ [cp_metadata r]) checkpoint_fields) of
        Inl x \<Rightarrow> None
      | Inr ps \<Rightarrow>
          Some \<lparr>kr_id = cp_id r, kr_project = (case cp_project r of None \<Rightarrow> [] | Some p \<Rightarrow> p),
            kr_status = status_text (cp_status r), kr_metadata = (case ps ! 6 of None \<Rightarrow> [] | Some m \<Rightarrow> m),
            kr_expected_status = [], kr_expected_revision = [], kr_goal = ps ! 0, kr_completed = ps ! 1, kr_pending = ps ! 2,
            kr_validation = ps ! 3, kr_risks = ps ! 4, kr_next = ps ! 5, kr_created = cp_created r,
            kr_expires = cp_expires r\<rparr>)"

definition checkpoint_view :: "sealing_vault \<Rightarrow> 'w continuation_state \<Rightarrow> string \<Rightarrow> CheckpointRecord option" where
  "checkpoint_view v s i =
     (case checkpoint_table.lookup i (checkpoints (kt_db s)) of None \<Rightarrow> None | Some r \<Rightarrow> row_record (vault_of v) r)"

lemma checkpoint_view_cong [simp]:
  "checkpoint_view v (s\<lparr>kt_settings := x\<rparr>) = checkpoint_view v s"
  "checkpoint_view v (s\<lparr>kt_projects := y\<rparr>) = checkpoint_view v s"
  "checkpoint_view v (s\<lparr>kt_world := z\<rparr>) = checkpoint_view v s"
  by (rule ext, simp add: checkpoint_view_def)+

lemma status_of_Some: "status_of t = Some st \<Longrightarrow> status_text st = t"
  unfolding status_of_def by (drule find_SomeD) simp

lemma GetCheckpoint_ok:
  assumes "GetCheckpoint e i d = Some (Inr c)"
  obtains v r ps where "vault e = Some v" "checkpoint_table.lookup i (checkpoints d) = Some r"
    "decrypt_fields v (cp_id r) (zip (cp_fields r @ [cp_metadata r]) checkpoint_fields) = Inr ps"
    "c = \<lparr>ck_id = cp_id r, ck_project = (case cp_project r of None \<Rightarrow> [] | Some p \<Rightarrow> p), ck_status = cp_status r,
      ck_goal = ps ! 0, ck_completed = ps ! 1, ck_pending = ps ! 2, ck_validation = ps ! 3, ck_risks = ps ! 4,
      ck_next = ps ! 5, ck_metadata = ps ! 6, ck_created = cp_created r, ck_expires = cp_expires r\<rparr>"
  using assms by (auto simp: GetCheckpoint_def split: sum.splits option.splits if_splits)

lemma load_record_ok:
  assumes "load_record e i d = Inr r"
  obtains v row where "vault e = Some v" "checkpoint_table.lookup i (checkpoints d) = Some row" "row_record v row = Some r"
proof -
  obtain c where c: "GetCheckpoint e i d = Some (Inr c)"
      "r = loaded_record (c\<lparr>ck_metadata := Some (case ck_metadata c of None \<Rightarrow> [] | Some m \<Rightarrow> m)\<rparr>)"
    using assms by (auto simp: load_record_def LoadCheckpoint_def split: sum.splits option.splits)
  then show thesis
    by (elim GetCheckpoint_ok) (rule that, auto simp: row_record_def loaded_record_def)
qed

lemma saved_row:
  assumes "vault_inverse v" "encrypt_fields v (ck_id c) (zip (sensitive_values c) checkpoint_fields) = Inr cs"
    "ck_metadata c = Some m"
  shows "row_record v (checkpoint_row_of c cs) = Some (loaded_record c)"
proof -
  have l: "length cs = 7"
    using encrypt_fields_length [OF assms(2)] by (simp add: sensitive_values_def checkpoint_fields_def)
  then have s: "take 6 cs @ [cs ! 6] = cs" using take_Suc_conv_app_nth [of 6 cs] by simp
  have "decrypt_fields v (ck_id c) (zip cs checkpoint_fields) = Inr (sensitive_values c)"
    by (rule decrypt_encrypt_fields [OF assms(1,2)]) (simp add: sensitive_values_def checkpoint_fields_def)
  then show ?thesis
    using s by (simp add: row_record_def checkpoint_row_of_def loaded_record_def sensitive_values_def nullableString_def)
qed

lemma loaded_stored:
  assumes "status_of (kr_status r) \<noteq> None"
  shows "loaded_record (stored_checkpoint r) = kept r"
  using assms status_of_Some by (auto simp: loaded_record_def stored_checkpoint_def kept_def)

lemma upsert_checkpoint_lookup:
  "checkpoint_table.lookup i (upsert_checkpoint r rows) = (if i = cp_id r then Some r else checkpoint_table.lookup i rows)"
proof (cases "i = cp_id r")
  case False
  have "find (\<lambda>s. cp_id s = i) (upd_where (\<lambda>s. cp_id s = cp_id r) (\<lambda>s. r) rows) = find (\<lambda>s. cp_id s = i) rows"
    using False by (induction rows) auto
  then show ?thesis using False
    by (auto simp: upsert_checkpoint_def checkpoint_table.lookup_def find_append split: option.splits)
qed simp

lemma save_record_row_ok:
  assumes "save_record_row e r d = (Inr u, d')"
  obtains v cs where "vault e = Some v" "status_of (kr_status r) \<noteq> None"
    "encrypt_fields v (kr_id r) (zip (sensitive_values (stored_checkpoint r)) checkpoint_fields) = Inr cs"
    "d' = d\<lparr>checkpoints := upsert_checkpoint (checkpoint_row_of (stored_checkpoint r) cs) (checkpoints d)\<rparr>"
proof -
  have m: "stored_checkpoint r\<lparr>ck_metadata := Some (kr_metadata r)\<rparr> = stored_checkpoint r"
    by (simp add: stored_checkpoint_def)
  have p: "putCheckpoint (status_check r e) (stored_checkpoint r) (expected_status r d) (kr_expected_revision r) d = (Inr u, d')"
    using assms by (simp add: save_record_row_def SaveCheckpoint_def m)
  have "status_of (kr_status r) \<noteq> None"
  proof
    assume "status_of (kr_status r) = None"
    then have "db_fails (status_check r e) (Exec 1)" by (simp add: status_check_def)
    then show False using p by (auto simp: putCheckpoint_def put_body_def transact_Inr split: sum.splits option.splits if_splits)
  qed
  then have known: "\<exists>st. status_of (kr_status r) = Some st" by simp
  have v: "vault (status_check r e) = vault e" by (simp add: status_check_def)
  have i: "ck_id (stored_checkpoint r) = kr_id r" by (simp add: stored_checkpoint_def)
  from p show thesis
  proof (rule putCheckpoint_ok)
    fix w cs
    assume "vault (status_check r e) = Some w"
      "encrypt_fields w (ck_id (stored_checkpoint r)) (zip (sensitive_values (stored_checkpoint r)) checkpoint_fields) = Inr cs"
      "d' = d\<lparr>checkpoints := upsert_checkpoint (checkpoint_row_of (stored_checkpoint r) cs) (checkpoints d)\<rparr>"
    then show thesis using that [of w cs] known v i by simp
  qed
qed

lemma save_record_row_fails: "save_record_row e r d = (Inl x, d') \<Longrightarrow> d' = d"
  by (simp add: save_record_row_def SaveCheckpoint_def putCheckpoint_error)

lemma on_db_eq: "on_db f s = (a, s') \<longleftrightarrow> (\<exists>d. f (kt_db s) = (a, d) \<and> s' = s\<lparr>kt_db := d\<rparr>)"
  by (auto simp: on_db_def split: prod.splits)

lemma purge_view:
  assumes "PurgeCheckpoint e i revision d = (res, d')"
  shows "checkpoint_table.lookup j (checkpoints d') \<in> {None, checkpoint_table.lookup j (checkpoints d)}"
proof (cases res)
  case (Inl x)
  then show ?thesis using assms PurgeCheckpoint_error [of e i revision d x d'] by simp
next
  case (Inr u)
  have "find (\<lambda>r. cp_id r = j) (del_where (\<lambda>r. cp_id r = i) rows) = (if j = i then None else find (\<lambda>r. cp_id r = j) rows)"
    for rows :: "checkpoint_row list" by (induction rows) (auto simp: del_where_def)
  then show ?thesis using PurgeCheckpoint_ok(1) [of e i revision d u d'] assms Inr
    by (simp add: checkpoint_table.lookup_def)
qed

section \<open>The contract\<close>

lemma secured_metadata [simp]: "vault (e\<lparr>metadata_revision := f\<rparr>) = vault e"
  by simp

lemma store_save:
  assumes "ks_save (store_continuation v sha ke) r s = (Inr u, s')"
  shows "checkpoint_view v s' = (checkpoint_view v s)(kr_id r \<mapsto> kept r)"
proof -
  let ?e = "secured v (kv_env ke)\<lparr>metadata_revision := json_revision\<rparr>"
  obtain d where d: "save_record_row ?e r (kt_db s) = (Inr u, d)" "s' = s\<lparr>kt_db := d\<rparr>"
    using assms by (auto simp: store_continuation_def continuation_on_def Let_def on_db_eq)
  obtain u cs where c: "vault ?e = Some u" "status_of (kr_status r) \<noteq> None"
      "encrypt_fields u (kr_id r) (zip (sensitive_values (stored_checkpoint r)) checkpoint_fields) = Inr cs"
      "d = kt_db s\<lparr>checkpoints := upsert_checkpoint (checkpoint_row_of (stored_checkpoint r) cs) (checkpoints (kt_db s))\<rparr>"
    using save_record_row_ok [OF d(1)] by metis
  have u: "u = vault_of v" using c(1) by simp
  have i: "ck_id (stored_checkpoint r) = kr_id r" "cp_id (checkpoint_row_of (stored_checkpoint r) cs) = kr_id r"
    by (simp_all add: stored_checkpoint_def checkpoint_row_of_def)
  have "row_record (vault_of v) (checkpoint_row_of (stored_checkpoint r) cs) = Some (kept r)"
    using saved_row [of "vault_of v" "stored_checkpoint r" cs "kr_metadata r"] c(2,3) u i loaded_stored [of r]
    by (simp add: stored_checkpoint_def)
  then show ?thesis
    using d(2) c(4) i(2) by (auto simp: checkpoint_view_def upsert_checkpoint_lookup)
qed

lemma store_save_fails:
  "ks_save (store_continuation v sha ke) r s = (Inl x, s') \<Longrightarrow> checkpoint_view v s' = checkpoint_view v s"
  by (auto simp: store_continuation_def continuation_on_def Let_def on_db_eq dest!: save_record_row_fails)

lemma store_load:
  assumes "ks_load (store_continuation v sha ke) i s = (Inr r, s')"
  shows "checkpoint_view v s i = Some r"
proof -
  have "load_record (secured v (kv_env ke)\<lparr>metadata_revision := json_revision\<rparr>) i (kt_db s) = Inr r"
    using assms by (auto simp: store_continuation_def continuation_on_def Let_def)
  then show ?thesis by (rule load_record_ok) (simp add: checkpoint_view_def)
qed

lemma store_purge:
  "checkpoint_view v (snd (ks_purge (store_continuation v sha ke) i revision s)) j \<in> {None, checkpoint_view v s j}"
proof -
  let ?e = "secured v (kv_env ke)\<lparr>metadata_revision := json_revision\<rparr>"
  obtain res d where p: "PurgeCheckpoint ?e i revision (kt_db s) = (res, d)" by (metis surj_pair)
  have "checkpoint_table.lookup j (checkpoints d) \<in> {None, checkpoint_table.lookup j (checkpoints (kt_db s))}"
    by (rule purge_view [OF p])
  then show ?thesis using p by (auto simp: store_continuation_def continuation_on_def Let_def on_db_def checkpoint_view_def)
qed

interpretation stored_checkpoints: checkpoint_repository "store_continuation v sha" "checkpoint_view v" sha for v sha
proof unfold_locales
  fix e r s s' and u :: unit
  assume "ks_save (store_continuation v sha e) r s = (Inr u, s')"
  then show "checkpoint_view v s' = (checkpoint_view v s)(kr_id r \<mapsto> kept r)" by (rule store_save)
next
  fix e r s x s'
  assume "ks_save (store_continuation v sha e) r s = (Inl x, s')"
  then show "checkpoint_view v s' = checkpoint_view v s" by (rule store_save_fails)
next
  fix e i s r s'
  assume "ks_load (store_continuation v sha e) i s = (Inr r, s')"
  then show "checkpoint_view v s i = Some r" by (rule store_load)
next
  fix e i revision s j
  show "checkpoint_view v (snd (ks_purge (store_continuation v sha e) i revision s)) j \<in> {None, checkpoint_view v s j}"
    by (rule store_purge)
qed (simp_all add: store_continuation_def continuation_on_def Let_def checkpoint_view_def split: prod.split)

end
