(* ===== verification/Home_Redaction.thy ===== *)
theory Home_Redaction
  imports Continuation_Service "HOL-Library.Sublist"
begin

text \<open>
  What redaction takes out of a text stays out: a mark starts with a bracket, which is in no home directory considered,
  so a replacement can neither leave an occurrence nor put one together.
\<close>

section \<open>Replacing by a mark\<close>

text \<open>A home directory as Unix has it, and a mark beside which it cannot come up again.\<close>

definition unix_home :: "string \<Rightarrow> bool" where
  "unix_home home \<longleftrightarrow> home \<noteq> [] \<and> hd home = CHR ''/'' \<and> CHR ''['' \<notin> set home \<and> \<not> isWindowsPath home"

definition is_mark :: "string \<Rightarrow> bool" where
  "is_mark m \<longleftrightarrow> m \<noteq> [] \<and> hd m = CHR ''['' \<and> CHR ''/'' \<notin> set m"

lemma marks [simp]: "is_mark HomeMark" "is_mark RedactedValue"
  by (simp_all add: is_mark_def HomeMark_def RedactedValue_def)

lemma prefix_of_replaced:
  assumes "is_mark mark" "CHR ''['' \<notin> set q" "prefix q (replace_by same old mark s)"
  shows "prefix q s"
  using assms(2,3)
proof (induction s arbitrary: q)
  case (Cons c s)
  show ?case
  proof (cases "old \<noteq> [] \<and> length old \<le> length (c # s) \<and> same (take (length old) (c # s)) old")
    case True
    then have p: "prefix q (mark @ replace_by same old mark (drop (length old) (c # s)))" using Cons.prems(2) by simp
    obtain rest where "mark = CHR ''['' # rest" using assms(1) by (cases mark) (auto simp: is_mark_def)
    then have "q = []" using p Cons.prems(1) by (cases q) auto
    then show ?thesis by simp
  next
    case False
    then have "replace_by same old mark (c # s) = c # replace_by same old mark s" by auto
    then show ?thesis using Cons by (cases q) auto
  qed
qed simp

lemma sublist_skip:
  assumes "h \<noteq> []" "hd h \<notin> set m" "sublist h (m @ r)"
  shows "sublist h r"
  using assms(2,3)
proof (induction m)
  case (Cons x m)
  then have "\<not> prefix h (x # m @ r)" using assms(1) by (cases h) auto
  then show ?case using Cons by (simp add: sublist_Cons_right)
qed simp

lemma replace_cases:
  obtains (empty) "s = []" "replace_by same old new s = []"
  | (match) "s \<noteq> []" "old \<noteq> []" "length old \<le> length s" "same (take (length old) s) old"
      "replace_by same old new s = new @ replace_by same old new (drop (length old) s)"
  | (keep) c r where "s = c # r" "\<not> (old \<noteq> [] \<and> length old \<le> length s \<and> same (take (length old) s) old)"
      "replace_by same old new s = c # replace_by same old new r"
proof (cases s)
  case Nil
  then show thesis using empty by simp
next
  case (Cons c r)
  show thesis
  proof (cases "old \<noteq> [] \<and> length old \<le> length s \<and> same (take (length old) s) old")
    case True
    then have "replace_by same old new s = new @ replace_by same old new (drop (length old) s)" using Cons by simp
    then show thesis using match True Cons by blast
  next
    case False
    then have "replace_by same old new s = c # replace_by same old new r" using Cons by auto
    then show thesis using keep [OF Cons False] by blast
  qed
qed

lemma sublist_drop: "sublist h (drop n s) \<Longrightarrow> sublist h s"
  by (metis append_take_drop_id sublist_append)

lemma sublist_of_replaced:
  assumes "is_mark mark" "unix_home h"
  shows "sublist h (replace_by same old mark s) \<Longrightarrow> sublist h s"
proof (induction s rule: length_induct)
  case (1 s)
  have h: "h \<noteq> []" "hd h \<notin> set mark" "CHR ''['' \<notin> set h"
    using assms by (auto simp: unix_home_def is_mark_def)
  show ?case
  proof (rule replace_cases [of s same old mark])
    assume "s = []" "replace_by same old mark s = []"
    then show ?thesis using 1(2) by simp
  next
    assume m: "s \<noteq> []" "old \<noteq> []" "replace_by same old mark s = mark @ replace_by same old mark (drop (length old) s)"
    then have "sublist h (replace_by same old mark (drop (length old) s))" using sublist_skip [OF h(1,2)] 1(2) by simp
    moreover have "length (drop (length old) s) < length s" using m(1,2) by simp
    ultimately show ?thesis using 1(1) sublist_drop by metis
  next
    fix c r
    assume k: "s = c # r" "replace_by same old mark s = c # replace_by same old mark r"
    then consider "prefix h (replace_by same old mark s)" | "sublist h (replace_by same old mark r)"
      using 1(2) by (auto simp: sublist_Cons_right)
    then show ?thesis
    proof cases
      case 1
      then show ?thesis using prefix_of_replaced [OF assms(1) h(3)] by blast
    next
      case 2
      then show ?thesis using 1(1) k(1) by (auto simp: sublist_Cons_right)
    qed
  qed
qed

lemma replaced_is_gone:
  assumes "is_mark mark" "unix_home h"
  shows "\<not> sublist h (replace_by (=) h mark s)"
proof (induction s rule: length_induct)
  case (1 s)
  have h: "h \<noteq> []" "hd h \<notin> set mark" "CHR ''['' \<notin> set h"
    using assms by (auto simp: unix_home_def is_mark_def)
  show ?case
  proof (rule replace_cases [of s "(=)" h mark])
    assume "s = []" "replace_by (=) h mark s = []"
    then show ?thesis using h(1) by simp
  next
    assume m: "s \<noteq> []" "replace_by (=) h mark s = mark @ replace_by (=) h mark (drop (length h) s)"
    have "length (drop (length h) s) < length s" using m(1) h(1) by simp
    then show ?thesis using 1 m(2) sublist_skip [OF h(1,2)] by metis
  next
    fix c r
    assume k: "s = c # r" "\<not> (h \<noteq> [] \<and> length h \<le> length s \<and> take (length h) s = h)"
      "replace_by (=) h mark s = c # replace_by (=) h mark r"
    have "\<not> prefix h s" using k(2) h(1) by (auto simp: prefix_def)
    then have "\<not> prefix h (replace_by (=) h mark s)" using prefix_of_replaced [OF assms(1) h(3)] by blast
    moreover have "\<not> sublist h (replace_by (=) h mark r)" using 1 k(1) by simp
    ultimately show ?thesis using k(3) by (simp add: sublist_Cons_right)
  qed
qed

section \<open>Sanitized texts\<close>

lemma sanitize_removes_home:
  assumes "unix_home home"
  shows "\<not> sublist home (sanitizeText v home redactions)"
proof -
  have fold: "\<not> sublist home t \<Longrightarrow> \<not> sublist home (foldl (\<lambda>v r. replace_by same r mark v) t rs)"
    if "is_mark mark" for mark t rs same
    by (induction rs arbitrary: t) (use sublist_of_replaced [OF that assms] in auto)
  have "home \<noteq> []" "\<not> isWindowsPath home" using assms by (simp_all add: unix_home_def)
  then have "\<not> sublist home (redact_home home v)"
    using fold [OF marks(1) replaced_is_gone [OF marks(1) assms], of "(=)" v
        "[ReplaceAll home [CHR 0x5C] ''/'', ReplaceAll home ''/'' [CHR 0x5C]]"]
    by (simp add: redact_home_def)
  then show ?thesis unfolding sanitizeText_def ReplaceAll_def by (rule fold [OF marks(2)])
qed

text \<open>The free texts a person or a repository gave a checkpoint: the five texts of the fields, the branch, the
  project's alias and basename, the commands and sources of the validation and the configured commands.\<close>

definition captured_texts :: "Checkpoint \<Rightarrow> string list" where
  "captured_texts c =
     (let f = cc_fields c in
      [fe_value (cf_goal f), fe_value (cf_completed f), fe_value (cf_pending f), fe_value (cf_risks f), fe_value (cf_next f),
       fe_value (rs_branch (cc_repository c)), pj_alias (cc_project c), pj_basename (cc_project c)]
      @ concat (map (\<lambda>v. [va_command v, va_source v]) (fe_value (cf_validation f)))
      @ fe_value (rs_commands (cc_repository c)))"

lemma field_values [simp]: "fe_value (userField v) = v" "fe_value (observed w st) = w" "fe_value (confirmed w st) = w"
  "fe_value (unknown_evidence w) = w"
  by (simp_all add: userField_def unknown_evidence_def confirmed_def observed_def)

lemma captured_texts_size [simp]: "captured_texts (c\<lparr>cc_size := n\<rparr>) = captured_texts c"
  "captured_texts (c\<lparr>cc_revision := r\<rparr>) = captured_texts c" "captured_texts (c\<lparr>cc_status := st\<rparr>) = captured_texts c"
  by (simp_all add: captured_texts_def)

lemma branch_of: "fe_value (rs_branch (repositoryState i)) = ri_branch i"
  by (simp add: repositoryState_def)

lemma captured_without_home:
  assumes "unix_home home" "sanitize_inventory home rq i = Inr inventory" "ri_commands i = []"
    and "t \<in> set (captured_texts (captured_checkpoint home rq n
      (p\<lparr>pj_alias := sanitizeText a home (ca_redact_text rq), pj_basename := sanitizeText b home (ca_redact_text rq)\<rparr>)
      inventory setting now expires))"
  shows "\<not> sublist home t"
proof -
  have "ri_commands inventory = map (\<lambda>c. sanitizeText c home (ca_redact_text rq)) (ca_commands rq)"
    using assms(2,3) by (auto simp: sanitize_inventory_def Let_def split: sum.splits)
  then have commands: "fe_value (rs_commands (repositoryState inventory))
      = map (\<lambda>c. sanitizeText c home (ca_redact_text rq)) (ca_commands rq)"
    by (simp add: repositoryState_def userValues_def)
  have "ri_branch inventory = sanitizeText (ri_branch i) home (ca_redact_text rq)"
    using assms(2) by (auto simp: sanitize_inventory_def Let_def split: sum.splits)
  then have "\<exists>v r. t = sanitizeText v home r"
    using assms(4) commands
    by (auto simp: captured_texts_def captured_checkpoint_def captured_fields_def branch_of validationField_def
        sanitized_validation_def Let_def split: option.splits)
  then show ?thesis using sanitize_removes_home [OF assms(1)] by blast
qed

lemma finalize_texts: "finalizeCheckpoint c = Some (c', m) \<Longrightarrow> captured_texts c' = captured_texts c"
  using finalizeCheckpoint_Some [of c c' m] captured_texts_size(1) by metis

lemma prepare_texts: "prepareCheckpoint sha c = Some (c', m) \<Longrightarrow> captured_texts c' = captured_texts c"
  using finalize_texts by (fastforce simp: prepareCheckpoint_def split: if_splits)

lemma save_finalized_result: "save_finalized sv final st rn s = (Inr c, s') \<Longrightarrow> \<exists>m. final = Some (c, m)"
  by (auto simp: save_finalized_def flow_def split: option.splits if_splits sum.splits prod.splits)

text \<open>C13: Under a Unix home directory, with an inspector that reports no configured commands of its own (as that of
  \<^verbatim>\<open>adapters/git\<close>), none of these texts of a captured checkpoint contains the home directory: goal, completed and
  pending work, risks and next action, the branch, the project's alias and basename, the command and source of the
  validation and the configured commands, whatever else is redacted. The file paths, the head and the upstream
  are not covered: the code does not rewrite them by the home directory.\<close>
theorem home_stays_out_of_checkpoints:
  assumes "CaptureCheckpoint sv now random rq s = (Inr c, s')" "unix_home (ks_home sv)"
    and "\<And>path s i s'. ks_inspect sv path s = (Inr i, s') \<Longrightarrow> ri_commands i = []"
    and "t \<in> set (captured_texts c)"
  shows "\<not> sublist (ks_home sv) t"
proof -
  obtain m n p a b i inventory setting expires path s1 s2 where
    "prepareCheckpoint (ks_sha256 sv) (captured_checkpoint (ks_home sv) rq n
      (p\<lparr>pj_alias := sanitizeText a (ks_home sv) (ca_redact_text rq), pj_basename := sanitizeText b (ks_home sv) (ca_redact_text rq)\<rparr>)
      inventory setting now expires) = Some (c, m)" "sanitize_inventory (ks_home sv) rq i = Inr inventory"
    "ks_inspect sv path s1 = (Inr i, s2)"
    using assms(1)
    by (auto simp: CaptureCheckpoint_def Let_def flow_def split: if_splits sum.splits option.splits prod.splits
        dest!: save_finalized_result)
  then show ?thesis using captured_without_home [OF assms(2)] prepare_texts assms(3,4) by metis
qed

end
