(* ===== verification/Continuation_Properties.thy ===== *)
theory Continuation_Properties
  imports Continuation_Store Home_Redaction
begin

text \<open>What the continuation service guarantees on the store, and a sample life of a checkpoint for the witnesses.\<close>

lemma exited_source:
  "LatestSourceLaunch e p d = Inr (profile, SourceExited) \<Longrightarrow> unresolvedSourceLaunch d p = None
    \<and> (\<exists>l. latestExitedSourceLaunch d p = Some l \<and> ml_state l = StateExited \<and> ml_profile l = profile)"
  by (auto simp: LatestSourceLaunch_def split: if_splits option.splits)

section \<open>Sizes\<close>

text \<open>C15: Finalizing ends, and a checkpoint whose times can be written then states the length of its own text, with
  nothing else changed.\<close>
theorem finalized_checkpoint_states_its_size:
  "case finalizeCheckpoint c of
     None \<Rightarrow> \<not> times_ok c
   | Some (c', m) \<Rightarrow> times_ok c \<and> encodeCheckpoint c' = Some m \<and> c' = c\<lparr>cc_size := int (length m)\<rparr>"
  using finalizeCheckpoint_None [of c] finalizeCheckpoint_Some [of c]
  by (cases "finalizeCheckpoint c") (auto split: prod.splits)

section \<open>What is captured is shown\<close>

context checkpoint_repository
begin

lemma save_finalized_stores:
  assumes "save_finalized (sv e) final st rn s = (Inr c, s')"
  shows "\<exists>m. final = Some (c, m) \<and> cc_size c \<le> int MaxCheckpointBytes
    \<and> stored s' = (stored s)(cc_id c \<mapsto> kept (record_of c m st rn))"
proof -
  obtain m u where m: "final = Some (c, m)" "\<not> int MaxCheckpointBytes < cc_size c"
      "ks_save (sv e) (record_of c m st rn) s = (Inr u, s')"
    using assms by (auto simp: save_finalized_def flow_def split: option.splits if_splits sum.splits prod.splits)
  then show ?thesis using save [OF m(3)] by (auto simp: record_of_def Let_def)
qed

lemma captured:
  assumes "CaptureCheckpoint (sv e) now random rq s = (Inr c, s')"
  shows "\<exists>m. encodeCheckpoint c = Some m \<and> cc_retention c \<noteq> [] \<and> stored s' (cc_id c) = Some (kept (record_of c m [] []))"
proof -
  obtain h rq' n p inventory setting expires policy src s0 where
    c: "save_finalized (sv e) (prepareCheckpoint sha (captured_checkpoint h rq' n p inventory setting now expires)) [] [] s0
      = (Inr c, s')" "policy_setting policy src = Inr setting"
    using assms
    by (auto simp: CaptureCheckpoint_def Let_def flow_def hash split: if_splits sum.splits option.splits prod.splits)
  obtain m where m: "prepareCheckpoint sha (captured_checkpoint h rq' n p inventory setting now expires) = Some (c, m)"
      "stored s' = (stored s0)(cc_id c \<mapsto> kept (record_of c m [] []))"
    using save_finalized_stores [OF c(1)] by auto
  then show ?thesis using captured_good [OF m(1) c(2)] by auto
qed

lemma show_saved:
  assumes "ShowCheckpoint (sv e) now (cc_id c) s = (Inr d, s')" "stored s (cc_id c) = Some (kept (record_of c m st rn))"
    and "encodeCheckpoint c = Some m" "texts_ok c" "cc_retention c \<noteq> []" "\<not> is_expired now c"
  shows "d = c"
proof -
  obtain r s1 c0 where r: "ks_load (sv e) (cc_id c) s = (Inr r, s1)" "decodeCheckpoint (kr_metadata r) = Some c0"
      "(if is_expired now (default_retention (c0\<lparr>cc_status := kr_status r\<rparr>))
        then expire (sv e) r (default_retention (c0\<lparr>cc_status := kr_status r\<rparr>)) s1
        else (Inr (default_retention (c0\<lparr>cc_status := kr_status r\<rparr>)), s1)) = (Inr d, s')"
    using assms(1) by (auto simp: ShowCheckpoint_def Let_def flow_def split: if_splits sum.splits option.splits prod.splits)
  have "r = kept (record_of c m st rn)" using load [OF r(1)] assms(2) by simp
  then have k: "kr_metadata r = m" "kr_status r = cc_status c" by (simp_all add: kept_def record_of_def Let_def)
  have "c0 = c" using decode_encode [of c m] assms(3,4) r(2) k(1) by (simp add: texts_ok_def)
  then have "default_retention (c0\<lparr>cc_status := kr_status r\<rparr>) = c" using k(2) assms(5) by (simp add: default_retention_def)
  then show ?thesis using r(3) assms(6) by simp
qed

text \<open>What expiry leaves.\<close>

lemma expire_leaves:
  assumes "expire (sv e) r c s = (Inr d, s')" "stored s (kr_id r) = Some r" "kr_id r = cc_id c"
  shows "d = expired_checkpoint (kr_project r) c \<and> (\<exists>t. stored s' (cc_id c) = Some t \<and> kr_status t = status_text StatusExpired
    \<and> kr_metadata t = render (expired_json d) \<and> \<not> sensitive t)"
proof -
  let ?d = "expired_checkpoint (kr_project r) c"
  have d: "d = ?d" using assms(1) by (auto simp: expire_def Let_def flow_def split: if_splits sum.splits prod.splits)
  have e: "cc_status ?d = status_text StatusExpired" "cc_id ?d = cc_id c" by (simp_all add: expired_checkpoint_def)
  show ?thesis
  proof (cases "kr_status r \<noteq> status_text StatusExpired \<or> kr_metadata r \<noteq> render (expired_json ?d) \<or> sensitive r")
    case True
    then obtain u where "ks_save (sv e) (expired_record ?d (cc_status c) (cc_revision c)) s = (Inr u, s')"
      using assms(1) by (auto simp: expire_def Let_def flow_def split: if_splits sum.splits prod.splits)
    then have "stored s' (cc_id c) = Some (kept (expired_record ?d (cc_status c) (cc_revision c)))"
      using save e(2) by (simp add: expired_record_def)
    then show ?thesis using d e by (simp add: kept_def expired_record_def sensitive_def)
  next
    case False
    then have "s' = s" using assms(1) by (simp add: expire_def Let_def split: if_splits)
    then show ?thesis using False assms(2,3) d by auto
  qed
qed

lemma show_expired:
  assumes "good s" "ShowCheckpoint (sv e) now i s = (Inr d, s')" "is_expired now d \<or> cc_status d = status_text StatusExpired"
    and "cc_expires d \<noteq> None \<and> \<not> now < the (cc_expires d)"
  shows "d = expired_stub d \<and> (\<exists>t. stored s' i = Some t \<and> kr_status t = status_text StatusExpired
    \<and> kr_metadata t = render (expired_json d) \<and> \<not> sensitive t)"
proof -
  obtain r s1 c0 where r: "ks_load (sv e) i s = (Inr r, s1)" "decodeCheckpoint (kr_metadata r) = Some c0"
    and sh: "(if is_expired now (default_retention (c0\<lparr>cc_status := kr_status r\<rparr>))
        then expire (sv e) r (default_retention (c0\<lparr>cc_status := kr_status r\<rparr>)) s1
        else (Inr (default_retention (c0\<lparr>cc_status := kr_status r\<rparr>)), s1)) = (Inr d, s')"
    using assms(2) by (auto simp: ShowCheckpoint_def Let_def flow_def split: if_splits sum.splits option.splits prod.splits)
  have st: "stored s i = Some r" and s1: "stored s1 = stored s" using load [OF r(1)] load_keeps [of e i s] r(1) by simp_all
  then have g: "kr_id r = i" "faithful sha r" using assms(1) by (auto simp: all_faithful_def)
  define c where "c = default_retention (c0\<lparr>cc_status := kr_status r\<rparr>)"
  have "cc_id c0 = kr_id r" using faithful_decodes [OF g(2)] r(2) by (metis option.inject)
  then have ci: "cc_id c = i" using g(1) by (simp add: c_def default_retention_def)
  have late: "is_expired now c" 
  proof (rule ccontr)
    assume n: "\<not> is_expired now c"
    then have "d = c" using sh by (simp add: c_def)
    then show False using n assms(3,4) by (auto simp: is_expired_def split: option.splits)
  qed
  then have ex: "expire (sv e) r c s1 = (Inr d, s')" using sh by (simp add: c_def)
  have l: "stored s1 (kr_id r) = Some r" "kr_id r = cc_id c" using s1 st g(1) ci by simp_all
  show ?thesis using expire_leaves [OF ex l] ci expired_checkpoint_stub by metis
qed

text \<open>A checkpoint that is being launched is shown in full, past its deadline too.\<close>

lemma show_launching:
  assumes "good s" "ShowCheckpoint (sv e) now i s = (Inr d, s')" "cc_status d = status_text StatusLaunching"
  shows "stored s' = stored s \<and> (\<exists>r c. stored s i = Some r \<and> kr_status r = status_text StatusLaunching
    \<and> encodeCheckpoint c = Some (kr_metadata r) \<and> d = c\<lparr>cc_status := status_text StatusLaunching\<rparr>)"
proof -
  obtain r s1 c0 where r: "ks_load (sv e) i s = (Inr r, s1)" "decodeCheckpoint (kr_metadata r) = Some c0"
    and sh: "(if is_expired now (default_retention (c0\<lparr>cc_status := kr_status r\<rparr>))
        then expire (sv e) r (default_retention (c0\<lparr>cc_status := kr_status r\<rparr>)) s1
        else (Inr (default_retention (c0\<lparr>cc_status := kr_status r\<rparr>)), s1)) = (Inr d, s')"
    using assms(2) by (auto simp: ShowCheckpoint_def Let_def flow_def split: if_splits sum.splits option.splits prod.splits)
  have st: "stored s i = Some r" and s1: "stored s1 = stored s" using load [OF r(1)] load_keeps [of e i s] r(1) by simp_all
  then have g: "faithful sha r" using assms(1) by (auto simp: all_faithful_def)
  have "d \<noteq> expired_checkpoint p c" for p c using assms(3) by (auto simp: expired_checkpoint_def)
  then have d: "d = default_retention (c0\<lparr>cc_status := kr_status r\<rparr>)" "s' = s1"
    using sh by (auto simp: expire_def Let_def flow_def split: if_splits sum.splits prod.splits)
  have k: "kr_status r = status_text StatusLaunching" using d(1) assms(3) by (simp add: default_retention_def split: if_splits)
  then have "kr_status r \<noteq> status_text StatusExpired" by simp
  then have "encodeCheckpoint c0 = Some (kr_metadata r)" "cc_retention c0 \<noteq> []"
    using faithful_decodes [OF g] r(2) by (metis option.inject)+
  then show ?thesis using st s1 k d by (auto simp: default_retention_def)
qed

end

text \<open>C12: What was captured is what is shown by the next call, before it expires: a checkpoint of UTF-8 texts and 64-bit
  numbers (\<open>texts_ok\<close>) survives encoding, field encryption and decoding in every field.\<close>
theorem captured_checkpoint_is_shown:
  assumes "CaptureCheckpoint (store_continuation v sha e) now random rq s = (Inr c, s1)" "texts_ok c"
    and "ShowCheckpoint (store_continuation v sha e2) now2 (cc_id c) s1 = (Inr d, s2)" "\<not> is_expired now2 c"
  shows "d = c"
proof -
  obtain m where m: "encodeCheckpoint c = Some m" "cc_retention c \<noteq> []"
      "checkpoint_view v s1 (cc_id c) = Some (kept (record_of c m [] []))"
    using stored_checkpoints.captured [OF assms(1)] by blast
  show ?thesis by (rule stored_checkpoints.show_saved [OF assms(3) m(3,1) assms(2) m(2) assms(4)])
qed

text \<open>C14: After the deadline of a checkpoint nothing of its content is shown or kept, unless it is being launched: what is
  shown is its frame alone, and the row then holds the text of that frame and no encrypted field. A launching
  checkpoint is shown in full and left as it is, also past its deadline. The states are those reached by calls on the
  service whose results hold UTF-8 texts and 64-bit numbers, and by launches.\<close>
theorem expired_checkpoint_is_emptied:
  assumes "continuation_reachable (store_continuation v sha) (checkpoint_view v) s"
    and "ShowCheckpoint (store_continuation v sha e) now i s = (Inr d, s')"
    and "cc_expires d = Some t" "\<not> now < t"
  shows "if cc_status d = status_text StatusLaunching
    then checkpoint_view v s' = checkpoint_view v s
      \<and> (\<exists>r c. checkpoint_view v s i = Some r \<and> kr_status r = status_text StatusLaunching
           \<and> encodeCheckpoint c = Some (kr_metadata r) \<and> d = c\<lparr>cc_status := status_text StatusLaunching\<rparr>)
    else d = expired_stub d \<and> (\<exists>r. checkpoint_view v s' i = Some r \<and> kr_status r = status_text StatusExpired
      \<and> kr_metadata r = render (expired_json d) \<and> \<not> sensitive r)"
proof -
  note good = stored_checkpoints.reachable_good [OF assms(1)]
  show ?thesis
    using stored_checkpoints.show_expired [OF good assms(2)] stored_checkpoints.show_launching [OF good assms(2)] assms(3,4)
    by (simp add: is_expired_def)
qed

text \<open>C3: What is handed to the next session is what was reviewed: the stored checkpoint is approved (not a draft, not being
  launched, completed or expired), the text handed over is its text, it states the status approved and the
  revision that the caller named and that its content hashes to, its deadline has not passed, and the latest launch
  for its project exited under the other profile that is named as the source. It holds after any calls whose
  resulting checkpoints hold UTF-8 texts and 64-bit numbers (and after launches): the JSON encoder writes a replacement
  character for other bytes, such as those of a file name that git reports, and the text then no longer
  hashes to its revision.\<close>
theorem handoff_is_what_was_reviewed:
  assumes "continuation_reachable (store_continuation v sha) (checkpoint_view v) s"
    and "PrepareHandoff (store_continuation v sha e) now i revision target s = (Inr h, s')"
  shows "(\<exists>c. encodeCheckpoint c = Some (ph_context h) \<and> cc_id c = i \<and> cc_status c = status_text StatusApproved
      \<and> cc_revision c = revision \<and> revision_of sha c = revision \<and> (cc_expires c = None \<or> now < the (cc_expires c))
      \<and> pj_id (cc_project c) = ph_project h)
    \<and> (\<exists>r. checkpoint_view v s i = Some r \<and> kr_status r = status_text StatusApproved \<and> kr_metadata r = ph_context h
      \<and> kr_project r = ph_project h)
    \<and> ph_checkpoint h = i \<and> ph_revision h = revision
    \<and> unresolvedSourceLaunch (kt_db s) (ph_project h) = None
    \<and> (\<exists>l. latestExitedSourceLaunch (kt_db s) (ph_project h) = Some l \<and> ml_state l = StateExited
      \<and> ml_profile l = ph_source h \<and> ph_source h \<noteq> target)"
proof -
  obtain c r s1 where h: "encodeCheckpoint c = Some (ph_context h)" "cc_id c = i" "cc_status c = status_text StatusApproved"
    "cc_revision c = revision" "hashed sha c" "cc_expires c = None \<or> now < the (cc_expires c)"
    "ks_load (store_continuation v sha e) i s = (Inr r, s1)" "checkpoint_view v s i = Some r"
    "kr_status r = status_text StatusApproved" "kr_metadata r = ph_context h" "kr_project r = ph_project h"
    "pj_id (cc_project c) = ph_project h"
    "fst (ks_source (store_continuation v sha e) (ph_project h) s1) = Inr (ph_source h, SourceExited)" "ph_source h \<noteq> target"
    "ph_checkpoint h = i" "ph_revision h = revision"
    by (rule stored_checkpoints.handoff_reviewed [OF stored_checkpoints.reachable_good [OF assms(1)] assms(2)])
  have "s1 = s" using h(7) by (simp add: store_continuation_def continuation_on_def Let_def)
  then obtain x where "LatestSourceLaunch x (ph_project h) (kt_db s) = Inr (ph_source h, SourceExited)"
    using h(13) by (auto simp: store_continuation_def continuation_on_def Let_def)
  from exited_source [OF this] show ?thesis using h by (auto simp: hashed_def)
qed

end
