(* ===== verification/Continuation_Sample.thy ===== *)
theory Continuation_Sample
  imports Continuation_Properties
begin

text \<open>
  The life of a sample checkpoint on the store, for the witnesses: it is captured, shown, approved and handed over, and
  expires. Its text is never spelled out; that it fits follows from a bound on the length of a JSON text.
\<close>

section \<open>The length of a JSON text\<close>

fun json_size :: "json \<Rightarrow> nat" where
  "json_size JNull = 4"
| "json_size (JBool b) = 5"
| "json_size (JNum l) = length l"
| "json_size (JStr s) = 6 * length s + 2"
| "json_size (JArr js) = 2 + sum_list (map (\<lambda>j. json_size j + 1) js)"
| "json_size (JObj ms) = 2 + sum_list (map (\<lambda>(k, j). 6 * length k + 4 + json_size j) ms)"

lemma quote_bytes_length: "length (quote_bytes bs) \<le> 6 * length bs"
proof (induction bs rule: quote_bytes.induct)
  case (2 b bs)
  show ?case
  proof (cases "b < 128")
    case True
    then have "length (escape_byte b) \<le> 6" by (simp add: escape_byte_def)
    then show ?thesis using 2(1) True by simp
  next
    case False
    define n where "n = rune_length (b # bs)"
    define r where "r = take n (b # bs)"
    have ih: "length (quote_bytes (drop n (b # bs))) \<le> 6 * length (drop n (b # bs))"
      using 2(2) [OF False n_def r_def] .
    have n: "0 < n" by (simp add: n_def)
    have six: "length r \<ge> 1" using n by (cases n) (simp_all add: r_def)
    have all: "length r + length (drop n (b # bs)) = length (b # bs)" by (simp add: r_def)
    have "length (if n = 1 then [92, 117, 102, 102, 102, 100] else if r = [226, 128, 168] then [92, 117, 50, 48, 50, 56]
        else if r = [226, 128, 169] then [92, 117, 50, 48, 50, 57] else r) \<le> 6 * length r"
      using six by auto
    then have "length (quote_bytes (b # bs)) \<le> 6 * length r + 6 * length (drop n (b # bs))"
      using False ih unfolding n_def r_def by (simp add: Let_def del: One_nat_def)
    then show ?thesis using all by linarith
  qed
qed simp

lemma json_quote_length: "length (json_quote s) \<le> 6 * length s + 2"
  using quote_bytes_length [of "bytes s"] by (simp add: json_quote_def bytes_def)

lemma strings_Join_length: "length (strings_Join xs '','') \<le> sum_list (map (\<lambda>x. length x + 1) xs)"
  by (induction xs "'',''" rule: strings_Join.induct) auto

lemma render_length: "length (render j) \<le> json_size j"
proof (induction j rule: render.induct)
  case (4 s)
  then show ?case using json_quote_length by simp
next
  case (5 js)
  have "sum_list (map (\<lambda>j. length (render j) + 1) js) \<le> sum_list (map (\<lambda>j. json_size j + 1) js)"
    by (rule sum_list_mono) (simp add: 5)
  then show ?case using strings_Join_length [of "map render js"] by (simp add: comp_def)
next
  case (6 ms)
  have q: "length (json_quote k @ CHR '':'' # render j) + 1 \<le> 6 * length k + 4 + json_size j" if "length (render j) \<le> json_size j" for k j
    using json_quote_length [of k] that by simp
  have "sum_list (map (\<lambda>(k, j). length (json_quote k @ CHR '':'' # render j) + 1) ms)
      \<le> sum_list (map (\<lambda>(k, j). 6 * length k + 4 + json_size j) ms)"
  proof (rule sum_list_mono)
    fix p assume "p \<in> set ms"
    moreover obtain k j where "p = (k, j)" by (cases p)
    ultimately show "(case p of (k, j) \<Rightarrow> length (json_quote k @ CHR '':'' # render j) + 1)
        \<le> (case p of (k, j) \<Rightarrow> 6 * length k + 4 + json_size j)" using q 6 by simp
  qed
  moreover have "map (\<lambda>x. length x + 1) (map (\<lambda>(k, j). json_quote k @ CHR '':'' # render j) ms)
      = map (\<lambda>(k, j). length (json_quote k @ CHR '':'' # render j) + 1) ms"
    by (simp add: comp_def case_prod_beta)
  ultimately have "length (strings_Join (map (\<lambda>(k, j). json_quote k @ CHR '':'' # render j) ms) '','')
      \<le> sum_list (map (\<lambda>(k, j). 6 * length k + 4 + json_size j) ms)"
    using strings_Join_length [of "map (\<lambda>(k, j). json_quote k @ CHR '':'' # render j) ms"] by (simp only:)
  then show ?case by simp
qed auto

lemma finalized_length:
  assumes "finalizeCheckpoint c = Some (c', m)"
  shows "cc_size c' \<le> 2 * int (json_size (checkpoint_json (c\<lparr>cc_size := 0\<rparr>)))"
proof -
  have c: "c' = c\<lparr>cc_size := int (length m)\<rparr>" "encodeCheckpoint c' = Some m" using finalizeCheckpoint_Some [OF assms] by blast+
  have "int (length m) = frame c' + width (cc_size c')" by (rule encodeCheckpoint_length [OF c(2)])
  moreover have "frame c' = frame c" using c(1) by simp
  moreover have "2 * width (cc_size c') \<le> cc_size c' + 2" by (rule width_le) (simp add: c(1))
  moreover have "cc_size c' = int (length m)" by (simp add: c(1))
  ultimately have "cc_size c' \<le> 2 * frame c + 2" by linarith
  moreover have "frame c \<le> int (json_size (checkpoint_json (c\<lparr>cc_size := 0\<rparr>))) - 1"
    using render_length [of "checkpoint_json (c\<lparr>cc_size := 0\<rparr>)"] by (simp add: frame_def)
  ultimately show ?thesis by linarith
qed

section \<open>The sample\<close>

definition sample_sha :: "string \<Rightarrow> string" where "sample_sha s = ''abcd''"

definition sample_inventory :: RepositoryInventory where
  "sample_inventory =
     \<lparr>ri_branch = ''main'', ri_head = ''f00'', ri_upstream = None, ri_staged = [''a.go''], ri_modified = [], ri_untracked = [],
      ri_diff = \<lparr>df_files = 1, df_insertions = 2, df_deletions = 3, df_binary = 0\<rparr>, ri_commands = []\<rparr>"

definition sample_ke :: "time \<Rightarrow> unit continuation_env" where
  "sample_ke t =
     \<lparr>kv_env = sample_env t, kv_paths = sample_paths, kv_random = sample_random 3, kv_home = ''/h'',
      kv_inspect = (\<lambda>p w. (Inr sample_inventory, w))\<rparr>"

definition sample_launch :: launch_row where
  "sample_launch =
     \<lparr>ml_id = ''l'', ml_profile = ''p'', ml_lease = ''e'', ml_project = Some first_id, ml_state = StateExited, ml_started = 1,
      ml_ended = Some 2, ml_pid = Some 1, ml_exit = Some 0, ml_session = None, ml_checkpoint = None, ml_revision = None,
      ml_boot = None\<rparr>"

definition sample_db :: "checkpoint_row list \<Rightarrow> db" where
  "sample_db rows =
     \<lparr>profiles = [], aliases = [], homes = [], pendings = [], stages = [], selected = None, quarantine = [],
      launches = [sample_launch], checkpoints = rows, packs = [], assignments = [], overrides = [], evidence = []\<rparr>"

definition sample_state :: "checkpoint_row list \<Rightarrow> unit continuation_state" where
  "sample_state rows =
     \<lparr>kt_db = sample_db rows, kt_projects = snd sample_first, kt_settings = None, kt_world = ()\<rparr>"

definition sample_request :: CaptureRequest where
  "sample_request =
     \<lparr>ca_path = ''a'', ca_alias = ''C'', ca_goal = ''fix /h/x'', ca_completed = [], ca_pending = [], ca_risks = [], ca_next = [],
      ca_validation = None, ca_commands = [], ca_redact_paths = [], ca_redact_text = []\<rparr>"

abbreviation sample_service :: "time \<Rightarrow> unit continuation_state continuation_service" where
  "sample_service t \<equiv> store_continuation sample_sealing sample_sha (sample_ke t)"

definition sample_id :: string where "sample_id = ''07070707-0707-4707-8707-070707070707''"
definition sample_deadline :: time where "sample_deadline = 7 + 30 * 86400 * Second"

definition sample_draft :: Checkpoint where
  "sample_draft = captured_checkpoint ''/h'' sample_request sample_id
     \<lparr>pj_id = first_id, pj_alias = ''a'', pj_basename = ''a''\<rparr> sample_inventory ''30'' 7 (Some sample_deadline)"

definition sample_captured :: "Checkpoint \<times> string" where
  "sample_captured = the (prepareCheckpoint sample_sha sample_draft)"

definition sample_approved :: "Checkpoint \<times> string" where
  "sample_approved = the (finalizeCheckpoint ((fst sample_captured)\<lparr>cc_status := status_text StatusApproved\<rparr>))"

lemma sample_sanitized: "sanitizeText ''fix /h/x'' ''/h'' [] = ''fix [HOME]/x''"
  by code_simp

lemma sample_times: "times_ok sample_draft" "times_ok (sample_draft\<lparr>cc_revision := r\<rparr>)"
  by (simp_all add: times_ok_def sample_draft_def captured_checkpoint_def captured_fields_def validationField_def
      sample_request_def unknown_evidence_def json_time_ok_def local_time_def parseStoredTime_def sample_deadline_def Second_def Minute_def)

lemma sample_revision: "revision_of sample_sha c = ''61626364''"
proof -
  have "hex_string ''abcd'' = ''61626364''" by code_simp
  then show ?thesis by (simp add: revision_of_def sample_sha_def)
qed

lemma sample_captured:
  "prepareCheckpoint sample_sha sample_draft = Some (fst sample_captured, snd sample_captured)"
proof -
  have "prepareCheckpoint sample_sha sample_draft \<noteq> None"
    using sample_times finalizeCheckpoint_None by (simp add: prepareCheckpoint_def)
  then show ?thesis by (auto simp: sample_captured_def)
qed

lemma sample_c1:
  "fst sample_captured = sample_draft\<lparr>cc_revision := ''61626364'', cc_size := int (length (snd sample_captured))\<rparr>"
  "encodeCheckpoint (fst sample_captured) = Some (snd sample_captured)"
  using prepare_facts [OF sample_captured] by (simp_all add: sample_revision)

lemma sample_approved:
  "finalizeCheckpoint ((fst sample_captured)\<lparr>cc_status := status_text StatusApproved\<rparr>)
    = Some (fst sample_approved, snd sample_approved)"
proof -
  have "times_ok ((fst sample_captured)\<lparr>cc_status := status_text StatusApproved\<rparr>)"
    using encode_times [OF sample_c1(2)] by (simp add: times_ok_def)
  then have "finalizeCheckpoint ((fst sample_captured)\<lparr>cc_status := status_text StatusApproved\<rparr>) \<noteq> None"
    by (simp add: finalizeCheckpoint_None)
  then show ?thesis by (auto simp: sample_approved_def)
qed

lemma sample_c2:
  "fst sample_approved = sample_draft\<lparr>cc_status := ''approved'', cc_revision := ''61626364'',
     cc_size := int (length (snd sample_approved))\<rparr>"
  "encodeCheckpoint (fst sample_approved) = Some (snd sample_approved)"
  using conjunct1 [OF finalizeCheckpoint_Some [OF sample_approved]] conjunct2 [OF finalizeCheckpoint_Some [OF sample_approved]]
  by (simp_all only: sample_c1(1) status_text.simps) simp

lemma time_text_length: "length (time_text (t, 0)) \<le> 40"
proof -
  have d: "length (digits k n) = k" for k n by (induction k) simp_all
  have "length (strip_zeros ds) \<le> length ds" for ds
    unfolding strip_zeros_def by (metis length_dropWhile_le length_rev)
  then have "length (strip_zeros (digits 9 n)) \<le> 9" for n by (metis d)
  then have "length (fraction n) \<le> 10" for n by (simp add: fraction_def Let_def)
  from this [of "t mod Second"] show ?thesis
    by (simp add: time_text_def clock_text_def zone_text_def local_time_def padded_def d Let_def split: prod.split)
qed

lemmas sample_json = sample_draft_def captured_checkpoint_def captured_fields_def repositoryState_def sample_request_def
  sample_inventory_def checkpoint_json_def project_json_def repository_json_def fields_json_def evidence_json_def
  validationField_def userField_def userValues_def observed_def unknown_evidence_def confirmed_def completeness_def
  strings_json_def option_json_def diff_json_def utc_json_def int_json_def

lemma sample_blank: "blank ''fix [HOME]/x'' = False" "blank [] = True"
  by code_simp+

lemmas sample_names = ProvenanceLocalObserved_def ProvenanceUnknown_def ProvenanceUserConfirmed_def CompletenessComplete_def
  CompletenessUnknown_def CompletenessPartial_def SourceRepositoryFirst_def

lemma sample_sanitize_Nil: "sanitizeText [] ''/h'' [] = []"
  by code_simp

lemma show_digit: "n < 10 \<Longrightarrow> show_int (int n) = [char_of (48 + n)]"
  by (simp add: show_int_def show_nat_small)

lemma sample_numbers: "show_int 0 = ''0''" "show_int 1 = ''1''" "show_int 2 = ''2''" "show_int 3 = ''3''"
  by (code_simp)+

lemma sample_size:
  "json_size (checkpoint_json (sample_draft\<lparr>cc_revision := r, cc_size := 0\<rparr>)) \<le> 7900 + 6 * length r"
  using time_text_length [of 7] time_text_length [of sample_deadline]
  by (simp add: sample_json sample_sanitized sample_blank sample_sanitize_Nil sample_names sample_numbers sample_id_def
      first_id_def)

lemma sample_fits:
  "cc_size (fst sample_captured) \<le> 16000" "cc_size (fst sample_approved) \<le> 16000"
proof -
  have f: "finalizeCheckpoint (sample_draft\<lparr>cc_revision := ''61626364''\<rparr>) = Some (fst sample_captured, snd sample_captured)"
    using sample_captured sample_times by (simp add: prepareCheckpoint_def sample_revision)
  show "cc_size (fst sample_captured) \<le> 16000"
    using finalized_length [OF f] sample_size [of "''61626364''"] by simp
  have "json_size (checkpoint_json (sample_draft\<lparr>cc_revision := r, cc_status := ''approved'', cc_size := 0\<rparr>))
      = json_size (checkpoint_json (sample_draft\<lparr>cc_revision := r, cc_size := 0\<rparr>)) + 18" for r
    by (simp add: checkpoint_json_def sample_draft_def captured_checkpoint_def)
  then show "cc_size (fst sample_approved) \<le> 16000"
    using finalized_length [OF sample_approved] sample_size [of "''61626364''"] by (simp add: sample_c1(1))
qed

lemma sample_texts:
  assumes "0 \<le> n" "n \<le> 16000" "st \<in> {''draft'', ''approved''}"
  shows "texts_ok (sample_draft\<lparr>cc_status := st, cc_revision := ''61626364'', cc_size := n\<rparr>)"
proof -
  have u: "valid_utf8 (bytes s)" if "list_all (\<lambda>c. (of_char c :: nat) < 128) s" for s
    using that by (rule bytes_128)
  show ?thesis
    using assms
    by (auto simp: texts_ok_def sample_json sample_sanitized sample_blank sample_sanitize_Nil sample_names sample_id_def first_id_def
        u ints_ok_def int64_def diff_ok_def min_duration_def max_duration_def valid_number_show
        bytes_128 [OF time_text_plain])
qed

lemma sample_texts_ok: "texts_ok (fst sample_captured)" "texts_ok (fst sample_approved)"
proof -
  have d: "sample_draft = sample_draft\<lparr>cc_status := ''draft''\<rparr>" by (simp add: sample_draft_def captured_checkpoint_def)
  have "texts_ok (sample_draft\<lparr>cc_status := ''draft'', cc_revision := ''61626364'', cc_size := cc_size (fst sample_captured)\<rparr>)"
    by (rule sample_texts) (use sample_fits sample_c1(1) in simp_all)
  then show "texts_ok (fst sample_captured)" using sample_c1(1) d by simp
  have "texts_ok (sample_draft\<lparr>cc_status := ''approved'', cc_revision := ''61626364'', cc_size := cc_size (fst sample_approved)\<rparr>)"
    by (rule sample_texts) (use sample_fits sample_c2(1) in simp_all)
  then show "texts_ok (fst sample_approved)" using sample_c2(1) by simp
qed

section \<open>The sample on the store\<close>

definition sample_json_env :: "time \<Rightarrow> env" where
  "sample_json_env t = sample_env t\<lparr>metadata_revision := json_revision\<rparr>"

lemma sample_service: "sample_service t = continuation_on (sample_json_env t) sample_sha (sample_ke t)"
  by (simp add: store_continuation_def sample_json_env_def sample_ke_def)

lemma sample_env_simps [simp]: "vault (sample_json_env t) = Some sample_vault" "db_fails (sample_json_env t) c = False"
  "metadata_revision (sample_json_env t) = json_revision" "requireVault (sample_json_env t) = Inr sample_vault"
  "clock_now (sample_json_env t) = t"
  by (simp_all add: sample_json_env_def sample_env_def requireVault_def)

definition sealed_values :: "checkpoint \<Rightarrow> string option list" where
  "sealed_values c = map (map_option ((#) CHR ''!'')) (sensitive_values c)"

lemma sample_encrypt:
  "encrypt_fields sample_vault i (zip (sensitive_values c) checkpoint_fields) = Inr (sealed_values c)"
proof -
  have "length vs = length ns \<Longrightarrow> encrypt_fields sample_vault i (zip vs ns) = Inr (map (map_option ((#) CHR ''!'')) vs)" for vs ns
    by (induction vs ns rule: list_induct2) (auto simp: encryptField_def sample_vault_def split: option.splits)
  from this [of "sensitive_values c" checkpoint_fields] show ?thesis
    by (simp only: sealed_values_def) (simp add: sensitive_values_def checkpoint_fields_def)
qed

definition sample_checkpoint_row :: "Checkpoint \<times> string \<Rightarrow> checkpoint_row" where
  "sample_checkpoint_row cm =
     (let c = stored_checkpoint (record_of (fst cm) (snd cm) [] []) in checkpoint_row_of c (sealed_values c))"

lemma sample_stored: "stored_checkpoint (record_of c m st rn) = stored_checkpoint (record_of c m [] [])"
  by (simp add: stored_checkpoint_def record_of_def Let_def)

lemma sample_save:
  assumes "status_of (cc_status c) \<noteq> None"
    "expectation (sample_json_env t) sample_vault (cc_id c) (expected_status (record_of c m st rn) d) rn d = None"
  shows "save_record_row (sample_json_env t) (record_of c m st rn) d
    = (Inr (), d\<lparr>checkpoints := upsert_checkpoint (sample_checkpoint_row (c, m)) (checkpoints d)\<rparr>)"
proof -
  let ?r = "record_of c m st rn"
  have k: "kr_status ?r = cc_status c" "kr_metadata ?r = m" "kr_expected_revision ?r = rn"
    "ck_id (stored_checkpoint ?r) = cc_id c" "stored_checkpoint ?r\<lparr>ck_metadata := Some m\<rparr> = stored_checkpoint ?r"
    by (simp_all add: record_of_def Let_def stored_checkpoint_def)
  have i: "ck_id (stored_checkpoint (record_of c m a b)) = cc_id c" for a b by (simp add: stored_checkpoint_def record_of_def Let_def)
  have e: "status_check ?r (sample_json_env t) = sample_json_env t" using assms(1) k(1) by (auto simp: status_check_def)
  show ?thesis
    unfolding save_record_row_def SaveCheckpoint_def e k
    by (simp add: putCheckpoint_def sample_encrypt put_body_def i assms(2) transact_def sample_checkpoint_row_def Let_def
        sample_stored [of c m st rn])
qed

lemma sample_row_record:
  assumes "status_of (cc_status c) \<noteq> None"
  shows "row_record sample_vault (sample_checkpoint_row (c, m)) = Some (kept (record_of c m [] []))"
proof -
  let ?r = "record_of c m [] []"
  have "row_record sample_vault (checkpoint_row_of (stored_checkpoint ?r) (sealed_values (stored_checkpoint ?r)))
      = Some (loaded_record (stored_checkpoint ?r))"
    by (rule saved_row [OF _ sample_encrypt, of _ m])
      (simp_all add: vault_inverse_def sample_vault_def stored_checkpoint_def record_of_def Let_def)
  moreover have "status_of (kr_status ?r) \<noteq> None" using assms by (simp add: record_of_def Let_def)
  ultimately show ?thesis using loaded_stored by (simp add: sample_checkpoint_row_def Let_def)
qed

lemma sample_row_simps:
  "cp_id (sample_checkpoint_row (c, m)) = cc_id c" "cp_created (sample_checkpoint_row (c, m)) = cc_created c"
  "cp_expires (sample_checkpoint_row (c, m)) = cc_expires c" "cp_metadata (sample_checkpoint_row (c, m)) = Some (CHR ''!'' # m)"
  "status_of (cc_status c) = Some st \<Longrightarrow> cp_status (sample_checkpoint_row (c, m)) = st"
  by (simp_all add: sample_checkpoint_row_def checkpoint_row_of_def stored_checkpoint_def record_of_def Let_def sealed_values_def
      sensitive_values_def)

lemma sample_load:
  assumes "status_of (cc_status c) \<noteq> None" "checkpoint_table.lookup (cc_id c) (checkpoints d) = Some (sample_checkpoint_row (c, m))"
    and "parseStoredTime (cc_created c) \<noteq> None" "\<forall>t. cc_expires c = Some t \<longrightarrow> parseStoredTime t \<noteq> None"
  shows "load_record (sample_json_env t) (cc_id c) d = Inr (kept (record_of c m [] []))"
proof -
  let ?row = "sample_checkpoint_row (c, m)"
  obtain ps where ps: "decrypt_fields sample_vault (cp_id ?row) (zip (cp_fields ?row @ [cp_metadata ?row]) checkpoint_fields) = Inr ps"
    using sample_row_record [OF assms(1), of m] by (auto simp: row_record_def split: sum.splits)
  have "GetCheckpoint (sample_json_env t) (cc_id c) d = Some (Inr
     \<lparr>ck_id = cp_id ?row, ck_project = (case cp_project ?row of None \<Rightarrow> [] | Some p \<Rightarrow> p), ck_status = cp_status ?row,
      ck_goal = ps ! 0, ck_completed = ps ! 1, ck_pending = ps ! 2, ck_validation = ps ! 3, ck_risks = ps ! 4,
      ck_next = ps ! 5, ck_metadata = ps ! 6, ck_created = cp_created ?row, ck_expires = cp_expires ?row\<rparr>)"
    using assms(2-4) ps by (auto simp: GetCheckpoint_def sample_row_simps split: option.split)
  then have "load_record (sample_json_env t) (cc_id c) d = (case row_record sample_vault ?row of None \<Rightarrow> Inl (plain Opaque) | Some r \<Rightarrow> Inr r)"
    using ps by (auto simp: load_record_def LoadCheckpoint_def loaded_record_def row_record_def)
  then show ?thesis using sample_row_record [OF assms(1), of m] by simp
qed

text \<open>What the store reads of the revision in a checkpoint's text.\<close>

lemma json_revision_encoded:
  assumes "encodeCheckpoint c = Some m" "texts_ok c"
  shows "json_revision m = Some (cc_revision c)"
proof -
  have "m = render (checkpoint_json c)" using assms(1) by (simp add: encodeCheckpoint_def split: if_splits)
  moreover have "parse_json (render (checkpoint_json c)) = Some (checkpoint_json c)"
    using parse_json_render assms(2) by (simp add: texts_ok_def)
  ultimately show ?thesis
    by (simp add: json_revision_def) (simp add: checkpoint_json_def decode_simps dec_string_def)
qed

lemma sample_expected:
  assumes "checkpoint_table.lookup i (checkpoints d) = Some (sample_checkpoint_row (c0, m0))"
    and "status_of (cc_status c0) = Some st" "encodeCheckpoint c0 = Some m0" "texts_ok c0" "cc_revision c0 \<noteq> []"
  shows "expectation (sample_json_env t) sample_vault i (Some st) (cc_revision c0) d = None"
proof -
  have "decryptField sample_vault (metadata_bytes (sample_checkpoint_row (c0, m0))) (checkpointAAD i checkpointRecoveryField) = Inr m0"
    by (simp add: metadata_bytes_def sample_row_simps decryptField_def sample_vault_def)
  then show ?thesis
    using assms json_revision_encoded [OF assms(3,4)] by (simp add: expectation_def sample_row_simps)
qed

lemma sample_expectation:
  assumes "checkpoint_table.lookup (cc_id c) (checkpoints d) = Some (sample_checkpoint_row (c0, m0))"
    and "status_of (cc_status c0) = Some st" "cc_status c0 \<noteq> []" "encodeCheckpoint c0 = Some m0" "texts_ok c0"
    and "cc_revision c0 \<noteq> []"
  shows "expectation (sample_json_env t) sample_vault (cc_id c)
    (expected_status (record_of c m (cc_status c0) (cc_revision c0)) d) (cc_revision c0) d = None"
proof -
  have "expected_status (record_of c m (cc_status c0) (cc_revision c0)) d = Some st"
    using assms(2,3) by (simp add: expected_status_def record_of_def Let_def)
  then show ?thesis using sample_expected [OF assms(1,2,4-6)] by simp
qed

section \<open>Its life\<close>

lemma stored_projects_metadata: "stored_projects (e\<lparr>metadata_revision := f\<rparr>) = stored_projects e"
  by (cases e) (simp add: stored_projects_def PutProjectIdentity_def ListProjectRecords_def ListProjectIdentities_def
      UpdateProjectAlias_def requireVault_def fun_eq_iff split: option.split sum.split)

lemma sample_projects: "stored_projects (sample_json_env t) = stored_projects (sample_env t)"
  by (simp add: sample_json_env_def stored_projects_metadata)

lemma sample_resolve:
  "ks_resolve (sample_service 7) ''a'' ''C'' (sample_state rows)
    = (Inr \<lparr>pj_id = first_id, pj_alias = ''a'', pj_basename = ''a''\<rparr>, sample_state rows)"
proof -
  have "ResolveProject (stored_projects (sample_env 7)) sample_paths 7 (sample_random 3) ''a'' ''C'' (snd sample_first)
      = (Inr (projectIdentity (sample_record first_id ''a'' ''a'' 5)), snd sample_first)"
    using sample_again_eq by (simp add: sample_again_def sample_first_eq)
  then show ?thesis unfolding sample_service
    by (simp add: continuation_on_def sample_projects sample_ke_def sample_state_def project_of_def
        projectIdentity_def sample_record_def)
qed

lemma sample_location: "ks_location (sample_service t) first_id (sample_state rows) = (Inr ''/r/a'', sample_state rows)"
proof -
  have "CanonicalLocation (stored_projects (sample_env 0)) first_id (snd sample_first) = Inr ''/r/a''" by code_simp
  moreover have "stored_projects (sample_env t) = stored_projects (sample_env 0)"
    by (simp add: stored_projects_def PutProjectIdentity_def ListProjectRecords_def ListProjectIdentities_def
        UpdateProjectAlias_def requireVault_def sample_env_def fun_eq_iff split: option.split sum.split)
  ultimately show ?thesis by (simp add: sample_service continuation_on_def sample_projects sample_state_def)
qed

lemma sample_inspect: "ks_inspect (sample_service t) p (sample_state rows) = (Inr sample_inventory, sample_state rows)"
  unfolding sample_service by (simp add: continuation_on_def sample_ke_def sample_state_def)

lemma sample_ops:
  "ks_home (sample_service t) = ''/h''" "ks_sha256 (sample_service t) = sample_sha"
  "ks_retention (sample_service t) (sample_state rows) =
    (Inr \<lparr>rp_repository = ''30'', rp_transcript = ''7''\<rparr>, sample_state rows)"
  "ks_save (sample_service t) r = on_db (save_record_row (sample_json_env t) r)"
  "ks_load (sample_service t) i s = (load_record (sample_json_env t) i (kt_db s), s)"
  unfolding sample_service
  by (simp_all add: continuation_on_def sample_ke_def CheckpointRetention_def sample_state_def
      DefaultRepositoryRetention_def DefaultTranscriptRetention_def)

lemma sample_policy:
  "policy_setting \<lparr>rp_repository = ''30'', rp_transcript = ''7''\<rparr> SourceRepositoryFirst = Inr ''30''"
  "retentionExpiry 7 ''30'' = Inr (Some sample_deadline)" "newID (sample_random 7) = Some sample_id"
  by code_simp+

lemma sample_valid:
  "blank (ca_path sample_request) = False" "blank ''a'' = False" "invalidCaptureText sample_request = False"
  "invalidRedactions (ca_redact_paths sample_request) (ca_redact_text sample_request) = False"
  "ca_validation sample_request = None" "ca_path sample_request = ''a''" "ca_alias sample_request = ''C''"
  "sanitizeText ''a'' ''/h'' (ca_redact_text sample_request) = ''a''"
  "sanitize_inventory ''/h'' sample_request sample_inventory = Inr sample_inventory"
  by code_simp+

lemma sample_upsert:
  "cc_id c = cc_id c0 \<Longrightarrow> upsert_checkpoint (sample_checkpoint_row (c, m)) [sample_checkpoint_row (c0, m0)] = [sample_checkpoint_row (c, m)]"
  "upsert_checkpoint (sample_checkpoint_row (c, m)) [] = [sample_checkpoint_row (c, m)]"
  by (simp_all add: upsert_checkpoint_def sample_row_simps)

lemma sample_draft_simps [simp]: "cc_id sample_draft = sample_id" "cc_status sample_draft = ''draft''"
  "cc_created sample_draft = 7" "cc_expires sample_draft = Some sample_deadline" "cc_retention sample_draft = ''30''"
  "cc_project sample_draft = \<lparr>pj_id = first_id, pj_alias = ''a'', pj_basename = ''a''\<rparr>" "cc_revision sample_draft = []"
  by (simp_all add: sample_draft_def captured_checkpoint_def)

lemma status_of_draft [simp]: "status_of ''draft'' = Some StatusDraft" "status_of ''approved'' = Some StatusApproved"
  using status_of_text [of StatusDraft] status_of_text [of StatusApproved] by simp_all

lemma expectation_free: "expectation e v i (expected_status (record_of c m [] []) d) [] d = None"
  by (simp add: expectation_def expected_status_def record_of_def Let_def)

lemma sample_state_db: "kt_db (sample_state rows) = sample_db rows" "sample_state rows\<lparr>kt_db := sample_db rows'\<rparr> = sample_state rows'"
  "checkpoints (sample_db rows) = rows" "sample_db rows\<lparr>checkpoints := rows'\<rparr> = sample_db rows'"
  by (simp_all add: sample_state_def sample_db_def)

lemma sample_saved:
  assumes "status_of (cc_status c) \<noteq> None"
    "expectation (sample_json_env t) sample_vault (cc_id c) (expected_status (record_of c m st rn) (sample_db rows)) rn (sample_db rows)
      = None"
    "upsert_checkpoint (sample_checkpoint_row (c, m)) rows = rows'" "cc_size c \<le> 16000"
  shows "save_finalized (sample_service t) (Some (c, m)) st rn (sample_state rows) = (Inr c, sample_state rows')"
  using assms sample_save [OF assms(1,2)]
  by (simp add: save_finalized_def sample_ops on_db_def sample_state_db MaxCheckpointBytes_def)

lemma sample_statuses: "cc_status (fst sample_captured) = ''draft''" "cc_status (fst sample_approved) = ''approved''"
  "cc_id (fst sample_captured) = sample_id" "cc_id (fst sample_approved) = sample_id"
  "cc_revision (fst sample_captured) = ''61626364''" "cc_revision (fst sample_approved) = ''61626364''"
  "cc_retention (fst sample_captured) = ''30''" "cc_retention (fst sample_approved) = ''30''"
  "cc_created (fst sample_captured) = 7" "cc_created (fst sample_approved) = 7"
  "cc_expires (fst sample_captured) = Some sample_deadline" "cc_expires (fst sample_approved) = Some sample_deadline"
  "pj_id (cc_project (fst sample_captured)) = first_id" "pj_id (cc_project (fst sample_approved)) = first_id"
  by (simp_all add: sample_c1(1) sample_c2(1))

lemma sample_capture:
  "CaptureCheckpoint (sample_service 7) 7 (sample_random 7) sample_request (sample_state [])
    = (Inr (fst sample_captured), sample_state [sample_checkpoint_row sample_captured])"
proof -
  have d: "captured_checkpoint ''/h'' sample_request sample_id \<lparr>pj_id = first_id, pj_alias = ''a'', pj_basename = ''a''\<rparr>
      sample_inventory ''30'' 7 (Some sample_deadline) = sample_draft" by (simp add: sample_draft_def)
  have "save_finalized (sample_service 7) (Some (fst sample_captured, snd sample_captured)) [] [] (sample_state [])
      = (Inr (fst sample_captured), sample_state [sample_checkpoint_row (fst sample_captured, snd sample_captured)])"
    by (rule sample_saved [OF _ expectation_free sample_upsert(2) sample_fits(1)]) (simp add: sample_statuses)
  then show ?thesis
    unfolding CaptureCheckpoint_def Let_def
    by (simp add: sample_valid sample_resolve sample_location sample_inspect sample_ops sample_policy d sample_captured)
qed

lemma sample_loaded:
  assumes "cm \<in> {sample_captured, sample_approved}"
  shows "ks_load (sample_service t) sample_id (sample_state [sample_checkpoint_row cm])
    = (Inr (kept (record_of (fst cm) (snd cm) [] [])), sample_state [sample_checkpoint_row cm])"
proof -
  have "checkpoint_table.lookup sample_id [sample_checkpoint_row cm] = Some (sample_checkpoint_row (fst cm, snd cm))"
    using assms sample_row_simps(1) [of "fst cm" "snd cm"] sample_statuses(3,4) by (auto simp: checkpoint_table.lookup_def)
  then have "load_record (sample_json_env t) sample_id (sample_db [sample_checkpoint_row cm]) = Inr (kept (record_of (fst cm) (snd cm) [] []))"
    using sample_load [of "fst cm" "sample_db [sample_checkpoint_row cm]" "snd cm" t] assms
    by (auto simp: sample_statuses sample_state_db parseStoredTime_def sample_deadline_def Second_def)
  then show ?thesis by (simp add: sample_ops sample_state_db)
qed

lemma sample_decoded:
  "decodeCheckpoint (snd sample_captured) = Some (fst sample_captured)" "decodeCheckpoint (snd sample_approved) = Some (fst sample_approved)"
  using decode_encode sample_c1(2) sample_c2(2) sample_texts_ok by (auto simp: texts_ok_def)

lemma sample_show:
  assumes "now < sample_deadline"
  shows "ShowCheckpoint (sample_service t) now sample_id (sample_state [sample_checkpoint_row sample_captured])
    = (Inr (fst sample_captured), sample_state [sample_checkpoint_row sample_captured])"
proof -
  have v: "blank sample_id = False" "invalidText sample_id = False" by code_simp+
  let ?r = "kept (record_of (fst sample_captured) (snd sample_captured) [] [])"
  have k: "kr_metadata ?r = snd sample_captured" "kr_status ?r = ''draft''"
    by (simp_all add: kept_def record_of_def Let_def sample_statuses)
  have c: "(fst sample_captured)\<lparr>cc_status := ''draft''\<rparr> = fst sample_captured" by (simp add: sample_c1(1) sample_draft_def captured_checkpoint_def)
  have "default_retention (fst sample_captured) = fst sample_captured" "\<not> is_expired now (fst sample_captured)"
    using assms by (simp_all add: default_retention_def is_expired_def sample_statuses)
  then show ?thesis unfolding ShowCheckpoint_def Let_def
    by (simp add: v sample_loaded k sample_decoded c)
qed

lemma sample_approve:
  "ApproveCheckpoint (sample_service 8) 8 sample_id ''61626364'' (sample_state [sample_checkpoint_row sample_captured])
    = (Inr (fst sample_approved), sample_state [sample_checkpoint_row sample_approved])"
proof -
  have v: "invalidText ''61626364'' = False" by code_simp
  have e: "expectation (sample_json_env 8) sample_vault (cc_id (fst sample_approved))
      (expected_status (record_of (fst sample_approved) (snd sample_approved) ''draft'' ''61626364'')
        (sample_db [sample_checkpoint_row sample_captured])) ''61626364'' (sample_db [sample_checkpoint_row sample_captured]) = None"
    using sample_expectation [of "fst sample_approved" "sample_db [sample_checkpoint_row sample_captured]" "fst sample_captured"
        "snd sample_captured" StatusDraft 8 "snd sample_approved"]
      sample_row_simps(1) [of "fst sample_captured" "snd sample_captured"] sample_c1(2) sample_texts_ok(1)
    by (simp add: sample_statuses sample_state_db checkpoint_table.lookup_def)
  have u: "upsert_checkpoint (sample_checkpoint_row (fst sample_approved, snd sample_approved)) [sample_checkpoint_row sample_captured]
      = [sample_checkpoint_row sample_approved]"
    using sample_upsert(1) [of "fst sample_approved" "fst sample_captured" "snd sample_approved" "snd sample_captured"]
    by (simp add: sample_statuses)
  have "save_finalized (sample_service 8) (Some (fst sample_approved, snd sample_approved)) ''draft'' ''61626364''
      (sample_state [sample_checkpoint_row sample_captured]) = (Inr (fst sample_approved), sample_state [sample_checkpoint_row sample_approved])"
    by (rule sample_saved [OF _ e u sample_fits(2)]) (simp add: sample_statuses)
  moreover have "finalizeCheckpoint ((fst sample_captured)\<lparr>cc_status := ''approved''\<rparr>) = Some (fst sample_approved, snd sample_approved)"
    using sample_approved by simp
  moreover have "ShowCheckpoint (sample_service 8) 8 sample_id (sample_state [sample_checkpoint_row sample_captured])
    = (Inr (fst sample_captured), sample_state [sample_checkpoint_row sample_captured])"
    by (rule sample_show) (simp add: sample_deadline_def Second_def)
  ultimately show ?thesis unfolding ApproveCheckpoint_def
    by (simp add: v sample_statuses closed_status_def)
qed

definition sample_handoff :: PreparedHandoff where
  "sample_handoff =
     \<lparr>ph_checkpoint = sample_id, ph_revision = ''61626364'', ph_project = first_id, ph_source = ''p'', ph_directory = ''/r/a'',
      ph_context = snd sample_approved\<rparr>"

lemma sample_source: "ks_source (sample_service t) first_id (sample_state rows) = (Inr (''p'', SourceExited), sample_state rows)"
proof -
  have "LatestSourceLaunch (sample_env 0) first_id (sample_db []) = Inr (''p'', SourceExited)" by code_simp
  moreover have "LatestSourceLaunch (sample_json_env t) first_id (sample_db rows) = LatestSourceLaunch (sample_env 0) first_id (sample_db [])"
    by (simp add: LatestSourceLaunch_def sample_env_def sample_db_def unresolvedSourceLaunch_def latestExitedSourceLaunch_def)
  ultimately show ?thesis unfolding sample_service by (simp add: continuation_on_def sample_state_def)
qed

lemma sample_hand_over:
  "PrepareHandoff (sample_service 9) 9 sample_id ''61626364'' ''q'' (sample_state [sample_checkpoint_row sample_approved])
    = (Inr sample_handoff, sample_state [sample_checkpoint_row sample_approved])"
proof -
  have v: "blank sample_id = False" "invalidText sample_id = False" "blank ''61626364'' = False" "invalidText ''61626364'' = False"
    "blank ''q'' = False" "invalidText ''q'' = False" by code_simp+
  let ?r = "kept (record_of (fst sample_approved) (snd sample_approved) [] [])"
  have k: "kr_metadata ?r = snd sample_approved" "kr_status ?r = ''approved''" "kr_project ?r = first_id" "kr_expires ?r = Some sample_deadline"
    by (simp_all add: kept_def record_of_def Let_def sample_statuses)
  have "first_id \<noteq> []" by (simp add: first_id_def)
  then have "handoff_ready 9 ''61626364'' ?r (fst sample_approved)"
    by (simp add: handoff_ready_def k sample_statuses sameExpiry_def sample_deadline_def Second_def)
  then show ?thesis unfolding PrepareHandoff_def
    by (simp add: v sample_loaded k sample_decoded sample_source sample_location sample_inspect sample_handoff_def)
qed

definition sample_frame :: Checkpoint where
  "sample_frame = expired_checkpoint first_id (fst sample_captured)"

lemma sample_expires:
  "\<exists>s'. ShowCheckpoint (sample_service 9) sample_deadline sample_id (sample_state [sample_checkpoint_row sample_captured])
    = (Inr sample_frame, s')"
proof -
  have v: "blank sample_id = False" "invalidText sample_id = False" by code_simp+
  let ?k = "kept (record_of (fst sample_captured) (snd sample_captured) [] [])"
  let ?r = "expired_record sample_frame ''draft'' ''61626364''"
  have k: "kr_metadata ?k = snd sample_captured" "kr_status ?k = ''draft''" "kr_project ?k = first_id"
    by (simp_all add: kept_def record_of_def Let_def sample_statuses)
  have c: "(fst sample_captured)\<lparr>cc_status := ''draft''\<rparr> = fst sample_captured"
    by (simp add: sample_c1(1) sample_draft_def captured_checkpoint_def)
  have e: "default_retention (fst sample_captured) = fst sample_captured" "is_expired sample_deadline (fst sample_captured)"
    by (simp_all add: default_retention_def is_expired_def sample_statuses)
  have t: "times_ok sample_frame"
    using times_utc [OF encode_times [OF sample_c1(2)]] by (simp add: sample_frame_def times_ok_expired)
  have r: "kr_id ?r = sample_id" "status_of (kr_status ?r) = Some StatusExpired" "kr_expected_revision ?r = ''61626364''"
    "expected_status ?r d = Some StatusDraft" "stored_checkpoint ?r\<lparr>ck_metadata := Some (kr_metadata ?r)\<rparr> = stored_checkpoint ?r" for d
    using status_of_text [of StatusExpired]
    by (simp_all add: expired_record_def sample_frame_def expired_checkpoint_def sample_statuses expected_status_def stored_checkpoint_def)
  have i: "ck_id (stored_checkpoint ?r) = sample_id" using r(1) by (simp add: stored_checkpoint_def)
  have x: "expectation (sample_json_env 9) sample_vault sample_id (Some StatusDraft) ''61626364''
      (sample_db [sample_checkpoint_row sample_captured]) = None"
    using sample_expected [of sample_id "sample_db [sample_checkpoint_row sample_captured]" "fst sample_captured" "snd sample_captured"
        StatusDraft 9] sample_row_simps(1) [of "fst sample_captured" "snd sample_captured"] sample_c1(2) sample_texts_ok(1)
    by (simp add: sample_statuses sample_state_db checkpoint_table.lookup_def)
  have "status_check ?r (sample_json_env 9) = sample_json_env 9" using r(2) by (simp add: status_check_def)
  then obtain d' where w: "save_record_row (sample_json_env 9) ?r (sample_db [sample_checkpoint_row sample_captured]) = (Inr (), d')"
    by (simp add: save_record_row_def SaveCheckpoint_def r(3-5) putCheckpoint_def sample_encrypt put_body_def i x transact_def)
  have "expire (sample_service 9) ?k (fst sample_captured) (sample_state [sample_checkpoint_row sample_captured])
      = (Inr sample_frame, sample_state [sample_checkpoint_row sample_captured]\<lparr>kt_db := d'\<rparr>)"
    by (simp add: expire_def Let_def k sample_frame_def [symmetric] t sample_ops on_db_def sample_state_db w sample_statuses)
  then show ?thesis unfolding ShowCheckpoint_def Let_def
    by (simp add: v sample_loaded k sample_decoded c e)
qed

text \<open>The states of the sample are reached.\<close>

lemma sample_reached:
  "continuation_reachable (store_continuation sample_sealing sample_sha) (checkpoint_view sample_sealing)
    (sample_state [sample_checkpoint_row sample_captured])"
  "continuation_reachable (store_continuation sample_sealing sample_sha) (checkpoint_view sample_sealing)
    (sample_state [sample_checkpoint_row sample_approved])"
proof -
  have z: "continuation_reachable (store_continuation sample_sealing sample_sha) (checkpoint_view sample_sealing) (sample_state [])"
    by (rule continuation_reachable.start) (simp add: checkpoint_view_def sample_state_db checkpoint_table.lookup_def)
  have p: "perform (sample_service 7) (CallCapture 7 (sample_random 7) sample_request) (sample_state [])
      = (Inr (fst sample_captured), sample_state [sample_checkpoint_row sample_captured])"
    "perform (sample_service 8) (CallApprove 8 sample_id ''61626364'') (sample_state [sample_checkpoint_row sample_captured])
      = (Inr (fst sample_approved), sample_state [sample_checkpoint_row sample_approved])"
    by (simp_all only: perform.simps sample_capture sample_approve)
  show c: "continuation_reachable (store_continuation sample_sealing sample_sha) (checkpoint_view sample_sealing)
      (sample_state [sample_checkpoint_row sample_captured])"
    by (rule continuation_reachable.call [OF z p(1)]) (use sample_texts_ok in auto)
  show "continuation_reachable (store_continuation sample_sealing sample_sha) (checkpoint_view sample_sealing)
      (sample_state [sample_checkpoint_row sample_approved])"
    by (rule continuation_reachable.call [OF c p(2)]) (use sample_texts_ok in auto)
qed

section \<open>Witnesses\<close>

theorem handoff_is_what_was_reviewed_witness:
  "(\<exists>c. encodeCheckpoint c = Some (ph_context sample_handoff) \<and> cc_status c = status_text StatusApproved
      \<and> revision_of sample_sha c = ''61626364'')
    \<and> (\<exists>r. checkpoint_view sample_sealing (sample_state [sample_checkpoint_row sample_approved]) sample_id = Some r
      \<and> kr_status r = status_text StatusApproved \<and> kr_metadata r = ph_context sample_handoff)
    \<and> ph_source sample_handoff \<noteq> ''q''"
  using handoff_is_what_was_reviewed [OF sample_reached(2) sample_hand_over] by metis

theorem captured_checkpoint_is_shown_witness:
  "fst (ShowCheckpoint (sample_service 8) 8 sample_id (sample_state [sample_checkpoint_row sample_captured])) = Inr (fst sample_captured)"
proof -
  have l: "(8::time) < sample_deadline" by (simp add: sample_deadline_def Second_def)
  have w: "ShowCheckpoint (sample_service 8) 8 (cc_id (fst sample_captured)) (sample_state [sample_checkpoint_row sample_captured])
      = (Inr (fst sample_captured), sample_state [sample_checkpoint_row sample_captured])"
    using sample_show [OF l, of 8] by (simp only: sample_statuses)
  have "\<not> is_expired 8 (fst sample_captured)" using l by (simp add: sample_statuses is_expired_def)
  then have "fst sample_captured = fst sample_captured"
    by (rule captured_checkpoint_is_shown [OF sample_capture sample_texts_ok(1) w])
  then show ?thesis using sample_show [OF l, of 8] by simp
qed

theorem home_stays_out_of_checkpoints_witness:
  "\<not> sublist ''/h'' ''fix [HOME]/x''"
proof -
  have home: "ks_home (sample_service 7) = ''/h''" "unix_home (ks_home (sample_service 7))"
    by (simp_all add: sample_ops unix_home_def isWindowsPath_def)
  have commands: "\<And>path s i s'. ks_inspect (sample_service 7) path s = (Inr i, s') \<Longrightarrow> ri_commands i = []"
    by (auto simp: store_continuation_def continuation_on_def sample_ke_def sample_inventory_def Let_def)
  have "''fix [HOME]/x'' \<in> set (captured_texts (fst sample_captured))"
    by (simp add: captured_texts_def sample_c1(1) sample_draft_def captured_checkpoint_def captured_fields_def Let_def
        sample_request_def sample_sanitized)
  from home_stays_out_of_checkpoints [OF sample_capture home(2) commands this] home(1) show ?thesis by simp
qed

theorem expired_checkpoint_is_emptied_witness: "sample_frame = expired_stub sample_frame"
proof -
  obtain s' where s: "ShowCheckpoint (sample_service 9) sample_deadline sample_id (sample_state [sample_checkpoint_row sample_captured])
    = (Inr sample_frame, s')" using sample_expires by blast
  have e: "cc_expires sample_frame = Some sample_deadline" "cc_status sample_frame \<noteq> status_text StatusLaunching"
    by (simp_all add: sample_frame_def expired_checkpoint_def sample_statuses)
  show ?thesis
    using expired_checkpoint_is_emptied [OF sample_reached(1) s e(1)] e(2) by simp
qed

end
