(* ===== verification/Spec2Isabelle.thy ===== *)
theory Spec2Isabelle
  imports Profile_Properties Setup_Properties Ranking_Properties Scheduler_Properties Usage_Properties Alert_Properties
    Alert_Evidence Usage_Tables Vault_Properties Json_Roundtrip Continuation_Sample
begin

text \<open>
  CodexFolio keeps several Codex login identities on one machine: it sets profiles up, launches Codex under one
  of them, hands work over from one to another through checkpoints, measures their usage, and raises alerts.
  This library models its Go services and the SQLite store they share, and proves what makes them correct.

  \<^bold>\<open>The parts and how they interact.\<close> The store (\<^verbatim>\<open>src/internal/store\<close>) is the only shared state. Its writing calls hold
  \<^verbatim>\<open>operationMu\<close> and run one transaction or statement, so a call is one step of the model. One call does not fit this
  exactly: \<^verbatim>\<open>BeginProfileRemoval\<close> looks up the profile (\<^verbatim>\<open>store/profile_lifecycle.go\<close>, lines 24--35) before it takes
  the lock; the model makes it one step, and the check for live launches is in its transaction. Workflows
  (\<^verbatim>\<open>src/internal/profile\<close>, \<^verbatim>\<open>launch\<close>, \<^verbatim>\<open>continuation\<close>, \<^verbatim>\<open>activity\<close>, \<^verbatim>\<open>usage\<close>, \<^verbatim>\<open>alerts\<close>) call the store through Go
  interfaces; those are records of operations here, the store's operations being one instance of them. Sensitive
  columns go through the vault (\<^verbatim>\<open>src/internal/vault\<close>).

  \<^bold>\<open>Theories.\<close>
  \<^item> \<open>Prelude\<close>, \<open>Go_Lib\<close>, \<open>Go_Time\<close>, \<open>Time_Text\<close>, \<open>Go_Json\<close>, \<open>Json_Roundtrip\<close>, \<open>Alias\<close>, \<open>Rows\<close>: errors with their codes
    (\<^verbatim>\<open>apperrors\<close>), the parts of \<^verbatim>\<open>strings\<close>, \<^verbatim>\<open>path/filepath\<close>, \<^verbatim>\<open>time\<close> and \<^verbatim>\<open>encoding/json\<close> the program uses (RFC 3339 texts and JSON
    texts with their parsers, and that parsing gives back what was written), and the selects, updates and orders
    behind its SQL. Instants are integers counting nanoseconds from the zero time of Go; durations wrap or saturate at
    64 bits where the code computes with them.
  \<^item> \<open>Store_State\<close>, \<open>Checkpoint_Store\<close>, \<open>Launch_Store\<close>, \<open>Profile_Store\<close>, \<open>Profile_Lifecycle\<close>: the tables as a record of row
    lists, and one definition per operation of \<^verbatim>\<open>store/{secure,continuation,launches,profiles,profile_lifecycle}.go\<close>, with
    the branches of the code in its order. The driver's failures are the arbitrary predicate \<open>db_fails\<close>, the vault and
    the random identifiers are parameters of each call (\<open>env\<close>).
  \<^item> \<open>Launch_Effects\<close>, \<open>Launch_Invariants\<close>, \<open>Store_Machine\<close>: what each operation changes, the invariants (\<open>launch_inv\<close>,
    \<open>registry_inv\<close>), and the stores reachable by any sequence of calls.
  \<^item> \<open>Launch_Workflow\<close>, \<open>Lifecycle_Contract\<close>, \<open>Profile_Setup\<close>, \<open>Setup_Contract\<close>, \<open>Setup_Audit\<close>: the workflows over their repositories
    (\<^verbatim>\<open>launch/protocol.go\<close>, \<^verbatim>\<open>profile/lifecycle.go\<close>, \<^verbatim>\<open>profile/profile.go\<close>), the locales that state what a workflow relies on,
    and their interpretations on the store and on a store that logs authentications.
  \<^item> \<open>Vault\<close>, \<open>Vault_Properties\<close>: key material, the envelope format, the envelope vault and the vault in memory
    (\<^verbatim>\<open>vault/vault.go\<close>), with AES-GCM and the random source as parameters, and its instance of the store's vault.
  \<^item> \<open>Project_Identities\<close>, \<open>Project_Contract\<close>, \<open>Project_Properties\<close>: the project service (\<^verbatim>\<open>activity/project.go\<close>) and the
    rows of \<^verbatim>\<open>project_identities\<close> (\<^verbatim>\<open>store/secure.go\<close>) that are its repository; the relation "same location" of two paths is a
    parameter, as the file system decides it.
  \<^item> \<open>Continuation_Model\<close>, \<open>Continuation_Text\<close>, \<open>Continuation_Decode\<close>, \<open>Continuation_Finalize\<close>, \<open>Continuation_Service\<close>: checkpoints,
    their redaction, JSON form, size and revision, and every operation of the continuation service
    (\<^verbatim>\<open>continuation/{checkpoint,retention,export}.go\<close>); \<open>Continuation_Contract\<close> states what the service relies on,
    \<open>Continuation_Store\<close> the store as its repository (\<^verbatim>\<open>store/continuation.go\<close>, \<^verbatim>\<open>store/retention.go\<close>), \<open>Home_Redaction\<close> that a
    captured text does not name the home directory.
  \<^item> \<open>Usage_Model\<close>, \<open>Ranking\<close>, \<open>Scheduler\<close>: snapshots, freshness, contradictions and the combined view (\<^verbatim>\<open>usage/usage.go\<close>), the
    recommendation (\<^verbatim>\<open>usage/ranking.go\<close>) and the collection scheduler (\<^verbatim>\<open>usage/scheduler.go\<close>). \<open>Usage_Store\<close>, \<open>Usage_Service\<close>,
    \<open>Usage_Tables\<close>: the usage tables (\<^verbatim>\<open>store/usage.go\<close>, \<^verbatim>\<open>store/scheduler.go\<close>) and the service that refreshes and shows them.
  \<^item> \<open>Alert_Rules\<close>, \<open>Alert_Store\<close>, \<open>Alert_Service\<close>, \<open>Alert_Evidence\<close>, \<open>Alert_Invariants\<close>: the conditions (\<^verbatim>\<open>alerts/alerts.go\<close>), the
    alert tables and the evidence gathered for them (\<^verbatim>\<open>store/alerts.go\<close>), the service that delivers them
    (\<^verbatim>\<open>alerts/service.go\<close>), and what a call does to the life of an alert.
  \<^item> The theories named \<open>..._Properties\<close> hold the theorems about each part, with a witness for each theorem that has a
    hypothesis; \<open>Sample_Env\<close>, \<open>Sample_Store\<close> and \<open>Continuation_Sample\<close> hold the concrete stores the witnesses run on.

  \<^bold>\<open>What is shown.\<close> Launch and checkpoint rows stay consistent and a checkpoint is handed to one launch at a time, only
  when the handoff is authorised, and what is handed over is the stored, approved text that hashes to the revision
  the caller named; checkpoints survive encoding and encryption, are emptied at their deadline, and projects keep
  apart; removal, cancellation, restoring and purging follow the quarantine's life; setup and reauthentication end
  with a passed check and a bounded number of attempts; a recommendation is the strictly best profile; the scheduler
  keeps the provider's minimum, limits a tick, and collects every profile that stays due; finalized snapshots are
  consistent and the combined view counts evidence once; alerts match their thresholds, and each call moves an
  alert by at most one step of its life. Where the code does not do what it means to, a theorem exhibits the behaviour.

  \<^bold>\<open>Bounds.\<close> \<open>auth_attempts\<close> runs with fuel 2, the loop bound of the code; \<open>tick_loop\<close> with the smaller of the number of
  targets and 64, the limit of the loop; \<open>trim_steps\<close> and \<open>count_runes\<close> with the length of their input, of which each
  pass drops at least one byte; \<open>backoff_loop\<close> with the number of failures; the JSON parser with the length of its
  text; the loop of \<open>finalizeCheckpoint\<close> is shown to end, as the size it writes only grows with its number of digits.

  \<^bold>\<open>Simplifications.\<close> float64 values are rationals, the infinities and NaN, their rounding operations are parameters.
  \<^verbatim>\<open>sort.Slice\<close> on elements the order does not distinguish is stable here. \<^verbatim>\<open>strings.ToLower\<close> folds ASCII only: aliases
  are ASCII, and so is the folding of Windows paths in a redaction and of JSON member names here. JSON texts have
  no depth limit. Stored instants are UTC, and a call reads its clock once. A nil slice and an empty one are the
  same list. AES-GCM, SHA-256, random bytes, the file system and git are parameters with their documented laws.
  Theorems on stored checkpoints are about calls whose results hold UTF-8 texts and 64-bit numbers: for other bytes the JSON
  encoder writes a replacement character, and the text read back differs.

  \<^bold>\<open>Not modelled.\<close> Of the store: opening, recovery and backup of database files, migrations, usage aggregates and their
  retention, scoped purge and export of analytics, configuration packs and bundles (but for the pack a setup assigns),
  activity sessions, diagnostics, telemetry and update rows. Beside it: the HTTP server with its generated bindings, the
  command line, the platform adapters (processes, keychains, notifications, service managers, homes), the Codex and git
  adapters, discovery of the Codex executable, configuration packs and their projection, activity sessions and
  their export, usage history, the sealing of exported checkpoints, diagnostics, telemetry, updates, build information,
  and the web client. They are input and output around the modelled core, or parameters of it.
\<close>

end
